(* ===== verification/Prelude.thy ===== *)
theory Prelude
  imports Main "HOL-Library.Sublist"
begin

text \<open>
  Shared foundation of the development: the shape of a Go call that may fail and that acts on a
  world (a state-and-error program), Hoare triples over it, the fact collections the component
  proofs use, and generic lemmas about tables held as lists of rows.
\<close>

section \<open>Fact collections\<close>

named_theorems prog_defs \<open>definitions of the program combinators\<close>
named_theorems wp \<open>Hoare rules of program combinators and of component operations\<close>
named_theorems pres \<open>preservation rules: an operation keeps an invariant of the world\<close>
named_theorems sql \<open>unfolding rules of the SQL statements\<close>

section \<open>Programs: calls that return a value or an error and change a world\<close>

type_synonym ('w, 'e, 'a) prog = "'w \<Rightarrow> ('e + 'a) \<times> 'w"

definition ok :: "'a \<Rightarrow> ('w, 'e, 'a) prog" where
  [prog_defs]: "ok x w = (Inr x, w)"

definition fail :: "'e \<Rightarrow> ('w, 'e, 'a) prog" where
  [prog_defs]: "fail e w = (Inl e, w)"

text \<open>A pure computation that may fail.\<close>

definition lift :: "('e + 'a) \<Rightarrow> ('w, 'e, 'a) prog" where
  [prog_defs]: "lift r w = (r, w)"

text \<open>
  \<open>x, err := m(); if err != nil { return err }\<close>: the rest runs on the value only.
\<close>

definition andThen :: "('w, 'e, 'a) prog \<Rightarrow> ('a \<Rightarrow> ('w, 'e, 'b) prog) \<Rightarrow> ('w, 'e, 'b) prog" where
  [prog_defs]: "andThen m f w =
     (case m w of (Inl e, w') \<Rightarrow> (Inl e, w') | (Inr x, w') \<Rightarrow> f x w')"

text \<open>
  \<open>x, err := m()\<close> where the code looks at the error itself: the outcome is a value.
\<close>

definition attempt :: "('w, 'e, 'a) prog \<Rightarrow> ('w, 'e, 'e + 'a) prog" where
  [prog_defs]: "attempt m w = (case m w of (r, w') \<Rightarrow> (Inr r, w'))"

text \<open>\<open>if err != nil { return f(err) }\<close>: the error is replaced on the way out.\<close>

definition mapErr :: "('e \<Rightarrow> 'e) \<Rightarrow> ('w, 'e, 'a) prog \<Rightarrow> ('w, 'e, 'a) prog" where
  [prog_defs]: "mapErr f m w = (case m w of (Inl e, w') \<Rightarrow> (Inl (f e), w') | (Inr x, w') \<Rightarrow> (Inr x, w'))"

lemma andThen_ok [simp]: "andThen (ok x) f = f x"
  by (simp add: fun_eq_iff prog_defs)

lemma andThen_fail [simp]: "andThen (fail e) f = fail e"
  by (simp add: fun_eq_iff prog_defs)

lemma andThen_assoc: "andThen (andThen m f) g = andThen m (\<lambda>x. andThen (f x) g)"
  by (auto simp: fun_eq_iff andThen_def split: prod.splits sum.splits)

lemma andThen_if: "andThen (if b then m else m') f = (if b then andThen m f else andThen m' f)"
  by simp

lemma lift_Inr [simp]: "lift (Inr x) = ok x"
  by (simp add: fun_eq_iff prog_defs)

lemma lift_Inl [simp]: "lift (Inl e) = fail e"
  by (simp add: fun_eq_iff prog_defs)

text \<open>A successful run of a sequence splits into the runs of its parts.\<close>

lemma andThen_InrD:
  "andThen m f w = (Inr y, w'') \<Longrightarrow> \<exists>x w'. m w = (Inr x, w') \<and> f x w' = (Inr y, w'')"
  by (auto simp: andThen_def split: prod.splits sum.splits)

lemma andThen_InrE:
  assumes "andThen m f w = (Inr y, w'')"
  obtains x w' where "m w = (Inr x, w')" "f x w' = (Inr y, w'')"
  using andThen_InrD [OF assms] by blast

lemma andThen_step: "m w = (Inr x, w') \<Longrightarrow> andThen m f w = f x w'"
  by (simp add: andThen_def)

lemma andThen_stop: "m w = (Inl e, w') \<Longrightarrow> andThen m f w = (Inl e, w')"
  by (simp add: andThen_def)

section \<open>Hoare triples\<close>

text \<open>
  \<open>valid P m Q\<close>: from every world that satisfies \<open>P\<close>, the outcome and the world after \<open>m\<close>
  satisfy \<open>Q\<close>. Every program of this development is a total function, so the triple says what
  the run returns, on the error paths too.
\<close>

definition valid :: "('w \<Rightarrow> bool) \<Rightarrow> ('w, 'e, 'a) prog \<Rightarrow> ('e + 'a \<Rightarrow> 'w \<Rightarrow> bool) \<Rightarrow> bool" where
  "valid P m Q \<longleftrightarrow> (\<forall>w. P w \<longrightarrow> (case m w of (r, w') \<Rightarrow> Q r w'))"

lemma validI: "(\<And>w r w'. P w \<Longrightarrow> m w = (r, w') \<Longrightarrow> Q r w') \<Longrightarrow> valid P m Q"
  by (auto simp: valid_def)

lemma validD: "valid P m Q \<Longrightarrow> P w \<Longrightarrow> m w = (r, w') \<Longrightarrow> Q r w'"
  by (auto simp: valid_def)

lemma valid_weaken: "valid P m Q \<Longrightarrow> (\<And>w. P' w \<Longrightarrow> P w) \<Longrightarrow> valid P' m Q"
  by (auto simp: valid_def)

lemma valid_strengthen: "valid P m Q \<Longrightarrow> (\<And>r w. Q r w \<Longrightarrow> Q' r w) \<Longrightarrow> valid P m Q'"
  by (auto simp: valid_def split: prod.splits)

lemma valid_ok [wp]: "valid (Q (Inr x)) (ok x) Q"
  by (simp add: valid_def ok_def)

lemma valid_fail [wp]: "valid (Q (Inl e)) (fail e) Q"
  by (simp add: valid_def fail_def)

lemma valid_lift [wp]: "valid (Q r) (lift r) Q"
  by (simp add: valid_def lift_def)

lemma valid_andThen [wp]:
  assumes "\<And>x. valid (R x) (f x) Q"
    and "valid P m (\<lambda>r w. case r of Inl e \<Rightarrow> Q (Inl e) w | Inr x \<Rightarrow> R x w)"
  shows "valid P (andThen m f) Q"
  using assms by (fastforce simp: valid_def andThen_def split: prod.splits sum.splits)

lemma valid_attempt [wp]: "valid P m (\<lambda>r. Q (Inr r)) \<Longrightarrow> valid P (attempt m) Q"
  by (auto simp: valid_def attempt_def split: prod.splits)

lemma valid_mapErr [wp]:
  "valid P m (\<lambda>r. Q (case r of Inl e \<Rightarrow> Inl (g e) | Inr x \<Rightarrow> Inr x)) \<Longrightarrow> valid P (mapErr g m) Q"
  by (auto simp: valid_def mapErr_def split: prod.splits sum.splits)

subsection \<open>Preservation of an invariant\<close>

definition preserves :: "('w \<Rightarrow> bool) \<Rightarrow> ('w, 'e, 'a) prog \<Rightarrow> bool" where
  "preserves I m \<longleftrightarrow> (\<forall>w. I w \<longrightarrow> I (snd (m w)))"

lemma preservesD: "preserves I m \<Longrightarrow> I w \<Longrightarrow> m w = (r, w') \<Longrightarrow> I w'"
  unfolding preserves_def by (metis snd_conv)

lemma preservesI: "(\<And>w. I w \<Longrightarrow> I (snd (m w))) \<Longrightarrow> preserves I m"
  by (simp add: preserves_def)

lemma preserves_valid: "preserves I m \<longleftrightarrow> valid I m (\<lambda>_. I)"
  by (simp add: preserves_def valid_def split_def)

lemma preserves_ok [pres]: "preserves I (ok x)"
  by (simp add: preserves_def ok_def)

lemma preserves_fail [pres]: "preserves I (fail e)"
  by (simp add: preserves_def fail_def)

lemma preserves_lift [pres]: "preserves I (lift r)"
  by (simp add: preserves_def lift_def)

lemma preserves_andThen [pres]:
  "preserves I m \<Longrightarrow> (\<And>x. preserves I (f x)) \<Longrightarrow> preserves I (andThen m f)"
  by (fastforce simp: preserves_def andThen_def split: prod.splits sum.splits)

lemma preserves_attempt [pres]: "preserves I m \<Longrightarrow> preserves I (attempt m)"
  by (auto simp: preserves_def attempt_def split: prod.splits)

lemma preserves_mapErr [pres]: "preserves I m \<Longrightarrow> preserves I (mapErr f m)"
  by (auto simp: preserves_def mapErr_def split: prod.splits sum.splits)

lemma preserves_if [pres]:
  "(b \<Longrightarrow> preserves I m) \<Longrightarrow> (\<not> b \<Longrightarrow> preserves I m') \<Longrightarrow> preserves I (if b then m else m')"
  by simp

lemma preserves_case_sum [pres]:
  "(\<And>e. preserves I (f e)) \<Longrightarrow> (\<And>x. preserves I (g x)) \<Longrightarrow>
   preserves I (case r of Inl e \<Rightarrow> f e | Inr x \<Rightarrow> g x)"
  by (cases r) auto

lemma preserves_case_option [pres]:
  "preserves I m \<Longrightarrow> (\<And>x. preserves I (g x)) \<Longrightarrow>
   preserves I (case r of None \<Rightarrow> m | Some x \<Rightarrow> g x)"
  by (cases r) auto

lemma preserves_case_prod [pres]:
  "(\<And>a b. preserves I (f a b)) \<Longrightarrow> preserves I (case p of (a, b) \<Rightarrow> f a b)"
  by (cases p) auto

section \<open>Tables as lists of rows\<close>

text \<open>
  \<open>UPDATE t SET f WHERE p\<close> and \<open>DELETE FROM t WHERE p\<close> on a list of rows, with the number of
  rows they affect.
\<close>

definition update_where :: "('r \<Rightarrow> bool) \<Rightarrow> ('r \<Rightarrow> 'r) \<Rightarrow> 'r list \<Rightarrow> 'r list" where
  "update_where p f = map (\<lambda>r. if p r then f r else r)"

definition rows_affected :: "('r \<Rightarrow> bool) \<Rightarrow> 'r list \<Rightarrow> nat" where
  "rows_affected p rs = length (filter p rs)"

lemma update_where_Nil [simp]: "update_where p f [] = []"
  by (simp add: update_where_def)

lemma update_where_Cons [simp]:
  "update_where p f (r # rs) = (if p r then f r else r) # update_where p f rs"
  by (simp add: update_where_def)

lemma set_update_where:
  "set (update_where p f rs) = f ` {r \<in> set rs. p r} \<union> {r \<in> set rs. \<not> p r}"
  by (auto simp: update_where_def)

lemma length_update_where [simp]: "length (update_where p f rs) = length rs"
  by (simp add: update_where_def)

lemma map_update_where:
  "(\<And>r. r \<in> set rs \<Longrightarrow> p r \<Longrightarrow> k (f r) = k r) \<Longrightarrow> map k (update_where p f rs) = map k rs"
  by (auto simp: update_where_def)

lemma update_where_none: "\<forall>r \<in> set rs. \<not> p r \<Longrightarrow> update_where p f rs = rs"
  by (induction rs) auto

lemma update_where_append [simp]:
  "update_where p f (xs @ ys) = update_where p f xs @ update_where p f ys"
  by (simp add: update_where_def)

lemma rows_affected_Nil [simp]: "rows_affected p [] = 0"
  by (simp add: rows_affected_def)

lemma rows_affected_Cons [simp]:
  "rows_affected p (r # rs) = (if p r then Suc (rows_affected p rs) else rows_affected p rs)"
  by (simp add: rows_affected_def)

lemma rows_affected_0: "rows_affected p rs = 0 \<longleftrightarrow> (\<forall>r \<in> set rs. \<not> p r)"
  by (auto simp: rows_affected_def filter_empty_conv)

text \<open>\<open>SELECT ... WHERE p\<close> read with \<open>QueryRow\<close>: the first row, or none.\<close>

lemma find_SomeD: "find p rs = Some r \<Longrightarrow> r \<in> set rs \<and> p r"
  by (auto simp: find_Some_iff)

lemma find_Some_append: "find p xs = Some r \<Longrightarrow> find p (xs @ ys) = Some r"
  by (induction xs) auto

lemma find_append_None: "find p xs = None \<Longrightarrow> find p (xs @ ys) = find p ys"
  by (induction xs) auto

text \<open>A column that is a key determines its row.\<close>

definition unique_on :: "('r \<Rightarrow> 'k) \<Rightarrow> 'r list \<Rightarrow> bool" where
  "unique_on k rs \<longleftrightarrow> distinct (map k rs)"

lemma unique_onD: "unique_on k rs \<Longrightarrow> r \<in> set rs \<Longrightarrow> s \<in> set rs \<Longrightarrow> k r = k s \<Longrightarrow> r = s"
  unfolding unique_on_def by (metis distinct_map inj_onD)

lemma unique_on_find:
  "unique_on k rs \<Longrightarrow> r \<in> set rs \<Longrightarrow> find (\<lambda>x. k x = k r) rs = Some r"
  by (induction rs) (auto simp: unique_on_def)

lemma unique_on_snoc:
  "unique_on k (rs @ [r]) \<longleftrightarrow> unique_on k rs \<and> k r \<notin> k ` set rs"
  by (auto simp: unique_on_def)

lemma unique_on_update_where:
  "unique_on k rs \<Longrightarrow> (\<And>r. r \<in> set rs \<Longrightarrow> p r \<Longrightarrow> k (f r) = k r) \<Longrightarrow>
   unique_on k (update_where p f rs)"
  by (simp add: unique_on_def map_update_where)

lemma unique_on_filter: "unique_on k rs \<Longrightarrow> unique_on k (filter p rs)"
  by (simp add: unique_on_def distinct_map_filter)

section \<open>Decomposing a run\<close>

text \<open>
  A run of a composed program in terms of the runs of its parts: simplification rules that take a
  successful run apart step by step.
\<close>

lemma run_Inr:
  "andThen m f w = (Inr y, w'') \<longleftrightarrow> (\<exists>x w'. m w = (Inr x, w') \<and> f x w' = (Inr y, w''))"
  "mapErr g m w = (Inr z, w') \<longleftrightarrow> m w = (Inr z, w')"
  "attempt m w = (Inr r, w') \<longleftrightarrow> m w = (r, w')"
  "attempt m w \<noteq> (Inl e, w')"
  "ok v w = (r', w') \<longleftrightarrow> r' = Inr v \<and> w' = w"
  "fail e w = (r', w') \<longleftrightarrow> r' = Inl e \<and> w' = w"
  "lift r0 w = (r', w') \<longleftrightarrow> r0 = r' \<and> w' = w"
  by (auto simp: andThen_def mapErr_def attempt_def ok_def fail_def lift_def split: prod.splits sum.splits)

text \<open>A run that fails: its first part failed, or a later one after it.\<close>

lemma run_Inl:
  "andThen m f w = (Inl e, w'') \<longleftrightarrow>
     m w = (Inl e, w'') \<or> (\<exists>x w'. m w = (Inr x, w') \<and> f x w' = (Inl e, w''))"
  "mapErr g m w = (Inl e, w') \<longleftrightarrow> (\<exists>e0. m w = (Inl e0, w') \<and> e = g e0)"
  by (auto simp: andThen_def mapErr_def split: prod.splits sum.splits)

lemma andThen_cases:
  assumes "andThen m f w = (r, w')"
  obtains (stop) e where "m w = (Inl e, w')" "r = Inl e"
  | (go) x w1 where "m w = (Inr x, w1)" "f x w1 = (r, w')"
  using assms by (auto simp: andThen_def split: prod.splits sum.splits)

end
