(* ===== verification/Go_Std.thy ===== *)
theory Go_Std
  imports Prelude
begin

text \<open>
  The parts of the Go language and of its standard library that the repository uses: strings
  (package \<^verbatim>\<open>strings\<close>; a Go string is its list of bytes), UTF-8 decoding of a \<^verbatim>\<open>range\<close> loop,
  decimal conversion (package \<^verbatim>\<open>strconv\<close>), hexadecimal text (package \<^verbatim>\<open>encoding/hex\<close>), times and
  durations (package \<^verbatim>\<open>time\<close>, in nanoseconds, the zero \<^verbatim>\<open>time.Time\<close> being 0) and JSON documents
  (package \<^verbatim>\<open>encoding/json\<close>, as their syntax trees).
\<close>

section \<open>Strings\<close>

text \<open>
  The UTF-8 encodings of the runes with property White\_Space, which is what \<^verbatim>\<open>strings.TrimSpace\<close>
  removes at both ends.
\<close>

definition space_encodings :: "string list" where
  "space_encodings =
    [[CHR 0x20], [CHR 0x09], [CHR 0x0A], [CHR 0x0B], [CHR 0x0C], [CHR 0x0D],
     [CHR 0xC2, CHR 0x85], [CHR 0xC2, CHR 0xA0], [CHR 0xE1, CHR 0x9A, CHR 0x80],
     [CHR 0xE2, CHR 0x80, CHR 0x80], [CHR 0xE2, CHR 0x80, CHR 0x81], [CHR 0xE2, CHR 0x80, CHR 0x82],
     [CHR 0xE2, CHR 0x80, CHR 0x83], [CHR 0xE2, CHR 0x80, CHR 0x84], [CHR 0xE2, CHR 0x80, CHR 0x85],
     [CHR 0xE2, CHR 0x80, CHR 0x86], [CHR 0xE2, CHR 0x80, CHR 0x87], [CHR 0xE2, CHR 0x80, CHR 0x88],
     [CHR 0xE2, CHR 0x80, CHR 0x89], [CHR 0xE2, CHR 0x80, CHR 0x8A], [CHR 0xE2, CHR 0x80, CHR 0xA8],
     [CHR 0xE2, CHR 0x80, CHR 0xA9], [CHR 0xE2, CHR 0x80, CHR 0xAF], [CHR 0xE2, CHR 0x81, CHR 0x9F],
     [CHR 0xE3, CHR 0x80, CHR 0x80]]"

definition starts_with :: "string list \<Rightarrow> string \<Rightarrow> string option" where
  "starts_with ps s = find (\<lambda>p. p \<noteq> [] \<and> prefix p s) ps"

lemma starts_with_SomeD: "starts_with ps s = Some p \<Longrightarrow> p \<noteq> [] \<and> prefix p s"
  unfolding starts_with_def by (auto dest: find_SomeD)

lemma starts_with_None: "starts_with ps s = None \<longleftrightarrow> (\<forall>p \<in> set ps. p \<noteq> [] \<longrightarrow> \<not> prefix p s)"
  by (auto simp: starts_with_def find_None_iff)

lemma starts_with_Nil [simp]: "starts_with ps [] = None"
  by (simp add: starts_with_None)

function strip :: "string list \<Rightarrow> string \<Rightarrow> string" where
  "strip ps s = (case starts_with ps s of None \<Rightarrow> s | Some p \<Rightarrow> strip ps (drop (length p) s))"
  by pat_completeness auto
termination
proof (relation "measure (\<lambda>(ps, s). length s)", goal_cases)
  case (2 ps s p)
  from starts_with_SomeD [OF 2] show ?case
    by (auto simp: prefix_def)
qed simp

declare strip.simps [simp del]

lemma strip_done: "starts_with ps s = None \<Longrightarrow> strip ps s = s"
  by (simp add: strip.simps)

lemma starts_with_strip: "starts_with ps (strip ps s) = None"
proof (induction ps s rule: strip.induct)
  case (1 ps s)
  show ?case
    by (cases "starts_with ps s") (simp_all add: strip.simps [of ps s] "1.IH")
qed

lemma strip_strip [simp]: "strip ps (strip ps s) = strip ps s"
  by (rule strip_done) (rule starts_with_strip)

lemma strip_suffix: "suffix (strip ps s) s"
proof (induction ps s rule: strip.induct)
  case (1 ps s)
  show ?case
  proof (cases "starts_with ps s")
    case None
    then show ?thesis by (simp add: strip.simps [of ps s])
  next
    case (Some p)
    from "1.IH" [OF Some] have "suffix (strip ps (drop (length p) s)) s"
      using suffix_drop suffix_order.trans by blast
    with Some show ?thesis by (simp add: strip.simps [of ps s])
  qed
qed

definition TrimSpace :: "string \<Rightarrow> string" where
  "TrimSpace s = rev (strip (map rev space_encodings) (rev (strip space_encodings s)))"

lemma strip_Nil [simp]: "strip ps [] = []"
  by (simp add: strip_done)

lemma TrimSpace_Nil [simp]: "TrimSpace [] = []"
  by (simp add: TrimSpace_def)

text \<open>What is left after trimming neither starts nor ends with white space.\<close>

lemma TrimSpace_no_leading: "starts_with space_encodings (TrimSpace s) = None"
proof -
  let ?l = "strip space_encodings s"
  have "prefix (TrimSpace s) ?l"
    using strip_suffix [of "map rev space_encodings" "rev ?l"]
    by (simp add: TrimSpace_def suffix_to_prefix)
  then show ?thesis
    using starts_with_strip [of space_encodings s]
    by (auto simp: starts_with_None dest: prefix_order.trans)
qed

lemma TrimSpace_idem [simp]: "TrimSpace (TrimSpace s) = TrimSpace s"
proof -
  have "strip space_encodings (TrimSpace s) = TrimSpace s"
    by (rule strip_done) (rule TrimSpace_no_leading)
  then show ?thesis
    by (simp add: TrimSpace_def)
qed

lemma TrimSpace_no_trailing: "starts_with (map rev space_encodings) (rev (TrimSpace s)) = None"
  by (simp add: TrimSpace_def starts_with_strip)

lemma TrimSpace_done:
  "starts_with space_encodings s = None \<Longrightarrow> starts_with (map rev space_encodings) (rev s) = None \<Longrightarrow> TrimSpace s = s"
  by (simp add: TrimSpace_def strip_done)

lemma set_strip: "set (strip ps s) \<subseteq> set s"
  using strip_suffix by (rule set_mono_suffix)

lemma set_TrimSpace: "set (TrimSpace s) \<subseteq> set s"
  using set_strip [of "map rev space_encodings" "rev (strip space_encodings s)"] set_strip [of space_encodings s]
  by (auto simp: TrimSpace_def)

text \<open>Replacing bytes by an underscore does not give a trimmed string white space at its ends.\<close>

lemma starts_with_map:
  assumes "starts_with ps s = None" and "\<And>p c. p \<in> set ps \<Longrightarrow> c \<in> set p \<Longrightarrow> c \<noteq> u"
    and f: "\<And>c. f c = c \<or> f c = u"
  shows "starts_with ps (map f s) = None"
  unfolding starts_with_None
proof (intro ballI impI notI)
  fix p
  assume p: "p \<in> set ps" "p \<noteq> []" "prefix p (map f s)"
  then have "p = map f (take (length p) s)"
    by (metis append_eq_conv_conj prefix_def take_map)
  moreover have "map f q = q" if "set (map f q) \<subseteq> - {u}" for q
    using that f by (intro map_idI) fastforce
  ultimately have "p = take (length p) s"
    using assms(2) [OF p(1)] by (metis Compl_iff singletonD subsetI)
  then have "prefix p s" by (metis take_is_prefix)
  with assms(1) p show False by (simp add: starts_with_None)
qed

lemma TrimSpace_map:
  assumes "TrimSpace s = s" and "\<And>c. f c = c \<or> f c = CHR ''_''"
  shows "TrimSpace (map f s) = map f s"
proof (rule TrimSpace_done)
  have sp: "c \<noteq> CHR ''_''" if "p \<in> set space_encodings" "c \<in> set p" for p c
    using that by (auto simp: space_encodings_def)
  show "starts_with space_encodings (map f s) = None"
    using starts_with_map [OF _ sp assms(2), where s = s] TrimSpace_no_leading [of s] assms(1) by simp
  have "c \<noteq> CHR ''_''" if "p \<in> set (map rev space_encodings)" "c \<in> set p" for p c
  proof -
    from that obtain q where "q \<in> set space_encodings" "p = rev q" by auto
    with sp [of q c] that show ?thesis by simp
  qed
  then have "starts_with (map rev space_encodings) (map f (rev s)) = None"
    using TrimSpace_no_trailing [of s] assms by (intro starts_with_map [where u = "CHR ''_''"]) auto
  then show "starts_with (map rev space_encodings) (rev (map f s)) = None" by (simp add: rev_map)
qed

subsection \<open>Case, replacement, splitting\<close>

definition isASCII :: "string \<Rightarrow> bool" where
  "isASCII s = list_all (\<lambda>c. of_char c < (128::nat)) s"

definition lowerByte :: "char \<Rightarrow> char" where
  "lowerByte c = (let n = of_char c :: nat in if 65 \<le> n \<and> n \<le> 90 then char_of (n + 32) else c)"

text \<open>
  \<^verbatim>\<open>strings.ToLower\<close> maps bytes on an ASCII string; on any other string it maps runes by the
  Unicode tables of the Go release, which are the parameter.
\<close>

definition ToLower :: "(string \<Rightarrow> string) \<Rightarrow> string \<Rightarrow> string" where
  "ToLower tbl s = (if isASCII s then map lowerByte s else tbl s)"

lemma lowerByte_idem [simp]: "lowerByte (lowerByte c) = lowerByte c"
  by (auto simp: lowerByte_def Let_def)

lemma of_char_lowerByte: "of_char (lowerByte c) < (128::nat) \<longleftrightarrow> of_char c < (128::nat)"
  by (auto simp: lowerByte_def Let_def)

lemma ToLower_idem_ASCII: "isASCII s \<Longrightarrow> ToLower tbl (ToLower tbl s) = ToLower tbl s"
  by (auto simp: ToLower_def isASCII_def list_all_iff of_char_lowerByte)

text \<open>\<^verbatim>\<open>strings.ReplaceAll\<close> with a one-byte pattern and a one-byte replacement.\<close>

definition ReplaceByte :: "char \<Rightarrow> char \<Rightarrow> string \<Rightarrow> string" where
  "ReplaceByte old new s = map (\<lambda>c. if c = old then new else c) s"

text \<open>\<^verbatim>\<open>strings.SplitN(s, sep, 2)\<close> and \<^verbatim>\<open>strings.Split(s, sep)\<close> with a one-byte separator.\<close>

definition SplitN2 :: "char \<Rightarrow> string \<Rightarrow> string list" where
  "SplitN2 sep s = (if sep \<in> set s then [takeWhile (\<lambda>c. c \<noteq> sep) s, tl (dropWhile (\<lambda>c. c \<noteq> sep) s)] else [s])"

fun Split :: "char \<Rightarrow> string \<Rightarrow> string list" where
  "Split sep [] = [[]]"
| "Split sep (c # s) =
     (if c = sep then [] # Split sep s
      else case Split sep s of [] \<Rightarrow> [[c]] | p # ps \<Rightarrow> (c # p) # ps)"

text \<open>\<^verbatim>\<open>strings.EqualFold\<close> against an ASCII word whose letters fold to ASCII letters only.\<close>

definition EqualFoldASCII :: "string \<Rightarrow> string \<Rightarrow> bool" where
  "EqualFoldASCII s t \<longleftrightarrow> map lowerByte s = map lowerByte t"

subsection \<open>Runes\<close>

text \<open>
  Decoding of the next rune of a byte sequence, as a \<^verbatim>\<open>range\<close> loop over a string does it: an
  ill-formed sequence yields the replacement rune 0xFFFD and consumes one byte.
\<close>

definition cont :: "nat \<Rightarrow> bool" where
  "cont b \<longleftrightarrow> 128 \<le> b \<and> b \<le> 191"

definition decodeRune :: "nat list \<Rightarrow> nat \<times> nat" where
  "decodeRune bs = (case bs of
     [] \<Rightarrow> (65533, 1)
   | b # r \<Rightarrow>
      if b < 128 then (b, 1)
      else (case r of [] \<Rightarrow> (65533, 1) | b1 # r1 \<Rightarrow>
        if 194 \<le> b \<and> b \<le> 223 then
          (if cont b1 then ((b - 192) * 64 + (b1 - 128), 2) else (65533, 1))
        else (case r1 of [] \<Rightarrow> (65533, 1) | b2 # r2 \<Rightarrow>
          if 224 \<le> b \<and> b \<le> 239 then
            (if (if b = 224 then 160 else 128) \<le> b1 \<and> b1 \<le> (if b = 237 then 159 else 191) \<and> cont b2
             then ((b - 224) * 4096 + (b1 - 128) * 64 + (b2 - 128), 3) else (65533, 1))
          else (case r2 of [] \<Rightarrow> (65533, 1) | b3 # r3 \<Rightarrow>
            if 240 \<le> b \<and> b \<le> 244 \<and> (if b = 240 then 144 else 128) \<le> b1
               \<and> b1 \<le> (if b = 244 then 143 else 191) \<and> cont b2 \<and> cont b3
            then ((b - 240) * 262144 + (b1 - 128) * 4096 + (b2 - 128) * 64 + (b3 - 128), 4)
            else (65533, 1)))))"

lemma decodeRune_width: "0 < snd (decodeRune bs)"
  by (simp add: decodeRune_def split: list.splits)

function runes_of :: "nat list \<Rightarrow> nat list" where
  "runes_of bs = (if bs = [] then [] else fst (decodeRune bs) # runes_of (drop (snd (decodeRune bs)) bs))"
  by pat_completeness auto
termination
  by (relation "measure length") (use decodeRune_width in auto)

declare runes_of.simps [simp del]

definition runes :: "string \<Rightarrow> nat list" where
  "runes s = runes_of (map of_char s)"

lemma runes_of_ASCII: "\<forall>b \<in> set bs. b < 128 \<Longrightarrow> runes_of bs = bs"
proof (induction bs)
  case Nil
  then show ?case by (simp add: runes_of.simps)
next
  case (Cons b bs)
  then show ?case by (subst runes_of.simps) (simp add: decodeRune_def)
qed

lemma runes_ASCII: "isASCII s \<Longrightarrow> runes s = map of_char s"
  unfolding runes_def by (rule runes_of_ASCII) (auto simp: isASCII_def list_all_iff)

text \<open>
  \<^verbatim>\<open>unicode.IsUpper\<close>, \<^verbatim>\<open>IsLower\<close> and \<^verbatim>\<open>IsDigit\<close>: the Latin-1 properties are built into the functions;
  above 0xFF they consult the Unicode range tables, which are the parameter.
\<close>

definition IsUpper :: "(nat \<Rightarrow> bool) \<Rightarrow> nat \<Rightarrow> bool" where
  "IsUpper tbl r = (if r \<le> 255 then 65 \<le> r \<and> r \<le> 90 \<or> 192 \<le> r \<and> r \<le> 222 \<and> r \<noteq> 215 else tbl r)"

definition IsLower :: "(nat \<Rightarrow> bool) \<Rightarrow> nat \<Rightarrow> bool" where
  "IsLower tbl r =
     (if r \<le> 255 then 97 \<le> r \<and> r \<le> 122 \<or> r = 181 \<or> 223 \<le> r \<and> r \<noteq> 247 else tbl r)"

definition IsDigit :: "(nat \<Rightarrow> bool) \<Rightarrow> nat \<Rightarrow> bool" where
  "IsDigit tbl r = (if r \<le> 255 then 48 \<le> r \<and> r \<le> 57 else tbl r)"

section \<open>Decimal and hexadecimal text\<close>

definition digitChar :: "nat \<Rightarrow> char" where
  "digitChar d = char_of (48 + d)"

definition charDigit :: "char \<Rightarrow> nat option" where
  "charDigit c = (let n = of_char c :: nat in if 48 \<le> n \<and> n \<le> 57 then Some (n - 48) else None)"

lemma charDigit_digitChar [simp]: "d < 10 \<Longrightarrow> charDigit (digitChar d) = Some d"
  by (simp add: charDigit_def digitChar_def)

function showNat :: "nat \<Rightarrow> string" where
  "showNat n = (if n < 10 then [digitChar n] else showNat (n div 10) @ [digitChar (n mod 10)])"
  by pat_completeness auto
termination
  by (relation "measure id") auto

declare showNat.simps [simp del]

definition FormatInt :: "int \<Rightarrow> string" where
  "FormatInt i = (if i < 0 then CHR ''-'' # showNat (nat (- i)) else showNat (nat i))"

fun readDigits :: "nat \<Rightarrow> string \<Rightarrow> nat option" where
  "readDigits acc [] = Some acc"
| "readDigits acc (c # s) = (case charDigit c of None \<Rightarrow> None | Some d \<Rightarrow> readDigits (10 * acc + d) s)"

datatype parseErr = ErrSyntax | ErrRange

text \<open>
  \<^verbatim>\<open>strconv.ParseInt(s, 10, 64)\<close>: the value and the error, as Go returns both; out of range the
  value is the nearest representable one, on a syntax error it is 0.
\<close>

definition int64_max :: int where
  "int64_max = 9223372036854775807"

definition ParseInt :: "string \<Rightarrow> int \<times> parseErr option" where
  "ParseInt s =
     (let neg = (case s of c # _ \<Rightarrow> c = CHR ''-'' | [] \<Rightarrow> False);
          body = (case s of c # r \<Rightarrow> if c = CHR ''-'' \<or> c = CHR ''+'' then r else s | [] \<Rightarrow> [])
      in if body = [] then (0, Some ErrSyntax)
         else case readDigits 0 body of
           None \<Rightarrow> (0, Some ErrSyntax)
         | Some n \<Rightarrow>
            if neg then (if int n > int64_max + 1 then (- int64_max - 1, Some ErrRange) else (- int n, None))
            else (if int n > int64_max then (int64_max, Some ErrRange) else (int n, None)))"

lemma readDigits_append:
  "readDigits acc (s @ t) = (case readDigits acc s of None \<Rightarrow> None | Some n \<Rightarrow> readDigits n t)"
  by (induction s arbitrary: acc) (auto split: option.splits)

lemma readDigits_showNat: "readDigits 0 (showNat n) = Some n"
proof (induction n rule: showNat.induct)
  case (1 n)
  show ?case
  proof (cases "n < 10")
    case True
    then show ?thesis by (subst showNat.simps) simp
  next
    case False
    with "1.IH" show ?thesis
      by (subst showNat.simps) (simp add: readDigits_append)
  qed
qed

lemma showNat_nonempty [simp]: "showNat n \<noteq> []"
  by (subst showNat.simps) simp

lemma hd_showNat: "\<exists>d < 10. hd (showNat n) = digitChar d"
proof (induction n rule: showNat.induct)
  case (1 n)
  then show ?case by (subst showNat.simps) (auto simp: hd_append)
qed

lemma showNat_no_sign: "showNat n = c # s \<Longrightarrow> c \<noteq> CHR ''-'' \<and> c \<noteq> CHR ''+''"
proof -
  assume "showNat n = c # s"
  then have "hd (showNat n) = c" by simp
  with hd_showNat obtain d where "d < 10" "c = digitChar d" by blast
  then have "charDigit c = Some d" by simp
  then show ?thesis by (auto simp: charDigit_def)
qed

text \<open>Reading back what \<^verbatim>\<open>strconv.FormatInt\<close> printed gives the number, for every int64.\<close>

lemma ParseInt_FormatInt:
  assumes "- int64_max - 1 \<le> i" and "i \<le> int64_max"
  shows "ParseInt (FormatInt i) = (i, None)"
proof (cases "i < 0")
  case True
  with assms show ?thesis
    by (simp add: ParseInt_def FormatInt_def readDigits_showNat)
next
  case False
  obtain c s where cs: "showNat (nat i) = c # s"
    by (cases "showNat (nat i)") auto
  have "readDigits 0 (c # s) = Some (nat i)"
    using readDigits_showNat [of "nat i"] by (simp add: cs)
  then show ?thesis
    using False assms showNat_no_sign [OF cs]
    by (simp add: ParseInt_def FormatInt_def cs Let_def del: readDigits.simps)
qed

lemma FormatInt_nonempty [simp]: "FormatInt i \<noteq> []"
  by (simp add: FormatInt_def)

definition hexChar :: "nat \<Rightarrow> char" where
  "hexChar d = (if d < 10 then char_of (48 + d) else char_of (87 + d))"

definition hexEncode :: "string \<Rightarrow> string" where
  "hexEncode s = concat (map (\<lambda>c. let n = of_char c :: nat in [hexChar (n div 16), hexChar (n mod 16)]) s)"

lemma length_hexEncode [simp]: "length (hexEncode s) = 2 * length s"
  by (induction s) (auto simp: hexEncode_def Let_def)

section \<open>Times and durations\<close>

type_synonym time = int
type_synonym duration = int

definition zeroTime :: time where
  "zeroTime = 0"

definition Millisecond :: duration where "Millisecond = 1000000"
definition Second :: duration where "Second = 1000000000"
definition Minute :: duration where "Minute = 60000000000"
definition Hour :: duration where "Hour = 3600000000000"

lemmas duration_units = Millisecond_def Second_def Minute_def Hour_def

text \<open>\<^verbatim>\<open>time.Duration\<close> is an int64: products of durations wrap.\<close>

definition wrap64 :: "int \<Rightarrow> int" where
  "wrap64 i = (i + 9223372036854775808) mod 18446744073709551616 - 9223372036854775808"

lemma wrap64_id: "- 9223372036854775808 \<le> i \<Longrightarrow> i \<le> 9223372036854775807 \<Longrightarrow> wrap64 i = i"
  by (simp add: wrap64_def)

text \<open>
  The calendar date of a day counted from 1 January of the year 1, and \<^verbatim>\<open>Format\<close> with the layouts
  \<^verbatim>\<open>time.RFC3339\<close> and \<^verbatim>\<open>time.RFC3339Nano\<close> of a time in UTC.
\<close>

definition isLeap :: "int \<Rightarrow> bool" where
  "isLeap y \<longleftrightarrow> y mod 4 = 0 \<and> (y mod 100 \<noteq> 0 \<or> y mod 400 = 0)"

fun monthDay :: "int \<Rightarrow> int list \<Rightarrow> int \<Rightarrow> int \<times> int" where
  "monthDay m (l # ls) d = (if d < l then (m, d + 1) else monthDay (m + 1) ls (d - l))"
| "monthDay m [] d = (m, d + 1)"

definition civil :: "int \<Rightarrow> int \<times> int \<times> int" where
  "civil day =
     (let n400 = day div 146097; r = day mod 146097; n100 = min 3 (r div 36524); r2 = r - n100 * 36524;
          n4 = r2 div 1461; r3 = r2 mod 1461; n1 = min 3 (r3 div 365);
          y = 400 * n400 + 100 * n100 + 4 * n4 + n1 + 1
      in case monthDay 1 [31, if isLeap y then 29 else 28, 31, 30, 31, 30, 31, 31, 30, 31, 30, 31] (r3 - n1 * 365)
         of (m, d) \<Rightarrow> (y, m, d))"

definition pad :: "nat \<Rightarrow> int \<Rightarrow> string" where
  "pad w i = (let s = FormatInt i in replicate (w - length s) (CHR ''0'') @ s)"

definition FormatRFC3339 :: "time \<Rightarrow> string" where
  "FormatRFC3339 t =
     (let s = t div 1000000000; sod = s mod 86400
      in case civil (s div 86400) of (y, m, d) \<Rightarrow>
        pad 4 y @ ''-'' @ pad 2 m @ ''-'' @ pad 2 d @ ''T'' @ pad 2 (sod div 3600) @ '':''
        @ pad 2 (sod div 60 mod 60) @ '':'' @ pad 2 (sod mod 60) @ ''Z'')"

definition FormatRFC3339Nano :: "time \<Rightarrow> string" where
  "FormatRFC3339Nano t =
     (let frac = rev (dropWhile (\<lambda>c. c = CHR ''0'') (rev (pad 9 (t mod 1000000000))))
      in butlast (FormatRFC3339 t) @ (if frac = [] then [] else CHR ''.'' # frac) @ ''Z'')"

section \<open>JSON documents\<close>

text \<open>
  A JSON document as its syntax tree. \<open>JTime\<close> is the RFC 3339 string of a time, \<open>JB64\<close> the
  base64 string of a byte slice.
\<close>

datatype json =
    JNull
  | JBool bool
  | JNum int
  | JStr string
  | JTime time
  | JB64 string
  | JArr "json list"
  | JObj "(string \<times> json) list"

text \<open>\<^verbatim>\<open>json.Unmarshal\<close> into a struct: a missing or null field keeps its zero value, a field of the
  wrong kind is an error (\<open>None\<close>).\<close>

definition jfield :: "string \<Rightarrow> (string \<times> json) list \<Rightarrow> json option" where
  "jfield k fs = map_of (rev fs) k"

definition getStr :: "string \<Rightarrow> (string \<times> json) list \<Rightarrow> string option" where
  "getStr k fs = (case jfield k fs of None \<Rightarrow> Some [] | Some JNull \<Rightarrow> Some []
     | Some (JStr s) \<Rightarrow> Some s | Some _ \<Rightarrow> None)"

definition getInt :: "string \<Rightarrow> (string \<times> json) list \<Rightarrow> int option" where
  "getInt k fs = (case jfield k fs of None \<Rightarrow> Some 0 | Some JNull \<Rightarrow> Some 0
     | Some (JNum n) \<Rightarrow> Some n | Some _ \<Rightarrow> None)"

definition getTime :: "string \<Rightarrow> (string \<times> json) list \<Rightarrow> time option" where
  "getTime k fs = (case jfield k fs of None \<Rightarrow> Some zeroTime | Some JNull \<Rightarrow> Some zeroTime
     | Some (JTime t) \<Rightarrow> Some t | Some _ \<Rightarrow> None)"

definition getStrPtr :: "string \<Rightarrow> (string \<times> json) list \<Rightarrow> string option option" where
  "getStrPtr k fs = (case jfield k fs of None \<Rightarrow> Some None | Some JNull \<Rightarrow> Some None
     | Some (JStr s) \<Rightarrow> Some (Some s) | Some _ \<Rightarrow> None)"

definition getTimePtr :: "string \<Rightarrow> (string \<times> json) list \<Rightarrow> time option option" where
  "getTimePtr k fs = (case jfield k fs of None \<Rightarrow> Some None | Some JNull \<Rightarrow> Some None
     | Some (JTime t) \<Rightarrow> Some (Some t) | Some _ \<Rightarrow> None)"

definition getIntPtr :: "string \<Rightarrow> (string \<times> json) list \<Rightarrow> int option option" where
  "getIntPtr k fs = (case jfield k fs of None \<Rightarrow> Some None | Some JNull \<Rightarrow> Some None
     | Some (JNum n) \<Rightarrow> Some (Some n) | Some _ \<Rightarrow> None)"

definition getBytes :: "string \<Rightarrow> (string \<times> json) list \<Rightarrow> string option" where
  "getBytes k fs = (case jfield k fs of None \<Rightarrow> Some [] | Some JNull \<Rightarrow> Some []
     | Some (JB64 b) \<Rightarrow> Some b | Some _ \<Rightarrow> None)"

definition getObj :: "string \<Rightarrow> (string \<times> json) list \<Rightarrow> (string \<times> json) list option option" where
  "getObj k fs = (case jfield k fs of None \<Rightarrow> Some None | Some JNull \<Rightarrow> Some None
     | Some (JObj l) \<Rightarrow> Some (Some l) | Some _ \<Rightarrow> None)"

definition getRaw :: "string \<Rightarrow> (string \<times> json) list \<Rightarrow> json option" where
  "getRaw k fs = (case jfield k fs of None \<Rightarrow> Some JNull | Some j \<Rightarrow> Some j)"

definition ptrInt :: "int option \<Rightarrow> json" where
  "ptrInt p = (case p of None \<Rightarrow> JNull | Some i \<Rightarrow> JNum i)"

text \<open>A field with \<^verbatim>\<open>omitempty\<close>: left out when the value is empty.\<close>

definition omitStr :: "string \<Rightarrow> string \<Rightarrow> (string \<times> json) list" where
  "omitStr k s = (if s = [] then [] else [(k, JStr s)])"

definition omitStrPtr :: "string \<Rightarrow> string option \<Rightarrow> (string \<times> json) list" where
  "omitStrPtr k p = (case p of None \<Rightarrow> [] | Some s \<Rightarrow> [(k, JStr s)])"

definition omitIntPtr :: "string \<Rightarrow> int option \<Rightarrow> (string \<times> json) list" where
  "omitIntPtr k p = (case p of None \<Rightarrow> [] | Some i \<Rightarrow> [(k, JNum i)])"

definition ptrStr :: "string option \<Rightarrow> json" where
  "ptrStr p = (case p of None \<Rightarrow> JNull | Some s \<Rightarrow> JStr s)"

definition ptrTime :: "time option \<Rightarrow> json" where
  "ptrTime p = (case p of None \<Rightarrow> JNull | Some t \<Rightarrow> JTime t)"

lemmas json_get = jfield_def getStr_def getInt_def getTime_def getStrPtr_def getTimePtr_def
  getIntPtr_def getBytes_def getObj_def getRaw_def

lemmas json_put = ptrStr_def ptrTime_def ptrInt_def omitStr_def omitStrPtr_def omitIntPtr_def

lemma jfield_simps [simp]:
  "jfield k [] = None"
  "jfield k ((a, v) # fs) = (case jfield k fs of None \<Rightarrow> if a = k then Some v else None | Some x \<Rightarrow> Some x)"
  "jfield k (fs @ gs) = (case jfield k gs of None \<Rightarrow> jfield k fs | Some x \<Rightarrow> Some x)"
  by (simp_all add: jfield_def map_add_def split: option.splits)

lemma jfield_omit [simp]:
  "jfield k (omitStr a s) = (if a = k \<and> s \<noteq> [] then Some (JStr s) else None)"
  "jfield k (omitStrPtr a p) = (if a = k then map_option JStr p else None)"
  "jfield k (omitIntPtr a i) = (if a = k then map_option JNum i else None)"
  by (auto simp: omitStr_def omitStrPtr_def omitIntPtr_def split: option.splits)

lemmas json_decode = getStr_def getInt_def getTime_def getStrPtr_def getTimePtr_def
  getIntPtr_def getBytes_def getObj_def getRaw_def

end
