(* ===== verification/Env.thy ===== *)
theory Env
  imports Go_Std
begin

text \<open>
  Errors as values, and the environment: everything the repository calls that is not under
  \<^verbatim>\<open>src/\<close> (the clock, the random source, SHA-256, bcrypt, JWT, the address parser, the Unicode
  tables, the Redis server, the Kafka broker, the failures of the PostgreSQL connection). The
  environment is a record of functions that every operation takes as a parameter; what the code
  relies on is stated as named predicates on it (\<open>redis_documented\<close>, \<open>bcrypt_documented\<close>, ...).
\<close>

section \<open>Errors\<close>

text \<open>The sentinel errors of \<^verbatim>\<open>internal/modules/identity/domain/error/errors.go\<close>.\<close>

datatype domainError =
    ErrUserNotFound | ErrEmailAlreadyExist | ErrAccountSuspended | ErrAccountBanned | ErrEmailNotVerified
  | ErrCredentialNotFound | ErrInvalidCredentials | ErrPasswordTooWeak | ErrResetTokenExpired
  | ErrSessionNotFound | ErrSessionExpired | ErrSessionInvalid | ErrSessionRevoked
  | ErrDeviceNotFound | ErrDeviceRevoked | ErrDeviceLimitReached | ErrDeviceNotOwned
  | ErrAddressNotFound | ErrAddressNotOwned | ErrRoleNotFound
  | NewDomainError string string

text \<open>
  Go error values. Sentinels are constructors, \<open>ErrorsNew\<close> is \<^verbatim>\<open>errors.New\<close> (or \<^verbatim>\<open>fmt.Errorf\<close>
  without \<^verbatim>\<open>%w\<close>), \<open>Wrapf pre e post\<close> is \<^verbatim>\<open>fmt.Errorf("pre%wpost", e)\<close>, \<open>External\<close> an error value of
  a third-party library.
\<close>

datatype gerror =
    DomainErr domainError
  | DtoErrSameAsOldPassword | DtoErrInvalidCredentials
  | IdemErrMissingKey | IdemErrInvalidScope | IdemErrRequestInProgress | IdemErrRequestHashMismatch
  | IdemErrRecordNotFound | IdemErrMissingConsumerName | IdemErrMissingEventID
  | OutboxErrNoRows | OutboxErrMarshal | OutboxErrAlreadyDone
  | TxErrNilPool | TxErrNilCallback | TxErrCommitFailed | TxErrRollbackFailed
  | RedisErrCacheMiss | RedisErrLockNotHeld | RedisErrLockNotAcquired | RedisErrUnavailable
  | PgxErrNoRows | PgxErrTxClosed | PgError string
  | RedisNil | ContextCanceled
  | ErrorsNew string
  | External string
  | Wrapf string gerror string

text \<open>\<^verbatim>\<open>errors.Is\<close>: the error or one it wraps is the target.\<close>

fun errorsIs :: "gerror \<Rightarrow> gerror \<Rightarrow> bool" where
  "errorsIs (Wrapf pre e post) t \<longleftrightarrow> Wrapf pre e post = t \<or> errorsIs e t"
| "errorsIs e t \<longleftrightarrow> e = t"

text \<open>Codes and messages of the domain errors, and the text of an error.\<close>

fun domainErrorCode :: "domainError \<Rightarrow> string" where
  "domainErrorCode ErrUserNotFound = ''IDENTITY_USER_NOT_FOUND''"
| "domainErrorCode ErrEmailAlreadyExist = ''IDENTITY_EMAIL_DUPLICATE''"
| "domainErrorCode ErrAccountSuspended = ''IDENTITY_ACCOUNT_SUSPENDED''"
| "domainErrorCode ErrAccountBanned = ''IDENTITY_ACCOUNT_BANNED''"
| "domainErrorCode ErrEmailNotVerified = ''IDENTITY_EMAIL_NOT_VERIFIED''"
| "domainErrorCode ErrCredentialNotFound = ''IDENTITY_CREDENTIAL_NOT_FOUND''"
| "domainErrorCode ErrInvalidCredentials = ''IDENTITY_INVALID_CREDENTIALS''"
| "domainErrorCode ErrPasswordTooWeak = ''IDENTITY_PASSWORD_TOO_WEAK''"
| "domainErrorCode ErrResetTokenExpired = ''IDENTITY_RESET_TOKEN_EXPIRED''"
| "domainErrorCode ErrSessionNotFound = ''IDENTITY_SESSION_NOT_FOUND''"
| "domainErrorCode ErrSessionExpired = ''IDENTITY_SESSION_EXPIRED''"
| "domainErrorCode ErrSessionInvalid = ''IDENTITY_SESSION_INVALID''"
| "domainErrorCode ErrSessionRevoked = ''IDENTITY_SESSION_REVOKED''"
| "domainErrorCode ErrDeviceNotFound = ''IDENTITY_DEVICE_NOT_FOUND''"
| "domainErrorCode ErrDeviceRevoked = ''IDENTITY_DEVICE_REVOKED''"
| "domainErrorCode ErrDeviceLimitReached = ''IDENTITY_DEVICE_LIMIT''"
| "domainErrorCode ErrDeviceNotOwned = ''IDENTITY_DEVICE_NOT_OWNED''"
| "domainErrorCode ErrAddressNotFound = ''IDENTITY_ADDRESS_NOT_FOUND''"
| "domainErrorCode ErrAddressNotOwned = ''IDENTITY_ADDRESS_NOT_OWNED''"
| "domainErrorCode ErrRoleNotFound = ''IDENTITY_ROLE_NOT_FOUND''"
| "domainErrorCode (NewDomainError c m) = c"

fun domainErrorMessage :: "domainError \<Rightarrow> string" where
  "domainErrorMessage ErrUserNotFound = ''user not found''"
| "domainErrorMessage ErrEmailAlreadyExist = ''email already exists''"
| "domainErrorMessage ErrAccountSuspended = ''account is suspended''"
| "domainErrorMessage ErrAccountBanned = ''account is banned''"
| "domainErrorMessage ErrEmailNotVerified = ''email verification required''"
| "domainErrorMessage ErrCredentialNotFound = ''credential not found''"
| "domainErrorMessage ErrInvalidCredentials = ''invalid email or password''"
| "domainErrorMessage ErrPasswordTooWeak = ''password does not meet requirements''"
| "domainErrorMessage ErrResetTokenExpired = ''password reset token is invalid or has expired''"
| "domainErrorMessage ErrSessionNotFound = ''session not found''"
| "domainErrorMessage ErrSessionExpired = ''session has expired''"
| "domainErrorMessage ErrSessionInvalid = ''session is invalid''"
| "domainErrorMessage ErrSessionRevoked = ''session has been revoked''"
| "domainErrorMessage ErrDeviceNotFound = ''device not found''"
| "domainErrorMessage ErrDeviceRevoked = ''device has been revoked''"
| "domainErrorMessage ErrDeviceLimitReached = ''maximum device limit reached''"
| "domainErrorMessage ErrDeviceNotOwned = ''device is not owned by user''"
| "domainErrorMessage ErrAddressNotFound = ''address not found''"
| "domainErrorMessage ErrAddressNotOwned = ''address does not belong to this user''"
| "domainErrorMessage ErrRoleNotFound = ''role not found''"
| "domainErrorMessage (NewDomainError c m) = m"

definition DomainError_Error :: "domainError \<Rightarrow> string" where
  "DomainError_Error e = ''['' @ domainErrorCode e @ '']: '' @ domainErrorMessage e"

fun errorText :: "gerror \<Rightarrow> string" where
  "errorText (DomainErr e) = DomainError_Error e"
| "errorText DtoErrSameAsOldPassword = ''new password must be different from current password''"
| "errorText DtoErrInvalidCredentials = ''invalid current password''"
| "errorText IdemErrMissingKey = ''idempotency key is required''"
| "errorText IdemErrInvalidScope = ''idempotency scope is invalid''"
| "errorText IdemErrRequestInProgress = ''request with same idempotency key is in progress''"
| "errorText IdemErrRequestHashMismatch = ''same idempotency key used with different payload''"
| "errorText IdemErrRecordNotFound = ''idempotency record not found''"
| "errorText IdemErrMissingConsumerName = ''consumer name is required''"
| "errorText IdemErrMissingEventID = ''event ID is required''"
| "errorText OutboxErrNoRows = ''outbox: no rows affected''"
| "errorText OutboxErrMarshal = ''outbox: payload marshal failed''"
| "errorText OutboxErrAlreadyDone = ''outbox: event already published or failed''"
| "errorText TxErrNilPool = ''tx: nil pgx pool''"
| "errorText TxErrNilCallback = ''tx: nil transaction callback''"
| "errorText TxErrCommitFailed = ''tx: commit failed''"
| "errorText TxErrRollbackFailed = ''tx: rollback failed''"
| "errorText RedisErrCacheMiss = ''redis: cache miss''"
| "errorText RedisErrLockNotHeld = ''redis: lock not held''"
| "errorText RedisErrLockNotAcquired = ''redis: lock not acquired''"
| "errorText RedisErrUnavailable = ''redis: unavailable''"
| "errorText PgxErrNoRows = ''no rows in result set''"
| "errorText PgxErrTxClosed = ''tx is closed''"
| "errorText (PgError code) = ''ERROR: (SQLSTATE '' @ code @ '')''"
| "errorText RedisNil = ''redis: nil''"
| "errorText ContextCanceled = ''context canceled''"
| "errorText (ErrorsNew s) = s"
| "errorText (External s) = s"
| "errorText (Wrapf pre e post) = pre @ errorText e @ post"

section \<open>Redis commands\<close>

datatype rvalue = RText string | RJson json

type_synonym keyspace = "string \<Rightarrow> (rvalue \<times> time option) option"

text \<open>
  The script of \<^verbatim>\<open>internal/platform/redis/lock.go\<close>: compare the value of a key with an argument and
  delete the key when they are equal.
\<close>

datatype script = CompareAndDelete

datatype rcmd =
    SET string rvalue duration
  | SETNX string rvalue duration
  | GET string
  | GETDEL string
  | DEL "string list"
  | EXISTS string
  | INCR string
  | EXPIRE string duration
  | TTL string
  | EVAL script string string
  | PING

datatype rreply = ROk | RNil | RBool bool | RInt int | RVal rvalue | RDur duration | RErr gerror

text \<open>
  The documented effect of the commands: the reference against which a Redis server is
  specified below. A key past its expiry is absent; an expiry of 0 means none.
\<close>

definition live :: "time \<Rightarrow> keyspace \<Rightarrow> string \<Rightarrow> rvalue option" where
  "live t ks k = (case ks k of None \<Rightarrow> None
     | Some (v, None) \<Rightarrow> Some v
     | Some (v, Some e) \<Rightarrow> if e \<le> t then None else Some v)"

definition expiry :: "time \<Rightarrow> duration \<Rightarrow> time option" where
  "expiry t ttl = (if 0 < ttl then Some (t + ttl) else None)"

definition redis_ref :: "time \<Rightarrow> rcmd \<Rightarrow> keyspace \<Rightarrow> rreply \<times> keyspace" where
  "redis_ref t cmd ks = (case cmd of
     SET k v ttl \<Rightarrow> (ROk, ks(k \<mapsto> (v, expiry t ttl)))
   | SETNX k v ttl \<Rightarrow>
       (if live t ks k = None then (RBool True, ks(k \<mapsto> (v, expiry t ttl))) else (RBool False, ks))
   | GET k \<Rightarrow> ((case live t ks k of None \<Rightarrow> RNil | Some v \<Rightarrow> RVal v), ks)
   | GETDEL k \<Rightarrow> ((case live t ks k of None \<Rightarrow> RNil | Some v \<Rightarrow> RVal v), ks(k := None))
   | DEL kl \<Rightarrow>
       (RInt (int (length (filter (\<lambda>k. live t ks k \<noteq> None) (remdups kl)))),
        (\<lambda>k. if k \<in> set kl then None else ks k))
   | EXISTS k \<Rightarrow> (RInt (if live t ks k = None then 0 else 1), ks)
   | INCR k \<Rightarrow>
       (case live t ks k of
          None \<Rightarrow> (RInt 1, ks(k \<mapsto> (RText ''1'', None)))
        | Some (RText s) \<Rightarrow>
            (case ParseInt s of
               (n, None) \<Rightarrow> (RInt (n + 1), ks(k \<mapsto> (RText (FormatInt (n + 1)), snd (the (ks k)))))
             | (_, Some _) \<Rightarrow> (RErr (External ''ERR value is not an integer or out of range''), ks))
        | Some (RJson _) \<Rightarrow> (RErr (External ''ERR value is not an integer or out of range''), ks))
   | EXPIRE k d \<Rightarrow>
       (case live t ks k of
          None \<Rightarrow> (RInt 0, ks)
        | Some v \<Rightarrow> (RInt 1, if 0 < d then ks(k \<mapsto> (v, Some (t + d))) else ks(k := None)))
   | TTL k \<Rightarrow>
       ((case live t ks k of
           None \<Rightarrow> RDur (- 2)
         | Some v \<Rightarrow>
            (case snd (the (ks k)) of None \<Rightarrow> RDur (- 1)
             | Some e \<Rightarrow> RDur ((e - t + 500000000) div 1000000000 * 1000000000))), ks)
   | EVAL CompareAndDelete k arg \<Rightarrow>
       (if live t ks k = Some (RText arg) then (RInt 1, ks(k := None)) else (RInt 0, ks))
   | PING \<Rightarrow> (ROk, ks))"

section \<open>Kafka messages\<close>

text \<open>The value of a message: a JSON document, or bytes that are not one.\<close>

datatype kvalue = KJson json | KRaw string

record kafkaMessage =
  km_Topic :: string
  km_Key :: string
  km_Value :: kvalue
  km_Headers :: "(string \<times> string) list"
  km_Time :: time

section \<open>The environment\<close>

text \<open>
  A call to the database server may fail before the statement takes effect or after it (the
  answer is lost).
\<close>

datatype pgFault = NoFault | FailBefore gerror | FailAfter gerror

text \<open>
  The \<open>nat\<close> argument is the number of the external interaction, so that the clock, the random
  source and the failures may differ from one interaction to the next.
\<close>

record env =
  env_now :: "nat \<Rightarrow> time"
  env_rand :: "nat \<Rightarrow> gerror + string"
  env_uuid :: "nat \<Rightarrow> string"
  env_timeString :: "time \<Rightarrow> string"
  env_float64 :: "int \<Rightarrow> int"
  env_toLower :: "string \<Rightarrow> string"
  env_isUpper :: "nat \<Rightarrow> bool"
  env_isLower :: "nat \<Rightarrow> bool"
  env_isDigit :: "nat \<Rightarrow> bool"
  env_parseAddress :: "string \<Rightarrow> bool"
  env_sha256 :: "string \<Rightarrow> string"
  env_bcryptGenerate :: "nat \<Rightarrow> string \<Rightarrow> int \<Rightarrow> gerror + string"
  env_bcryptCompare :: "string \<Rightarrow> string \<Rightarrow> gerror option"
  env_jwtSign :: "string \<Rightarrow> json \<Rightarrow> gerror + string"
  env_jwtDecode :: "string \<Rightarrow> gerror + (bool \<times> json)"
  env_jwtVerify :: "string \<Rightarrow> time \<Rightarrow> string \<Rightarrow> gerror option"
  env_redis :: "nat \<Rightarrow> rcmd \<Rightarrow> keyspace \<Rightarrow> rreply \<times> keyspace"
  env_pg :: "nat \<Rightarrow> pgFault"
  env_kafkaWrite :: "nat \<Rightarrow> kafkaMessage list \<Rightarrow> kafkaMessage list \<times> gerror option"

subsection \<open>What the code relies on\<close>

text \<open>
  A Redis server answers as documented, or the call fails with an error (not \<^verbatim>\<open>redis.Nil\<close>), in which
  case the command may or may not have taken effect.
\<close>

definition redis_documented :: "env \<Rightarrow> bool" where
  "redis_documented E \<longleftrightarrow> (\<forall>n cmd ks.
     env_redis E n cmd ks = redis_ref (env_now E n) cmd ks
     \<or> (\<exists>e ks'. env_redis E n cmd ks = (RErr e, ks') \<and> e \<noteq> RedisNil
          \<and> (ks' = ks \<or> ks' = snd (redis_ref (env_now E n) cmd ks))))"

lemma redis_documentedD:
  "redis_documented E \<Longrightarrow> env_redis E n cmd ks = redis_ref (env_now E n) cmd ks
     \<or> (\<exists>e ks'. env_redis E n cmd ks = (RErr e, ks') \<and> e \<noteq> RedisNil
          \<and> (ks' = ks \<or> ks' = snd (redis_ref (env_now E n) cmd ks)))"
  unfolding redis_documented_def by blast

text \<open>A Redis server that never fails.\<close>

definition redis_up :: "env \<Rightarrow> bool" where
  "redis_up E \<longleftrightarrow> (\<forall>n cmd ks. env_redis E n cmd ks = redis_ref (env_now E n) cmd ks)"

lemma redis_up_documented: "redis_up E \<Longrightarrow> redis_documented E"
  by (simp add: redis_up_def redis_documented_def)

text \<open>The clock does not run backwards.\<close>

definition clock_monotonic :: "env \<Rightarrow> bool" where
  "clock_monotonic E \<longleftrightarrow> (\<forall>m n. m \<le> n \<longrightarrow> env_now E m \<le> env_now E n)"

text \<open>The database connection never fails.\<close>

definition pg_up :: "env \<Rightarrow> bool" where
  "pg_up E \<longleftrightarrow> (\<forall>n. env_pg E n = NoFault)"

text \<open>
  bcrypt: a generated hash accepts the password it was generated from and no other password that
  bcrypt can hash (at most 72 bytes); longer passwords are refused when generating.
\<close>

definition bcrypt_documented :: "env \<Rightarrow> bool" where
  "bcrypt_documented E \<longleftrightarrow>
     (\<forall>n pw c. 72 < length pw \<longrightarrow> (\<exists>e. env_bcryptGenerate E n pw c = Inl e)) \<and>
     (\<forall>n pw c h. env_bcryptGenerate E n pw c = Inr h \<longrightarrow>
        (\<forall>pw'. length pw' \<le> 72 \<longrightarrow> (env_bcryptCompare E h pw' = None \<longleftrightarrow> pw' = pw)))"

text \<open>
  kafka-go: a synchronous write that returns no error has written all its messages; a message
  without a topic on a writer without one is refused, and nothing is written then.
\<close>

definition kafka_documented :: "env \<Rightarrow> bool" where
  "kafka_documented E \<longleftrightarrow>
     (\<forall>n ms. (\<exists>m \<in> set ms. km_Topic m = '''') \<longrightarrow> (\<exists>e. env_kafkaWrite E n ms = ([], Some e))) \<and>
     (\<forall>n ms. snd (env_kafkaWrite E n ms) = None \<longrightarrow> fst (env_kafkaWrite E n ms) = ms)"

text \<open>
  golang-jwt: a token signed with a secret decodes to its HMAC method and its claims, and verifies
  with that secret until the expiry time in its claims (\<open>exp\<close>, in seconds since 1970).
\<close>

definition unixEpoch :: time where
  "unixEpoch = 62135596800 * Second"

definition jwtExpiry :: "json \<Rightarrow> time" where
  "jwtExpiry j = (case j of JObj fs \<Rightarrow> (case jfield ''exp'' fs of Some (JNum n) \<Rightarrow> unixEpoch + n * Second | _ \<Rightarrow> 0) | _ \<Rightarrow> 0)"

definition jwt_documented :: "env \<Rightarrow> bool" where
  "jwt_documented E \<longleftrightarrow> (\<forall>secret claims token. env_jwtSign E secret claims = Inr token \<longrightarrow>
     env_jwtDecode E token = Inr (True, claims) \<and>
     (\<forall>t. env_jwtVerify E secret t token = None \<longleftrightarrow> t < jwtExpiry claims))"

text \<open>
  A JSON number decoded into an interface value is a float64: whole numbers up to \<open>2 ^ 53\<close> come out
  as they went in, larger ones are rounded.
\<close>

definition float64_documented :: "env \<Rightarrow> bool" where
  "float64_documented E \<longleftrightarrow> (\<forall>i. \<bar>i\<bar> \<le> 9007199254740992 \<longrightarrow> env_float64 E i = i)"

lemmas env_hyps = redis_documented_def redis_up_def clock_monotonic_def pg_up_def
  bcrypt_documented_def kafka_documented_def float64_documented_def jwt_documented_def

subsection \<open>Facts about the reference commands\<close>

lemma live_upd [simp]:
  "live t (ks(k \<mapsto> (v, e))) k' =
     (if k' = k then (case e of None \<Rightarrow> Some v | Some x \<Rightarrow> if x \<le> t then None else Some v) else live t ks k')"
  by (simp add: live_def split: option.splits)

lemma live_del [simp]: "live t (ks(k := None)) k' = (if k' = k then None else live t ks k')"
  by (simp add: live_def)

lemma redis_ref_GET: "redis_ref t (GET k) ks = (case live t ks k of None \<Rightarrow> (RNil, ks) | Some v \<Rightarrow> (RVal v, ks))"
  by (simp add: redis_ref_def split: option.splits)

lemma redis_ref_SET: "redis_ref t (SET k v ttl) ks = (ROk, ks(k \<mapsto> (v, expiry t ttl)))"
  by (simp add: redis_ref_def)

lemma redis_ref_SETNX: "redis_ref t (SETNX k v ttl) ks =
  (if live t ks k = None then (RBool True, ks(k \<mapsto> (v, expiry t ttl))) else (RBool False, ks))"
  by (simp add: redis_ref_def)

lemma redis_ref_GETDEL:
  "redis_ref t (GETDEL k) ks = (case live t ks k of None \<Rightarrow> RNil | Some v \<Rightarrow> RVal v, ks(k := None))"
  by (simp add: redis_ref_def)

lemma redis_ref_DEL_keyspace:
  "snd (redis_ref t (DEL kl) ks) = (\<lambda>k. if k \<in> set kl then None else ks k)"
  by (simp add: redis_ref_def)

end
