(* ===== verification/Domain.thy ===== *)
theory Domain
  imports Env
begin

text \<open>
  The identity domain (\<^verbatim>\<open>internal/modules/identity/domain\<close>): value objects, entities, events and
  policies, with the state machine of the account status.
\<close>

section \<open>Value objects\<close>

datatype Email = Email (email_value: string)

definition NewEmail :: "env \<Rightarrow> string \<Rightarrow> gerror + Email" where
  "NewEmail E raw =
     (let normalized = ToLower (env_toLower E) (TrimSpace raw)
      in if \<not> env_parseAddress E normalized then Inl (ErrorsNew ''invalid email format'')
         else if length normalized > 255 then Inl (ErrorsNew ''email too long'')
         else Inr (Email normalized))"

text \<open>A panic is \<open>None\<close>.\<close>

definition MustEmail :: "env \<Rightarrow> string \<Rightarrow> Email option" where
  "MustEmail E raw = (case NewEmail E raw of Inl _ \<Rightarrow> None | Inr email \<Rightarrow> Some email)"

definition Email_String :: "Email \<Rightarrow> string" where
  "Email_String e = email_value e"

definition Email_IsZero :: "Email \<Rightarrow> bool" where
  "Email_IsZero e \<longleftrightarrow> email_value e = ''''"

definition Email_Equals :: "Email \<Rightarrow> Email \<Rightarrow> bool" where
  "Email_Equals e other \<longleftrightarrow> email_value e = email_value other"

text \<open>The account status is a string, as in the source and in the table.\<close>

type_synonym UserStatus = string

definition UserStatusActive :: UserStatus where "UserStatusActive = ''active''"
definition UserStatusBanned :: UserStatus where "UserStatusBanned = ''locked''"
definition UserStatusSuspended :: UserStatus where "UserStatusSuspended = ''disabled''"
definition UserStatusPendingVerification :: UserStatus where
  "UserStatusPendingVerification = ''pending_verification''"

lemmas status_defs = UserStatusActive_def UserStatusBanned_def UserStatusSuspended_def
  UserStatusPendingVerification_def

definition UserStatus_IsActive :: "UserStatus \<Rightarrow> bool" where
  "UserStatus_IsActive s \<longleftrightarrow> s = UserStatusActive"

definition UserStatus_CanLogin :: "UserStatus \<Rightarrow> bool" where
  "UserStatus_CanLogin s \<longleftrightarrow> s = UserStatusActive"

definition allowed_transitions :: "(UserStatus \<times> UserStatus list) list" where
  "allowed_transitions =
    [(UserStatusPendingVerification, [UserStatusActive]),
     (UserStatusActive, [UserStatusSuspended, UserStatusBanned]),
     (UserStatusSuspended, [UserStatusActive, UserStatusBanned]),
     (UserStatusBanned, [])]"

definition UserStatus_CanTransitionTo :: "UserStatus \<Rightarrow> UserStatus \<Rightarrow> gerror + unit" where
  "UserStatus_CanTransitionTo s next =
     (let l = (case map_of allowed_transitions s of None \<Rightarrow> [] | Some l \<Rightarrow> l)
      in if next \<in> set l then Inr ()
         else Inl (DomainErr (NewDomainError ''IDENTITY_INVALID_STATUS_TRANSITION''
                (''cannot transition from '' @ s @ '' to '' @ next))))"

lemma CanTransitionTo_iff:
  "UserStatus_CanTransitionTo s t = Inr () \<longleftrightarrow>
     (s = UserStatusPendingVerification \<and> t = UserStatusActive) \<or>
     (s = UserStatusActive \<and> (t = UserStatusSuspended \<or> t = UserStatusBanned)) \<or>
     (s = UserStatusSuspended \<and> (t = UserStatusActive \<or> t = UserStatusBanned))"
  by (auto simp: UserStatus_CanTransitionTo_def allowed_transitions_def status_defs Let_def)

section \<open>Entities\<close>

definition AccountStatusPending :: string where "AccountStatusPending = ''pending_verification''"
definition AccountStatusActive :: string where "AccountStatusActive = ''active''"
definition AccountStatusLocked :: string where "AccountStatusLocked = ''locked''"
definition UserTypeCustomer :: string where "UserTypeCustomer = ''customer''"
definition UserTypeAdmin :: string where "UserTypeAdmin = ''admin''"
definition PasswordAlgoBcrypt :: string where "PasswordAlgoBcrypt = ''bcrypt''"

lemmas entity_consts = AccountStatusPending_def AccountStatusActive_def AccountStatusLocked_def
  UserTypeCustomer_def UserTypeAdmin_def PasswordAlgoBcrypt_def

record User =
  user_ID :: int
  user_Email :: Email
  user_FullName :: string
  user_Phone :: "string option"
  user_UserType :: string
  user_Status :: UserStatus
  user_EmailVerifiedAt :: "time option"
  user_LastLoginAt :: "time option"
  user_LockedReason :: "string option"
  user_Metadata :: json
  user_Version :: int
  user_CreatedAt :: time
  user_UpdatedAt :: time

definition User_IsEmailVerified :: "User \<Rightarrow> bool" where
  "User_IsEmailVerified u \<longleftrightarrow> user_EmailVerifiedAt u \<noteq> None"

definition User_CanPerformDigitalActions :: "User \<Rightarrow> gerror + unit" where
  "User_CanPerformDigitalActions u =
     (if \<not> User_IsEmailVerified u then Inl (DomainErr ErrEmailNotVerified) else Inr ())"

definition User_MarkEmailVerified :: "time \<Rightarrow> User \<Rightarrow> User" where
  "User_MarkEmailVerified now u =
     (if User_IsEmailVerified u then u
      else u\<lparr>user_EmailVerifiedAt := Some now, user_Status := UserStatusActive, user_UpdatedAt := now\<rparr>)"

definition User_Suspend :: "time \<Rightarrow> User \<Rightarrow> gerror + User" where
  "User_Suspend now u =
     (case UserStatus_CanTransitionTo (user_Status u) UserStatusSuspended of
        Inl e \<Rightarrow> Inl e
      | Inr _ \<Rightarrow> Inr (u\<lparr>user_Status := UserStatusSuspended, user_UpdatedAt := now\<rparr>))"

definition User_Ban :: "time \<Rightarrow> User \<Rightarrow> gerror + User" where
  "User_Ban now u =
     (case UserStatus_CanTransitionTo (user_Status u) UserStatusBanned of
        Inl e \<Rightarrow> Inl e
      | Inr _ \<Rightarrow> Inr (u\<lparr>user_Status := UserStatusBanned, user_UpdatedAt := now\<rparr>))"

record Credential =
  cred_UserID :: int
  cred_PasswordHash :: string
  cred_PasswordAlgo :: string
  cred_PasswordChangedAt :: time
  cred_FailedLoginCount :: int
  cred_LastFailedLoginAt :: "time option"

text \<open>\<open>age.Hours() > float64(maxAgeDays)*24\<close>, with the hours compared exactly.\<close>

definition Credential_IsPasswordChangeRequired :: "time \<Rightarrow> int \<Rightarrow> Credential \<Rightarrow> bool" where
  "Credential_IsPasswordChangeRequired now maxAgeDays c =
     (if maxAgeDays \<le> 0 then False
      else now - cred_PasswordChangedAt c > maxAgeDays * 24 * Hour)"

definition Credential_MarkPasswordChanged :: "string \<Rightarrow> string \<Rightarrow> time \<Rightarrow> Credential \<Rightarrow> Credential" where
  "Credential_MarkPasswordChanged newHash algo now c =
     c\<lparr>cred_PasswordHash := newHash, cred_PasswordAlgo := algo, cred_PasswordChangedAt := now\<rparr>"

record Session =
  sess_ID :: int
  sess_UserID :: int
  sess_RefreshTokenHash :: string
  sess_DeviceID :: int
  sess_SessionStatus :: string
  sess_ExpiredAt :: time
  sess_IPAddress :: "string option"
  sess_UserAgent :: string
  sess_LastSeenAt :: time
  sess_RevokedAt :: "time option"
  sess_RevokedReason :: "string option"
  sess_CreatedAt :: time
  sess_UpdatedAt :: time

definition Session_IsRevoked :: "Session \<Rightarrow> bool" where
  "Session_IsRevoked s \<longleftrightarrow> sess_RevokedAt s \<noteq> None"

definition Session_IsExpired :: "time \<Rightarrow> Session \<Rightarrow> bool" where
  "Session_IsExpired now s \<longleftrightarrow> now > sess_ExpiredAt s"

definition Session_Revoke :: "time \<Rightarrow> Session \<Rightarrow> Session" where
  "Session_Revoke now s = (if Session_IsRevoked s then s else s\<lparr>sess_RevokedAt := Some now\<rparr>)"

definition Session_isUseable :: "time \<Rightarrow> Session \<Rightarrow> gerror + unit" where
  "Session_isUseable now s =
     (if Session_IsRevoked s then Inl (DomainErr ErrSessionRevoked)
      else if Session_IsExpired now s then Inl (DomainErr ErrSessionExpired)
      else Inr ())"

definition Session_Rotate :: "string \<Rightarrow> time \<Rightarrow> Session \<Rightarrow> Session" where
  "Session_Rotate newRefreshTokenHash now s =
     s\<lparr>sess_RefreshTokenHash := newRefreshTokenHash, sess_LastSeenAt := now\<rparr>"

record Device =
  dev_ID :: int
  dev_UserID :: int
  dev_Fingerprint :: string
  dev_Label :: string
  dev_FirstSeenAt :: time
  dev_LastSeenAt :: time
  dev_RevokedAt :: "time option"
  dev_RevokedReason :: "string option"
  dev_Metadata :: json
  dev_CreatedAt :: time
  dev_UpdatedAt :: time

text \<open>The zero value \<^verbatim>\<open>entity.Device{}\<close>.\<close>

definition zeroDevice :: Device where
  "zeroDevice = \<lparr>dev_ID = 0, dev_UserID = 0, dev_Fingerprint = '''', dev_Label = '''',
     dev_FirstSeenAt = zeroTime, dev_LastSeenAt = zeroTime, dev_RevokedAt = None,
     dev_RevokedReason = None, dev_Metadata = JNull, dev_CreatedAt = zeroTime, dev_UpdatedAt = zeroTime\<rparr>"

definition Device_IsRevoked :: "Device \<Rightarrow> bool" where
  "Device_IsRevoked d \<longleftrightarrow> dev_RevokedAt d \<noteq> None"

definition Device_Revoke :: "time \<Rightarrow> Device \<Rightarrow> Device" where
  "Device_Revoke now d = (if Device_IsRevoked d then d else d\<lparr>dev_RevokedAt := Some now\<rparr>)"

definition Device_AssertOwnership :: "int \<Rightarrow> Device \<Rightarrow> gerror + unit" where
  "Device_AssertOwnership userID d =
     (if dev_UserID d \<noteq> userID then Inl (DomainErr ErrDeviceNotOwned) else Inr ())"

definition Device_UpdateLastSeen :: "time \<Rightarrow> Device \<Rightarrow> Device" where
  "Device_UpdateLastSeen now d = d\<lparr>dev_LastSeenAt := now\<rparr>"

record Address =
  addr_ID :: int
  addr_UserID :: int
  addr_RecipientName :: string
  addr_RecipientPhone :: string
  addr_Line1 :: string
  addr_Line2 :: string
  addr_Province :: string
  addr_District :: string
  addr_Ward :: string
  addr_PostalCode :: string
  addr_CountryCode :: string
  addr_IsDefault :: bool
  addr_Version :: int
  addr_CreatedAt :: time
  addr_UpdatedAt :: time

definition Address_AssertOwnership :: "int \<Rightarrow> Address \<Rightarrow> gerror + unit" where
  "Address_AssertOwnership userID a =
     (if addr_UserID a \<noteq> userID then Inl (DomainErr ErrAddressNotOwned) else Inr ())"

section \<open>Events\<close>

definition RegisterEvent :: string where "RegisterEvent = ''user.registered''"
definition LoginEvent :: string where "LoginEvent = ''user.login''"
definition LogoutEvent :: string where "LogoutEvent = ''user.logout''"
definition ResetPasswordRequestedEvent :: string where
  "ResetPasswordRequestedEvent = ''user.reset_password_requested''"
definition ResetPasswordCompletedEvent :: string where
  "ResetPasswordCompletedEvent = ''user.reset_password_completed''"

section \<open>Policies\<close>

record DevicePolicy =
  dp_MaxDevicesPerUser :: int
  dp_MaxSessionTTL :: int

definition NewDevicePolicy :: DevicePolicy where
  "NewDevicePolicy = \<lparr>dp_MaxDevicesPerUser = 5, dp_MaxSessionTTL = 30\<rparr>"

definition CanRegisterNewDevice :: "DevicePolicy \<Rightarrow> Device list \<Rightarrow> gerror + unit" where
  "CanRegisterNewDevice p activeDevices =
     (if int (length activeDevices) \<ge> dp_MaxDevicesPerUser p
      then Inl (DomainErr ErrDeviceLimitReached) else Inr ())"

record RegisterPolicy =
  rp_MinPassLength :: int
  rp_MaxPassLength :: int

definition NewRegisterPolicy :: RegisterPolicy where
  "NewRegisterPolicy = \<lparr>rp_MinPassLength = 8, rp_MaxPassLength = 72\<rparr>"

text \<open>The loop of \<^verbatim>\<open>ValidatePassword\<close> over the runes: the three flags.\<close>

fun scanPassword :: "env \<Rightarrow> nat list \<Rightarrow> bool \<times> bool \<times> bool \<Rightarrow> bool \<times> bool \<times> bool" where
  "scanPassword E [] flags = flags"
| "scanPassword E (r # rs) (hasUpper, hasLower, hasDigit) =
     scanPassword E rs
       (if IsUpper (env_isUpper E) r then (True, hasLower, hasDigit)
        else if IsLower (env_isLower E) r then (hasUpper, True, hasDigit)
        else if IsDigit (env_isDigit E) r then (hasUpper, hasLower, True)
        else (hasUpper, hasLower, hasDigit))"

definition ValidatePassword :: "env \<Rightarrow> RegisterPolicy \<Rightarrow> string \<Rightarrow> gerror + unit" where
  "ValidatePassword E p password =
     (let len = int (length password)
      in if len < rp_MinPassLength p \<or> len > rp_MaxPassLength p then Inl (DomainErr ErrPasswordTooWeak)
         else case scanPassword E (runes password) (False, False, False) of
           (hasUpper, hasLower, hasDigit) \<Rightarrow>
             if \<not> hasUpper \<or> \<not> hasLower \<or> \<not> hasDigit then Inl (DomainErr ErrPasswordTooWeak) else Inr ())"

definition ValidateRegistration :: "env \<Rightarrow> RegisterPolicy \<Rightarrow> Email \<Rightarrow> string \<Rightarrow> gerror + unit" where
  "ValidateRegistration E p email password =
     (if Email_IsZero email
      then Inl (DomainErr (NewDomainError ''IDENTITY_EMAIL_REQUIRED'' ''email is required''))
      else ValidatePassword E p password)"

definition ProvideRegisterPolicy :: RegisterPolicy where
  "ProvideRegisterPolicy = NewRegisterPolicy"

definition ProvideDevicePolicy :: DevicePolicy where
  "ProvideDevicePolicy = NewDevicePolicy"

section \<open>Facts\<close>

text \<open>
  The three flags of the password loop: a flag is set iff it was set before or some rune falls
  into its case of the switch.
\<close>

lemma scanPassword_flags:
  "scanPassword E rs (u, l, d) =
     (u \<or> (\<exists>r \<in> set rs. IsUpper (env_isUpper E) r),
      l \<or> (\<exists>r \<in> set rs. \<not> IsUpper (env_isUpper E) r \<and> IsLower (env_isLower E) r),
      d \<or> (\<exists>r \<in> set rs. \<not> IsUpper (env_isUpper E) r \<and> \<not> IsLower (env_isLower E) r
                 \<and> IsDigit (env_isDigit E) r))"
  by (induction rs arbitrary: u l d) auto

text \<open>
  \<open>ValidatePassword\<close> accepts a password iff its length in bytes is within the policy's bounds
  and it has an upper-case rune, a lower-case rune and a digit; every refusal is
  \<open>ErrPasswordTooWeak\<close>.
\<close>

theorem ValidatePassword_iff:
  "ValidatePassword E p pw =
     (if rp_MinPassLength p \<le> int (length pw) \<and> int (length pw) \<le> rp_MaxPassLength p
         \<and> (\<exists>r \<in> set (runes pw). IsUpper (env_isUpper E) r)
         \<and> (\<exists>r \<in> set (runes pw). \<not> IsUpper (env_isUpper E) r \<and> IsLower (env_isLower E) r)
         \<and> (\<exists>r \<in> set (runes pw). \<not> IsUpper (env_isUpper E) r \<and> \<not> IsLower (env_isLower E) r
                 \<and> IsDigit (env_isDigit E) r)
      then Inr () else Inl (DomainErr ErrPasswordTooWeak))"
  by (auto simp: ValidatePassword_def Let_def scanPassword_flags)

text \<open>What \<open>NewEmail\<close> returns is trimmed, within 255 bytes and accepted by the address parser.\<close>

lemma NewEmail_InrD:
  "NewEmail E raw = Inr e \<Longrightarrow>
     env_parseAddress E (email_value e) \<and> length (email_value e) \<le> 255
     \<and> email_value e = ToLower (env_toLower E) (TrimSpace raw)"
  by (auto simp: NewEmail_def Let_def split: if_splits)

end
