(* ===== verification/World.thy ===== *)
theory World
  imports Domain
begin

text \<open>
  The state the program acts on: the database tables (the row structs of
  \<^verbatim>\<open>internal/modules/identity/infra/postgres/rows.go\<close>, the outbox and the processed events, with the
  constraints of the migrations), the open transaction, the Redis keyspace, the Kafka log and the
  background jobs; the request context; and the primitive interactions: reading the clock, drawing
  random bytes, sending a Redis command, running a statement.
\<close>

section \<open>Rows\<close>

record userRow =
  ur_ID :: int
  ur_Email :: string
  ur_FullName :: string
  ur_Phone :: "string option"
  ur_UserType :: string
  ur_Status :: string
  ur_EmailVerifiedAt :: "time option"
  ur_LastLoginAt :: "time option"
  ur_LockedReason :: "string option"
  ur_Metadata :: json
  ur_Version :: int
  ur_CreatedAt :: time
  ur_UpdatedAt :: time

record sessionRow =
  sr_ID :: int
  sr_UserID :: int
  sr_DeviceID :: int
  sr_RefreshTokenHash :: string
  sr_SessionStatus :: string
  sr_ExpiredAt :: time
  sr_IPAddress :: "string option"
  sr_UserAgent :: string
  sr_LastSeenAt :: time
  sr_RevokedAt :: "time option"
  sr_RevokedReason :: "string option"
  sr_CreatedAt :: time
  sr_UpdatedAt :: time

record deviceRow =
  dr_ID :: int
  dr_UserID :: int
  dr_Fingerprint :: string
  dr_Label :: string
  dr_FirstSeenAt :: time
  dr_LastSeenAt :: time
  dr_RevokedAt :: "time option"
  dr_RevokedReason :: "string option"
  dr_Metadata :: json
  dr_CreatedAt :: time
  dr_UpdatedAt :: time

record addressRow =
  ar_ID :: int
  ar_UserID :: int
  ar_RecipientName :: string
  ar_RecipientPhone :: string
  ar_Line1 :: string
  ar_Line2 :: string
  ar_Province :: string
  ar_District :: string
  ar_Ward :: string
  ar_PostalCode :: string
  ar_CountryCode :: string
  ar_IsDefault :: bool
  ar_Version :: int
  ar_CreatedAt :: time
  ar_UpdatedAt :: time

record credentialRow =
  cr_UserID :: int
  cr_PasswordHash :: string
  cr_PasswordAlgo :: string
  cr_PasswordChangedAt :: time
  cr_FailedLoginCount :: int
  cr_LastFailedLoginAt :: "time option"

text \<open>A row of \<^verbatim>\<open>outbox_events\<close> is an \<^verbatim>\<open>OutboxEvent\<close> (\<^verbatim>\<open>internal/platform/outbox/model.go\<close>).\<close>

record OutboxEvent =
  oe_ID :: int
  oe_Topic :: string
  oe_EventKey :: string
  oe_AggregateType :: string
  oe_AggregateID :: "string option"
  oe_EventType :: string
  oe_Payload :: json
  oe_Metadata :: json
  oe_State :: string
  oe_CreatedAt :: time
  oe_PublishedAt :: "time option"
  oe_LastError :: "string option"

record processedEvent =
  pe_ConsumerName :: string
  pe_EventID :: string
  pe_ProcessedAt :: time
  pe_Metadata :: json

section \<open>The database\<close>

text \<open>
  The counters behind the BIGSERIAL columns. A rollback does not take them back.
\<close>

record sequences =
  seq_users :: int
  seq_devices :: int
  seq_sessions :: int
  seq_addresses :: int
  seq_outbox :: int

record db =
  t_users :: "userRow list"
  t_credentials :: "credentialRow list"
  t_devices :: "deviceRow list"
  t_sessions :: "sessionRow list"
  t_addresses :: "addressRow list"
  t_outbox :: "OutboxEvent list"
  t_processed :: "processedEvent list"
  db_seq :: sequences

text \<open>The counters never go back: after a rollback they are at least what either side had.\<close>

definition seq_max :: "sequences \<Rightarrow> sequences \<Rightarrow> sequences" where
  "seq_max s s' = \<lparr>seq_users = max (seq_users s) (seq_users s'), seq_devices = max (seq_devices s) (seq_devices s'),
     seq_sessions = max (seq_sessions s) (seq_sessions s'), seq_addresses = max (seq_addresses s) (seq_addresses s'),
     seq_outbox = max (seq_outbox s) (seq_outbox s')\<rparr>"

text \<open>Two databases with the same tables (the counters may differ).\<close>

definition same_tables :: "db \<Rightarrow> db \<Rightarrow> bool" where
  "same_tables d d' \<longleftrightarrow> d'\<lparr>db_seq := db_seq d\<rparr> = d"

lemma same_tables_refl [simp]: "same_tables d d"
  by (simp add: same_tables_def)

lemma same_tables_iff:
  "same_tables d d' \<longleftrightarrow>
     t_users d' = t_users d \<and> t_credentials d' = t_credentials d \<and> t_devices d' = t_devices d
     \<and> t_sessions d' = t_sessions d \<and> t_addresses d' = t_addresses d
     \<and> t_outbox d' = t_outbox d \<and> t_processed d' = t_processed d"
  by (cases d; cases d') (auto simp: same_tables_def)

lemma same_tables_trans: "same_tables a b \<Longrightarrow> same_tables b c \<Longrightarrow> same_tables a c"
  by (simp add: same_tables_iff)

lemma same_tables_seq [simp]: "same_tables d (d\<lparr>db_seq := s\<rparr>)"
  by (simp add: same_tables_iff)

section \<open>World and context\<close>

text \<open>
  \<open>w_pool\<close> is the committed database, \<open>w_tx\<close> the view of the open transaction. \<open>w_bg\<close> are the
  goroutines started and not yet run: the repository starts one kind, which stores a session in
  the cache.
\<close>

datatype bgJob = BgStoreSession string Session duration

record world =
  w_n :: nat
  w_pool :: db
  w_tx :: "db option"
  w_redis :: keyspace
  w_kafka :: "kafkaMessage list"
  w_bg :: "bgJob list"

type_synonym 'a io = "(world, gerror, 'a) prog"

text \<open>
  The values a \<^verbatim>\<open>context.Context\<close> carries: an open transaction (\<^verbatim>\<open>internal/platform/tx\<close>), the idempotency
  key and the request id (\<^verbatim>\<open>internal/platform/idempotency/key.go\<close>).
\<close>

record ctx =
  ctx_tx :: bool
  ctx_idempotencyKey :: "string option"
  ctx_requestId :: "string option"

definition Background :: ctx where
  "Background = \<lparr>ctx_tx = False, ctx_idempotencyKey = None, ctx_requestId = None\<rparr>"

section \<open>Primitive interactions\<close>

definition Now :: "env \<Rightarrow> time io" where
  "Now E w = (Inr (env_now E (w_n w)), w\<lparr>w_n := Suc (w_n w)\<rparr>)"

definition RandRead :: "env \<Rightarrow> string io" where
  "RandRead E w = (env_rand E (w_n w), w\<lparr>w_n := Suc (w_n w)\<rparr>)"

definition NewUUID :: "env \<Rightarrow> string io" where
  "NewUUID E w = (Inr (env_uuid E (w_n w)), w\<lparr>w_n := Suc (w_n w)\<rparr>)"

text \<open>Sleeping lets the clock advance.\<close>

definition Sleep :: "duration \<Rightarrow> unit io" where
  "Sleep d w = (Inr (), w\<lparr>w_n := Suc (w_n w)\<rparr>)"

text \<open>
  A synchronous write of messages to Kafka: what reached the log, and the error of the call.
\<close>

definition WriteMessages :: "env \<Rightarrow> kafkaMessage list \<Rightarrow> unit io" where
  "WriteMessages E ms w =
     (case env_kafkaWrite E (w_n w) ms of
        (written, err) \<Rightarrow>
          ((case err of None \<Rightarrow> Inr () | Some e \<Rightarrow> Inl e),
           w\<lparr>w_n := Suc (w_n w), w_kafka := w_kafka w @ written\<rparr>))"

text \<open>A Redis command: an error reply is the error of the Go call.\<close>

definition redis :: "env \<Rightarrow> rcmd \<Rightarrow> rreply io" where
  "redis E cmd w =
     (case env_redis E (w_n w) cmd (w_redis w) of
        (r, ks) \<Rightarrow> ((case r of RErr e \<Rightarrow> Inl e | _ \<Rightarrow> Inr r), w\<lparr>w_n := Suc (w_n w), w_redis := ks\<rparr>))"

text \<open>
  The result accessors of go-redis: a nil reply is the error \<^verbatim>\<open>redis.Nil\<close>, a reply of another type
  than the command's is an error.
\<close>

definition badReply :: gerror where
  "badReply = External ''redis: unexpected reply type''"

definition redisBool :: "env \<Rightarrow> rcmd \<Rightarrow> bool io" where
  "redisBool E cmd = andThen (redis E cmd) (\<lambda>r. case r of RBool b \<Rightarrow> ok b | _ \<Rightarrow> fail badReply)"

definition redisVal :: "env \<Rightarrow> rcmd \<Rightarrow> rvalue io" where
  "redisVal E cmd = andThen (redis E cmd) (\<lambda>r. case r of RVal v \<Rightarrow> ok v | RNil \<Rightarrow> fail RedisNil | _ \<Rightarrow> fail badReply)"

definition redisInt :: "env \<Rightarrow> rcmd \<Rightarrow> int io" where
  "redisInt E cmd = andThen (redis E cmd) (\<lambda>r. case r of RInt i \<Rightarrow> ok i | _ \<Rightarrow> fail badReply)"

definition redisDur :: "env \<Rightarrow> rcmd \<Rightarrow> duration io" where
  "redisDur E cmd = andThen (redis E cmd) (\<lambda>r. case r of RDur d \<Rightarrow> ok d | _ \<Rightarrow> fail badReply)"

text \<open>\<^verbatim>\<open>.Err()\<close>: only whether the command failed.\<close>

definition redisErr :: "env \<Rightarrow> rcmd \<Rightarrow> unit io" where
  "redisErr E cmd = andThen (redis E cmd) (\<lambda>_. ok ())"

lemmas redis_results = redisBool_def redisVal_def redisInt_def redisDur_def redisErr_def

text \<open>
  A statement reads the server's clock and a database and gives an error (nothing changes) or a
  result and the database after it. It runs on the open transaction when the context carries one
  and on the pool otherwise (\<^verbatim>\<open>GetExecutor\<close> in \<^verbatim>\<open>internal/platform/tx/context.go\<close>).
\<close>

type_synonym 'a stmt = "time \<Rightarrow> db \<Rightarrow> gerror + ('a \<times> db)"

definition GetExecutor :: "ctx \<Rightarrow> world \<Rightarrow> db option" where
  "GetExecutor c w = (if ctx_tx c then w_tx w else Some (w_pool w))"

definition putExecutor :: "ctx \<Rightarrow> db \<Rightarrow> world \<Rightarrow> world" where
  "putExecutor c d w = (if ctx_tx c then w\<lparr>w_tx := Some d\<rparr> else w\<lparr>w_pool := d\<rparr>)"

definition pg :: "env \<Rightarrow> ctx \<Rightarrow> 'a stmt \<Rightarrow> 'a io" where
  "pg E c stmt w =
     (let n = w_n w; w1 = w\<lparr>w_n := Suc n\<rparr>
      in case GetExecutor c w of
           None \<Rightarrow> (Inl PgxErrTxClosed, w1)
         | Some d \<Rightarrow>
            (case env_pg E n of
               FailBefore e \<Rightarrow> (Inl e, w1)
             | NoFault \<Rightarrow>
                (case stmt (env_now E n) d of
                   Inl e \<Rightarrow> (Inl e, w1)
                 | Inr (x, d') \<Rightarrow> (Inr x, putExecutor c d' w1))
             | FailAfter e \<Rightarrow>
                (case stmt (env_now E n) d of
                   Inl e' \<Rightarrow> (Inl e', w1)
                 | Inr (x, d') \<Rightarrow> (Inl e, putExecutor c d' w1))))"

section \<open>Properties of the primitive interactions\<close>

lemma Now_run [simp]: "Now E w = (Inr (env_now E (w_n w)), w\<lparr>w_n := Suc (w_n w)\<rparr>)"
  by (simp add: Now_def)

lemma NewUUID_run [simp]: "NewUUID E w = (Inr (env_uuid E (w_n w)), w\<lparr>w_n := Suc (w_n w)\<rparr>)"
  by (simp add: NewUUID_def)

text \<open>
  An invariant of databases, lifted to worlds: it holds of the pool and of the open transaction.
\<close>

definition on_dbs :: "(db \<Rightarrow> bool) \<Rightarrow> world \<Rightarrow> bool" where
  "on_dbs P w \<longleftrightarrow> P (w_pool w) \<and> (\<forall>d. w_tx w = Some d \<longrightarrow> P d)"

definition stmt_preserves :: "(db \<Rightarrow> bool) \<Rightarrow> 'a stmt \<Rightarrow> bool" where
  "stmt_preserves P s \<longleftrightarrow> (\<forall>t d x d'. P d \<longrightarrow> s t d = Inr (x, d') \<longrightarrow> P d')"

lemma stmt_preservesD: "stmt_preserves P s \<Longrightarrow> P d \<Longrightarrow> s t d = Inr (x, d') \<Longrightarrow> P d'"
  by (auto simp: stmt_preserves_def)

lemma stmt_preservesI:
  "(\<And>t d x d'. P d \<Longrightarrow> s t d = Inr (x, d') \<Longrightarrow> P d') \<Longrightarrow> stmt_preserves P s"
  by (auto simp: stmt_preserves_def)

lemma preserves_on_dbs_irrelevant:
  "(\<And>w. w_pool (snd (m w)) = w_pool w \<and> w_tx (snd (m w)) = w_tx w) \<Longrightarrow> preserves (on_dbs P) m"
  by (auto simp: preserves_def on_dbs_def)

lemma preserves_Now [pres]: "preserves (on_dbs P) (Now E)"
  by (rule preserves_on_dbs_irrelevant) simp

lemma preserves_RandRead [pres]: "preserves (on_dbs P) (RandRead E)"
  by (rule preserves_on_dbs_irrelevant) (simp add: RandRead_def)

lemma preserves_NewUUID [pres]: "preserves (on_dbs P) (NewUUID E)"
  by (rule preserves_on_dbs_irrelevant) simp

lemma preserves_Sleep [pres]: "preserves (on_dbs P) (Sleep d)"
  by (rule preserves_on_dbs_irrelevant) (simp add: Sleep_def)

lemma preserves_WriteMessages [pres]: "preserves (on_dbs P) (WriteMessages E ms)"
  by (rule preserves_on_dbs_irrelevant) (simp add: WriteMessages_def split: prod.splits)

lemma preserves_redis [pres]: "preserves (on_dbs P) (redis E cmd)"
  by (rule preserves_on_dbs_irrelevant) (simp add: redis_def split: prod.splits)

lemma preserves_redis_results [pres]:
  "preserves (on_dbs P) (redisBool E cmd)" "preserves (on_dbs P) (redisVal E cmd)"
  "preserves (on_dbs P) (redisInt E cmd)" "preserves (on_dbs P) (redisDur E cmd)"
  "preserves (on_dbs P) (redisErr E cmd)"
  unfolding redis_results
  by (auto intro!: preserves_on_dbs_irrelevant
      simp: andThen_def redis_def ok_def fail_def split: prod.splits sum.splits rreply.splits)

text \<open>
  A documented server: a command that does not fail has its documented reply and effect.
\<close>

lemma redis_InrE:
  assumes "redis_documented E" and "redis E cmd w = (Inr r, w')"
  obtains ks where "redis_ref (env_now E (w_n w)) cmd (w_redis w) = (r, ks)"
    and "w' = w\<lparr>w_n := Suc (w_n w), w_redis := ks\<rparr>"
proof -
  obtain r0 ks where e: "env_redis E (w_n w) cmd (w_redis w) = (r0, ks)" by fastforce
  then have "\<forall>x. r0 \<noteq> RErr x" and "r = r0" and w': "w' = w\<lparr>w_n := Suc (w_n w), w_redis := ks\<rparr>"
    using assms(2) by (auto simp: redis_def split: rreply.splits)
  moreover have "env_redis E (w_n w) cmd (w_redis w) = redis_ref (env_now E (w_n w)) cmd (w_redis w)"
    using assms(1) e \<open>\<forall>x. r0 \<noteq> RErr x\<close> unfolding redis_documented_def by (metis prod.inject)
  ultimately have "redis_ref (env_now E (w_n w)) cmd (w_redis w) = (r, ks)" using e by simp
  then show ?thesis using w' by (rule that)
qed

lemma world_redis_id [simp]: "w\<lparr>w_n := n, w_redis := w_redis w\<rparr> = w\<lparr>w_n := n\<rparr>"
  by (cases w) simp

lemma redis_up_run:
  assumes "redis_up E"
  shows "redis E cmd w =
     (case redis_ref (env_now E (w_n w)) cmd (w_redis w) of
        (r, ks) \<Rightarrow> ((case r of RErr e \<Rightarrow> Inl e | _ \<Rightarrow> Inr r), w\<lparr>w_n := Suc (w_n w), w_redis := ks\<rparr>))"
  using assms by (simp add: redis_def redis_up_def)

lemma preserves_pg:
  assumes "stmt_preserves P s"
  shows "preserves (on_dbs P) (pg E c s)"
  using stmt_preservesD [OF assms]
  by (auto simp: preserves_def on_dbs_def pg_def Let_def GetExecutor_def putExecutor_def
      split: option.splits pgFault.splits sum.splits)

text \<open>A query leaves the database as it is.\<close>

definition query :: "(time \<Rightarrow> db \<Rightarrow> gerror + 'a) \<Rightarrow> 'a stmt" where
  "query f t d = (case f t d of Inl e \<Rightarrow> Inl e | Inr x \<Rightarrow> Inr (x, d))"

lemma query_InrD: "query f t d = Inr (x, d') \<Longrightarrow> d' = d \<and> f t d = Inr x"
  by (auto simp: query_def split: sum.splits)

lemma stmt_preserves_query [pres]: "stmt_preserves P (query f)"
  by (auto simp: stmt_preserves_def dest: query_InrD)

text \<open>Running a statement with no failure of the connection.\<close>

lemma pg_pool:
  assumes "env_pg E (w_n w) = NoFault" and "\<not> ctx_tx c"
  shows "pg E c s w =
     (case s (env_now E (w_n w)) (w_pool w) of
        Inl e \<Rightarrow> (Inl e, w\<lparr>w_n := Suc (w_n w)\<rparr>)
      | Inr (x, d') \<Rightarrow> (Inr x, w\<lparr>w_n := Suc (w_n w), w_pool := d'\<rparr>))"
  using assms by (auto simp: pg_def Let_def GetExecutor_def putExecutor_def split: sum.splits)

lemma pg_tx:
  assumes "env_pg E (w_n w) = NoFault" and "ctx_tx c" and "w_tx w = Some d"
  shows "pg E c s w =
     (case s (env_now E (w_n w)) d of
        Inl e \<Rightarrow> (Inl e, w\<lparr>w_n := Suc (w_n w)\<rparr>)
      | Inr (x, d') \<Rightarrow> (Inr x, w\<lparr>w_n := Suc (w_n w), w_tx := Some d'\<rparr>))"
  using assms by (auto simp: pg_def Let_def GetExecutor_def putExecutor_def split: sum.splits)

text \<open>
  A successful statement, whatever the connection did: the statement succeeded on the executor's
  database.
\<close>

lemma pg_InrD:
  assumes "pg E c s w = (Inr x, w')"
  shows "\<exists>d d'. GetExecutor c w = Some d \<and> s (env_now E (w_n w)) d = Inr (x, d')
     \<and> w' = putExecutor c d' (w\<lparr>w_n := Suc (w_n w)\<rparr>)"
  using assms by (auto simp: pg_def Let_def split: option.splits pgFault.splits sum.splits)

text \<open>
  A statement inside a transaction changes nothing but the transaction's view and the
  interaction counter; a statement outside changes nothing but the pool and the counter.
\<close>

lemma pg_tx_frame:
  "ctx_tx c \<Longrightarrow> \<exists>t'. snd (pg E c s w) = w\<lparr>w_n := Suc (w_n w), w_tx := t'\<rparr> \<and> (w_tx w = None \<longrightarrow> t' = None)"
  by (auto simp: pg_def Let_def GetExecutor_def putExecutor_def
      split: option.splits pgFault.splits sum.splits)
    (metis surjective_pairing world.surjective world.update_convs)+

lemma pg_pool_InrD:
  assumes "\<not> ctx_tx c" and "pg E c s w = (Inr x, w')"
  shows "\<exists>d'. s (env_now E (w_n w)) (w_pool w) = Inr (x, d') \<and> w' = w\<lparr>w_n := Suc (w_n w), w_pool := d'\<rparr>"
  using pg_InrD [OF assms(2)] assms(1) by (auto simp: GetExecutor_def putExecutor_def)

lemma pg_tx_InrD:
  assumes "ctx_tx c" and "w_tx w = Some d" and "pg E c s w = (Inr x, w')"
  shows "\<exists>d'. s (env_now E (w_n w)) d = Inr (x, d') \<and> w' = w\<lparr>w_n := Suc (w_n w), w_tx := Some d'\<rparr>"
  using pg_InrD [OF assms(3)] assms(1,2) by (auto simp: GetExecutor_def putExecutor_def)

lemma world_pool_id [simp]: "w\<lparr>w_n := n, w_pool := w_pool w\<rparr> = w\<lparr>w_n := n\<rparr>"
  by (cases w) simp

lemma world_tx_id: "w_tx w = t \<Longrightarrow> w\<lparr>w_n := n, w_tx := t\<rparr> = w\<lparr>w_n := n\<rparr>"
  by (cases w) simp

text \<open>A query, whatever its outcome, only takes one interaction.\<close>

lemma pg_query_world: "pg E c (query f) w = (r, w') \<Longrightarrow> w' = w\<lparr>w_n := Suc (w_n w)\<rparr>"
  by (auto simp: pg_def Let_def GetExecutor_def putExecutor_def query_def world_tx_id
      split: option.splits pgFault.splits sum.splits if_splits)

lemma pg_query_InrD:
  "pg E c (query f) w = (Inr x, w') \<Longrightarrow>
     \<exists>d. GetExecutor c w = Some d \<and> f (env_now E (w_n w)) d = Inr x \<and> w' = w\<lparr>w_n := Suc (w_n w)\<rparr>"
  by (frule pg_query_world) (drule pg_InrD, auto dest: query_InrD)

subsection \<open>Programs that only read\<close>

text \<open>\<open>still w0\<close>: nothing but the count of interactions differs from \<open>w0\<close>.\<close>

definition still :: "world \<Rightarrow> world \<Rightarrow> bool" where
  "still w0 w \<longleftrightarrow> w = w0\<lparr>w_n := w_n w\<rparr>"

lemma still_refl [simp]: "still w w"
  by (simp add: still_def)

lemma still_fields:
  "still w0 w \<Longrightarrow> w_pool w = w_pool w0 \<and> w_tx w = w_tx w0 \<and> w_redis w = w_redis w0 \<and> w_kafka w = w_kafka w0 \<and> w_bg w = w_bg w0"
proof -
  assume "still w0 w"
  then obtain n where "w = w0\<lparr>w_n := n\<rparr>" unfolding still_def ..
  then show ?thesis by simp
qed

lemma still_tick [simp]: "still w0 (w\<lparr>w_n := n\<rparr>) \<longleftrightarrow> still w0 w"
  by (cases w; cases w0) (auto simp: still_def)

lemma still_preserves: "preserves (still w) m \<Longrightarrow> m w = (r, w') \<Longrightarrow> still w w'"
  by (erule preservesD) simp_all

lemma still_basic [pres]:
  "preserves (still w0) (Now E)" "preserves (still w0) (NewUUID E)" "preserves (still w0) (RandRead E)"
  by (simp_all add: preserves_def RandRead_def)

lemma still_query [pres]: "preserves (still w0) (pg E c (query f))"
  by (rule preservesI) (metis pg_query_world still_tick surjective_pairing)

subsection \<open>The count of interactions grows\<close>

definition later :: "nat \<Rightarrow> world \<Rightarrow> bool" where
  "later n w \<longleftrightarrow> n \<le> w_n w"

lemma later_preserves: "(\<And>n. preserves (later n) m) \<Longrightarrow> m w = (r, w') \<Longrightarrow> w_n w \<le> w_n w'"
  unfolding preserves_def later_def by (metis order_refl snd_conv)

lemma later_basic [pres]:
  "preserves (later n) (Now E)" "preserves (later n) (NewUUID E)" "preserves (later n) (RandRead E)"
  by (simp_all add: preserves_def later_def RandRead_def)

lemma later_redis [pres]: "preserves (later n) (redis E cmd)"
  by (auto simp: preserves_def later_def redis_def split: prod.splits)

lemma later_redis_results [pres]:
  "preserves (later n) (redisBool E cmd)" "preserves (later n) (redisVal E cmd)"
  "preserves (later n) (redisInt E cmd)" "preserves (later n) (redisDur E cmd)"
  "preserves (later n) (redisErr E cmd)"
proof -
  have "preserves (later n) (case r of RBool b \<Rightarrow> ok b | _ \<Rightarrow> fail badReply)"
    "preserves (later n) (case r of RVal v \<Rightarrow> ok v | RNil \<Rightarrow> fail RedisNil | _ \<Rightarrow> fail badReply)"
    "preserves (later n) (case r of RInt i \<Rightarrow> ok i | _ \<Rightarrow> fail badReply)"
    "preserves (later n) (case r of RDur d \<Rightarrow> ok d | _ \<Rightarrow> fail badReply)" for r
    by (cases r; simp add: preserves_ok preserves_fail)+
  then show "preserves (later n) (redisBool E cmd)" "preserves (later n) (redisVal E cmd)"
    "preserves (later n) (redisInt E cmd)" "preserves (later n) (redisDur E cmd)"
    "preserves (later n) (redisErr E cmd)"
    unfolding redis_results by (intro preserves_andThen later_redis preserves_ok | simp)+
qed

lemma later_pg [pres]: "preserves (later n) (pg E c s)"
  by (auto simp: preserves_def later_def pg_def Let_def putExecutor_def
      split: option.splits pgFault.splits sum.splits)

end
