(* ===== verification/Tx.thy ===== *)
theory Tx
  imports World
begin

text \<open>
  The transaction manager (\<^verbatim>\<open>internal/platform/tx\<close>): contexts that carry a transaction, and
  \<open>WithinTransaction\<close> with its nested call, its rollback and its commit. The interface
  \<^verbatim>\<open>TxManager\<close> the services depend on is the locale \<open>tx_manager\<close>, whose law is atomicity; the
  manager of the source is its interpretation \<open>tm\<close>.
\<close>

section \<open>Operations\<close>

text \<open>\<^verbatim>\<open>Manager\<close>: only whether its pool is nil matters to the code.\<close>

record Manager =
  mgr_pool :: bool

definition NewPoolManager :: "bool \<Rightarrow> Manager" where
  "NewPoolManager pool = \<lparr>mgr_pool = pool\<rparr>"

definition WithTx :: "ctx \<Rightarrow> ctx" where
  "WithTx c = c\<lparr>ctx_tx := True\<rparr>"

definition ExtractTx :: "ctx \<Rightarrow> bool" where
  "ExtractTx c = ctx_tx c"

text \<open>The end of a transaction without commit: its view is dropped, the counters stay.\<close>

definition discardTx :: "world \<Rightarrow> world" where
  "discardTx w = w\<lparr>w_pool := (case w_tx w of None \<Rightarrow> w_pool w | Some d \<Rightarrow> (w_pool w)\<lparr>db_seq := seq_max (db_seq (w_pool w)) (db_seq d)\<rparr>),
     w_tx := None\<rparr>"

definition keepTx :: "world \<Rightarrow> world" where
  "keepTx w = w\<lparr>w_pool := (case w_tx w of None \<Rightarrow> w_pool w | Some d \<Rightarrow> d), w_tx := None\<rparr>"

definition beginTx :: "env \<Rightarrow> unit io" where
  "beginTx E w = (let n = w_n w; w1 = w\<lparr>w_n := Suc n\<rparr> in case env_pg E n of
       NoFault \<Rightarrow> (Inr (), w1\<lparr>w_tx := Some (w_pool w)\<rparr>)
     | FailBefore e \<Rightarrow> (Inl e, w1)
     | FailAfter e \<Rightarrow> (Inl e, w1))"

definition rollbackTx :: "env \<Rightarrow> unit io" where
  "rollbackTx E w = (let n = w_n w; w1 = discardTx (w\<lparr>w_n := Suc n\<rparr>) in case env_pg E n of
       NoFault \<Rightarrow> (Inr (), w1)
     | FailBefore e \<Rightarrow> (Inl e, w1)
     | FailAfter e \<Rightarrow> (Inl e, w1))"

definition commitTx :: "env \<Rightarrow> unit io" where
  "commitTx E w = (let n = w_n w; w1 = w\<lparr>w_n := Suc n\<rparr> in case env_pg E n of
       NoFault \<Rightarrow> (Inr (), keepTx w1)
     | FailBefore e \<Rightarrow> (Inl e, discardTx w1)
     | FailAfter e \<Rightarrow> (Inl e, keepTx w1))"

text \<open>
  What the callback assigns to the variables it captures is its result: the caller reads them
  only when the call returned no error.
\<close>

definition WithinTransaction :: "env \<Rightarrow> Manager \<Rightarrow> ctx \<Rightarrow> (ctx \<Rightarrow> 'a io) option \<Rightarrow> 'a io" where
  "WithinTransaction E m c fn =
     (case fn of
        None \<Rightarrow> fail TxErrNilCallback
      | Some f \<Rightarrow>
         if \<not> mgr_pool m then fail TxErrNilPool
         else if ExtractTx c then f c
         else
           andThen (beginTx E) (\<lambda>_.
           andThen (attempt (f (WithTx c))) (\<lambda>outcome.
           (case outcome of
              Inl err \<Rightarrow>
                andThen (attempt (rollbackTx E)) (\<lambda>rb.
                (case rb of
                   Inl rbErr \<Rightarrow>
                     if \<not> errorsIs rbErr PgxErrTxClosed
                     then fail (Wrapf '''' TxErrRollbackFailed
                            ('': '' @ errorText rbErr @ ''; original error: '' @ errorText err))
                     else fail err
                 | Inr _ \<Rightarrow> fail err))
            | Inr x \<Rightarrow>
                andThen (mapErr (\<lambda>e. Wrapf '''' TxErrCommitFailed ('': '' @ errorText e)) (commitTx E)) (\<lambda>_. ok x)))))"

section \<open>Callbacks that stay inside the transaction\<close>

text \<open>
  While a callback runs, the pool stays as it was and the transaction stays open.
\<close>

definition tx_open :: "db \<Rightarrow> world \<Rightarrow> bool" where
  "tx_open p w \<longleftrightarrow> w_pool w = p \<and> w_tx w \<noteq> None"

definition tx_local :: "'a io \<Rightarrow> bool" where
  "tx_local m \<longleftrightarrow> (\<forall>p. preserves (tx_open p) m)"

lemma tx_localI: "(\<And>p. preserves (tx_open p) m) \<Longrightarrow> tx_local m"
  by (simp add: tx_local_def)

lemma preserves_tx_open_irrelevant:
  "(\<And>w. w_pool (snd (m w)) = w_pool w \<and> w_tx (snd (m w)) = w_tx w) \<Longrightarrow> preserves (tx_open p) m"
  by (auto simp: preserves_def tx_open_def)

lemma tx_open_Now [pres]: "preserves (tx_open p) (Now E)"
  by (rule preserves_tx_open_irrelevant) simp

lemma tx_open_NewUUID [pres]: "preserves (tx_open p) (NewUUID E)"
  by (rule preserves_tx_open_irrelevant) simp

lemma tx_open_RandRead [pres]: "preserves (tx_open p) (RandRead E)"
  by (rule preserves_tx_open_irrelevant) (simp add: RandRead_def)

lemma tx_open_redis [pres]: "preserves (tx_open p) (redis E cmd)"
  by (rule preserves_tx_open_irrelevant) (simp add: redis_def split: prod.splits)

lemma tx_open_redis_results [pres]:
  "preserves (tx_open p) (redisBool E cmd)" "preserves (tx_open p) (redisVal E cmd)"
  "preserves (tx_open p) (redisInt E cmd)" "preserves (tx_open p) (redisDur E cmd)"
  "preserves (tx_open p) (redisErr E cmd)"
  unfolding redis_results
  by (auto intro!: preserves_tx_open_irrelevant
      simp: andThen_def redis_def ok_def fail_def split: prod.splits sum.splits rreply.splits)

lemma tx_open_pg [pres]: "ctx_tx c \<Longrightarrow> preserves (tx_open p) (pg E c s)"
  by (auto simp: preserves_def tx_open_def pg_def Let_def GetExecutor_def putExecutor_def
      split: option.splits pgFault.splits sum.splits)

lemma ctx_tx_WithTx [simp]: "ctx_tx (WithTx c)"
  by (simp add: WithTx_def)

lemma WithTx_fields [simp]:
  "ctx_idempotencyKey (WithTx c) = ctx_idempotencyKey c" "ctx_requestId (WithTx c) = ctx_requestId c"
  by (simp_all add: WithTx_def)

section \<open>The interface TxManager\<close>

text \<open>
  The world in which the callback starts: one interaction later, with the transaction's view a
  copy of the pool.
\<close>

definition in_tx :: "world \<Rightarrow> world" where
  "in_tx w = w\<lparr>w_n := Suc (w_n w), w_tx := Some (w_pool w)\<rparr>"

text \<open>The outcome of a callback that completed, when its transaction was committed.\<close>

definition committed :: "world \<Rightarrow> world \<Rightarrow> bool" where
  "committed w3 w' \<longleftrightarrow> w_tx w3 = Some (w_pool w') \<and> w_redis w' = w_redis w3 \<and> w_kafka w' = w_kafka w3
     \<and> w_bg w' = w_bg w3"

locale tx_manager =
  fixes within :: "env \<Rightarrow> ctx \<Rightarrow> (ctx \<Rightarrow> 'a io) \<Rightarrow> 'a io"
  assumes within_atomic:
    "\<not> ctx_tx c \<Longrightarrow> w_tx w = None \<Longrightarrow> tx_local (f (WithTx c)) \<Longrightarrow> within E c f w = (r, w') \<Longrightarrow>
       w_tx w' = None \<and>
       (same_tables (w_pool w) (w_pool w') \<and> isl r \<or>
        (\<exists>x w3. f (WithTx c) (in_tx w) = (Inr x, w3) \<and> committed w3 w'
            \<and> (r = Inr x \<or> (\<exists>e. r = Inl e \<and> errorsIs e TxErrCommitFailed))))"
    and within_nested: "ctx_tx c \<Longrightarrow> within E c f = f c"
begin

text \<open>
  All or nothing: whatever a completed callback establishes between the database it starts from
  and its view is what a reader of the pool finds afterwards, or the tables are unchanged.
\<close>

lemma all_or_nothing:
  assumes "\<not> ctx_tx c" and "w_tx w = None" and "tx_local (f (WithTx c))"
    and run: "within E c f w = (r, w')"
    and post: "\<And>x w3 d. f (WithTx c) (in_tx w) = (Inr x, w3) \<Longrightarrow> w_tx w3 = Some d \<Longrightarrow> Q x (w_pool w) d"
  shows "same_tables (w_pool w) (w_pool w') \<and> isl r \<or>
     (\<exists>x. Q x (w_pool w) (w_pool w') \<and> (r = Inr x \<or> (\<exists>e. r = Inl e \<and> errorsIs e TxErrCommitFailed)))"
  using within_atomic [OF assms(1-4)] post unfolding committed_def by metis

text \<open>An error other than a failed commit leaves the tables as they were.\<close>

lemma error_unchanged:
  assumes "\<not> ctx_tx c" and "w_tx w = None" and "tx_local (f (WithTx c))"
    and run: "within E c f w = (Inl e, w')" and "\<not> errorsIs e TxErrCommitFailed"
  shows "same_tables (w_pool w) (w_pool w')"
  using within_atomic [OF assms(1-4)] assms(5) by auto

text \<open>A success is a committed run of the callback.\<close>

lemma success_committed:
  assumes "\<not> ctx_tx c" and "w_tx w = None" and "tx_local (f (WithTx c))"
    and run: "within E c f w = (Inr x, w')"
  shows "\<exists>w3. f (WithTx c) (in_tx w) = (Inr x, w3) \<and> committed w3 w' \<and> w_tx w' = None"
  using within_atomic [OF assms] by auto

end

section \<open>The manager of the source\<close>

text \<open>The manager the services are wired with has a pool.\<close>

definition txManager :: "env \<Rightarrow> ctx \<Rightarrow> (ctx \<Rightarrow> 'a io) \<Rightarrow> 'a io" where
  "txManager E c f = WithinTransaction E (NewPoolManager True) c (Some f)"

lemma same_tables_discardTx: "same_tables (w_pool w) (w_pool (discardTx w))"
  by (simp add: discardTx_def split: option.splits)

lemma w_tx_end [simp]: "w_tx (discardTx w) = None" "w_tx (keepTx w) = None"
  by (simp_all add: discardTx_def keepTx_def)

lemma rollbackTx_world:
  "rollbackTx E w = (r, w') \<Longrightarrow> w' = discardTx (w\<lparr>w_n := Suc (w_n w)\<rparr>)"
  by (auto simp: rollbackTx_def Let_def split: pgFault.splits)

lemma beginTx_Inr: "beginTx E w = (Inr x, w') \<Longrightarrow> w' = in_tx w"
  by (auto simp: beginTx_def Let_def in_tx_def split: pgFault.splits)

lemma beginTx_Inl: "beginTx E w = (Inl e, w') \<Longrightarrow> w' = w\<lparr>w_n := Suc (w_n w)\<rparr>"
  by (auto simp: beginTx_def Let_def split: pgFault.splits)

lemma commitTx_cases:
  "commitTx E w = (r, w') \<Longrightarrow>
     (\<exists>e. r = Inl e \<and> w' = discardTx (w\<lparr>w_n := Suc (w_n w)\<rparr>)) \<or> w' = keepTx (w\<lparr>w_n := Suc (w_n w)\<rparr>)"
  by (auto simp: commitTx_def Let_def split: pgFault.splits)

lemma tx_local_pool:
  assumes "tx_local m" and "w_tx w \<noteq> None" and "m w = (r, w')"
  shows "w_pool w' = w_pool w \<and> (\<exists>d. w_tx w' = Some d)"
proof -
  have "tx_open (w_pool w) w" using assms(2) by (simp add: tx_open_def)
  with assms(1,3) have "tx_open (w_pool w) w'"
    unfolding tx_local_def by (blast dest: preservesD)
  then show ?thesis by (auto simp: tx_open_def)
qed

text \<open>A callback that failed: whatever the rollback says, the tables are those of the start.\<close>

lemma WithinTransaction_callback_error:
  assumes "\<not> ctx_tx c" and f: "f (WithTx c) (in_tx w) = (Inl err, w3)"
    and "w_pool w3 = w_pool w" and "beginTx E w = (Inr (), in_tx w)"
    and run: "txManager E c f w = (r, w')"
  shows "w_tx w' = None \<and> same_tables (w_pool w) (w_pool w') \<and> isl r"
proof -
  obtain rb w4 where rb: "rollbackTx E w3 = (rb, w4)" by fastforce
  have w4: "w4 = discardTx (w3\<lparr>w_n := Suc (w_n w3)\<rparr>)" by (rule rollbackTx_world [OF rb])
  have "w' = w4 \<and> isl r"
    using run assms(1,4) f rb
    by (auto simp: txManager_def WithinTransaction_def NewPoolManager_def ExtractTx_def andThen_def
        attempt_def fail_def split: sum.splits if_splits)
  moreover have "same_tables (w_pool w) (w_pool w4)"
    using same_tables_discardTx [of "w3\<lparr>w_n := Suc (w_n w3)\<rparr>"] assms(3) by (simp add: w4)
  ultimately show ?thesis by (auto simp: w4)
qed

lemma WithinTransaction_callback_ok:
  assumes "\<not> ctx_tx c" and f: "f (WithTx c) (in_tx w) = (Inr x, w3)"
    and "w_pool w3 = w_pool w" and "w_tx w3 = Some d" and "beginTx E w = (Inr (), in_tx w)"
    and run: "txManager E c f w = (r, w')"
  shows "w_tx w' = None \<and> (same_tables (w_pool w) (w_pool w') \<and> isl r
     \<or> committed w3 w' \<and> (r = Inr x \<or> (\<exists>e. r = Inl e \<and> errorsIs e TxErrCommitFailed)))"
proof -
  obtain rc w4 where cm: "commitTx E w3 = (rc, w4)" by fastforce
  have rw: "w' = w4 \<and> r = (case rc of Inl e \<Rightarrow> Inl (Wrapf '''' TxErrCommitFailed ('': '' @ errorText e)) | Inr _ \<Rightarrow> Inr x)"
    using run assms(1,5) f cm
    by (auto simp: txManager_def WithinTransaction_def NewPoolManager_def ExtractTx_def andThen_def
        attempt_def mapErr_def ok_def split: sum.splits)
  from commitTx_cases [OF cm] show ?thesis
  proof (elim disjE exE conjE)
    fix e
    assume "rc = Inl e" and w4: "w4 = discardTx (w3\<lparr>w_n := Suc (w_n w3)\<rparr>)"
    moreover have "same_tables (w_pool w) (w_pool w4)"
      using same_tables_discardTx [of "w3\<lparr>w_n := Suc (w_n w3)\<rparr>"] assms(3) by (simp add: w4)
    ultimately show ?thesis using rw by auto
  next
    assume "w4 = keepTx (w3\<lparr>w_n := Suc (w_n w3)\<rparr>)"
    with rw assms(4) show ?thesis
      by (auto simp: keepTx_def committed_def split: sum.splits)
  qed
qed

lemma txManager_atomic:
  assumes "\<not> ctx_tx c" and "w_tx w = None" and loc: "tx_local (f (WithTx c))"
    and run: "txManager E c f w = (r, w')"
  shows "w_tx w' = None \<and>
     (same_tables (w_pool w) (w_pool w') \<and> isl r \<or>
      (\<exists>x w3. f (WithTx c) (in_tx w) = (Inr x, w3) \<and> committed w3 w'
          \<and> (r = Inr x \<or> (\<exists>e. r = Inl e \<and> errorsIs e TxErrCommitFailed))))"
proof (cases "beginTx E w")
  case (Pair b w2)
  show ?thesis
  proof (cases b)
    case (Inl e)
    with Pair run assms(1,2) beginTx_Inl [of E w e w2] show ?thesis
      by (auto simp: txManager_def WithinTransaction_def NewPoolManager_def ExtractTx_def andThen_def)
  next
    case (Inr u)
    with Pair beginTx_Inr have bg: "beginTx E w = (Inr (), in_tx w)" by fastforce
    obtain o3 w3 where f: "f (WithTx c) (in_tx w) = (o3, w3)" by fastforce
    have "w_tx (in_tx w) \<noteq> None" by (simp add: in_tx_def)
    from tx_local_pool [OF loc this f] obtain d where d: "w_pool w3 = w_pool w" "w_tx w3 = Some d"
      by (auto simp: in_tx_def)
    show ?thesis
    proof (cases o3)
      case (Inl err)
      show ?thesis
        using WithinTransaction_callback_error [OF assms(1) f [unfolded Inl] d(1) bg run] by blast
    next
      case (Inr x)
      then have "f (WithTx c) (in_tx w) = (Inr x, w3)" using f by simp
      from WithinTransaction_callback_ok [OF assms(1) this d bg run] this d show ?thesis by blast
    qed
  qed
qed

interpretation tm: tx_manager txManager
  by unfold_locales
    (rule txManager_atomic, assumption+,
     simp add: txManager_def WithinTransaction_def NewPoolManager_def ExtractTx_def)

text \<open>With a connection that does not fail, a transaction is its callback, kept or dropped.\<close>

lemma txManager_up:
  assumes "pg_up E" and "\<not> ctx_tx c"
  shows "txManager E c f w =
     (case f (WithTx c) (in_tx w) of
        (Inl e, w3) \<Rightarrow> (Inl e, discardTx (w3\<lparr>w_n := Suc (w_n w3)\<rparr>))
      | (Inr x, w3) \<Rightarrow> (Inr x, keepTx (w3\<lparr>w_n := Suc (w_n w3)\<rparr>)))"
  using assms
  by (auto simp: txManager_def WithinTransaction_def NewPoolManager_def ExtractTx_def andThen_def attempt_def
      mapErr_def ok_def fail_def beginTx_def commitTx_def rollbackTx_def pg_up_def in_tx_def Let_def
      split: sum.splits prod.splits)

text \<open>An invariant of databases that larger counters keep survives a transaction.\<close>

lemma preserves_txManager:
  assumes f: "\<And>c'. preserves (on_dbs P) (f c')" and seq: "\<And>d s. P d \<Longrightarrow> P (d\<lparr>db_seq := seq_max (db_seq d) s\<rparr>)"
  shows "preserves (on_dbs P) (txManager E c f)"
proof -
  have "preserves (on_dbs P) (beginTx E)" "preserves (on_dbs P) (rollbackTx E)" "preserves (on_dbs P) (commitTx E)"
    using seq
    by (auto simp: preserves_def on_dbs_def beginTx_def rollbackTx_def commitTx_def Let_def discardTx_def keepTx_def
        split: pgFault.splits option.splits)
  with f show ?thesis
    unfolding txManager_def WithinTransaction_def NewPoolManager_def
    by (simp, intro conjI impI) (intro pres | assumption)+
qed

lemma later_txManager [pres]:
  assumes f: "\<And>c'. preserves (later n) (f c')"
  shows "preserves (later n) (txManager E c f)"
proof -
  have "preserves (later n) (beginTx E)" "preserves (later n) (rollbackTx E)" "preserves (later n) (commitTx E)"
    by (auto simp: preserves_def later_def beginTx_def rollbackTx_def commitTx_def Let_def discardTx_def keepTx_def
        split: pgFault.splits)
  with f show ?thesis
    unfolding txManager_def WithinTransaction_def NewPoolManager_def
    by (simp, intro conjI impI) (intro pres | assumption)+
qed

section \<open>Between requests\<close>

text \<open>No transaction is open: it holds before and after every call made without a transaction's context.\<close>

definition no_tx :: "world \<Rightarrow> bool" where
  "no_tx w \<longleftrightarrow> w_tx w = None"

lemma no_tx_basic [pres]:
  "preserves no_tx (Now E)" "preserves no_tx (NewUUID E)" "preserves no_tx (RandRead E)"
  by (simp_all add: preserves_def no_tx_def RandRead_def)

lemma no_tx_redis_results [pres]:
  "preserves no_tx (redisBool E cmd)" "preserves no_tx (redisVal E cmd)" "preserves no_tx (redisInt E cmd)"
  "preserves no_tx (redisDur E cmd)" "preserves no_tx (redisErr E cmd)"
  unfolding redis_results preserves_def no_tx_def
  by (auto simp: andThen_def redis_def ok_def fail_def split: prod.splits sum.splits rreply.splits)

lemma no_tx_WriteMessages [pres]: "preserves no_tx (WriteMessages E ms)"
  by (simp add: preserves_def no_tx_def WriteMessages_def split: prod.splits)

lemma no_tx_Sleep [pres]: "preserves no_tx (Sleep d)"
  by (simp add: preserves_def no_tx_def Sleep_def)

lemma no_tx_pg [pres]: "preserves no_tx (pg E c s)"
  by (auto simp: preserves_def no_tx_def pg_def Let_def GetExecutor_def putExecutor_def
      split: option.splits pgFault.splits sum.splits if_splits)

text \<open>A transaction is over when \<open>WithinTransaction\<close> returns, whatever its callback did.\<close>

lemma no_tx_txManager [pres]: "\<not> ctx_tx c \<Longrightarrow> preserves no_tx (txManager E c f)"
  by (auto simp: preserves_def no_tx_def txManager_def WithinTransaction_def NewPoolManager_def ExtractTx_def
      andThen_def attempt_def mapErr_def ok_def fail_def beginTx_def commitTx_def rollbackTx_def Let_def
      split: sum.splits prod.splits pgFault.splits if_splits)

end
