(* ===== verification/Schema.thy ===== *)
theory Schema
  imports Tx
begin

text \<open>
  The constraints of the tables (\<^verbatim>\<open>migrations/*.up.sql\<close>) as a well-formedness invariant \<open>db_ok\<close> of the
  database, and the generic facts the preservation proofs of the SQL statements use. Violations
  are PostgreSQL error codes: 22001 (value too long), 23503 (foreign key), 23505 (unique),
  23514 (check).
\<close>

section \<open>Column constraints\<close>

text \<open>\<open>VARCHAR(n)\<close>: at most \<open>n\<close> characters.\<close>

definition varchar :: "nat \<Rightarrow> string \<Rightarrow> bool" where
  "varchar n s \<longleftrightarrow> length (runes s) \<le> n"

definition varcharPtr :: "nat \<Rightarrow> string option \<Rightarrow> bool" where
  "varcharPtr n p \<longleftrightarrow> (case p of None \<Rightarrow> True | Some s \<Rightarrow> varchar n s)"

lemma varchar_ASCII: "isASCII s \<Longrightarrow> varchar n s \<longleftrightarrow> length s \<le> n"
  by (simp add: varchar_def runes_ASCII)

text \<open>The foreign key: every value of the column is a key of the referenced table.\<close>

definition references :: "'k \<Rightarrow> ('s \<Rightarrow> 'k) \<Rightarrow> 's list \<Rightarrow> bool" where
  "references v k ts \<longleftrightarrow> (\<exists>s \<in> set ts. k s = v)"

definition taken :: "('r \<Rightarrow> 'k) \<Rightarrow> 'k \<Rightarrow> 'r list \<Rightarrow> bool" where
  "taken k v rs \<longleftrightarrow> (\<exists>r \<in> set rs. k r = v)"

definition fk :: "('r \<Rightarrow> 'k) \<Rightarrow> 'r list \<Rightarrow> ('s \<Rightarrow> 'k) \<Rightarrow> 's list \<Rightarrow> bool" where
  "fk f rs k ts \<longleftrightarrow> (\<forall>r \<in> set rs. references (f r) k ts)"

definition ids_below :: "('r \<Rightarrow> int) \<Rightarrow> int \<Rightarrow> 'r list \<Rightarrow> bool" where
  "ids_below k n rs \<longleftrightarrow> (\<forall>r \<in> set rs. k r \<le> n)"

definition user_types :: "string list" where
  "user_types = [''customer'', ''admin'', ''operator'']"

definition account_statuses :: "string list" where
  "account_statuses = [''pending_verification'', ''active'', ''locked'', ''disabled'']"

definition session_statuses :: "string list" where
  "session_statuses = [''active'', ''revoked'', ''expired'']"

definition outbox_states :: "string list" where
  "outbox_states = [''pending'', ''published'', ''failed'']"

section \<open>The invariant\<close>

text \<open>One predicate per table; the parameters are the table's counter and the tables it refers to.\<close>

definition users_ok :: "int \<Rightarrow> userRow list \<Rightarrow> bool" where
  "users_ok n us \<longleftrightarrow> unique_on ur_ID us \<and> unique_on ur_Email us \<and> ids_below ur_ID n us \<and>
     (\<forall>u \<in> set us. ur_UserType u \<in> set user_types \<and> ur_Status u \<in> set account_statuses \<and> 0 < ur_Version u)"

definition credentials_ok :: "userRow list \<Rightarrow> credentialRow list \<Rightarrow> bool" where
  "credentials_ok us cs \<longleftrightarrow> unique_on cr_UserID cs \<and> fk cr_UserID cs ur_ID us \<and>
     (\<forall>c \<in> set cs. 0 \<le> cr_FailedLoginCount c)"

definition devices_ok :: "int \<Rightarrow> userRow list \<Rightarrow> deviceRow list \<Rightarrow> bool" where
  "devices_ok n us ds \<longleftrightarrow> unique_on dr_ID ds \<and> unique_on (\<lambda>d. (dr_UserID d, dr_Fingerprint d)) ds \<and>
     ids_below dr_ID n ds \<and> fk dr_UserID ds ur_ID us"

definition sessions_ok :: "int \<Rightarrow> userRow list \<Rightarrow> deviceRow list \<Rightarrow> sessionRow list \<Rightarrow> bool" where
  "sessions_ok n us ds ss \<longleftrightarrow> unique_on sr_ID ss \<and> unique_on sr_RefreshTokenHash ss \<and>
     unique_on (\<lambda>s. (sr_UserID s, sr_DeviceID s)) ss \<and> ids_below sr_ID n ss \<and>
     fk sr_UserID ss ur_ID us \<and> fk sr_DeviceID ss dr_ID ds \<and>
     (\<forall>s \<in> set ss. sr_SessionStatus s \<in> set session_statuses)"

definition addresses_ok :: "int \<Rightarrow> userRow list \<Rightarrow> addressRow list \<Rightarrow> bool" where
  "addresses_ok n us adrs \<longleftrightarrow> unique_on ar_ID adrs \<and> unique_on ar_UserID (filter ar_IsDefault adrs) \<and>
     ids_below ar_ID n adrs \<and> fk ar_UserID adrs ur_ID us \<and> (\<forall>a \<in> set adrs. 0 < ar_Version a)"

definition outbox_ok :: "int \<Rightarrow> OutboxEvent list \<Rightarrow> bool" where
  "outbox_ok n es \<longleftrightarrow> unique_on oe_ID es \<and> ids_below oe_ID n es \<and> (\<forall>e \<in> set es. oe_State e \<in> set outbox_states)"

definition processed_ok :: "processedEvent list \<Rightarrow> bool" where
  "processed_ok ps \<longleftrightarrow> unique_on (\<lambda>p. (pe_ConsumerName p, pe_EventID p)) ps"

definition db_ok :: "db \<Rightarrow> bool" where
  "db_ok d \<longleftrightarrow> users_ok (seq_users (db_seq d)) (t_users d)
     \<and> credentials_ok (t_users d) (t_credentials d)
     \<and> devices_ok (seq_devices (db_seq d)) (t_users d) (t_devices d)
     \<and> sessions_ok (seq_sessions (db_seq d)) (t_users d) (t_devices d) (t_sessions d)
     \<and> addresses_ok (seq_addresses (db_seq d)) (t_users d) (t_addresses d)
     \<and> outbox_ok (seq_outbox (db_seq d)) (t_outbox d)
     \<and> processed_ok (t_processed d)"

text \<open>The schema after the migrations have run: every table empty.\<close>

definition emptyDB :: db where
  "emptyDB = \<lparr>t_users = [], t_credentials = [], t_devices = [], t_sessions = [], t_addresses = [],
     t_outbox = [], t_processed = [],
     db_seq = \<lparr>seq_users = 0, seq_devices = 0, seq_sessions = 0, seq_addresses = 0, seq_outbox = 0\<rparr>\<rparr>"

lemmas table_oks = users_ok_def credentials_ok_def devices_ok_def sessions_ok_def addresses_ok_def
  outbox_ok_def processed_ok_def

lemma db_ok_emptyDB: "db_ok emptyDB"
  by (simp add: db_ok_def emptyDB_def table_oks unique_on_def fk_def ids_below_def)

section \<open>Generic facts\<close>

lemma taken_iff: "taken k v rs \<longleftrightarrow> v \<in> k ` set rs"
  by (auto simp: taken_def)

lemma references_append [simp]: "references v k (ts @ us) \<longleftrightarrow> references v k ts \<or> references v k us"
  by (auto simp: references_def)

lemma references_single [simp]: "references v k [s] \<longleftrightarrow> k s = v"
  by (auto simp: references_def)

lemma fk_snoc [simp]: "fk f (rs @ [r]) k ts \<longleftrightarrow> fk f rs k ts \<and> references (f r) k ts"
  by (auto simp: fk_def)

lemma fk_grow: "fk f rs k ts \<Longrightarrow> fk f rs k (ts @ us)"
  by (simp add: fk_def)

lemma ids_below_snoc [simp]: "ids_below k n (rs @ [r]) \<longleftrightarrow> ids_below k n rs \<and> k r \<le> n"
  by (auto simp: ids_below_def)

lemma ids_below_mono: "ids_below k n rs \<Longrightarrow> n \<le> m \<Longrightarrow> ids_below k m rs"
  by (fastforce simp: ids_below_def)

text \<open>A fresh value of a counter is not a key of the table.\<close>

lemma ids_below_fresh: "ids_below k n rs \<Longrightarrow> n + 1 \<notin> k ` set rs"
  by (fastforce simp: ids_below_def)

lemma unique_on_next:
  "unique_on k rs \<Longrightarrow> ids_below k n rs \<Longrightarrow> k r = n + 1 \<Longrightarrow> unique_on k (rs @ [r])"
  using ids_below_fresh [of k n rs] by (simp add: unique_on_snoc)

text \<open>An update that keeps the columns a constraint talks about keeps the constraint.\<close>

lemma fk_update_where:
  "fk f rs k ts \<Longrightarrow> (\<And>r. f (g r) = f r) \<Longrightarrow> fk f (update_where p g rs) k ts"
  by (auto simp: fk_def update_where_def)

lemma references_update_where:
  "(\<And>r. k (g r) = k r) \<Longrightarrow> references v k (update_where p g ts) \<longleftrightarrow> references v k ts"
  by (induction ts) (auto simp: references_def)

lemma fk_update_target:
  "fk f rs k ts \<Longrightarrow> (\<And>r. k (g r) = k r) \<Longrightarrow> fk f rs k (update_where p g ts)"
  by (simp add: fk_def references_update_where)

lemma ids_below_update_where:
  "ids_below k n rs \<Longrightarrow> (\<And>r. k (g r) = k r) \<Longrightarrow> ids_below k n (update_where p g rs)"
  by (auto simp: ids_below_def update_where_def)

lemma all_update_where:
  "(\<forall>r \<in> set rs. P r) \<Longrightarrow> (\<And>r. P r \<Longrightarrow> P (g r)) \<Longrightarrow> (\<forall>r \<in> set (update_where p g rs). P r)"
  by (auto simp: update_where_def)

lemma unique_on_update_same:
  "unique_on k rs \<Longrightarrow> (\<And>r. k (g r) = k r) \<Longrightarrow> unique_on k (update_where p g rs)"
  by (rule unique_on_update_where)

text \<open>
  An update of the single row with a given key to a key value that no other row has keeps the
  other key unique.
\<close>

lemma unique_on_update_one:
  assumes u: "unique_on k rs" and i: "unique_on i rs"
    and fresh: "\<And>r. r \<in> set rs \<Longrightarrow> i r \<noteq> x \<Longrightarrow> k r \<noteq> v"
    and g: "\<And>r. k (g r) = v"
  shows "unique_on k (update_where (\<lambda>r. i r = x) g rs)"
  using u i fresh
proof (induction rs)
  case Nil
  then show ?case by (simp add: unique_on_def)
next
  case (Cons a rs)
  have ur: "unique_on k rs" "unique_on i rs" using Cons.prems by (simp_all add: unique_on_def)
  have IH: "unique_on k (update_where (\<lambda>r. i r = x) g rs)"
    using Cons.IH [OF ur] Cons.prems(3) by simp
  show ?case
  proof (cases "i a = x")
    case True
    then have none: "\<forall>r \<in> set rs. i r \<noteq> x" using Cons.prems(2)
      by (auto simp: unique_on_def image_iff)
    then have "update_where (\<lambda>r. i r = x) g rs = rs" by (simp add: update_where_none)
    then show ?thesis using True none ur Cons.prems(3) g by (auto simp: unique_on_def)
  next
    case False
    have "k a \<notin> k ` set (update_where (\<lambda>r. i r = x) g rs)"
    proof
      assume "k a \<in> k ` set (update_where (\<lambda>r. i r = x) g rs)"
      then obtain r where r: "r \<in> set (update_where (\<lambda>r. i r = x) g rs)" "k a = k r" by auto
      then have "(\<exists>s \<in> set rs. i s = x \<and> r = g s) \<or> r \<in> set rs"
        by (auto simp: set_update_where)
      then show False
      proof
        assume "\<exists>s \<in> set rs. i s = x \<and> r = g s"
        then have "k a = v" using r g by auto
        then show False using Cons.prems(3) [of a] False by simp
      next
        assume "r \<in> set rs"
        then show False using r(2) Cons.prems(1) by (auto simp: unique_on_def)
      qed
    qed
    then show ?thesis using IH False by (simp add: unique_on_def)
  qed
qed

section \<open>Transactions\<close>

lemma db_ok_seq_max: "db_ok d \<Longrightarrow> db_ok (d\<lparr>db_seq := seq_max (db_seq d) s\<rparr>)"
  by (auto simp: db_ok_def users_ok_def devices_ok_def sessions_ok_def addresses_ok_def outbox_ok_def
      seq_max_def elim!: ids_below_mono)

lemma db_ok_txManager [pres]:
  "(\<And>c'. preserves (on_dbs db_ok) (f c')) \<Longrightarrow> preserves (on_dbs db_ok) (txManager E c f)"
  by (rule preserves_txManager) (simp_all add: db_ok_seq_max)

end
