(* ===== verification/Identity_Postgres.thy ===== *)
theory Identity_Postgres
  imports Schema
begin

text \<open>
  The PostgreSQL repositories of the identity module
  (\<^verbatim>\<open>internal/modules/identity/infra/postgres\<close>). Each query constant of the source is a statement on
  the database with the constraints of the migrations; each repository method runs its statement
  on the executor of the context and maps rows to entities and driver errors to domain errors.
  A method that fills fields of its argument (\<^verbatim>\<open>RETURNING ... Scan(&x.ID)\<close>) returns the filled value.
\<close>

section \<open>Mappers and error classification\<close>

definition isNoRows :: "gerror \<Rightarrow> bool" where
  "isNoRows err = errorsIs err PgxErrNoRows"

fun isUniqueViolation :: "gerror \<Rightarrow> bool" where
  "isUniqueViolation (PgError code) \<longleftrightarrow> code = ''23505''"
| "isUniqueViolation (Wrapf pre e post) \<longleftrightarrow> isUniqueViolation e"
| "isUniqueViolation e \<longleftrightarrow> False"

definition mapUserRowToEntity :: "env \<Rightarrow> userRow \<Rightarrow> gerror + User" where
  "mapUserRowToEntity E r =
     (case NewEmail E (ur_Email r) of
        Inl err \<Rightarrow> Inl (Wrapf (''invalid email in users row id='' @ FormatInt (ur_ID r) @ '': '') err '''')
      | Inr email \<Rightarrow> Inr
         \<lparr>user_ID = ur_ID r, user_Email = email, user_FullName = ur_FullName r, user_Phone = ur_Phone r,
          user_UserType = ur_UserType r, user_Status = ur_Status r,
          user_EmailVerifiedAt = ur_EmailVerifiedAt r, user_LastLoginAt = None,
          user_LockedReason = None, user_Metadata = JNull, user_Version = 0,
          user_CreatedAt = ur_CreatedAt r, user_UpdatedAt = ur_UpdatedAt r\<rparr>)"

definition mapCredentialRowToEntity :: "credentialRow \<Rightarrow> Credential" where
  "mapCredentialRowToEntity r =
     \<lparr>cred_UserID = cr_UserID r, cred_PasswordHash = cr_PasswordHash r,
      cred_PasswordAlgo = cr_PasswordAlgo r, cred_PasswordChangedAt = cr_PasswordChangedAt r,
      cred_FailedLoginCount = cr_FailedLoginCount r, cred_LastFailedLoginAt = cr_LastFailedLoginAt r\<rparr>"

definition mapSessionRowToEntity :: "sessionRow \<Rightarrow> Session" where
  "mapSessionRowToEntity r =
     \<lparr>sess_ID = sr_ID r, sess_UserID = sr_UserID r, sess_RefreshTokenHash = sr_RefreshTokenHash r,
      sess_DeviceID = sr_DeviceID r, sess_SessionStatus = sr_SessionStatus r,
      sess_ExpiredAt = sr_ExpiredAt r, sess_IPAddress = sr_IPAddress r,
      sess_UserAgent = sr_UserAgent r, sess_LastSeenAt = sr_LastSeenAt r,
      sess_RevokedAt = sr_RevokedAt r, sess_RevokedReason = sr_RevokedReason r,
      sess_CreatedAt = sr_CreatedAt r, sess_UpdatedAt = sr_UpdatedAt r\<rparr>"

definition mapDeviceRowToEntity :: "deviceRow \<Rightarrow> Device" where
  "mapDeviceRowToEntity r =
     \<lparr>dev_ID = dr_ID r, dev_UserID = dr_UserID r, dev_Fingerprint = dr_Fingerprint r,
      dev_Label = dr_Label r, dev_FirstSeenAt = dr_FirstSeenAt r, dev_LastSeenAt = dr_LastSeenAt r,
      dev_RevokedAt = dr_RevokedAt r, dev_RevokedReason = dr_RevokedReason r,
      dev_Metadata = dr_Metadata r, dev_CreatedAt = dr_CreatedAt r, dev_UpdatedAt = dr_UpdatedAt r\<rparr>"

definition mapAddressRowToEntity :: "addressRow \<Rightarrow> Address" where
  "mapAddressRowToEntity r =
     \<lparr>addr_ID = ar_ID r, addr_UserID = ar_UserID r, addr_RecipientName = ar_RecipientName r,
      addr_RecipientPhone = ar_RecipientPhone r, addr_Line1 = ar_Line1 r, addr_Line2 = ar_Line2 r,
      addr_Province = ar_Province r, addr_District = ar_District r, addr_Ward = ar_Ward r,
      addr_PostalCode = ar_PostalCode r, addr_CountryCode = ar_CountryCode r,
      addr_IsDefault = ar_IsDefault r, addr_Version = ar_Version r,
      addr_CreatedAt = ar_CreatedAt r, addr_UpdatedAt = ar_UpdatedAt r\<rparr>"

text \<open>The read models of \<^verbatim>\<open>internal/modules/identity/app/query/model.go\<close>.\<close>

record MeView =
  mv_UserID :: int
  mv_Email :: string
  mv_FullName :: string
  mv_Status :: string
  mv_EmailVerifiedAt :: "time option"
  mv_CreatedAt :: time

record SessionView =
  sv_ID :: int
  sv_DeviceID :: int
  sv_IPAddress :: "string option"
  sv_UserAgent :: string
  sv_ExpiredAt :: time
  sv_RevokedAt :: "time option"
  sv_CreatedAt :: time

record DeviceView =
  dv_ID :: int
  dv_Fingerprint :: string
  dv_Label :: string
  dv_FirstSeenAt :: time
  dv_LastSeenAt :: time
  dv_RevokedAt :: "time option"

record AddressView =
  av_ID :: int
  av_RecipientName :: string
  av_RecipientPhone :: string
  av_Province :: string
  av_District :: string
  av_Ward :: string
  av_Line1 :: string
  av_Line2 :: string
  av_IsDefault :: bool

definition mapUserRowToMeView :: "userRow \<Rightarrow> MeView" where
  "mapUserRowToMeView r =
     \<lparr>mv_UserID = ur_ID r, mv_Email = ur_Email r, mv_FullName = ur_FullName r, mv_Status = ur_Status r,
      mv_EmailVerifiedAt = ur_EmailVerifiedAt r, mv_CreatedAt = ur_CreatedAt r\<rparr>"

definition mapSessionRowToView :: "sessionRow \<Rightarrow> SessionView" where
  "mapSessionRowToView r =
     \<lparr>sv_ID = sr_ID r, sv_DeviceID = sr_DeviceID r, sv_IPAddress = sr_IPAddress r,
      sv_UserAgent = sr_UserAgent r, sv_ExpiredAt = sr_ExpiredAt r, sv_RevokedAt = sr_RevokedAt r,
      sv_CreatedAt = sr_CreatedAt r\<rparr>"

definition mapDeviceRowToView :: "deviceRow \<Rightarrow> DeviceView" where
  "mapDeviceRowToView r =
     \<lparr>dv_ID = dr_ID r, dv_Fingerprint = dr_Fingerprint r, dv_Label = dr_Label r,
      dv_FirstSeenAt = dr_FirstSeenAt r, dv_LastSeenAt = dr_LastSeenAt r, dv_RevokedAt = dr_RevokedAt r\<rparr>"

definition mapAddressRowToView :: "addressRow \<Rightarrow> AddressView" where
  "mapAddressRowToView r =
     \<lparr>av_ID = ar_ID r, av_RecipientName = ar_RecipientName r, av_RecipientPhone = ar_RecipientPhone r,
      av_Province = ar_Province r, av_District = ar_District r, av_Ward = ar_Ward r,
      av_Line1 = ar_Line1 r, av_Line2 = ar_Line2 r, av_IsDefault = ar_IsDefault r\<rparr>"

text \<open>\<^verbatim>\<open>QueryRow(...).Scan(...)\<close>: the first row, or \<^verbatim>\<open>pgx.ErrNoRows\<close>.\<close>

definition selectOne :: "(db \<Rightarrow> 'r list) \<Rightarrow> ('r \<Rightarrow> bool) \<Rightarrow> 'r stmt" where
  "selectOne tbl p = query (\<lambda>t d. case find p (tbl d) of None \<Rightarrow> Inl PgxErrNoRows | Some r \<Rightarrow> Inr r)"

definition selectMany :: "(db \<Rightarrow> 'r list) \<Rightarrow> ('r \<Rightarrow> bool) \<Rightarrow> ('r list \<Rightarrow> 'r list) \<Rightarrow> 'r list stmt" where
  "selectMany tbl p orderBy = query (\<lambda>t d. Inr (orderBy (filter p (tbl d))))"

text \<open>
  \<^verbatim>\<open>if err != nil { if isNoRows(err) { return e }; return err }\<close>
\<close>

definition noRowsAs :: "gerror \<Rightarrow> gerror \<Rightarrow> gerror" where
  "noRowsAs e err = (if isNoRows err then e else err)"

section \<open>user\_repo.go\<close>

definition queryGetUserByID :: "int \<Rightarrow> userRow stmt" where
  "queryGetUserByID i = selectOne t_users (\<lambda>u. ur_ID u = i)"

definition queryGetUserByEmail :: "string \<Rightarrow> userRow stmt" where
  "queryGetUserByEmail email = selectOne t_users (\<lambda>u. ur_Email u = email)"

definition queryInsertUser ::
  "string \<Rightarrow> string \<Rightarrow> string option \<Rightarrow> string \<Rightarrow> string \<Rightarrow> time option \<Rightarrow> json \<Rightarrow> int \<Rightarrow> int stmt" where
  "queryInsertUser email fullName phone userType status verifiedAt metadata version t d =
     (if \<not> (varchar 255 email \<and> varchar 255 fullName \<and> varcharPtr 20 phone \<and> varchar 30 userType \<and> varchar 30 status)
      then Inl (PgError ''22001'')
      else if userType \<notin> set user_types \<or> status \<notin> set account_statuses \<or> \<not> 0 < version
      then Inl (PgError ''23514'')
      else if taken ur_Email email (t_users d) then Inl (PgError ''23505'')
      else let i = seq_users (db_seq d) + 1 in
        Inr (i, d\<lparr>t_users := t_users d @
            [\<lparr>ur_ID = i, ur_Email = email, ur_FullName = fullName, ur_Phone = phone, ur_UserType = userType,
              ur_Status = status, ur_EmailVerifiedAt = verifiedAt, ur_LastLoginAt = None,
              ur_LockedReason = None, ur_Metadata = metadata, ur_Version = version,
              ur_CreatedAt = t, ur_UpdatedAt = t\<rparr>],
          db_seq := (db_seq d)\<lparr>seq_users := i\<rparr>\<rparr>))"

definition queryUpdateStatus :: "string \<Rightarrow> int \<Rightarrow> nat stmt" where
  "queryUpdateStatus status i t d =
     (let p = (\<lambda>u. ur_ID u = i); n = rows_affected p (t_users d)
      in if n \<noteq> 0 \<and> status \<notin> set account_statuses then Inl (PgError ''23514'')
         else Inr (n, d\<lparr>t_users := update_where p
            (\<lambda>u. u\<lparr>ur_Status := status, ur_UpdatedAt := t, ur_Version := ur_Version u + 1\<rparr>) (t_users d)\<rparr>))"

definition queryMarkEmailVerified :: "time \<Rightarrow> int \<Rightarrow> nat stmt" where
  "queryMarkEmailVerified verifiedAt i t d =
     (let p = (\<lambda>u. ur_ID u = i \<and> ur_EmailVerifiedAt u = None)
      in Inr (rows_affected p (t_users d), d\<lparr>t_users := update_where p
            (\<lambda>u. u\<lparr>ur_EmailVerifiedAt := Some verifiedAt, ur_Status := ''active'',
                   ur_Version := ur_Version u + 1, ur_UpdatedAt := t\<rparr>) (t_users d)\<rparr>))"

definition queryCheckExistEmail :: "string \<Rightarrow> bool stmt" where
  "queryCheckExistEmail email = query (\<lambda>t d. Inr (taken ur_Email email (t_users d)))"

definition UserRepository_GetByID :: "env \<Rightarrow> ctx \<Rightarrow> int \<Rightarrow> User io" where
  "UserRepository_GetByID E c i =
     andThen (mapErr (noRowsAs (DomainErr ErrUserNotFound)) (pg E c (queryGetUserByID i))) (\<lambda>r.
     lift (mapUserRowToEntity E r))"

definition UserRepository_GetByEmail :: "env \<Rightarrow> ctx \<Rightarrow> Email \<Rightarrow> User io" where
  "UserRepository_GetByEmail E c email =
     andThen (mapErr (noRowsAs (DomainErr ErrUserNotFound)) (pg E c (queryGetUserByEmail (Email_String email)))) (\<lambda>r.
     lift (mapUserRowToEntity E r))"

definition UserRepository_ExistsByEmail :: "env \<Rightarrow> ctx \<Rightarrow> Email \<Rightarrow> bool io" where
  "UserRepository_ExistsByEmail E c email = pg E c (queryCheckExistEmail (Email_String email))"

definition UserRepository_Insert :: "env \<Rightarrow> ctx \<Rightarrow> User \<Rightarrow> User io" where
  "UserRepository_Insert E c user =
     andThen
       (mapErr (\<lambda>err. if isUniqueViolation err then DomainErr ErrEmailAlreadyExist else err)
         (pg E c (queryInsertUser (Email_String (user_Email user)) (user_FullName user) (user_Phone user)
            (user_UserType user) (user_Status user) (user_EmailVerifiedAt user) (user_Metadata user)
            (user_Version user)))) (\<lambda>i.
     ok (user\<lparr>user_ID := i\<rparr>))"

definition UserRepository_UpdateStatus :: "env \<Rightarrow> ctx \<Rightarrow> int \<Rightarrow> UserStatus \<Rightarrow> unit io" where
  "UserRepository_UpdateStatus E c i status =
     andThen (pg E c (queryUpdateStatus status i)) (\<lambda>n.
     if n = 0 then fail (DomainErr ErrUserNotFound) else ok ())"

definition UserRepository_MarkEmailVerified :: "env \<Rightarrow> ctx \<Rightarrow> int \<Rightarrow> time \<Rightarrow> unit io" where
  "UserRepository_MarkEmailVerified E c i verifiedAt =
     andThen (pg E c (queryMarkEmailVerified verifiedAt i)) (\<lambda>n.
     if n = 0 then fail (DomainErr ErrUserNotFound) else ok ())"

section \<open>credential\_repo.go\<close>

definition queryCredentialGetByUserID :: "int \<Rightarrow> credentialRow stmt" where
  "queryCredentialGetByUserID userID = selectOne t_credentials (\<lambda>c. cr_UserID c = userID)"

definition queryInsert :: "int \<Rightarrow> string \<Rightarrow> string \<Rightarrow> time \<Rightarrow> int \<Rightarrow> time option \<Rightarrow> unit stmt" where
  "queryInsert userID hash algo changedAt failed lastFailed t d =
     (if \<not> varchar 30 algo then Inl (PgError ''22001'')
      else if failed < 0 then Inl (PgError ''23514'')
      else if taken cr_UserID userID (t_credentials d) then Inl (PgError ''23505'')
      else if \<not> references userID ur_ID (t_users d) then Inl (PgError ''23503'')
      else Inr ((), d\<lparr>t_credentials := t_credentials d @
         [\<lparr>cr_UserID = userID, cr_PasswordHash = hash, cr_PasswordAlgo = algo,
           cr_PasswordChangedAt = changedAt, cr_FailedLoginCount = failed,
           cr_LastFailedLoginAt = lastFailed\<rparr>]\<rparr>))"

definition queryUpdatePasswordHash :: "int \<Rightarrow> string \<Rightarrow> time \<Rightarrow> nat stmt" where
  "queryUpdatePasswordHash userID hash changedAt t d =
     (let p = (\<lambda>c. cr_UserID c = userID)
      in Inr (rows_affected p (t_credentials d), d\<lparr>t_credentials := update_where p
           (\<lambda>c. c\<lparr>cr_PasswordHash := hash, cr_PasswordChangedAt := changedAt\<rparr>) (t_credentials d)\<rparr>))"

definition CredentialRepository_GetByUserID :: "env \<Rightarrow> ctx \<Rightarrow> int \<Rightarrow> Credential io" where
  "CredentialRepository_GetByUserID E c userID =
     andThen (mapErr (noRowsAs (DomainErr ErrCredentialNotFound)) (pg E c (queryCredentialGetByUserID userID))) (\<lambda>r.
     ok (mapCredentialRowToEntity r))"

definition CredentialRepository_Insert :: "env \<Rightarrow> ctx \<Rightarrow> Credential \<Rightarrow> unit io" where
  "CredentialRepository_Insert E c cred =
     pg E c (queryInsert (cred_UserID cred) (cred_PasswordHash cred) (cred_PasswordAlgo cred)
       (cred_PasswordChangedAt cred) (cred_FailedLoginCount cred) (cred_LastFailedLoginAt cred))"

definition CredentialRepository_UpdatePasswordHash :: "env \<Rightarrow> ctx \<Rightarrow> int \<Rightarrow> string \<Rightarrow> time \<Rightarrow> unit io" where
  "CredentialRepository_UpdatePasswordHash E c userID hash changedAt =
     andThen (pg E c (queryUpdatePasswordHash userID hash changedAt)) (\<lambda>n.
     if n = 0 then fail (DomainErr ErrCredentialNotFound) else ok ())"

section \<open>session\_repo.go\<close>

definition queryInsertSession ::
  "int \<Rightarrow> int \<Rightarrow> string \<Rightarrow> string \<Rightarrow> time \<Rightarrow> string option \<Rightarrow> string \<Rightarrow> time \<Rightarrow> (int \<times> time \<times> time) stmt" where
  "queryInsertSession userID deviceID hash status expiresAt ip agent lastSeen t d =
     (if \<not> (varchar 20 status \<and> varcharPtr 45 ip) then Inl (PgError ''22001'')
      else if status \<notin> set session_statuses then Inl (PgError ''23514'')
      else if taken sr_RefreshTokenHash hash (t_sessions d)
           \<or> taken (\<lambda>s. (sr_UserID s, sr_DeviceID s)) (userID, deviceID) (t_sessions d) then Inl (PgError ''23505'')
      else if \<not> references userID ur_ID (t_users d) \<or> \<not> references deviceID dr_ID (t_devices d)
      then Inl (PgError ''23503'')
      else let i = seq_sessions (db_seq d) + 1 in
        Inr ((i, t, t), d\<lparr>t_sessions := t_sessions d @
            [\<lparr>sr_ID = i, sr_UserID = userID, sr_DeviceID = deviceID, sr_RefreshTokenHash = hash,
              sr_SessionStatus = status, sr_ExpiredAt = expiresAt, sr_IPAddress = ip, sr_UserAgent = agent,
              sr_LastSeenAt = lastSeen, sr_RevokedAt = None, sr_RevokedReason = None,
              sr_CreatedAt = t, sr_UpdatedAt = t\<rparr>],
          db_seq := (db_seq d)\<lparr>seq_sessions := i\<rparr>\<rparr>))"

definition queryGetByRefreshTokenHash :: "string \<Rightarrow> sessionRow stmt" where
  "queryGetByRefreshTokenHash hash = selectOne t_sessions (\<lambda>s. sr_RefreshTokenHash s = hash)"

text \<open>\<open>ORDER BY created_at DESC\<close>; rows with the same time stay in table order.\<close>

definition queryListActiveByUserID :: "int \<Rightarrow> time \<Rightarrow> sessionRow list stmt" where
  "queryListActiveByUserID userID now =
     selectMany t_sessions (\<lambda>s. sr_UserID s = userID \<and> sr_RevokedAt s = None \<and> sr_ExpiredAt s > now)
       (sort_key (\<lambda>s. - sr_CreatedAt s))"

definition queryRevokeSession :: "int \<Rightarrow> time \<Rightarrow> int \<Rightarrow> nat stmt" where
  "queryRevokeSession deviceID revokedAt userID t d =
     (let p = (\<lambda>s. sr_UserID s = userID \<and> sr_DeviceID s = deviceID \<and> sr_RevokedAt s = None
                   \<and> sr_SessionStatus s = ''active'')
      in Inr (rows_affected p (t_sessions d), d\<lparr>t_sessions := update_where p
           (\<lambda>s. s\<lparr>sr_RevokedAt := Some revokedAt, sr_SessionStatus := ''revoked'', sr_UpdatedAt := t\<rparr>)
           (t_sessions d)\<rparr>))"

definition queryRevokeAllByUserID :: "int \<Rightarrow> time \<Rightarrow> time \<Rightarrow> nat stmt" where
  "queryRevokeAllByUserID userID revokedAt now t d =
     (let p = (\<lambda>s. sr_UserID s = userID \<and> sr_RevokedAt s = None \<and> sr_ExpiredAt s > now)
      in Inr (rows_affected p (t_sessions d), d\<lparr>t_sessions := update_where p
           (\<lambda>s. s\<lparr>sr_RevokedAt := (case sr_RevokedAt s of None \<Rightarrow> Some revokedAt | Some x \<Rightarrow> Some x),
                  sr_UpdatedAt := t\<rparr>) (t_sessions d)\<rparr>))"

definition queryUpdateSession :: "int \<Rightarrow> string \<Rightarrow> time \<Rightarrow> time \<Rightarrow> nat stmt" where
  "queryUpdateSession i hash expiresAt lastSeen t d =
     (let p = (\<lambda>s. sr_ID s = i); n = rows_affected p (t_sessions d)
      in if n \<noteq> 0 \<and> taken sr_RefreshTokenHash hash (filter (\<lambda>s. \<not> p s) (t_sessions d))
         then Inl (PgError ''23505'')
         else Inr (n, d\<lparr>t_sessions := update_where p
           (\<lambda>s. s\<lparr>sr_RefreshTokenHash := hash, sr_ExpiredAt := expiresAt, sr_LastSeenAt := lastSeen,
                  sr_UpdatedAt := t\<rparr>) (t_sessions d)\<rparr>))"

text \<open>The columns the query does not select keep their zero value.\<close>

definition queryGetByDeviceID :: "int \<Rightarrow> int \<Rightarrow> sessionRow stmt" where
  "queryGetByDeviceID userID deviceID = query (\<lambda>t d.
     case find (\<lambda>s. sr_UserID s = userID \<and> sr_DeviceID s = deviceID \<and> sr_RevokedAt s = None) (t_sessions d) of
       None \<Rightarrow> Inl PgxErrNoRows
     | Some s \<Rightarrow> Inr (s\<lparr>sr_RevokedAt := None, sr_RevokedReason := None,
                       sr_CreatedAt := zeroTime, sr_UpdatedAt := zeroTime\<rparr>))"

definition queryUpsertSession ::
  "int \<Rightarrow> int \<Rightarrow> string \<Rightarrow> string \<Rightarrow> time \<Rightarrow> string option \<Rightarrow> string \<Rightarrow> time \<Rightarrow> (int \<times> time \<times> time) stmt" where
  "queryUpsertSession userID deviceID hash status expiresAt ip agent lastSeen t d =
     (let p = (\<lambda>s. (sr_UserID s, sr_DeviceID s) = (userID, deviceID));
          upd = (\<lambda>s. s\<lparr>sr_RefreshTokenHash := hash, sr_SessionStatus := status, sr_ExpiredAt := expiresAt,
                  sr_IPAddress := ip, sr_UserAgent := agent, sr_LastSeenAt := lastSeen,
                  sr_RevokedAt := None, sr_UpdatedAt := t\<rparr>)
      in if \<not> (varchar 20 status \<and> varcharPtr 45 ip) then Inl (PgError ''22001'')
         else if status \<notin> set session_statuses then Inl (PgError ''23514'')
         else case find p (t_sessions d) of
           None \<Rightarrow> queryInsertSession userID deviceID hash status expiresAt ip agent lastSeen t d
         | Some s \<Rightarrow>
             if taken sr_RefreshTokenHash hash (filter (\<lambda>s. \<not> p s) (t_sessions d)) then Inl (PgError ''23505'')
             else Inr ((sr_ID s, sr_CreatedAt s, t),
                    d\<lparr>t_sessions := update_where p upd (t_sessions d),
                      db_seq := (db_seq d)\<lparr>seq_sessions := seq_sessions (db_seq d) + 1\<rparr>\<rparr>))"

definition queryRevokeAllExcept :: "int \<Rightarrow> int \<Rightarrow> time \<Rightarrow> nat stmt" where
  "queryRevokeAllExcept userID exceptID revokedAt t d =
     (let p = (\<lambda>s. sr_UserID s = userID \<and> sr_ID s \<noteq> exceptID \<and> sr_RevokedAt s = None
                   \<and> sr_SessionStatus s = ''active'')
      in Inr (rows_affected p (t_sessions d), d\<lparr>t_sessions := update_where p
           (\<lambda>s. s\<lparr>sr_RevokedAt := Some revokedAt, sr_SessionStatus := ''revoked'', sr_UpdatedAt := t\<rparr>)
           (t_sessions d)\<rparr>))"

definition SessionRepository_GetByDeviceID :: "env \<Rightarrow> ctx \<Rightarrow> int \<Rightarrow> int \<Rightarrow> Session io" where
  "SessionRepository_GetByDeviceID E c userID deviceID =
     andThen (mapErr (noRowsAs (DomainErr ErrSessionNotFound)) (pg E c (queryGetByDeviceID userID deviceID))) (\<lambda>r.
     ok (mapSessionRowToEntity r))"

definition SessionRepository_Upsert :: "env \<Rightarrow> ctx \<Rightarrow> Session \<Rightarrow> Session io" where
  "SessionRepository_Upsert E c session =
     andThen (pg E c (queryUpsertSession (sess_UserID session) (sess_DeviceID session)
        (sess_RefreshTokenHash session) (sess_SessionStatus session) (sess_ExpiredAt session)
        (sess_IPAddress session) (sess_UserAgent session) (sess_LastSeenAt session))) (\<lambda>(i, created, updated).
     ok (session\<lparr>sess_ID := i, sess_CreatedAt := created, sess_UpdatedAt := updated\<rparr>))"

definition SessionRepository_Update :: "env \<Rightarrow> ctx \<Rightarrow> Session \<Rightarrow> unit io" where
  "SessionRepository_Update E c session =
     andThen (pg E c (queryUpdateSession (sess_ID session) (sess_RefreshTokenHash session)
        (sess_ExpiredAt session) (sess_LastSeenAt session))) (\<lambda>_.
     ok ())"

definition SessionRepository_Insert :: "env \<Rightarrow> ctx \<Rightarrow> Session \<Rightarrow> Session io" where
  "SessionRepository_Insert E c session =
     andThen (pg E c (queryInsertSession (sess_UserID session) (sess_DeviceID session)
        (sess_RefreshTokenHash session) (sess_SessionStatus session) (sess_ExpiredAt session)
        (sess_IPAddress session) (sess_UserAgent session) (sess_LastSeenAt session))) (\<lambda>(i, created, updated).
     ok (session\<lparr>sess_ID := i, sess_CreatedAt := created, sess_UpdatedAt := updated\<rparr>))"

text \<open>\<open>FOR UPDATE\<close> locks the row for the rest of the transaction and reads the same row.\<close>

definition SessionRepository_getByRefreshTokenHash :: "env \<Rightarrow> ctx \<Rightarrow> string \<Rightarrow> bool \<Rightarrow> Session io" where
  "SessionRepository_getByRefreshTokenHash E c hash forUpdate =
     andThen (mapErr (noRowsAs (DomainErr ErrSessionNotFound)) (pg E c (queryGetByRefreshTokenHash hash))) (\<lambda>r.
     ok (mapSessionRowToEntity r))"

definition SessionRepository_GetByRefreshTokenHash :: "env \<Rightarrow> ctx \<Rightarrow> string \<Rightarrow> Session io" where
  "SessionRepository_GetByRefreshTokenHash E c hash = SessionRepository_getByRefreshTokenHash E c hash False"

definition SessionRepository_GetByRefreshTokenHashForUpdate :: "env \<Rightarrow> ctx \<Rightarrow> string \<Rightarrow> Session io" where
  "SessionRepository_GetByRefreshTokenHashForUpdate E c hash = SessionRepository_getByRefreshTokenHash E c hash True"

definition SessionRepository_ListActiveByUserID :: "env \<Rightarrow> ctx \<Rightarrow> int \<Rightarrow> Session list io" where
  "SessionRepository_ListActiveByUserID E c userID =
     andThen (Now E) (\<lambda>now.
     andThen (pg E c (queryListActiveByUserID userID now)) (\<lambda>rs.
     ok (map mapSessionRowToEntity rs)))"

definition SessionRepository_Revoke :: "env \<Rightarrow> ctx \<Rightarrow> int \<Rightarrow> int \<Rightarrow> time \<Rightarrow> unit io" where
  "SessionRepository_Revoke E c deviceID userID revokedAt =
     andThen (pg E c (queryRevokeSession deviceID revokedAt userID)) (\<lambda>n.
     if n = 0 then fail (DomainErr ErrSessionNotFound) else ok ())"

definition SessionRepository_RevokeAllByUserID :: "env \<Rightarrow> ctx \<Rightarrow> int \<Rightarrow> time \<Rightarrow> unit io" where
  "SessionRepository_RevokeAllByUserID E c userID revokedAt =
     andThen (Now E) (\<lambda>now.
     andThen (pg E c (queryRevokeAllByUserID userID revokedAt now)) (\<lambda>_.
     ok ()))"

definition SessionRepository_RevokeAllExcept :: "env \<Rightarrow> ctx \<Rightarrow> int \<Rightarrow> int \<Rightarrow> time \<Rightarrow> unit io" where
  "SessionRepository_RevokeAllExcept E c userID exceptSessionID revokedAt =
     andThen (pg E c (queryRevokeAllExcept userID exceptSessionID revokedAt)) (\<lambda>_.
     ok ())"

section \<open>device\_repo.go\<close>

definition queryGetDeviceByID :: "int \<Rightarrow> deviceRow stmt" where
  "queryGetDeviceByID i = selectOne t_devices (\<lambda>d. dr_ID d = i)"

definition queryGetDeviceByFingerprint :: "int \<Rightarrow> string \<Rightarrow> deviceRow stmt" where
  "queryGetDeviceByFingerprint userID fp =
     selectOne t_devices (\<lambda>d. dr_UserID d = userID \<and> dr_Fingerprint d = fp)"

definition queryListActiveDeviceByUserID :: "int \<Rightarrow> deviceRow list stmt" where
  "queryListActiveDeviceByUserID userID =
     selectMany t_devices (\<lambda>d. dr_UserID d = userID \<and> dr_RevokedAt d = None)
       (sort_key (\<lambda>d. - dr_LastSeenAt d))"

definition queryUpsertDevice ::
  "int \<Rightarrow> string \<Rightarrow> string \<Rightarrow> time \<Rightarrow> time \<Rightarrow> time option \<Rightarrow> (int \<times> time) stmt" where
  "queryUpsertDevice userID fp label firstSeen lastSeen revokedAt t d =
     (let p = (\<lambda>r. (dr_UserID r, dr_Fingerprint r) = (userID, fp));
          i = seq_devices (db_seq d) + 1;
          d1 = d\<lparr>db_seq := (db_seq d)\<lparr>seq_devices := i\<rparr>\<rparr>
      in if \<not> varchar 255 label then Inl (PgError ''22001'')
         else case find p (t_devices d) of
           None \<Rightarrow>
             if \<not> references userID ur_ID (t_users d) then Inl (PgError ''23503'')
             else Inr ((i, firstSeen), d1\<lparr>t_devices := t_devices d @
               [\<lparr>dr_ID = i, dr_UserID = userID, dr_Fingerprint = fp, dr_Label = label,
                 dr_FirstSeenAt = firstSeen, dr_LastSeenAt = lastSeen, dr_RevokedAt = revokedAt,
                 dr_RevokedReason = None, dr_Metadata = JObj [], dr_CreatedAt = t, dr_UpdatedAt = t\<rparr>]\<rparr>)
         | Some r \<Rightarrow>
             Inr ((dr_ID r, dr_FirstSeenAt r), d1\<lparr>t_devices := update_where p
               (\<lambda>r. r\<lparr>dr_Label := label, dr_LastSeenAt := lastSeen, dr_RevokedAt := None, dr_UpdatedAt := t\<rparr>)
               (t_devices d)\<rparr>))"

definition queryRevokeDevice :: "int \<Rightarrow> time \<Rightarrow> nat stmt" where
  "queryRevokeDevice i revokedAt t d =
     (let p = (\<lambda>r. dr_ID r = i)
      in Inr (rows_affected p (t_devices d), d\<lparr>t_devices := update_where p
           (\<lambda>r. r\<lparr>dr_RevokedAt := (case dr_RevokedAt r of None \<Rightarrow> Some revokedAt | Some x \<Rightarrow> Some x),
                  dr_UpdatedAt := t\<rparr>) (t_devices d)\<rparr>))"

definition DeviceRepository_GetByID :: "env \<Rightarrow> ctx \<Rightarrow> int \<Rightarrow> Device io" where
  "DeviceRepository_GetByID E c i =
     andThen (pg E c (queryGetDeviceByID i)) (\<lambda>r. ok (mapDeviceRowToEntity r))"

text \<open>No row gives the zero device, not an error.\<close>

definition DeviceRepository_GetByFingerprint :: "env \<Rightarrow> ctx \<Rightarrow> int \<Rightarrow> string \<Rightarrow> Device option io" where
  "DeviceRepository_GetByFingerprint E c userID fingerprint =
     andThen (attempt (pg E c (queryGetDeviceByFingerprint userID fingerprint))) (\<lambda>r.
     (case r of
        Inl err \<Rightarrow> if err = PgxErrNoRows then ok (Some zeroDevice) else fail err
      | Inr row \<Rightarrow> ok (Some (mapDeviceRowToEntity row))))"

definition DeviceRepository_ListActiveByUserID :: "env \<Rightarrow> ctx \<Rightarrow> int \<Rightarrow> Device list io" where
  "DeviceRepository_ListActiveByUserID E c userID =
     andThen (attempt (pg E c (queryListActiveDeviceByUserID userID))) (\<lambda>r.
     (case r of
        Inl err \<Rightarrow> if err = PgxErrNoRows then ok [] else fail err
      | Inr rows \<Rightarrow> ok (map mapDeviceRowToEntity rows)))"

text \<open>The returned first-seen time is scanned into \<open>LastSeenAt\<close>.\<close>

definition DeviceRepository_Upsert :: "env \<Rightarrow> ctx \<Rightarrow> Device \<Rightarrow> Device io" where
  "DeviceRepository_Upsert E c device =
     andThen (pg E c (queryUpsertDevice (dev_UserID device) (dev_Fingerprint device) (dev_Label device)
        (dev_FirstSeenAt device) (dev_LastSeenAt device) (dev_RevokedAt device))) (\<lambda>(i, firstSeen).
     ok (device\<lparr>dev_ID := i, dev_LastSeenAt := firstSeen\<rparr>))"

definition DeviceRepository_Revoke :: "env \<Rightarrow> ctx \<Rightarrow> int \<Rightarrow> time \<Rightarrow> unit io" where
  "DeviceRepository_Revoke E c i revokedAt =
     andThen (pg E c (queryRevokeDevice i revokedAt)) (\<lambda>_. ok ())"

section \<open>address\_repo.go\<close>

definition queryGetAddressByID :: "int \<Rightarrow> addressRow stmt" where
  "queryGetAddressByID i = selectOne t_addresses (\<lambda>a. ar_ID a = i)"

text \<open>\<open>ORDER BY is_default DESC, created_at DESC\<close>\<close>

definition orderAddresses :: "addressRow list \<Rightarrow> addressRow list" where
  "orderAddresses rs =
     (let byTime = sort_key (\<lambda>a. - ar_CreatedAt a) rs
      in filter ar_IsDefault byTime @ filter (\<lambda>a. \<not> ar_IsDefault a) byTime)"

definition queryListAddressByUserID :: "int \<Rightarrow> addressRow list stmt" where
  "queryListAddressByUserID userID = selectMany t_addresses (\<lambda>a. ar_UserID a = userID) orderAddresses"

text \<open>The widths of the text columns of \<^verbatim>\<open>addresses\<close>.\<close>

definition addressWidths :: "Address \<Rightarrow> bool" where
  "addressWidths a \<longleftrightarrow> varchar 255 (addr_RecipientName a) \<and> varchar 20 (addr_RecipientPhone a)
     \<and> varchar 255 (addr_Line1 a) \<and> varchar 255 (addr_Line2 a) \<and> varchar 20 (addr_Province a)
     \<and> varchar 20 (addr_District a) \<and> varchar 20 (addr_Ward a) \<and> varchar 10 (addr_PostalCode a)
     \<and> varchar 10 (addr_CountryCode a)"

definition queryInsertAddress :: "Address \<Rightarrow> int stmt" where
  "queryInsertAddress a t d =
     (if \<not> addressWidths a then Inl (PgError ''22001'')
      else if addr_IsDefault a \<and> taken ar_UserID (addr_UserID a) (filter ar_IsDefault (t_addresses d))
      then Inl (PgError ''23505'')
      else if \<not> references (addr_UserID a) ur_ID (t_users d) then Inl (PgError ''23503'')
      else let i = seq_addresses (db_seq d) + 1 in
        Inr (i, d\<lparr>t_addresses := t_addresses d @
            [\<lparr>ar_ID = i, ar_UserID = addr_UserID a, ar_RecipientName = addr_RecipientName a,
              ar_RecipientPhone = addr_RecipientPhone a, ar_Line1 = addr_Line1 a, ar_Line2 = addr_Line2 a,
              ar_Province = addr_Province a, ar_District = addr_District a, ar_Ward = addr_Ward a,
              ar_PostalCode = addr_PostalCode a, ar_CountryCode = addr_CountryCode a,
              ar_IsDefault = addr_IsDefault a, ar_Version = 1, ar_CreatedAt = t, ar_UpdatedAt = t\<rparr>],
          db_seq := (db_seq d)\<lparr>seq_addresses := i\<rparr>\<rparr>))"

definition queryUpdateAddress :: "Address \<Rightarrow> nat stmt" where
  "queryUpdateAddress a t d =
     (let p = (\<lambda>r. ar_ID r = addr_ID a); n = rows_affected p (t_addresses d)
      in if n \<noteq> 0 \<and> \<not> addressWidths a then Inl (PgError ''22001'')
         else if addr_IsDefault a \<and> (\<exists>r \<in> set (t_addresses d). p r
              \<and> taken ar_UserID (ar_UserID r) (filter (\<lambda>s. ar_IsDefault s \<and> \<not> p s) (t_addresses d)))
         then Inl (PgError ''23505'')
         else Inr (n, d\<lparr>t_addresses := update_where p
           (\<lambda>r. r\<lparr>ar_RecipientName := addr_RecipientName a, ar_RecipientPhone := addr_RecipientPhone a,
                  ar_Line1 := addr_Line1 a, ar_Line2 := addr_Line2 a, ar_Province := addr_Province a,
                  ar_District := addr_District a, ar_Ward := addr_Ward a, ar_PostalCode := addr_PostalCode a,
                  ar_CountryCode := addr_CountryCode a, ar_IsDefault := addr_IsDefault a, ar_UpdatedAt := t\<rparr>)
           (t_addresses d)\<rparr>))"

definition queryDeleteAddress :: "int \<Rightarrow> nat stmt" where
  "queryDeleteAddress i t d =
     Inr (rows_affected (\<lambda>a. ar_ID a = i) (t_addresses d),
          d\<lparr>t_addresses := filter (\<lambda>a. ar_ID a \<noteq> i) (t_addresses d)\<rparr>)"

definition queryUnsetDefaultByUserID :: "int \<Rightarrow> nat stmt" where
  "queryUnsetDefaultByUserID userID t d =
     (let p = (\<lambda>a. ar_UserID a = userID)
      in Inr (rows_affected p (t_addresses d), d\<lparr>t_addresses := update_where p
           (\<lambda>a. a\<lparr>ar_IsDefault := False, ar_UpdatedAt := t\<rparr>) (t_addresses d)\<rparr>))"

definition AddressRepository_GetByID :: "env \<Rightarrow> ctx \<Rightarrow> int \<Rightarrow> Address io" where
  "AddressRepository_GetByID E c i =
     andThen (mapErr (noRowsAs (DomainErr ErrAddressNotFound)) (pg E c (queryGetAddressByID i))) (\<lambda>r.
     ok (mapAddressRowToEntity r))"

definition AddressRepository_ListByUserID :: "env \<Rightarrow> ctx \<Rightarrow> int \<Rightarrow> Address list io" where
  "AddressRepository_ListByUserID E c userID =
     andThen (pg E c (queryListAddressByUserID userID)) (\<lambda>rs. ok (map mapAddressRowToEntity rs))"

definition AddressRepository_Insert :: "env \<Rightarrow> ctx \<Rightarrow> Address \<Rightarrow> Address io" where
  "AddressRepository_Insert E c address =
     andThen (pg E c (queryInsertAddress address)) (\<lambda>i. ok (address\<lparr>addr_ID := i\<rparr>))"

text \<open>
  The methods look at the number of rows before the error; after an error the tag is empty, so
  every error of the statement comes out as \<open>ErrAddressNotFound\<close>.
\<close>

definition rowsBeforeError :: "gerror + nat \<Rightarrow> gerror + unit" where
  "rowsBeforeError r = (case r of Inl err \<Rightarrow> Inl (DomainErr ErrAddressNotFound)
     | Inr n \<Rightarrow> if n = 0 then Inl (DomainErr ErrAddressNotFound) else Inr ())"

definition AddressRepository_Update :: "env \<Rightarrow> ctx \<Rightarrow> Address \<Rightarrow> unit io" where
  "AddressRepository_Update E c address =
     andThen (attempt (pg E c (queryUpdateAddress address))) (\<lambda>r. lift (rowsBeforeError r))"

definition AddressRepository_Delete :: "env \<Rightarrow> ctx \<Rightarrow> int \<Rightarrow> unit io" where
  "AddressRepository_Delete E c i =
     andThen (attempt (pg E c (queryDeleteAddress i))) (\<lambda>r. lift (rowsBeforeError r))"

definition AddressRepository_UnsetDefaultByUserID :: "env \<Rightarrow> ctx \<Rightarrow> int \<Rightarrow> unit io" where
  "AddressRepository_UnsetDefaultByUserID E c userID =
     andThen (pg E c (queryUnsetDefaultByUserID userID)) (\<lambda>_. ok ())"

section \<open>query\_repo.go\<close>

definition queryMe :: "int \<Rightarrow> userRow stmt" where
  "queryMe i = selectOne t_users (\<lambda>u. ur_ID u = i)"

definition queryListSession :: "int \<Rightarrow> sessionRow list stmt" where
  "queryListSession userID = selectMany t_sessions (\<lambda>s. sr_UserID s = userID) (sort_key (\<lambda>s. - sr_CreatedAt s))"

definition queryListDevice :: "int \<Rightarrow> deviceRow list stmt" where
  "queryListDevice userID = selectMany t_devices (\<lambda>d. dr_UserID d = userID) (sort_key (\<lambda>d. - dr_CreatedAt d))"

definition queryListAddress :: "int \<Rightarrow> addressRow list stmt" where
  "queryListAddress userID = selectMany t_addresses (\<lambda>a. ar_UserID a = userID) orderAddresses"

definition QueryRepository_GetMe :: "env \<Rightarrow> ctx \<Rightarrow> int \<Rightarrow> MeView io" where
  "QueryRepository_GetMe E c userID =
     andThen (mapErr (noRowsAs (DomainErr ErrUserNotFound)) (pg E c (queryMe userID))) (\<lambda>r.
     ok (mapUserRowToMeView r))"

definition QueryRepository_ListSessions :: "env \<Rightarrow> ctx \<Rightarrow> int \<Rightarrow> SessionView list io" where
  "QueryRepository_ListSessions E c userID =
     andThen (pg E c (queryListSession userID)) (\<lambda>rs. ok (map mapSessionRowToView rs))"

definition QueryRepository_ListDevices :: "env \<Rightarrow> ctx \<Rightarrow> int \<Rightarrow> DeviceView list io" where
  "QueryRepository_ListDevices E c userID =
     andThen (pg E c (queryListDevice userID)) (\<lambda>rs. ok (map mapDeviceRowToView rs))"

definition QueryRepository_ListAddresses :: "env \<Rightarrow> ctx \<Rightarrow> int \<Rightarrow> AddressView list io" where
  "QueryRepository_ListAddresses E c userID =
     andThen (pg E c (queryListAddress userID)) (\<lambda>rs. ok (map mapAddressRowToView rs))"

end
