(* ===== verification/Identity_Postgres_Inv.thy ===== *)
theory Identity_Postgres_Inv
  imports Identity_Postgres
begin

text \<open>
  Facts about the repositories of the identity module: every statement keeps the constraints of
  the schema, every method keeps them too and stays inside the transaction it is given; what the
  methods return and change on their success and error branches.
\<close>

section \<open>Statements keep the constraints of the schema\<close>

lemma stmt_preserves_selectOne [pres]: "stmt_preserves P (selectOne tbl p)"
  by (simp add: selectOne_def pres)

lemma stmt_preserves_selectMany [pres]: "stmt_preserves P (selectMany tbl p f)"
  by (simp add: selectMany_def pres)

lemmas read_query_defs = queryGetUserByID_def queryGetUserByEmail_def queryCheckExistEmail_def
  queryCredentialGetByUserID_def queryGetByRefreshTokenHash_def queryListActiveByUserID_def
  queryGetByDeviceID_def queryGetDeviceByID_def queryGetDeviceByFingerprint_def
  queryListActiveDeviceByUserID_def queryGetAddressByID_def queryListAddressByUserID_def
  queryMe_def queryListSession_def queryListDevice_def queryListAddress_def

lemma stmt_preserves_selects [pres]:
  "stmt_preserves P (queryGetUserByID i)" "stmt_preserves P (queryGetUserByEmail e)"
  "stmt_preserves P (queryCheckExistEmail e)" "stmt_preserves P (queryCredentialGetByUserID i)"
  "stmt_preserves P (queryGetByRefreshTokenHash h)" "stmt_preserves P (queryListActiveByUserID i t)"
  "stmt_preserves P (queryGetByDeviceID i j)" "stmt_preserves P (queryGetDeviceByID i)"
  "stmt_preserves P (queryGetDeviceByFingerprint i f)" "stmt_preserves P (queryListActiveDeviceByUserID i)"
  "stmt_preserves P (queryGetAddressByID i)" "stmt_preserves P (queryListAddressByUserID i)"
  "stmt_preserves P (queryMe i)" "stmt_preserves P (queryListSession i)"
  "stmt_preserves P (queryListDevice i)" "stmt_preserves P (queryListAddress i)"
  unfolding read_query_defs by (rule pres)+

lemmas keep_rules = unique_on_update_same fk_update_where fk_update_target ids_below_update_where

lemma queryInsertUser_ok [pres]: "stmt_preserves db_ok (queryInsertUser em fn ph ut st va md ve)"
proof (rule stmt_preservesI)
  fix t d x d'
  assume ok: "db_ok d" and run: "queryInsertUser em fn ph ut st va md ve t d = Inr (x, d')"
  let ?i = "seq_users (db_seq d) + 1"
  from ok have u: "unique_on ur_ID (t_users d)" "ids_below ur_ID (seq_users (db_seq d)) (t_users d)"
    by (simp_all add: db_ok_def users_ok_def)
  then have "?i \<notin> ur_ID ` set (t_users d)" "ids_below ur_ID ?i (t_users d)"
    using ids_below_fresh by (fastforce, auto elim: ids_below_mono)
  with ok run show "db_ok d'"
    by (auto simp: queryInsertUser_def Let_def db_ok_def table_oks unique_on_snoc taken_iff
        intro: fk_grow split: if_splits)
qed

lemma queryUpdateStatus_ok [pres]: "stmt_preserves db_ok (queryUpdateStatus s i)"
  by (rule stmt_preservesI)
    (auto simp: queryUpdateStatus_def Let_def db_ok_def table_oks rows_affected_0 set_update_where
      intro!: keep_rules split: if_splits)

lemma queryMarkEmailVerified_ok [pres]: "stmt_preserves db_ok (queryMarkEmailVerified t0 i)"
  by (rule stmt_preservesI)
    (auto simp: queryMarkEmailVerified_def Let_def db_ok_def table_oks account_statuses_def
      set_update_where intro!: keep_rules)

lemma queryInsert_ok [pres]: "stmt_preserves db_ok (queryInsert i h al t0 n t1)"
  by (rule stmt_preservesI)
    (auto simp: queryInsert_def db_ok_def table_oks unique_on_snoc taken_iff split: if_splits)

lemma queryUpdatePasswordHash_ok [pres]: "stmt_preserves db_ok (queryUpdatePasswordHash i h t0)"
  by (rule stmt_preservesI)
    (auto simp: queryUpdatePasswordHash_def Let_def db_ok_def table_oks set_update_where intro!: keep_rules)

lemma queryInsertSession_ok [pres]:
  "stmt_preserves db_ok (queryInsertSession u dv h st ex ip ag ls)"
proof (rule stmt_preservesI)
  fix t d x d'
  assume ok: "db_ok d" and run: "queryInsertSession u dv h st ex ip ag ls t d = Inr (x, d')"
  let ?i = "seq_sessions (db_seq d) + 1"
  from ok have u: "ids_below sr_ID (seq_sessions (db_seq d)) (t_sessions d)"
    by (simp add: db_ok_def sessions_ok_def)
  then have "?i \<notin> sr_ID ` set (t_sessions d)" "ids_below sr_ID ?i (t_sessions d)"
    using ids_below_fresh by (fastforce, auto elim: ids_below_mono)
  with ok run show "db_ok d'"
    by (auto simp: queryInsertSession_def Let_def db_ok_def table_oks unique_on_snoc taken_iff split: if_splits)
qed

lemma queryRevokeSession_ok [pres]: "stmt_preserves db_ok (queryRevokeSession dv t0 u)"
  by (rule stmt_preservesI)
    (auto simp: queryRevokeSession_def Let_def db_ok_def table_oks session_statuses_def set_update_where
      intro!: keep_rules)

lemma queryRevokeAllByUserID_ok [pres]: "stmt_preserves db_ok (queryRevokeAllByUserID u t0 t1)"
  by (rule stmt_preservesI)
    (auto simp: queryRevokeAllByUserID_def Let_def db_ok_def table_oks set_update_where intro!: keep_rules)

lemma queryRevokeAllExcept_ok [pres]: "stmt_preserves db_ok (queryRevokeAllExcept u i t0)"
  by (rule stmt_preservesI)
    (auto simp: queryRevokeAllExcept_def Let_def db_ok_def table_oks session_statuses_def set_update_where
      intro!: keep_rules)

lemma sessions_ok_rekey:
  assumes "sessions_ok n us ds ss" and "unique_on k ss"
    and "\<And>s. sr_ID (g s) = sr_ID s" "\<And>s. sr_UserID (g s) = sr_UserID s" "\<And>s. sr_DeviceID (g s) = sr_DeviceID s"
    and "\<And>s. sr_RefreshTokenHash (g s) = h"
    and "\<And>s. sr_SessionStatus s \<in> set session_statuses \<Longrightarrow> sr_SessionStatus (g s) \<in> set session_statuses"
    and "\<not> taken sr_RefreshTokenHash h (filter (\<lambda>s. k s \<noteq> x) ss)"
  shows "sessions_ok n us ds (update_where (\<lambda>s. k s = x) g ss)"
proof -
  have "unique_on sr_RefreshTokenHash (update_where (\<lambda>s. k s = x) g ss)"
    using assms by (intro unique_on_update_one [where v = h]) (auto simp: sessions_ok_def taken_def)
  then show ?thesis
    using assms unfolding sessions_ok_def by (auto simp: set_update_where intro!: keep_rules)
qed

lemma queryUpdateSession_ok [pres]: "stmt_preserves db_ok (queryUpdateSession i h ex ls)"
proof (rule stmt_preservesI)
  fix t d x d'
  assume ok: "db_ok d" and run: "queryUpdateSession i h ex ls t d = Inr (x, d')"
  let ?p = "\<lambda>s. sr_ID s = i"
  let ?g = "\<lambda>s. s\<lparr>sr_RefreshTokenHash := h, sr_ExpiredAt := ex, sr_LastSeenAt := ls, sr_UpdatedAt := t\<rparr>"
  have d': "d' = d\<lparr>t_sessions := update_where ?p ?g (t_sessions d)\<rparr>"
    and c: "rows_affected ?p (t_sessions d) = 0 \<or> \<not> taken sr_RefreshTokenHash h (filter (\<lambda>s. sr_ID s \<noteq> i) (t_sessions d))"
    using run by (auto simp: queryUpdateSession_def Let_def split: if_splits)
  have "sessions_ok (seq_sessions (db_seq d)) (t_users d) (t_devices d) (update_where ?p ?g (t_sessions d))"
  proof (cases "rows_affected ?p (t_sessions d) = 0")
    case True
    then have "update_where ?p ?g (t_sessions d) = t_sessions d"
      by (simp add: rows_affected_0 update_where_none)
    then show ?thesis using ok by (simp add: db_ok_def)
  next
    case False
    with c ok show ?thesis
      by (intro sessions_ok_rekey [where h = h]) (auto simp: db_ok_def sessions_ok_def)
  qed
  then show "db_ok d'" using ok by (simp add: d' db_ok_def)
qed

lemma queryUpsertSession_ok [pres]: "stmt_preserves db_ok (queryUpsertSession u dv h st ex ip ag ls)"
proof (rule stmt_preservesI)
  fix t d x d'
  assume ok: "db_ok d" and run: "queryUpsertSession u dv h st ex ip ag ls t d = Inr (x, d')"
  let ?k = "\<lambda>s. (sr_UserID s, sr_DeviceID s)"
  show "db_ok d'"
  proof (cases "find (\<lambda>s. ?k s = (u, dv)) (t_sessions d)")
    case None
    with run have "queryInsertSession u dv h st ex ip ag ls t d = Inr (x, d')"
      by (auto simp: queryUpsertSession_def Let_def split: if_splits)
    with ok show ?thesis by (rule stmt_preservesD [OF queryInsertSession_ok])
  next
    case (Some s)
    with run have st: "st \<in> set session_statuses"
      and nt: "\<not> taken sr_RefreshTokenHash h (filter (\<lambda>s. ?k s \<noteq> (u, dv)) (t_sessions d))"
      and d': "d' = d\<lparr>t_sessions := update_where (\<lambda>s. ?k s = (u, dv))
          (\<lambda>s. s\<lparr>sr_RefreshTokenHash := h, sr_SessionStatus := st, sr_ExpiredAt := ex, sr_IPAddress := ip,
             sr_UserAgent := ag, sr_LastSeenAt := ls, sr_RevokedAt := None, sr_UpdatedAt := t\<rparr>) (t_sessions d),
          db_seq := (db_seq d)\<lparr>seq_sessions := seq_sessions (db_seq d) + 1\<rparr>\<rparr>"
      by (auto simp: queryUpsertSession_def Let_def split: if_splits)
    have "sessions_ok (seq_sessions (db_seq d) + 1) (t_users d) (t_devices d) (t_sessions d)"
      using ok by (auto simp: db_ok_def sessions_ok_def elim: ids_below_mono)
    then have "sessions_ok (seq_sessions (db_seq d) + 1) (t_users d) (t_devices d)
        (update_where (\<lambda>s. ?k s = (u, dv))
          (\<lambda>s. s\<lparr>sr_RefreshTokenHash := h, sr_SessionStatus := st, sr_ExpiredAt := ex, sr_IPAddress := ip,
             sr_UserAgent := ag, sr_LastSeenAt := ls, sr_RevokedAt := None, sr_UpdatedAt := t\<rparr>) (t_sessions d))"
      using nt st by (intro sessions_ok_rekey [where h = h]) (simp_all add: sessions_ok_def)
    then show ?thesis using ok by (simp add: d' db_ok_def)
  qed
qed

lemma queryUpsertDevice_ok [pres]: "stmt_preserves db_ok (queryUpsertDevice u f l t1 t2 rv)"
proof (rule stmt_preservesI)
  fix t d x d'
  assume ok: "db_ok d" and run: "queryUpsertDevice u f l t1 t2 rv t d = Inr (x, d')"
  let ?i = "seq_devices (db_seq d) + 1"
  from ok have b: "ids_below dr_ID (seq_devices (db_seq d)) (t_devices d)"
    by (simp add: db_ok_def devices_ok_def)
  then have fresh: "?i \<notin> dr_ID ` set (t_devices d)" "ids_below dr_ID ?i (t_devices d)"
    using ids_below_fresh by (fastforce, auto elim: ids_below_mono)
  show "db_ok d'"
  proof (cases "find (\<lambda>r. (dr_UserID r, dr_Fingerprint r) = (u, f)) (t_devices d)")
    case None
    then have "(u, f) \<notin> (\<lambda>d. (dr_UserID d, dr_Fingerprint d)) ` set (t_devices d)"
      by (auto simp: find_None_iff)
    with None ok run fresh show ?thesis
      by (auto simp: queryUpsertDevice_def Let_def db_ok_def table_oks unique_on_snoc
          intro: fk_grow split: if_splits)
  next
    case (Some r)
    with ok run fresh show ?thesis
      by (auto simp: queryUpsertDevice_def Let_def db_ok_def table_oks intro!: keep_rules split: if_splits)
  qed
qed

lemma queryRevokeDevice_ok [pres]: "stmt_preserves db_ok (queryRevokeDevice i t0)"
  by (rule stmt_preservesI)
    (auto simp: queryRevokeDevice_def Let_def db_ok_def table_oks intro!: keep_rules)

lemma addresses_ok_default:
  assumes "addresses_ok n us adrs" and upd: "\<And>r. ar_ID (g r) = ar_ID r" "\<And>r. ar_UserID (g r) = ar_UserID r"
    "\<And>r. ar_Version (g r) = ar_Version r"
    and dflt: "unique_on ar_UserID (filter ar_IsDefault (update_where p g adrs))"
  shows "addresses_ok n us (update_where p g adrs)"
  using assms by (auto simp: addresses_ok_def set_update_where intro!: keep_rules)

lemma queryInsertAddress_ok [pres]: "stmt_preserves db_ok (queryInsertAddress a)"
proof (rule stmt_preservesI)
  fix t d x d'
  assume ok: "db_ok d" and run: "queryInsertAddress a t d = Inr (x, d')"
  let ?i = "seq_addresses (db_seq d) + 1"
  from ok have b: "ids_below ar_ID (seq_addresses (db_seq d)) (t_addresses d)"
    by (simp add: db_ok_def addresses_ok_def)
  then have fresh: "?i \<notin> ar_ID ` set (t_addresses d)" "ids_below ar_ID ?i (t_addresses d)"
    using ids_below_fresh by (fastforce, auto elim: ids_below_mono)
  with ok run show "db_ok d'"
    by (auto simp: queryInsertAddress_def Let_def db_ok_def table_oks unique_on_snoc taken_iff split: if_splits)
qed

text \<open>Setting the default flag of one address whose user has no other default address.\<close>

lemma unique_default_update:
  assumes i: "unique_on ar_ID adrs" and u: "unique_on ar_UserID (filter ar_IsDefault adrs)"
    and g: "\<And>r. ar_UserID (g r) = ar_UserID r" "\<And>r. ar_IsDefault (g r) = b"
    and free: "\<And>r. b \<Longrightarrow> r \<in> set adrs \<Longrightarrow> ar_ID r = x \<Longrightarrow>
      \<not> taken ar_UserID (ar_UserID r) (filter (\<lambda>s. ar_IsDefault s \<and> ar_ID s \<noteq> x) adrs)"
  shows "unique_on ar_UserID (filter ar_IsDefault (update_where (\<lambda>r. ar_ID r = x) g adrs))"
  using i u free
proof (induction adrs)
  case Nil
  then show ?case by (simp add: unique_on_def)
next
  case (Cons a adrs)
  have ur: "unique_on ar_ID adrs" "unique_on ar_UserID (filter ar_IsDefault adrs)"
    using Cons.prems by (simp_all add: unique_on_def split: if_splits)
  have IH: "unique_on ar_UserID (filter ar_IsDefault (update_where (\<lambda>r. ar_ID r = x) g adrs))"
    using Cons.prems(3) by (intro Cons.IH [OF ur]) (fastforce simp: taken_def)
  show ?case
  proof (cases "ar_ID a = x")
    case True
    then have none: "\<forall>r \<in> set adrs. ar_ID r \<noteq> x" using Cons.prems(1)
      by (auto simp: unique_on_def image_iff)
    then have same: "update_where (\<lambda>r. ar_ID r = x) g adrs = adrs" by (simp add: update_where_none)
    have "b \<Longrightarrow> ar_UserID a \<notin> ar_UserID ` set (filter ar_IsDefault adrs)"
      using Cons.prems(3) [of a] True none by (auto simp: taken_def)
    then show ?thesis using True same ur g by (auto simp: unique_on_def)
  next
    case False
    have "ar_UserID a \<notin> ar_UserID ` set (filter ar_IsDefault (update_where (\<lambda>r. ar_ID r = x) g adrs))"
      if "ar_IsDefault a"
    proof
      assume "ar_UserID a \<in> ar_UserID ` set (filter ar_IsDefault (update_where (\<lambda>r. ar_ID r = x) g adrs))"
      then obtain r where r: "r \<in> set (update_where (\<lambda>r. ar_ID r = x) g adrs)" "ar_IsDefault r" "ar_UserID r = ar_UserID a"
        by auto
      then consider s where "s \<in> set adrs" "ar_ID s = x" "r = g s" | "r \<in> set adrs"
        by (auto simp: set_update_where)
      then show False
      proof cases
        case 1
        with r g have "b" "ar_UserID s = ar_UserID a" by auto
        with Cons.prems(3) [of s] 1 False that show False by (auto simp: taken_def)
      next
        case 2
        with r that Cons.prems(2) show False by (auto simp: unique_on_def image_iff)
      qed
    qed
    then show ?thesis using IH False by (auto simp: unique_on_def)
  qed
qed

lemma queryUpdateAddress_ok [pres]: "stmt_preserves db_ok (queryUpdateAddress a)"
proof (rule stmt_preservesI)
  fix t d x d'
  assume ok: "db_ok d" and run: "queryUpdateAddress a t d = Inr (x, d')"
  from run obtain g where d': "d' = d\<lparr>t_addresses := update_where (\<lambda>r. ar_ID r = addr_ID a) g (t_addresses d)\<rparr>"
    and g: "\<And>r. ar_ID (g r) = ar_ID r" "\<And>r. ar_UserID (g r) = ar_UserID r" "\<And>r. ar_Version (g r) = ar_Version r"
      "\<And>r. ar_IsDefault (g r) = addr_IsDefault a"
    and free: "\<And>r. addr_IsDefault a \<Longrightarrow> r \<in> set (t_addresses d) \<Longrightarrow> ar_ID r = addr_ID a \<Longrightarrow>
      \<not> taken ar_UserID (ar_UserID r) (filter (\<lambda>s. ar_IsDefault s \<and> ar_ID s \<noteq> addr_ID a) (t_addresses d))"
    by (auto simp: queryUpdateAddress_def Let_def split: if_splits)
  have A: "addresses_ok (seq_addresses (db_seq d)) (t_users d) (t_addresses d)" using ok by (simp add: db_ok_def)
  then have "unique_on ar_UserID (filter ar_IsDefault (update_where (\<lambda>r. ar_ID r = addr_ID a) g (t_addresses d)))"
    using free g by (intro unique_default_update [where b = "addr_IsDefault a"]) (auto simp: addresses_ok_def)
  with A g have "addresses_ok (seq_addresses (db_seq d)) (t_users d) (t_addresses d')"
    unfolding d' by simp (rule addresses_ok_default)
  then show "db_ok d'" using ok by (simp add: d' db_ok_def)
qed

lemma filter_swap_unique:
  "unique_on k (filter p rs) \<Longrightarrow> unique_on k (filter p (filter q rs))"
  using unique_on_filter [of k "filter p rs" q] by (simp add: filter_filter conj_commute)

lemma queryDeleteAddress_ok [pres]: "stmt_preserves db_ok (queryDeleteAddress i)"
  by (rule stmt_preservesI)
    (auto simp: queryDeleteAddress_def db_ok_def addresses_ok_def fk_def ids_below_def
      simp del: filter_filter intro: unique_on_filter filter_swap_unique)

lemma queryUnsetDefaultByUserID_ok [pres]: "stmt_preserves db_ok (queryUnsetDefaultByUserID u)"
proof (rule stmt_preservesI)
  fix t d x d'
  assume ok: "db_ok d" and run: "queryUnsetDefaultByUserID u t d = Inr (x, d')"
  let ?g = "\<lambda>a. a\<lparr>ar_IsDefault := False, ar_UpdatedAt := t\<rparr>"
  have f: "filter ar_IsDefault (update_where (\<lambda>a. ar_UserID a = u) ?g adrs)
      = filter (\<lambda>a. ar_UserID a \<noteq> u) (filter ar_IsDefault adrs)" for adrs
    by (induction adrs) auto
  have A: "addresses_ok (seq_addresses (db_seq d)) (t_users d) (t_addresses d)" using ok by (simp add: db_ok_def)
  then have "addresses_ok (seq_addresses (db_seq d)) (t_users d)
      (update_where (\<lambda>a. ar_UserID a = u) ?g (t_addresses d))"
    by (rule addresses_ok_default) (use A in \<open>simp_all add: f addresses_ok_def unique_on_filter del: filter_filter\<close>)
  then show "db_ok d'" using ok run by (auto simp: queryUnsetDefaultByUserID_def Let_def db_ok_def)
qed

section \<open>Repository methods\<close>

lemmas repo_defs =
  UserRepository_GetByID_def UserRepository_GetByEmail_def UserRepository_ExistsByEmail_def
  UserRepository_Insert_def UserRepository_UpdateStatus_def UserRepository_MarkEmailVerified_def
  CredentialRepository_GetByUserID_def CredentialRepository_Insert_def
  CredentialRepository_UpdatePasswordHash_def SessionRepository_GetByDeviceID_def
  SessionRepository_Upsert_def SessionRepository_Update_def SessionRepository_Insert_def
  SessionRepository_getByRefreshTokenHash_def SessionRepository_GetByRefreshTokenHash_def
  SessionRepository_GetByRefreshTokenHashForUpdate_def SessionRepository_ListActiveByUserID_def
  SessionRepository_Revoke_def SessionRepository_RevokeAllByUserID_def
  SessionRepository_RevokeAllExcept_def DeviceRepository_GetByID_def
  DeviceRepository_GetByFingerprint_def DeviceRepository_ListActiveByUserID_def
  DeviceRepository_Upsert_def DeviceRepository_Revoke_def AddressRepository_GetByID_def
  AddressRepository_ListByUserID_def AddressRepository_Insert_def AddressRepository_Update_def
  AddressRepository_Delete_def AddressRepository_UnsetDefaultByUserID_def QueryRepository_GetMe_def
  QueryRepository_ListSessions_def QueryRepository_ListDevices_def QueryRepository_ListAddresses_def

text \<open>Every method keeps the constraints of the schema, in the pool and in an open transaction.\<close>

lemma repo_db_ok [pres]:
  "preserves (on_dbs db_ok) (UserRepository_GetByID E c i)"
  "preserves (on_dbs db_ok) (UserRepository_GetByEmail E c em)"
  "preserves (on_dbs db_ok) (UserRepository_ExistsByEmail E c em)"
  "preserves (on_dbs db_ok) (UserRepository_Insert E c u)"
  "preserves (on_dbs db_ok) (UserRepository_UpdateStatus E c i st)"
  "preserves (on_dbs db_ok) (UserRepository_MarkEmailVerified E c i t)"
  "preserves (on_dbs db_ok) (CredentialRepository_GetByUserID E c i)"
  "preserves (on_dbs db_ok) (CredentialRepository_Insert E c cr)"
  "preserves (on_dbs db_ok) (CredentialRepository_UpdatePasswordHash E c i h t)"
  "preserves (on_dbs db_ok) (SessionRepository_GetByDeviceID E c i j)"
  "preserves (on_dbs db_ok) (SessionRepository_Upsert E c s)"
  "preserves (on_dbs db_ok) (SessionRepository_Update E c s)"
  "preserves (on_dbs db_ok) (SessionRepository_Insert E c s)"
  "preserves (on_dbs db_ok) (SessionRepository_getByRefreshTokenHash E c h b)"
  "preserves (on_dbs db_ok) (SessionRepository_GetByRefreshTokenHash E c h)"
  "preserves (on_dbs db_ok) (SessionRepository_GetByRefreshTokenHashForUpdate E c h)"
  "preserves (on_dbs db_ok) (SessionRepository_ListActiveByUserID E c i)"
  "preserves (on_dbs db_ok) (SessionRepository_Revoke E c j i t)"
  "preserves (on_dbs db_ok) (SessionRepository_RevokeAllByUserID E c i t)"
  "preserves (on_dbs db_ok) (SessionRepository_RevokeAllExcept E c i j t)"
  "preserves (on_dbs db_ok) (DeviceRepository_GetByID E c i)"
  "preserves (on_dbs db_ok) (DeviceRepository_GetByFingerprint E c i f)"
  "preserves (on_dbs db_ok) (DeviceRepository_ListActiveByUserID E c i)"
  "preserves (on_dbs db_ok) (DeviceRepository_Upsert E c dv)"
  "preserves (on_dbs db_ok) (DeviceRepository_Revoke E c i t)"
  "preserves (on_dbs db_ok) (AddressRepository_GetByID E c i)"
  "preserves (on_dbs db_ok) (AddressRepository_ListByUserID E c i)"
  "preserves (on_dbs db_ok) (AddressRepository_Insert E c a)"
  "preserves (on_dbs db_ok) (AddressRepository_Update E c a)"
  "preserves (on_dbs db_ok) (AddressRepository_Delete E c i)"
  "preserves (on_dbs db_ok) (AddressRepository_UnsetDefaultByUserID E c i)"
  "preserves (on_dbs db_ok) (QueryRepository_GetMe E c i)"
  "preserves (on_dbs db_ok) (QueryRepository_ListSessions E c i)"
  "preserves (on_dbs db_ok) (QueryRepository_ListDevices E c i)"
  "preserves (on_dbs db_ok) (QueryRepository_ListAddresses E c i)"
  unfolding repo_defs by (intro pres preserves_pg)+

text \<open>A method called with a transaction's context changes nothing but the transaction's view.\<close>

lemma repo_tx_open [pres]:
  assumes "ctx_tx c"
  shows
    "preserves (tx_open p) (UserRepository_GetByID E c i)"
    "preserves (tx_open p) (UserRepository_GetByEmail E c em)"
    "preserves (tx_open p) (UserRepository_ExistsByEmail E c em)"
    "preserves (tx_open p) (UserRepository_Insert E c u)"
    "preserves (tx_open p) (UserRepository_UpdateStatus E c i st)"
    "preserves (tx_open p) (UserRepository_MarkEmailVerified E c i t)"
    "preserves (tx_open p) (CredentialRepository_GetByUserID E c i)"
    "preserves (tx_open p) (CredentialRepository_Insert E c cr)"
    "preserves (tx_open p) (CredentialRepository_UpdatePasswordHash E c i h t)"
    "preserves (tx_open p) (SessionRepository_GetByDeviceID E c i j)"
    "preserves (tx_open p) (SessionRepository_Upsert E c s)"
    "preserves (tx_open p) (SessionRepository_Update E c s)"
    "preserves (tx_open p) (SessionRepository_Insert E c s)"
    "preserves (tx_open p) (SessionRepository_getByRefreshTokenHash E c h b)"
    "preserves (tx_open p) (SessionRepository_GetByRefreshTokenHash E c h)"
    "preserves (tx_open p) (SessionRepository_GetByRefreshTokenHashForUpdate E c h)"
    "preserves (tx_open p) (SessionRepository_ListActiveByUserID E c i)"
    "preserves (tx_open p) (SessionRepository_Revoke E c j i t)"
    "preserves (tx_open p) (SessionRepository_RevokeAllByUserID E c i t)"
    "preserves (tx_open p) (SessionRepository_RevokeAllExcept E c i j t)"
    "preserves (tx_open p) (DeviceRepository_GetByID E c i)"
    "preserves (tx_open p) (DeviceRepository_GetByFingerprint E c i f)"
    "preserves (tx_open p) (DeviceRepository_ListActiveByUserID E c i)"
    "preserves (tx_open p) (DeviceRepository_Upsert E c dv)"
    "preserves (tx_open p) (DeviceRepository_Revoke E c i t)"
    "preserves (tx_open p) (AddressRepository_GetByID E c i)"
    "preserves (tx_open p) (AddressRepository_ListByUserID E c i)"
    "preserves (tx_open p) (AddressRepository_Insert E c a)"
    "preserves (tx_open p) (AddressRepository_Update E c a)"
    "preserves (tx_open p) (AddressRepository_Delete E c i)"
    "preserves (tx_open p) (AddressRepository_UnsetDefaultByUserID E c i)"
    "preserves (tx_open p) (QueryRepository_GetMe E c i)"
    "preserves (tx_open p) (QueryRepository_ListSessions E c i)"
    "preserves (tx_open p) (QueryRepository_ListDevices E c i)"
    "preserves (tx_open p) (QueryRepository_ListAddresses E c i)"
  unfolding repo_defs by (intro pres assms)+

end
