(* ===== verification/Kafka.thy ===== *)
theory Kafka
  imports World
begin

text \<open>
  The Kafka package (\<^verbatim>\<open>internal/platform/kafka\<close>): topics and keys, the envelope and its JSON form,
  message headers, the producer, the dead letter queue, handlers and middlewares, and the consumer
  with its retry loop. The loop of a reader runs over the list of outcomes of its fetches.
\<close>

section \<open>topic.go\<close>

definition TopicOrderEvents :: string where "TopicOrderEvents = ''order.events.v1''"
definition TopicPaymentEvents :: string where "TopicPaymentEvents = ''payment.events.v1''"
definition TopicMembershipEvents :: string where "TopicMembershipEvents = ''membership.events.v1''"
definition TopicEntitlementEvents :: string where "TopicEntitlementEvents = ''entitlement.events.v1''"
definition TopicInventoryEvents :: string where "TopicInventoryEvents = ''inventory.events.v1''"
definition TopicShipmentEvents :: string where "TopicShipmentEvents = ''shipment.events.v1''"
definition TopicNotificationCmds :: string where "TopicNotificationCmds = ''notification.commands.v1''"
definition TopicSchedulerCmds :: string where "TopicSchedulerCmds = ''scheduler.commands.v1''"
definition TopicAuditEvents :: string where "TopicAuditEvents = ''audit.events.v1''"
definition TopicReportingEvents :: string where "TopicReportingEvents = ''reporting.events.v1''"
definition TopicDLQGeneral :: string where "TopicDLQGeneral = ''dlq.general.v1''"

definition AggOrder :: string where "AggOrder = ''order''"
definition AggPayment :: string where "AggPayment = ''payment''"
definition AggUser :: string where "AggUser = ''user''"
definition AggMembership :: string where "AggMembership = ''membership''"
definition AggInventory :: string where "AggInventory = ''inventory''"
definition AggShipment :: string where "AggShipment = ''shipment''"

definition EventKey :: "string \<Rightarrow> string \<Rightarrow> string" where
  "EventKey aggType aggID = aggType @ '':'' @ aggID"

definition TopicKeyStrategy :: "(string \<times> string) list" where
  "TopicKeyStrategy =
    [(TopicOrderEvents, ''order_id''), (TopicPaymentEvents, ''order_id or payment_id''),
     (TopicMembershipEvents, ''user_id''), (TopicEntitlementEvents, ''user_id''),
     (TopicInventoryEvents, ''book_id''), (TopicShipmentEvents, ''shipment_id''),
     (TopicNotificationCmds, ''recipient or business_key''), (TopicSchedulerCmds, ''command_key''),
     (TopicAuditEvents, ''resource_id''), (TopicReportingEvents, ''business_key'')]"

section \<open>config.go\<close>

record KafkaConfig =
  kc_Brokers :: "string list"
  kc_ClientID :: string
  kc_ProducerMaxRetries :: int
  kc_ProducerRetryBackoff :: duration
  kc_ProducerWriteTimeout :: duration
  kc_ProducerRequiredAcks :: int
  kc_ProducerIdempotent :: bool
  kc_ProducerBatchSize :: int
  kc_ProducerLingerMs :: duration
  kc_ConsumerGroupID :: string
  kc_ConsumerReadTimeout :: duration
  kc_ConsumerMaxRetries :: int
  kc_ConsumerRetryBackoff :: duration
  kc_ConsumerAutoOffsetReset :: string
  kc_ConsumerEnableAutoCommit :: bool
  kc_DLQTopic :: string
  kc_SASLUsername :: string
  kc_SASLPassword :: string
  kc_TLSEnabled :: bool

definition DefaultKafkaConfig :: KafkaConfig where
  "DefaultKafkaConfig =
    \<lparr>kc_Brokers = [''localhost:9092''], kc_ClientID = ''bookstore-backend'',
     kc_ProducerMaxRetries = 3, kc_ProducerRetryBackoff = 500 * Millisecond,
     kc_ProducerWriteTimeout = 10 * Second, kc_ProducerRequiredAcks = - 1,
     kc_ProducerIdempotent = True, kc_ProducerBatchSize = 1048576, kc_ProducerLingerMs = 5 * Millisecond,
     kc_ConsumerGroupID = ''bookstore-kafka'', kc_ConsumerReadTimeout = 10 * Second,
     kc_ConsumerMaxRetries = 5, kc_ConsumerRetryBackoff = 1 * Second,
     kc_ConsumerAutoOffsetReset = ''earliest'', kc_ConsumerEnableAutoCommit = False,
     kc_DLQTopic = '''', kc_SASLUsername = '''', kc_SASLPassword = '''', kc_TLSEnabled = False\<rparr>"

section \<open>envelope.go\<close>

record KafkaEnvelope =
  ke_EventID :: string
  ke_EventType :: string
  ke_AggregateType :: string
  ke_AggregateID :: string
  ke_OccurredAt :: time
  ke_ProducedAt :: time
  ke_TraceID :: string
  ke_CorrelationID :: string
  ke_CausationID :: string
  ke_ActorType :: string
  ke_ActorID :: int
  ke_SchemaVersion :: int
  ke_IdempotencyKey :: string
  ke_Payload :: json

definition newUUID :: "env \<Rightarrow> string io" where
  "newUUID E = andThen (Now E) (\<lambda>t. ok (env_timeString E t))"

definition NewEnvelope ::
  "env \<Rightarrow> string \<Rightarrow> string \<Rightarrow> string \<Rightarrow> time \<Rightarrow> json \<Rightarrow> (KafkaEnvelope \<Rightarrow> KafkaEnvelope) list \<Rightarrow> KafkaEnvelope io" where
  "NewEnvelope E eventType aggregateType aggregateID occurredAt payload opts =
     andThen (newUUID E) (\<lambda>eventID.
     andThen (Now E) (\<lambda>now.
     ok (fold (\<lambda>opt e. opt e) opts
       \<lparr>ke_EventID = eventID, ke_EventType = eventType, ke_AggregateType = aggregateType,
        ke_AggregateID = aggregateID, ke_OccurredAt = occurredAt, ke_ProducedAt = now,
        ke_TraceID = '''', ke_CorrelationID = '''', ke_CausationID = '''', ke_ActorType = '''',
        ke_ActorID = 0, ke_SchemaVersion = 1, ke_IdempotencyKey = eventID, ke_Payload = payload\<rparr>)))"

definition WithTraceID :: "string \<Rightarrow> KafkaEnvelope \<Rightarrow> KafkaEnvelope" where
  "WithTraceID traceID e = e\<lparr>ke_TraceID := traceID\<rparr>"

definition WithCorrelationID :: "string \<Rightarrow> KafkaEnvelope \<Rightarrow> KafkaEnvelope" where
  "WithCorrelationID i e = e\<lparr>ke_CorrelationID := i\<rparr>"

definition WithCausationID :: "string \<Rightarrow> KafkaEnvelope \<Rightarrow> KafkaEnvelope" where
  "WithCausationID i e = e\<lparr>ke_CausationID := i\<rparr>"

definition WithActor :: "string \<Rightarrow> int \<Rightarrow> KafkaEnvelope \<Rightarrow> KafkaEnvelope" where
  "WithActor actorType actorID e = e\<lparr>ke_ActorType := actorType, ke_ActorID := actorID\<rparr>"

definition WithIdKey :: "string \<Rightarrow> KafkaEnvelope \<Rightarrow> KafkaEnvelope" where
  "WithIdKey key e = e\<lparr>ke_IdempotencyKey := key\<rparr>"

definition WithSchemaVersion :: "int \<Rightarrow> KafkaEnvelope \<Rightarrow> KafkaEnvelope" where
  "WithSchemaVersion v e = e\<lparr>ke_SchemaVersion := v\<rparr>"

text \<open>\<^verbatim>\<open>json.Marshal\<close> and \<^verbatim>\<open>json.Unmarshal\<close> of an envelope by its field tags.\<close>

definition marshalEnvelope :: "KafkaEnvelope \<Rightarrow> json" where
  "marshalEnvelope e = JObj (
     [(''event_id'', JStr (ke_EventID e)), (''event_type'', JStr (ke_EventType e)),
      (''aggregate_type'', JStr (ke_AggregateType e)), (''aggregate_id'', JStr (ke_AggregateID e)),
      (''occurred_at'', JTime (ke_OccurredAt e)), (''produced_at'', JTime (ke_ProducedAt e))]
     @ omitStr ''trace_id'' (ke_TraceID e) @ omitStr ''correlation_id'' (ke_CorrelationID e)
     @ omitStr ''causation_id'' (ke_CausationID e)
     @ [(''actor_type'', JStr (ke_ActorType e)), (''actor_id'', JNum (ke_ActorID e)),
        (''schema_version'', JNum (ke_SchemaVersion e)), (''idempotency_key'', JStr (ke_IdempotencyKey e)),
        (''payload'', ke_Payload e)])"

definition zeroEnvelope :: KafkaEnvelope where
  "zeroEnvelope = \<lparr>ke_EventID = '''', ke_EventType = '''', ke_AggregateType = '''', ke_AggregateID = '''',
     ke_OccurredAt = zeroTime, ke_ProducedAt = zeroTime, ke_TraceID = '''', ke_CorrelationID = '''',
     ke_CausationID = '''', ke_ActorType = '''', ke_ActorID = 0, ke_SchemaVersion = 0,
     ke_IdempotencyKey = '''', ke_Payload = JNull\<rparr>"

definition unmarshalEnvelope :: "json \<Rightarrow> KafkaEnvelope option" where
  "unmarshalEnvelope j = (case j of
     JNull \<Rightarrow> Some zeroEnvelope
   | JObj fs \<Rightarrow>
      Option.bind (getStr ''event_id'' fs) (\<lambda>eid.
      Option.bind (getStr ''event_type'' fs) (\<lambda>ety.
      Option.bind (getStr ''aggregate_type'' fs) (\<lambda>aty.
      Option.bind (getStr ''aggregate_id'' fs) (\<lambda>aid.
      Option.bind (getTime ''occurred_at'' fs) (\<lambda>occ.
      Option.bind (getTime ''produced_at'' fs) (\<lambda>prod.
      Option.bind (getStr ''trace_id'' fs) (\<lambda>tr.
      Option.bind (getStr ''correlation_id'' fs) (\<lambda>cor.
      Option.bind (getStr ''causation_id'' fs) (\<lambda>cau.
      Option.bind (getStr ''actor_type'' fs) (\<lambda>act.
      Option.bind (getInt ''actor_id'' fs) (\<lambda>actid.
      Option.bind (getInt ''schema_version'' fs) (\<lambda>ver.
      Option.bind (getStr ''idempotency_key'' fs) (\<lambda>idem.
      Option.bind (getRaw ''payload'' fs) (\<lambda>pl.
        Some \<lparr>ke_EventID = eid, ke_EventType = ety, ke_AggregateType = aty, ke_AggregateID = aid,
          ke_OccurredAt = occ, ke_ProducedAt = prod, ke_TraceID = tr, ke_CorrelationID = cor,
          ke_CausationID = cau, ke_ActorType = act, ke_ActorID = actid, ke_SchemaVersion = ver,
          ke_IdempotencyKey = idem, ke_Payload = pl\<rparr>))))))))))))))
   | _ \<Rightarrow> None)"

section \<open>headers.go\<close>

definition HeaderTraceID :: string where "HeaderTraceID = ''x-trace-id''"
definition HeaderCorrelationID :: string where "HeaderCorrelationID = ''x-correlation-id''"
definition HeaderCausationID :: string where "HeaderCausationID = ''x-causation-id''"
definition HeaderEventType :: string where "HeaderEventType = ''x-event-type''"
definition HeaderSchemaVersion :: string where "HeaderSchemaVersion = ''x-schema-version''"
definition HeaderProducedAt :: string where "HeaderProducedAt = ''x-produced-at''"

lemmas header_names = HeaderTraceID_def HeaderCorrelationID_def HeaderCausationID_def
  HeaderEventType_def HeaderSchemaVersion_def HeaderProducedAt_def

definition BuildHeaders :: "KafkaEnvelope \<Rightarrow> (string \<times> string) list" where
  "BuildHeaders e =
     [(HeaderEventType, ke_EventType e), (HeaderSchemaVersion, FormatInt (ke_SchemaVersion e)),
      (HeaderProducedAt, FormatRFC3339Nano (ke_ProducedAt e))]
     @ (if ke_TraceID e \<noteq> '''' then [(HeaderTraceID, ke_TraceID e)] else [])
     @ (if ke_CorrelationID e \<noteq> '''' then [(HeaderCorrelationID, ke_CorrelationID e)] else [])
     @ (if ke_CausationID e \<noteq> '''' then [(HeaderCausationID, ke_CausationID e)] else [])"

record MessageMetadata =
  mm_TraceID :: string
  mm_CorrelationID :: string
  mm_CausationID :: string
  mm_EventType :: string

fun scanHeaders :: "(string \<times> string) list \<Rightarrow> MessageMetadata \<Rightarrow> MessageMetadata" where
  "scanHeaders [] meta = meta"
| "scanHeaders ((k, v) # hs) meta = scanHeaders hs
     (if k = HeaderTraceID then meta\<lparr>mm_TraceID := v\<rparr>
      else if k = HeaderCorrelationID then meta\<lparr>mm_CorrelationID := v\<rparr>
      else if k = HeaderCausationID then meta\<lparr>mm_CausationID := v\<rparr>
      else if k = HeaderEventType then meta\<lparr>mm_EventType := v\<rparr>
      else meta)"

definition ExtractMetadata :: "(string \<times> string) list \<Rightarrow> MessageMetadata" where
  "ExtractMetadata headers = scanHeaders headers
     \<lparr>mm_TraceID = '''', mm_CorrelationID = '''', mm_CausationID = '''', mm_EventType = ''''\<rparr>"

definition ExtractTraceID :: "(string \<times> string) list \<Rightarrow> string" where
  "ExtractTraceID headers = (case find (\<lambda>h. fst h = HeaderTraceID) headers of None \<Rightarrow> '''' | Some h \<Rightarrow> snd h)"

definition ExtractCorrelationID :: "(string \<times> string) list \<Rightarrow> string" where
  "ExtractCorrelationID headers =
     (case find (\<lambda>h. fst h = HeaderCorrelationID) headers of None \<Rightarrow> '''' | Some h \<Rightarrow> snd h)"

section \<open>producer.go\<close>

definition envelopeMessage :: "string \<Rightarrow> KafkaEnvelope \<Rightarrow> kafkaMessage" where
  "envelopeMessage topic e =
     \<lparr>km_Topic = topic, km_Key = EventKey (ke_AggregateType e) (ke_AggregateID e),
      km_Value = KJson (marshalEnvelope e), km_Headers = BuildHeaders e, km_Time = ke_ProducedAt e\<rparr>"

definition PublishEnvelope :: "env \<Rightarrow> string \<Rightarrow> KafkaEnvelope \<Rightarrow> unit io" where
  "PublishEnvelope E topic e =
     mapErr (\<lambda>err. Wrapf (''kafka producer: write message ['' @ topic @ ''/'' @ ke_EventType e @ '']: '') err '''')
       (WriteMessages E [envelopeMessage topic e])"

record TopicMessage =
  tm_Topic :: string
  tm_Envelope :: KafkaEnvelope

definition PublishBatch :: "env \<Rightarrow> TopicMessage list \<Rightarrow> unit io" where
  "PublishBatch E messages =
     (if messages = [] then ok ()
      else mapErr (\<lambda>err. Wrapf ''kafka producer: batch write failed: '' err '''')
        (WriteMessages E (map (\<lambda>tm. envelopeMessage (tm_Topic tm) (tm_Envelope tm)) messages)))"

section \<open>dlq.go\<close>

record DLQPublisher =
  dlq_topic :: string

definition NewDLQPublisher :: "string \<Rightarrow> DLQPublisher" where
  "NewDLQPublisher topic = \<lparr>dlq_topic = topic\<rparr>"

definition errorString :: "gerror option \<Rightarrow> string" where
  "errorString err = (case err of None \<Rightarrow> '''' | Some e \<Rightarrow> errorText e)"

text \<open>
  \<^verbatim>\<open>json.Marshal\<close> of a \<^verbatim>\<open>DLQEnvelope\<close>: it fails when the original value is not a JSON document.
\<close>

definition marshalDLQEnvelope :: "kafkaMessage \<Rightarrow> string \<Rightarrow> string \<Rightarrow> time \<Rightarrow> gerror + json" where
  "marshalDLQEnvelope original reason errText failedAt = (case km_Value original of
     KRaw _ \<Rightarrow> Inl (External ''json: error calling MarshalJSON for type json.RawMessage'')
   | KJson j \<Rightarrow> Inr (JObj
      [(''original_topic'', JStr (km_Topic original)), (''original_key'', JStr (km_Key original)),
       (''original_payload'', j),
       (''original_headers'', JArr (map (\<lambda>(k, v). JObj [(''key'', JStr k), (''value'', JStr v)]) (km_Headers original))),
       (''failure_reason'', JStr reason), (''failure_error'', JStr errText),
       (''failed_at'', JTime failedAt), (''consumer_group'', JStr ''''), (''attempt'', JNum 1)]))"

definition DLQ_Publish :: "env \<Rightarrow> DLQPublisher \<Rightarrow> kafkaMessage \<Rightarrow> string \<Rightarrow> gerror option \<Rightarrow> unit io" where
  "DLQ_Publish E d original reason err =
     andThen (Now E) (\<lambda>failedAt.
     (case marshalDLQEnvelope original reason (errorString err) failedAt of
        Inl e \<Rightarrow> fail (Wrapf ''dlq: marshal failed: '' e '''')
      | Inr body \<Rightarrow>
         mapErr (\<lambda>e. Wrapf ''dlq: write failed: '' e '''')
           (WriteMessages E
             [\<lparr>km_Topic = dlq_topic d, km_Key = km_Key original, km_Value = KJson body,
               km_Headers = [(''x-original-topic'', km_Topic original), (''x-failure-reason'', reason),
                 (''x-failed-at'', FormatRFC3339 failedAt)],
               km_Time = zeroTime\<rparr>])))"

section \<open>handler.go\<close>

text \<open>
  The context a handler gets: the trace and correlation identifiers under the exported keys.
\<close>

record kctx =
  kx_TraceID :: "string option"
  kx_CorrelationID :: "string option"

record KMessage =
  msg_Envelope :: KafkaEnvelope
  msg_Raw :: kafkaMessage
  msg_TraceID :: string
  msg_CorrelationID :: string

text \<open>A handler returns an error or nil, or panics.\<close>

datatype outcome = HOk | HErr gerror | HPanic string

record Handler =
  h_Topics :: "string list"
  h_Handle :: "kctx \<Rightarrow> KMessage \<Rightarrow> world \<Rightarrow> outcome \<times> world"

definition NewHandlerFunc :: "(kctx \<Rightarrow> KMessage \<Rightarrow> world \<Rightarrow> outcome \<times> world) \<Rightarrow> string list \<Rightarrow> Handler" where
  "NewHandlerFunc handler topics = \<lparr>h_Topics = topics, h_Handle = handler\<rparr>"

type_synonym Middleware = "Handler \<Rightarrow> Handler"

text \<open>The loop \<open>for i := len(middlewares) - 1; i >= 0; i--\<close>: \<open>n\<close> is \<open>i + 1\<close>.\<close>

fun chainFrom :: "Middleware list \<Rightarrow> nat \<Rightarrow> Handler \<Rightarrow> Handler" where
  "chainFrom ms 0 next = next"
| "chainFrom ms (Suc i) next = chainFrom ms i ((ms ! i) next)"

definition Chain :: "Middleware list \<Rightarrow> Middleware" where
  "Chain middlewares next = chainFrom middlewares (length middlewares) next"

definition TracingMiddleware :: "env \<Rightarrow> Middleware" where
  "TracingMiddleware E next = NewHandlerFunc (\<lambda>c msg w.
     (let meta = ExtractMetadata (km_Headers (msg_Raw msg))
      in if mm_TraceID meta = '''' then
           (case Now E w of (r, w') \<Rightarrow>
              h_Handle next (c\<lparr>kx_TraceID := Some (''generated-trace-'' @ env_timeString E (env_now E (w_n w))),
                              kx_CorrelationID := Some (mm_CorrelationID meta)\<rparr>) msg w')
         else h_Handle next (c\<lparr>kx_TraceID := Some (mm_TraceID meta), kx_CorrelationID := Some (mm_CorrelationID meta)\<rparr>) msg w))
     (h_Topics next)"

definition RecoveryMiddleware :: Middleware where
  "RecoveryMiddleware next = NewHandlerFunc (\<lambda>c msg w.
     (case h_Handle next c msg w of
        (HPanic r, w') \<Rightarrow> (HErr (ErrorsNew (''panic in consumer handler: '' @ r)), w')
      | (res, w') \<Rightarrow> (res, w')))
     (h_Topics next)"

section \<open>consumer.go\<close>

definition parseMessage :: "kafkaMessage \<Rightarrow> gerror + KMessage" where
  "parseMessage rawMsg = (case km_Value rawMsg of
     KRaw _ \<Rightarrow> Inl (Wrapf ''unmarshal envelope: '' (External ''invalid character'') '''')
   | KJson j \<Rightarrow>
      (case unmarshalEnvelope j of
         None \<Rightarrow> Inl (Wrapf ''unmarshal envelope: '' (External ''json: cannot unmarshal'') '''')
       | Some envelope \<Rightarrow>
          (let meta = ExtractMetadata (km_Headers rawMsg)
           in Inr \<lparr>msg_Envelope = envelope, msg_Raw = rawMsg, msg_TraceID = mm_TraceID meta,
                   msg_CorrelationID = mm_CorrelationID meta\<rparr>)))"

text \<open>
  The keys of \<^verbatim>\<open>injectTraceContext\<close> are types local to the function: no reader of the context can
  name them, so the context a handler can read is unchanged.
\<close>

definition injectTraceContext :: "kctx \<Rightarrow> KMessage \<Rightarrow> kctx" where
  "injectTraceContext c msg = c"

definition shouldRetryConsumer :: "gerror \<Rightarrow> bool" where
  "shouldRetryConsumer err = True"

text \<open>The loop over the attempts \<open>0 .. ConsumerMaxRetries\<close>.\<close>

fun retryLoop :: "KafkaConfig \<Rightarrow> Handler \<Rightarrow> kctx \<Rightarrow> KMessage \<Rightarrow> int list \<Rightarrow> gerror option \<Rightarrow> world \<Rightarrow> outcome \<times> world" where
  "retryLoop cfg handler c msg [] lastErr w = ((case lastErr of None \<Rightarrow> HOk | Some e \<Rightarrow> HErr e), w)"
| "retryLoop cfg handler c msg (att # rest) lastErr w =
     (let w1 = (if att > 0 then snd (Sleep (wrap64 (kc_ConsumerRetryBackoff cfg * att)) w) else w)
      in case h_Handle handler c msg w1 of
           (HOk, w2) \<Rightarrow> (HOk, w2)
         | (HPanic r, w2) \<Rightarrow> (HPanic r, w2)
         | (HErr err, w2) \<Rightarrow>
             if \<not> shouldRetryConsumer err then (HErr err, w2)
             else retryLoop cfg handler c msg rest (Some err) w2)"

definition handleWithRetry :: "KafkaConfig \<Rightarrow> Handler \<Rightarrow> kctx \<Rightarrow> KMessage \<Rightarrow> world \<Rightarrow> outcome \<times> world" where
  "handleWithRetry cfg handler c msg w = retryLoop cfg handler c msg [0..kc_ConsumerMaxRetries cfg] None w"

text \<open>
  What a reader gives to the loop: a message, an error of the fetch, or the shutdown signal, and
  whether the commit of a message succeeds. The loop's result is the list of committed messages
  and, when a handler panicked and nothing recovered, the panic that ends the process.
\<close>

datatype fetch = Fetched kafkaMessage | FetchError gerror | Shutdown

record consumeResult =
  cr_committed :: "kafkaMessage list"
  cr_panic :: "string option"

record ConsumerGroup =
  cg_cfg :: KafkaConfig
  cg_dlq :: DLQPublisher

definition NewConsumerGroup :: "KafkaConfig \<Rightarrow> DLQPublisher \<Rightarrow> ConsumerGroup" where
  "NewConsumerGroup cfg dlq = \<lparr>cg_cfg = cfg, cg_dlq = dlq\<rparr>"

definition commitMessages :: "(kafkaMessage \<Rightarrow> gerror option) \<Rightarrow> kafkaMessage \<Rightarrow> consumeResult \<Rightarrow> consumeResult" where
  "commitMessages commit m r = (case commit m of None \<Rightarrow> r\<lparr>cr_committed := cr_committed r @ [m]\<rparr> | Some e \<Rightarrow> r)"

fun consume :: "env \<Rightarrow> ConsumerGroup \<Rightarrow> Handler \<Rightarrow> (kafkaMessage \<Rightarrow> gerror option) \<Rightarrow> fetch list \<Rightarrow>
    consumeResult \<Rightarrow> world \<Rightarrow> consumeResult \<times> world" where
  "consume E g handler commit [] r w = (r, w)"
| "consume E g handler commit (Shutdown # fs) r w = (r, w)"
| "consume E g handler commit (FetchError err # fs) r w =
     (if errorsIs err ContextCanceled then (r, w)
      else consume E g handler commit fs r (snd (Sleep (kc_ConsumerRetryBackoff (cg_cfg g)) w)))"
| "consume E g handler commit (Fetched rawMsg # fs) r w =
     (case parseMessage rawMsg of
        Inl parseErr \<Rightarrow>
          consume E g handler commit fs (commitMessages commit rawMsg r)
            (snd (DLQ_Publish E (cg_dlq g) rawMsg ''parse_error'' (Some parseErr) w))
      | Inr msg \<Rightarrow>
         (case handleWithRetry (cg_cfg g) handler (injectTraceContext \<lparr>kx_TraceID = None, kx_CorrelationID = None\<rparr> msg) msg w of
            (HPanic p, w') \<Rightarrow> (r\<lparr>cr_panic := Some p\<rparr>, w')
          | (HErr err, w') \<Rightarrow>
              consume E g handler commit fs (commitMessages commit rawMsg r)
                (snd (DLQ_Publish E (cg_dlq g) rawMsg ''retry_exhausted'' (Some err) w'))
          | (HOk, w') \<Rightarrow> consume E g handler commit fs (commitMessages commit rawMsg r) w'))"

text \<open>\<^verbatim>\<open>Register\<close>: one loop per topic of the handler, on the handler wrapped by the middlewares.\<close>

definition ConsumerGroup_Register :: "env \<Rightarrow> ConsumerGroup \<Rightarrow> Handler \<Rightarrow> Middleware list \<Rightarrow>
    (string \<times> ((kafkaMessage \<Rightarrow> gerror option) \<Rightarrow> fetch list \<Rightarrow> world \<Rightarrow> consumeResult \<times> world)) list" where
  "ConsumerGroup_Register E g handler middlewares =
     map (\<lambda>topic. (topic, \<lambda>commit fs. consume E g (Chain middlewares handler) commit fs \<lparr>cr_committed = [], cr_panic = None\<rparr>))
       (h_Topics handler)"

section \<open>provider.go\<close>

definition ProvideDLQPublisher :: "KafkaConfig \<Rightarrow> DLQPublisher" where
  "ProvideDLQPublisher cfg = NewDLQPublisher (kc_DLQTopic cfg)"

definition ProvideConsumerGroup :: "KafkaConfig \<Rightarrow> DLQPublisher \<Rightarrow> ConsumerGroup" where
  "ProvideConsumerGroup cfg dlq = NewConsumerGroup cfg dlq"

section \<open>Facts\<close>

text \<open>Decoding an encoded envelope gives the envelope.\<close>

lemma unmarshal_marshalEnvelope: "unmarshalEnvelope (marshalEnvelope e) = Some e"
  by (simp add: unmarshalEnvelope_def marshalEnvelope_def json_get json_put)

lemma ExtractMetadata_BuildHeaders:
  "ExtractMetadata (BuildHeaders e) =
     \<lparr>mm_TraceID = ke_TraceID e, mm_CorrelationID = ke_CorrelationID e,
      mm_CausationID = ke_CausationID e, mm_EventType = ke_EventType e\<rparr>"
  by (simp add: ExtractMetadata_def BuildHeaders_def header_names)


lemma chainFrom_foldr: "n \<le> length ms \<Longrightarrow> chainFrom ms n h = foldr (\<lambda>m. m) (take n ms) h"
proof (induction n arbitrary: h)
  case (Suc n)
  then show ?case by (simp add: take_Suc_conv_app_nth)
qed simp

text \<open>The first middleware is the outermost.\<close>

lemma Chain_foldr: "Chain ms h = foldr (\<lambda>m. m) ms h"
  by (simp add: Chain_def chainFrom_foldr)

lemma Chain_append: "Chain (ms @ ns) h = Chain ms (Chain ns h)"
  by (simp add: Chain_foldr)

subsection \<open>The retry loop\<close>

text \<open>
  The attempts as a reference: \<open>attemptStart k\<close> is the world in which the handler is called for the
  attempt \<open>k\<close> when all attempts before it have failed.
\<close>

fun attemptStart :: "(world \<Rightarrow> outcome \<times> world) \<Rightarrow> nat \<Rightarrow> world \<Rightarrow> world" where
  "attemptStart h 0 w = w"
| "attemptStart h (Suc k) w = snd (Sleep 0 (snd (h (attemptStart h k w))))"

definition failedAttempt :: "outcome \<Rightarrow> bool" where
  "failedAttempt r = (case r of HErr _ \<Rightarrow> True | _ \<Rightarrow> False)"

definition retryReference :: "(world \<Rightarrow> outcome \<times> world) \<Rightarrow> nat \<Rightarrow> nat \<Rightarrow> world \<Rightarrow> outcome \<times> world" where
  "retryReference h i n w =
     (case find (\<lambda>k. \<not> failedAttempt (fst (h (attemptStart h k w)))) [i..<n] of
        None \<Rightarrow> h (attemptStart h n w) | Some k \<Rightarrow> h (attemptStart h k w))"

lemma retryLoop_reference:
  assumes "i \<le> n" and "w0 = (if i = 0 then w else snd (h_Handle handler c msg (attemptStart (h_Handle handler c msg) (i - 1) w)))"
  shows "retryLoop cfg handler c msg [int i..int n] lastErr w0 = retryReference (h_Handle handler c msg) i n w"
  using assms
proof (induction i arbitrary: lastErr w0 rule: inc_induct)
  let ?h = "h_Handle handler c msg"
  have start: "(if int k > 0 then snd (Sleep d w0) else w0) = attemptStart ?h k w"
    if "w0 = (if k = 0 then w else snd (?h (attemptStart ?h (k - 1) w)))" for k d w0
    using that by (cases k) (auto simp: Sleep_def)
  {
    case base
    have upto: "[int n..int n] = [int n]" by simp
    show ?case
      using start [OF base] by (auto simp: upto retryReference_def Let_def shouldRetryConsumer_def split: prod.splits outcome.splits)
  next
    case (step m)
    have upto: "[int m..int n] = int m # [int (Suc m)..int n]" using step.hyps by (simp add: upto.simps)
    have upt: "[m..<n] = m # [Suc m..<n]" using step.hyps by (simp add: upt_conv_Cons)
    obtain r w2 where r: "?h (attemptStart ?h m w) = (r, w2)" by fastforce
    have "retryLoop cfg handler c msg [int (Suc m)..int n] (Some e) w2 = retryReference ?h (Suc m) n w" for e
      by (rule step.IH) (simp add: r)
    then show ?case
      unfolding upto using start [OF step.prems] r
      by (cases r) (auto simp: retryReference_def upt Let_def shouldRetryConsumer_def failedAttempt_def)
  }
qed


subsection \<open>The consumer loop\<close>

lemma RecoveryMiddleware_no_panic: "fst (h_Handle (RecoveryMiddleware h) c msg w) \<noteq> HPanic p"
  by (simp add: RecoveryMiddleware_def NewHandlerFunc_def split: prod.splits outcome.splits)

lemma retryLoop_no_panic:
  assumes "\<And>w. fst (h_Handle handler c msg w) \<noteq> HPanic p"
  shows "fst (retryLoop cfg handler c msg atts lastErr w) \<noteq> HPanic p"
  by (induction atts arbitrary: lastErr w)
    (use assms in \<open>auto simp: Let_def split: option.splits prod.splits outcome.splits; metis fst_conv\<close>)+


text \<open>
  A message whose value is not a JSON document is lost: the dead letter queue cannot marshal
  it, nothing is written to Kafka, and the message is committed all the same.
\<close>

theorem invalid_json_message_lost:
  "consume E g handler (\<lambda>_. None) [Fetched (m\<lparr>km_Value := KRaw bytes\<rparr>)] r w =
     (r\<lparr>cr_committed := cr_committed r @ [m\<lparr>km_Value := KRaw bytes\<rparr>]\<rparr>, w\<lparr>w_n := Suc (w_n w)\<rparr>)"
  by (simp add: parseMessage_def commitMessages_def DLQ_Publish_def marshalDLQEnvelope_def andThen_def fail_def)

text \<open>A publication to the dead letter queue with an empty topic writes nothing.\<close>

lemma DLQ_empty_topic:
  assumes "kafka_documented E"
  shows "w_kafka (snd (DLQ_Publish E (NewDLQPublisher '''') m reason err w)) = w_kafka w
     \<and> (\<exists>e. fst (DLQ_Publish E (NewDLQPublisher '''') m reason err w) = Inl e)"
proof (cases "marshalDLQEnvelope m reason (errorString err) (env_now E (w_n w))")
  case (Inl e)
  then show ?thesis by (simp add: DLQ_Publish_def andThen_def fail_def)
next
  case (Inr body)
  let ?m = "\<lparr>km_Topic = '''', km_Key = km_Key m, km_Value = KJson body,
      km_Headers = [(''x-original-topic'', km_Topic m), (''x-failure-reason'', reason),
        (''x-failed-at'', FormatRFC3339 (env_now E (w_n w)))], km_Time = zeroTime\<rparr>"
  obtain e where "env_kafkaWrite E (Suc (w_n w)) [?m] = ([], Some e)"
    using assms by (fastforce simp: kafka_documented_def)
  with Inr show ?thesis
    by (simp add: DLQ_Publish_def NewDLQPublisher_def andThen_def mapErr_def WriteMessages_def)
qed

end
