(* ===== verification/Outbox.thy ===== *)
theory Outbox
  imports Kafka Schema
begin

text \<open>
  The transactional outbox (\<^verbatim>\<open>internal/platform/outbox\<close>): the envelope stored in a row, the
  recorder that writes a row in the caller's transaction, the PostgreSQL repository, the publisher
  that turns a stored envelope into a Kafka message, and the dispatcher.
\<close>

section \<open>model.go and envelope.go\<close>

definition StatePending :: string where "StatePending = ''pending''"
definition StatePublished :: string where "StatePublished = ''published''"
definition StateFailed :: string where "StateFailed = ''failed''"

text \<open>A Go map of the payload is its list of entries; \<open>None\<close> is the nil map.\<close>

type_synonym payload = "(string \<times> json) list option"

record RecordParams =
  rec_Topic :: string
  rec_EventKey :: string
  rec_AggregateType :: string
  rec_AggregateID :: "string option"
  rec_EventType :: string
  rec_OccurredAt :: time
  rec_TraceID :: string
  rec_CorrelationID :: string
  rec_CausationID :: string
  rec_ActorType :: string
  rec_ActorID :: "int option"
  rec_SchemaVersion :: int
  rec_IdempotencyKey :: string
  rec_Payload :: payload

record OutboxEnvelope =
  ob_EventID :: string
  ob_EventType :: string
  ob_AggregateType :: string
  ob_AggregateID :: "string option"
  ob_OccurredAt :: time
  ob_ProducedAt :: time
  ob_TraceID :: string
  ob_CorrelationID :: string
  ob_CausationID :: string
  ob_ActorType :: string
  ob_ActorID :: "int option"
  ob_SchemaVersion :: int
  ob_IdempotencyKey :: string
  ob_Payload :: payload

definition marshalPayload :: "payload \<Rightarrow> json" where
  "marshalPayload p = (case p of None \<Rightarrow> JNull | Some m \<Rightarrow> JObj m)"

definition marshalOutboxEnvelope :: "OutboxEnvelope \<Rightarrow> json" where
  "marshalOutboxEnvelope e = JObj (
     [(''event_id'', JStr (ob_EventID e)), (''event_type'', JStr (ob_EventType e)),
      (''aggregate_type'', JStr (ob_AggregateType e))]
     @ omitStrPtr ''aggregate_id'' (ob_AggregateID e)
     @ [(''occurred_at'', JTime (ob_OccurredAt e)), (''produced_at'', JTime (ob_ProducedAt e))]
     @ omitStr ''trace_id'' (ob_TraceID e) @ omitStr ''correlation_id'' (ob_CorrelationID e)
     @ omitStr ''causation_id'' (ob_CausationID e) @ omitStr ''actor_type'' (ob_ActorType e)
     @ omitIntPtr ''actor_id'' (ob_ActorID e)
     @ [(''schema_version'', JNum (ob_SchemaVersion e))]
     @ omitStr ''idempotency_key'' (ob_IdempotencyKey e)
     @ [(''payload'', marshalPayload (ob_Payload e))])"

text \<open>Decoding into \<^verbatim>\<open>map[string]any\<close>: numbers become float64 values.\<close>

fun anyValue :: "env \<Rightarrow> json \<Rightarrow> json" where
  "anyValue E (JNum i) = JNum (env_float64 E i)"
| "anyValue E (JArr l) = JArr (map (anyValue E) l)"
| "anyValue E (JObj fs) = JObj (map (\<lambda>(k, v). (k, anyValue E v)) fs)"
| "anyValue E j = j"

definition unmarshalOutboxEnvelope :: "env \<Rightarrow> json \<Rightarrow> OutboxEnvelope option" where
  "unmarshalOutboxEnvelope E j = (case j of
     JNull \<Rightarrow> Some \<lparr>ob_EventID = '''', ob_EventType = '''', ob_AggregateType = '''', ob_AggregateID = None,
       ob_OccurredAt = zeroTime, ob_ProducedAt = zeroTime, ob_TraceID = '''', ob_CorrelationID = '''',
       ob_CausationID = '''', ob_ActorType = '''', ob_ActorID = None, ob_SchemaVersion = 0,
       ob_IdempotencyKey = '''', ob_Payload = None\<rparr>
   | JObj fs \<Rightarrow>
      Option.bind (getStr ''event_id'' fs) (\<lambda>eid.
      Option.bind (getStr ''event_type'' fs) (\<lambda>ety.
      Option.bind (getStr ''aggregate_type'' fs) (\<lambda>aty.
      Option.bind (getStrPtr ''aggregate_id'' fs) (\<lambda>aid.
      Option.bind (getTime ''occurred_at'' fs) (\<lambda>occ.
      Option.bind (getTime ''produced_at'' fs) (\<lambda>prod.
      Option.bind (getStr ''trace_id'' fs) (\<lambda>tr.
      Option.bind (getStr ''correlation_id'' fs) (\<lambda>cor.
      Option.bind (getStr ''causation_id'' fs) (\<lambda>cau.
      Option.bind (getStr ''actor_type'' fs) (\<lambda>act.
      Option.bind (getIntPtr ''actor_id'' fs) (\<lambda>actid.
      Option.bind (getInt ''schema_version'' fs) (\<lambda>ver.
      Option.bind (getStr ''idempotency_key'' fs) (\<lambda>idem.
      Option.bind (getObj ''payload'' fs) (\<lambda>pl.
        Some \<lparr>ob_EventID = eid, ob_EventType = ety, ob_AggregateType = aty, ob_AggregateID = aid,
          ob_OccurredAt = occ, ob_ProducedAt = prod, ob_TraceID = tr, ob_CorrelationID = cor,
          ob_CausationID = cau, ob_ActorType = act, ob_ActorID = actid, ob_SchemaVersion = ver,
          ob_IdempotencyKey = idem,
          ob_Payload = map_option (map (\<lambda>(k, v). (k, anyValue E v))) pl\<rparr>))))))))))))))
   | _ \<Rightarrow> None)"

section \<open>postgres\_repository.go\<close>

definition insertOutboxEvent :: "OutboxEvent \<Rightarrow> unit stmt" where
  "insertOutboxEvent e t d =
     (if \<not> (varchar 100 (oe_Topic e) \<and> varchar 255 (oe_EventKey e) \<and> varchar 50 (oe_AggregateType e)
            \<and> varcharPtr 255 (oe_AggregateID e) \<and> varchar 100 (oe_EventType e) \<and> varchar 30 (oe_State e))
      then Inl (PgError ''22001'')
      else if oe_State e \<notin> set outbox_states then Inl (PgError ''23514'')
      else let i = seq_outbox (db_seq d) + 1 in
        Inr ((), d\<lparr>t_outbox := t_outbox d @ [e\<lparr>oe_ID := i, oe_PublishedAt := None, oe_LastError := None\<rparr>],
                   db_seq := (db_seq d)\<lparr>seq_outbox := i\<rparr>\<rparr>))"

text \<open>
  The rows of the subquery, oldest first, get the state \<^verbatim>\<open>publishing\<close>, which the check constraint of
  the table does not allow.
\<close>

definition pendingEvents :: "int \<Rightarrow> db \<Rightarrow> OutboxEvent list" where
  "pendingEvents limit d =
     take (nat limit) (sort_key oe_CreatedAt (filter (\<lambda>e. oe_State e = ''pending'') (t_outbox d)))"

definition claimPendingEvents :: "int \<Rightarrow> OutboxEvent list stmt" where
  "claimPendingEvents limit t d =
     (let ids = map oe_ID (pendingEvents limit d); p = (\<lambda>e. oe_ID e \<in> set ids);
          upd = (\<lambda>e. e\<lparr>oe_State := ''publishing''\<rparr>)
      in if limit < 0 then Inl (PgError ''2201W'')
         else if rows_affected p (t_outbox d) \<noteq> 0 \<and> ''publishing'' \<notin> set outbox_states then Inl (PgError ''23514'')
         else Inr (map upd (filter p (t_outbox d)), d\<lparr>t_outbox := update_where p upd (t_outbox d)\<rparr>))"

definition markPublishedEvent :: "int \<Rightarrow> time \<Rightarrow> nat stmt" where
  "markPublishedEvent i publishedAt t d =
     (let p = (\<lambda>e. oe_ID e = i)
      in Inr (rows_affected p (t_outbox d), d\<lparr>t_outbox := update_where p
           (\<lambda>e. e\<lparr>oe_State := ''published'', oe_PublishedAt := Some publishedAt\<rparr>) (t_outbox d)\<rparr>))"

definition markFailedEvent :: "int \<Rightarrow> string \<Rightarrow> nat stmt" where
  "markFailedEvent i errMsg t d =
     (let p = (\<lambda>e. oe_ID e = i)
      in Inr (rows_affected p (t_outbox d), d\<lparr>t_outbox := update_where p
           (\<lambda>e. e\<lparr>oe_State := ''failed'', oe_LastError := Some errMsg\<rparr>) (t_outbox d)\<rparr>))"

definition OutboxRepo_Insert :: "env \<Rightarrow> ctx \<Rightarrow> OutboxEvent \<Rightarrow> unit io" where
  "OutboxRepo_Insert E c e =
     mapErr (\<lambda>err. Wrapf ''outbox repo: insert: '' err '''') (pg E c (insertOutboxEvent e))"

text \<open>
  An error of the server while it executes the statement comes out of \<^verbatim>\<open>rows.Err()\<close>, unwrapped; an
  error of the connection comes out of \<^verbatim>\<open>Query\<close>.
\<close>

definition OutboxRepo_ClaimPending :: "env \<Rightarrow> ctx \<Rightarrow> int \<Rightarrow> OutboxEvent list io" where
  "OutboxRepo_ClaimPending E c limit =
     mapErr (\<lambda>err. case err of PgError code \<Rightarrow> PgError code
                   | _ \<Rightarrow> Wrapf ''outbox repo: claim pending: '' err '''')
       (pg E c (claimPendingEvents limit))"

definition OutboxRepo_MarkPublished :: "env \<Rightarrow> ctx \<Rightarrow> int \<Rightarrow> unit io" where
  "OutboxRepo_MarkPublished E c i =
     andThen (Now E) (\<lambda>now.
     andThen (mapErr (\<lambda>err. Wrapf ''outbox repo: mark published: '' err '''') (pg E c (markPublishedEvent i now))) (\<lambda>n.
     if n = 0 then fail OutboxErrNoRows else ok ()))"

definition OutboxRepo_MarkFailed :: "env \<Rightarrow> ctx \<Rightarrow> int \<Rightarrow> string \<Rightarrow> unit io" where
  "OutboxRepo_MarkFailed E c i errMsg =
     andThen (mapErr (\<lambda>err. Wrapf ''outbox repo: mark failed: '' err '''') (pg E c (markFailedEvent i errMsg))) (\<lambda>n.
     if n = 0 then fail OutboxErrNoRows else ok ())"

section \<open>service.go: the recorder\<close>

text \<open>The metadata column: NULL unless one of the trace identifiers is set.\<close>

definition recordMetadata :: "RecordParams \<Rightarrow> json" where
  "recordMetadata params =
     (if rec_TraceID params \<noteq> '''' \<or> rec_CorrelationID params \<noteq> '''' \<or> rec_CausationID params \<noteq> ''''
      then JObj (omitStr ''trace_id'' (rec_TraceID params) @ omitStr ''correlation_id'' (rec_CorrelationID params)
                 @ omitStr ''causation_id'' (rec_CausationID params))
      else JNull)"

definition recordEnvelope :: "string \<Rightarrow> RecordParams \<Rightarrow> OutboxEnvelope" where
  "recordEnvelope eventID params =
     \<lparr>ob_EventID = eventID, ob_EventType = rec_EventType params, ob_AggregateType = rec_AggregateType params,
      ob_AggregateID = rec_AggregateID params, ob_OccurredAt = rec_OccurredAt params, ob_ProducedAt = zeroTime,
      ob_TraceID = rec_TraceID params, ob_CorrelationID = rec_CorrelationID params,
      ob_CausationID = rec_CausationID params, ob_ActorType = rec_ActorType params,
      ob_ActorID = rec_ActorID params, ob_SchemaVersion = rec_SchemaVersion params,
      ob_IdempotencyKey = rec_IdempotencyKey params, ob_Payload = rec_Payload params\<rparr>"

definition recordRow :: "string \<Rightarrow> time \<Rightarrow> RecordParams \<Rightarrow> OutboxEvent" where
  "recordRow eventID now params =
     \<lparr>oe_ID = 0, oe_Topic = rec_Topic params, oe_EventKey = rec_EventKey params,
      oe_AggregateType = rec_AggregateType params, oe_AggregateID = rec_AggregateID params,
      oe_EventType = rec_EventType params,
      oe_Payload = marshalOutboxEnvelope (recordEnvelope eventID params),
      oe_Metadata = recordMetadata params, oe_State = StatePending, oe_CreatedAt = now,
      oe_PublishedAt = None, oe_LastError = None\<rparr>"

definition Record :: "env \<Rightarrow> ctx \<Rightarrow> RecordParams \<Rightarrow> unit io" where
  "Record E c params =
     andThen (NewUUID E) (\<lambda>eventID.
     andThen (Now E) (\<lambda>now.
     OutboxRepo_Insert E c (recordRow eventID now params)))"

section \<open>publisher.go\<close>

definition KafkaPublisher_Publish :: "env \<Rightarrow> string \<Rightarrow> string \<Rightarrow> json \<Rightarrow> unit io" where
  "KafkaPublisher_Publish E topic key payload =
     (case unmarshalOutboxEnvelope E payload of
        None \<Rightarrow> fail (Wrapf ''outbox publisher: unmarshal envelope: '' (External ''json: cannot unmarshal'') '''')
      | Some env \<Rightarrow>
         (let aggID = (case ob_AggregateID env of None \<Rightarrow> '''' | Some i \<Rightarrow> i)
          in andThen (NewEnvelope E (ob_EventType env) (ob_AggregateType env) aggID (ob_OccurredAt env)
               (marshalPayload (ob_Payload env))
               [WithSchemaVersion (ob_SchemaVersion env), WithIdKey (ob_IdempotencyKey env)]) (\<lambda>k0.
             andThen (Now E) (\<lambda>now.
             (let k1 = k0\<lparr>ke_ProducedAt := now, ke_EventID := ob_EventID env, ke_IdempotencyKey := ob_IdempotencyKey env\<rparr>;
                  k2 = (if ob_TraceID env \<noteq> '''' then k1\<lparr>ke_TraceID := ob_TraceID env\<rparr> else k1);
                  k3 = (if ob_CorrelationID env \<noteq> '''' then k2\<lparr>ke_CorrelationID := ob_CorrelationID env\<rparr> else k2);
                  k4 = (if ob_CausationID env \<noteq> '''' then k3\<lparr>ke_CausationID := ob_CausationID env\<rparr> else k3);
                  k5 = (if ob_ActorType env \<noteq> ''''
                        then (case ob_ActorID env of
                                None \<Rightarrow> k4\<lparr>ke_ActorType := ob_ActorType env\<rparr>
                              | Some a \<Rightarrow> k4\<lparr>ke_ActorType := ob_ActorType env, ke_ActorID := a\<rparr>)
                        else k4)
              in PublishEnvelope E topic k5)))))"

section \<open>dispatcher.go\<close>

fun dispatchLoop :: "env \<Rightarrow> ctx \<Rightarrow> OutboxEvent list \<Rightarrow> nat \<Rightarrow> nat io" where
  "dispatchLoop E c [] published = ok published"
| "dispatchLoop E c (e # es) published =
     andThen (attempt (KafkaPublisher_Publish E (oe_Topic e) (oe_EventKey e) (oe_Payload e))) (\<lambda>r.
     (case r of
        Inl err \<Rightarrow>
          andThen (attempt (OutboxRepo_MarkFailed E c (oe_ID e) (errorText err))) (\<lambda>_.
          dispatchLoop E c es published)
      | Inr _ \<Rightarrow>
          andThen (attempt (OutboxRepo_MarkPublished E c (oe_ID e))) (\<lambda>m.
          (case m of
             Inl _ \<Rightarrow> dispatchLoop E c es published
           | Inr _ \<Rightarrow> dispatchLoop E c es (Suc published)))))"

definition DispatchOnce :: "env \<Rightarrow> ctx \<Rightarrow> int \<Rightarrow> nat io" where
  "DispatchOnce E c limit =
     andThen (mapErr (\<lambda>err. Wrapf ''outbox dispatcher: claim: '' err '''') (OutboxRepo_ClaimPending E c limit)) (\<lambda>events.
     if events = [] then ok 0 else dispatchLoop E c events 0)"

section \<open>Invariants\<close>

lemma insertOutboxEvent_ok [pres]: "stmt_preserves db_ok (insertOutboxEvent e)"
proof (rule stmt_preservesI)
  fix t d x d'
  assume ok: "db_ok d" and run: "insertOutboxEvent e t d = Inr (x, d')"
  have "ids_below oe_ID (seq_outbox (db_seq d)) (t_outbox d)" using ok by (simp add: db_ok_def outbox_ok_def)
  then have "seq_outbox (db_seq d) + 1 \<notin> oe_ID ` set (t_outbox d)"
    and "ids_below oe_ID (seq_outbox (db_seq d) + 1) (t_outbox d)"
    using ids_below_fresh by (fastforce, auto elim: ids_below_mono)
  with ok run show "db_ok d'"
    by (auto simp: insertOutboxEvent_def Let_def db_ok_def outbox_ok_def unique_on_snoc split: if_splits)
qed

lemma outbox_ok_update:
  assumes "outbox_ok n es" and "\<And>e. oe_ID (g e) = oe_ID e" and "\<And>e. oe_State (g e) \<in> set outbox_states"
  shows "outbox_ok n (update_where p g es)"
  using assms by (auto simp: outbox_ok_def set_update_where intro!: unique_on_update_same ids_below_update_where)

lemma mark_events_ok [pres]:
  "stmt_preserves db_ok (markPublishedEvent i t0)" "stmt_preserves db_ok (markFailedEvent i m)"
  by (auto simp: stmt_preserves_def markPublishedEvent_def markFailedEvent_def Let_def db_ok_def
      outbox_states_def intro!: outbox_ok_update)

text \<open>
  Claiming changes nothing: it returns rows only when there is no row to claim.
\<close>

lemma claimPendingEvents_nothing:
  "claimPendingEvents limit t d = Inr (es, d') \<Longrightarrow> es = [] \<and> d' = d"
  by (auto simp: claimPendingEvents_def Let_def outbox_states_def rows_affected_0 update_where_none
      split: if_splits)

lemma claimPendingEvents_ok [pres]: "stmt_preserves P (claimPendingEvents limit)"
  by (rule stmt_preservesI) (auto dest: claimPendingEvents_nothing)

lemma outbox_db_ok [pres]:
  "preserves (on_dbs db_ok) (OutboxRepo_Insert E c e)" "preserves (on_dbs db_ok) (OutboxRepo_ClaimPending E c n)"
  "preserves (on_dbs db_ok) (OutboxRepo_MarkPublished E c i)" "preserves (on_dbs db_ok) (OutboxRepo_MarkFailed E c i m)"
  "preserves (on_dbs db_ok) (Record E c params)"
  unfolding OutboxRepo_Insert_def OutboxRepo_ClaimPending_def OutboxRepo_MarkPublished_def
    OutboxRepo_MarkFailed_def Record_def
  by (intro pres preserves_pg)+

lemma Record_tx_open [pres]: "ctx_tx c \<Longrightarrow> preserves (tx_open p) (Record E c params)"
  unfolding Record_def OutboxRepo_Insert_def by (intro pres)

section \<open>The interface Recorder and the transactional outbox\<close>

text \<open>The row that records an event.\<close>

definition recordsEvent :: "RecordParams \<Rightarrow> OutboxEvent \<Rightarrow> bool" where
  "recordsEvent params e \<longleftrightarrow>
     oe_Topic e = rec_Topic params \<and> oe_EventKey e = rec_EventKey params
     \<and> oe_AggregateType e = rec_AggregateType params \<and> oe_AggregateID e = rec_AggregateID params
     \<and> oe_EventType e = rec_EventType params \<and> oe_State e = StatePending \<and> oe_PublishedAt e = None
     \<and> (\<exists>eventID. oe_Payload e = marshalOutboxEnvelope (recordEnvelope eventID params))"

locale outbox_recorder =
  fixes recordOp :: "env \<Rightarrow> ctx \<Rightarrow> RecordParams \<Rightarrow> unit io"
  assumes record_appends:
    "ctx_tx c \<Longrightarrow> w_tx w = Some d \<Longrightarrow> recordOp E c params w = (Inr (), w') \<Longrightarrow>
       \<exists>e s. w_tx w' = Some (d\<lparr>t_outbox := t_outbox d @ [e], db_seq := s\<rparr>) \<and> recordsEvent params e"
    and record_tx_open: "ctx_tx c \<Longrightarrow> preserves (tx_open p) (recordOp E c params)"

locale transactional_outbox = tx_manager within + outbox_recorder recordOp
  for within :: "env \<Rightarrow> ctx \<Rightarrow> (ctx \<Rightarrow> unit io) \<Rightarrow> unit io"
    and recordOp :: "env \<Rightarrow> ctx \<Rightarrow> RecordParams \<Rightarrow> unit io"
begin

text \<open>
  A change and the event that announces it are committed together or not at all.
\<close>

lemma event_with_change:
  assumes "\<not> ctx_tx c" and "w_tx w = None" and body: "tx_local (body (WithTx c))"
    and run: "within E c (\<lambda>c'. andThen (body c') (\<lambda>x. recordOp E c' (params x))) w = (r, w')"
  shows "same_tables (w_pool w) (w_pool w') \<and> isl r \<or>
     (\<exists>x w2 d e s. body (WithTx c) (in_tx w) = (Inr x, w2) \<and> w_tx w2 = Some d
        \<and> w_pool w' = d\<lparr>t_outbox := t_outbox d @ [e], db_seq := s\<rparr> \<and> recordsEvent (params x) e)"
proof -
  let ?f = "\<lambda>c'. andThen (body c') (\<lambda>x. recordOp E c' (params x))"
  have loc: "tx_local (?f (WithTx c))"
    using body record_tx_open [of "WithTx c"]
    by (auto simp: tx_local_def intro: preserves_andThen)
  from within_atomic [where f = ?f, OF assms(1,2) loc run]
  consider "same_tables (w_pool w) (w_pool w') \<and> isl r"
    | w3 where "?f (WithTx c) (in_tx w) = (Inr (), w3)" and "committed w3 w'" by auto
  then show ?thesis
  proof cases
    case (2 w3)
    then have f: "?f (WithTx c) (in_tx w) = (Inr (), w3)" and d3: "committed w3 w'" by simp_all
    from f obtain x w2 where b: "body (WithTx c) (in_tx w) = (Inr x, w2)"
      and rec: "recordOp E (WithTx c) (params x) w2 = (Inr (), w3)"
      by (auto elim!: andThen_InrE)
    from tx_local_pool [OF body _ b] obtain d where d: "w_tx w2 = Some d" by (auto simp: in_tx_def)
    from record_appends [OF ctx_tx_WithTx d rec] obtain e s where
      "w_tx w3 = Some (d\<lparr>t_outbox := t_outbox d @ [e], db_seq := s\<rparr>)" "recordsEvent (params x) e" by blast
    with d3 b d show ?thesis unfolding committed_def by fastforce
  qed simp
qed

end

lemma insertOutboxEvent_InrD:
  "insertOutboxEvent e t d = Inr (x, d') \<Longrightarrow>
     d' = d\<lparr>t_outbox := t_outbox d @ [e\<lparr>oe_ID := seq_outbox (db_seq d) + 1, oe_PublishedAt := None, oe_LastError := None\<rparr>],
            db_seq := (db_seq d)\<lparr>seq_outbox := seq_outbox (db_seq d) + 1\<rparr>\<rparr>"
  by (auto simp: insertOutboxEvent_def Let_def split: if_splits)

lemma Record_appends:
  assumes "ctx_tx c" and "w_tx w = Some d" and "Record E c params w = (Inr (), w')"
  shows "\<exists>e s. w_tx w' = Some (d\<lparr>t_outbox := t_outbox d @ [e], db_seq := s\<rparr>) \<and> recordsEvent params e"
proof -
  let ?w = "w\<lparr>w_n := Suc (Suc (w_n w))\<rparr>"
  let ?e = "recordRow (env_uuid E (w_n w)) (env_now E (Suc (w_n w))) params"
  from assms(3) have "pg E c (insertOutboxEvent ?e) ?w = (Inr (), w')"
    by (auto simp: Record_def OutboxRepo_Insert_def andThen_def mapErr_def split: prod.splits sum.splits)
  from pg_InrD [OF this] assms(1,2) obtain d' where
    "insertOutboxEvent ?e (env_now E (Suc (Suc (w_n w)))) d = Inr ((), d')" and "w_tx w' = Some d'"
    by (auto simp: GetExecutor_def putExecutor_def)
  moreover have "recordsEvent params (?e\<lparr>oe_ID := i, oe_PublishedAt := None, oe_LastError := None\<rparr>)" for i
    by (auto simp: recordsEvent_def recordRow_def)
  ultimately show ?thesis using insertOutboxEvent_InrD by blast
qed

interpretation outbox: transactional_outbox txManager Record
  by unfold_locales (erule (2) Record_appends, erule Record_tx_open)

section \<open>Properties\<close>

text \<open>
  C20: the transactional outbox: a callback that makes a change and then records an event, run by
  the transaction manager, either leaves every table as it was and reports an error, or commits
  the change together with exactly one new pending row that records the event.
\<close>

theorem outbox_event_with_change:
  assumes "\<not> ctx_tx c" and "w_tx w = None" and "tx_local (body (WithTx c))"
    and "txManager E c (\<lambda>c'. andThen (body c') (\<lambda>x. Record E c' (params x))) w = (r, w')"
  shows "same_tables (w_pool w) (w_pool w') \<and> isl r \<or>
     (\<exists>x w2 d e s. body (WithTx c) (in_tx w) = (Inr x, w2) \<and> w_tx w2 = Some d
        \<and> w_pool w' = d\<lparr>t_outbox := t_outbox d @ [e], db_seq := s\<rparr> \<and> recordsEvent (params x) e)"
  using assms by (rule outbox.event_with_change)

text \<open>The envelope of the Kafka message for a recorded event.\<close>

definition publishedEnvelope :: "env \<Rightarrow> string \<Rightarrow> RecordParams \<Rightarrow> time \<Rightarrow> KafkaEnvelope" where
  "publishedEnvelope E eventID params producedAt =
     \<lparr>ke_EventID = eventID, ke_EventType = rec_EventType params, ke_AggregateType = rec_AggregateType params,
      ke_AggregateID = (case rec_AggregateID params of None \<Rightarrow> '''' | Some i \<Rightarrow> i),
      ke_OccurredAt = rec_OccurredAt params, ke_ProducedAt = producedAt, ke_TraceID = rec_TraceID params,
      ke_CorrelationID = rec_CorrelationID params, ke_CausationID = rec_CausationID params,
      ke_ActorType = rec_ActorType params,
      ke_ActorID = (if rec_ActorType params = '''' then 0
                    else case rec_ActorID params of None \<Rightarrow> 0 | Some a \<Rightarrow> a),
      ke_SchemaVersion = rec_SchemaVersion params, ke_IdempotencyKey = rec_IdempotencyKey params,
      ke_Payload = marshalPayload (map_option (map (\<lambda>(k, v). (k, anyValue E v))) (rec_Payload params))\<rparr>"

lemma unmarshal_marshalOutboxEnvelope:
  "unmarshalOutboxEnvelope E (marshalOutboxEnvelope e) =
     Some (e\<lparr>ob_Payload := map_option (map (\<lambda>(k, v). (k, anyValue E v))) (ob_Payload e)\<rparr>)"
proof -
  obtain fs where m: "marshalOutboxEnvelope e = JObj fs"
    and fs: "fs = [(''event_id'', JStr (ob_EventID e)), (''event_type'', JStr (ob_EventType e)),
      (''aggregate_type'', JStr (ob_AggregateType e))]
     @ omitStrPtr ''aggregate_id'' (ob_AggregateID e)
     @ [(''occurred_at'', JTime (ob_OccurredAt e)), (''produced_at'', JTime (ob_ProducedAt e))]
     @ omitStr ''trace_id'' (ob_TraceID e) @ omitStr ''correlation_id'' (ob_CorrelationID e)
     @ omitStr ''causation_id'' (ob_CausationID e) @ omitStr ''actor_type'' (ob_ActorType e)
     @ omitIntPtr ''actor_id'' (ob_ActorID e)
     @ [(''schema_version'', JNum (ob_SchemaVersion e))]
     @ omitStr ''idempotency_key'' (ob_IdempotencyKey e)
     @ [(''payload'', marshalPayload (ob_Payload e))]"
    by (simp add: marshalOutboxEnvelope_def)
  have "getStr ''event_id'' fs = Some (ob_EventID e)" "getStr ''event_type'' fs = Some (ob_EventType e)"
    "getStr ''aggregate_type'' fs = Some (ob_AggregateType e)"
    "getStrPtr ''aggregate_id'' fs = Some (ob_AggregateID e)"
    "getTime ''occurred_at'' fs = Some (ob_OccurredAt e)" "getTime ''produced_at'' fs = Some (ob_ProducedAt e)"
    "getStr ''trace_id'' fs = Some (ob_TraceID e)" "getStr ''correlation_id'' fs = Some (ob_CorrelationID e)"
    "getStr ''causation_id'' fs = Some (ob_CausationID e)" "getStr ''actor_type'' fs = Some (ob_ActorType e)"
    "getIntPtr ''actor_id'' fs = Some (ob_ActorID e)" "getInt ''schema_version'' fs = Some (ob_SchemaVersion e)"
    "getStr ''idempotency_key'' fs = Some (ob_IdempotencyKey e)" "getObj ''payload'' fs = Some (ob_Payload e)"
    unfolding fs json_decode by (simp_all add: marshalPayload_def split: option.splits)
  then show ?thesis by (simp add: m unmarshalOutboxEnvelope_def)
qed

text \<open>
  Publishing the stored envelope of a recorded event sends one message whose envelope carries
  the event's identifier, type, aggregate, time, trace identifiers, actor, schema version,
  idempotency key and payload as they were recorded; only the production time is new.
\<close>

theorem publish_recorded_event:
  "KafkaPublisher_Publish E topic key (marshalOutboxEnvelope (recordEnvelope eventID params)) w =
     PublishEnvelope E topic (publishedEnvelope E eventID params (env_now E (w_n w + 2))) (w\<lparr>w_n := w_n w + 3\<rparr>)"
  unfolding KafkaPublisher_Publish_def unmarshal_marshalOutboxEnvelope option.case
  by (cases "rec_ActorID params")
    (simp_all add: NewEnvelope_def newUUID_def andThen_def ok_def Let_def WithSchemaVersion_def WithIdKey_def
      recordEnvelope_def publishedEnvelope_def numeral_eq_Suc)

text \<open>
  C39: the dispatcher never publishes anything: whatever the outbox holds, whatever the limit and
  whatever fails, a run of \<open>DispatchOnce\<close> writes no message to Kafka and changes no table.
\<close>

theorem DispatchOnce_publishes_nothing:
  "w_kafka (snd (DispatchOnce E c limit w)) = w_kafka w \<and>
   w_pool (snd (DispatchOnce E c limit w)) = w_pool w \<and> w_tx (snd (DispatchOnce E c limit w)) = w_tx w"
proof -
  obtain r w' where run: "pg E c (claimPendingEvents limit) w = (r, w')" by fastforce
  have frame: "w_kafka w' = w_kafka w \<and> w_pool w' = w_pool w \<and> w_tx w' = w_tx w"
    using run by (auto simp: pg_def Let_def GetExecutor_def putExecutor_def
        dest!: claimPendingEvents_nothing split: option.splits pgFault.splits sum.splits if_splits)
  have "es = []" if "r = Inr es" for es
    using pg_InrD [OF run [unfolded that]] by (auto dest: claimPendingEvents_nothing)
  with run frame show ?thesis
    by (cases r) (simp_all add: DispatchOnce_def OutboxRepo_ClaimPending_def andThen_def mapErr_def ok_def)
qed

text \<open>
  With a working connection and at least one pending event to claim, \<open>DispatchOnce\<close> fails with
  the violation of the check constraint on the state column, so pending events stay pending.
\<close>

theorem DispatchOnce_check_violation:
  assumes "env_pg E (w_n w) = NoFault" and "\<not> ctx_tx c" and "0 < limit"
    and "e \<in> set (t_outbox (w_pool w))" and "oe_State e = StatePending"
  shows "DispatchOnce E c limit w =
     (Inl (Wrapf ''outbox dispatcher: claim: '' (PgError ''23514'') ''''), w\<lparr>w_n := Suc (w_n w)\<rparr>)"
proof -
  let ?sorted = "sort_key oe_CreatedAt (filter (\<lambda>e. oe_State e = ''pending'') (t_outbox (w_pool w)))"
  have mem: "e \<in> set ?sorted" using assms(4,5) by (simp add: StatePending_def)
  have "\<exists>x. x \<in> set (take (nat limit) ?sorted)"
    using mem assms(3) by (cases "?sorted") (auto simp: take_Cons' intro: list.set_intros)
  then obtain x where x: "x \<in> set (pendingEvents limit (w_pool w))" by (auto simp: pendingEvents_def)
  then have "x \<in> set (t_outbox (w_pool w))"
    by (auto simp: pendingEvents_def dest!: in_set_takeD)
  with x have "rows_affected (\<lambda>e. oe_ID e \<in> oe_ID ` set (pendingEvents limit (w_pool w))) (t_outbox (w_pool w)) \<noteq> 0"
    by (auto simp: rows_affected_0)
  then have "claimPendingEvents limit t (w_pool w) = Inl (PgError ''23514'')" for t
    using assms(3) by (simp add: claimPendingEvents_def Let_def outbox_states_def)
  then show ?thesis
    using assms(1,2) by (simp add: DispatchOnce_def OutboxRepo_ClaimPending_def andThen_def mapErr_def pg_pool)
qed

end
