(* ===== verification/Idempotency.thy ===== *)
theory Idempotency
  imports Schema
begin

text \<open>
  The idempotency package (\<^verbatim>\<open>internal/platform/idempotency\<close>): keys, records and their JSON form, the
  Redis store, the PostgreSQL store of processed events and the service. The Go interface
  \<^verbatim>\<open>Store\<close> is a record of operations the service is given; its contract is the locale
  \<open>idempotency_store\<close>, which \<open>RedisStore\<close> meets on a documented Redis server.
\<close>

section \<open>key.go\<close>

definition DefaultRedisKeyPrefix :: string where
  "DefaultRedisKeyPrefix = ''idempotency:''"

definition NormalizeScope :: "env \<Rightarrow> string \<Rightarrow> string" where
  "NormalizeScope E scope0 =
     (let scope1 = TrimSpace (ToLower (env_toLower E) scope0);
          scope2 = ReplaceByte (CHR '' '') (CHR ''_'') scope1;
          scope3 = ReplaceByte (CHR ''/'') (CHR ''_'') scope2;
          scope = ReplaceByte (CHR '':'') (CHR ''_'') scope3
      in if scope = '''' then ''default'' else scope)"

definition NormalizeKey :: "string \<Rightarrow> string" where
  "NormalizeKey raw = TrimSpace raw"

definition BuildKey :: "env \<Rightarrow> string \<Rightarrow> string \<Rightarrow> string" where
  "BuildKey E scope rawKey = DefaultRedisKeyPrefix @ NormalizeScope E scope @ '':'' @ NormalizeKey rawKey"

definition HashBytes :: "env \<Rightarrow> string \<Rightarrow> string" where
  "HashBytes E b = hexEncode (env_sha256 E b)"

definition WithIdempotencyKey :: "ctx \<Rightarrow> string \<Rightarrow> ctx" where
  "WithIdempotencyKey c key = c\<lparr>ctx_idempotencyKey := Some key\<rparr>"

definition GetIdempotencyKey :: "ctx \<Rightarrow> string" where
  "GetIdempotencyKey c = (case ctx_idempotencyKey c of Some val \<Rightarrow> val | None \<Rightarrow> '''')"

definition WithRequestIdKey :: "ctx \<Rightarrow> string \<Rightarrow> ctx" where
  "WithRequestIdKey c key = c\<lparr>ctx_requestId := Some key\<rparr>"

definition GetRequestIdKey :: "ctx \<Rightarrow> string" where
  "GetRequestIdKey c = (case ctx_requestId c of Some val \<Rightarrow> val | None \<Rightarrow> '''')"

section \<open>record.go\<close>

definition StatusInProgress :: string where "StatusInProgress = ''in_progress''"
definition StatusCompleted :: string where "StatusCompleted = ''completed''"

datatype ReserveDecision = ReserveAcquired | ReserveExisting
datatype BeginDecision = BeginProceed | BeginReplay | BeginConflict

record IdemRecord =
  ir_Key :: string
  ir_Scope :: string
  ir_Status :: string
  ir_RequestHash :: string
  ir_ResponseCode :: int
  ir_ResponseBody :: string
  ir_Headers :: "(string \<times> string) list"
  ir_StartedAt :: time
  ir_CompletedAt :: time

record IdemResult =
  res_StatusCode :: int
  res_Body :: string
  res_Headers :: "(string \<times> string) list"

record BeginResult =
  br_Decision :: BeginDecision
  br_Record :: "IdemRecord option"

definition marshalRecord :: "IdemRecord \<Rightarrow> json" where
  "marshalRecord r = JObj (
     [(''key'', JStr (ir_Key r)), (''scope'', JStr (ir_Scope r)), (''status'', JStr (ir_Status r))]
     @ omitStr ''request_hash'' (ir_RequestHash r)
     @ (if ir_ResponseCode r = 0 then [] else [(''response_code'', JNum (ir_ResponseCode r))])
     @ (if ir_ResponseBody r = [] then [] else [(''response_body'', JB64 (ir_ResponseBody r))])
     @ (if ir_Headers r = [] then [] else [(''headers'', JObj (map (\<lambda>(k, v). (k, JStr v)) (ir_Headers r)))])
     @ [(''started_at'', JTime (ir_StartedAt r)), (''completed_at'', JTime (ir_CompletedAt r))])"

text \<open>Decoding an object into \<^verbatim>\<open>map[string]string\<close>.\<close>

fun stringMap :: "(string \<times> json) list \<Rightarrow> (string \<times> string) list option" where
  "stringMap [] = Some []"
| "stringMap ((k, JStr v) # fs) = map_option (\<lambda>m. (k, v) # m) (stringMap fs)"
| "stringMap ((k, JNull) # fs) = map_option (\<lambda>m. (k, []) # m) (stringMap fs)"
| "stringMap ((k, _) # fs) = None"

definition zeroRecord :: IdemRecord where
  "zeroRecord = \<lparr>ir_Key = '''', ir_Scope = '''', ir_Status = '''', ir_RequestHash = '''', ir_ResponseCode = 0,
     ir_ResponseBody = '''', ir_Headers = [], ir_StartedAt = zeroTime, ir_CompletedAt = zeroTime\<rparr>"

definition unmarshalRecord :: "rvalue \<Rightarrow> IdemRecord option" where
  "unmarshalRecord raw = (case raw of
     RJson JNull \<Rightarrow> Some zeroRecord
   | RJson (JObj fs) \<Rightarrow>
      Option.bind (getStr ''key'' fs) (\<lambda>key.
      Option.bind (getStr ''scope'' fs) (\<lambda>scope.
      Option.bind (getStr ''status'' fs) (\<lambda>status.
      Option.bind (getStr ''request_hash'' fs) (\<lambda>hash.
      Option.bind (getInt ''response_code'' fs) (\<lambda>code.
      Option.bind (getBytes ''response_body'' fs) (\<lambda>body.
      Option.bind (getObj ''headers'' fs) (\<lambda>hs.
      Option.bind (stringMap (case hs of None \<Rightarrow> [] | Some l \<Rightarrow> l)) (\<lambda>headers.
      Option.bind (getTime ''started_at'' fs) (\<lambda>started.
      Option.bind (getTime ''completed_at'' fs) (\<lambda>completed.
        Some \<lparr>ir_Key = key, ir_Scope = scope, ir_Status = status, ir_RequestHash = hash,
          ir_ResponseCode = code, ir_ResponseBody = body, ir_Headers = headers,
          ir_StartedAt = started, ir_CompletedAt = completed\<rparr>))))))))))
   | _ \<Rightarrow> None)"

section \<open>interface.go and redis\_store.go\<close>

record Store =
  store_Reserve :: "IdemRecord \<Rightarrow> duration \<Rightarrow> (ReserveDecision \<times> IdemRecord option) io"
  store_Get :: "string \<Rightarrow> IdemRecord option io"
  store_Complete :: "string \<Rightarrow> IdemResult \<Rightarrow> duration \<Rightarrow> time \<Rightarrow> unit io"
  store_Release :: "string \<Rightarrow> unit io"

definition redisKey :: "string \<Rightarrow> string" where
  "redisKey key = key"

definition cloneHeaders :: "(string \<times> string) list \<Rightarrow> (string \<times> string) list" where
  "cloneHeaders hs = hs"

definition wrapRedisErr :: "gerror \<Rightarrow> gerror" where
  "wrapRedisErr err = (if errorsIs err RedisNil then IdemErrRecordNotFound else err)"

definition RedisStore_Get :: "env \<Rightarrow> string \<Rightarrow> IdemRecord option io" where
  "RedisStore_Get E key =
     andThen (mapErr (\<lambda>err. if errorsIs err RedisNil then IdemErrRecordNotFound else err)
       (redisVal E (GET (redisKey key)))) (\<lambda>raw.
     (case unmarshalRecord raw of
        None \<Rightarrow> fail (External ''json: cannot unmarshal'')
      | Some rec \<Rightarrow> ok (Some rec)))"

definition RedisStore_Reserve :: "env \<Rightarrow> IdemRecord \<Rightarrow> duration \<Rightarrow> (ReserveDecision \<times> IdemRecord option) io" where
  "RedisStore_Reserve E rec ttl =
     andThen (redisBool E (SETNX (redisKey (ir_Key rec)) (RJson (marshalRecord rec)) ttl)) (\<lambda>acquired.
     if acquired then ok (ReserveAcquired, Some rec)
     else
       andThen (RedisStore_Get E (ir_Key rec)) (\<lambda>existing.
       ok (ReserveExisting, existing)))"

definition completeRecord :: "IdemResult \<Rightarrow> time \<Rightarrow> IdemRecord \<Rightarrow> IdemRecord" where
  "completeRecord result now rec =
     rec\<lparr>ir_Status := StatusCompleted, ir_CompletedAt := now, ir_ResponseCode := res_StatusCode result,
         ir_ResponseBody := res_Body result, ir_Headers := cloneHeaders (res_Headers result)\<rparr>"

definition RedisStore_Complete :: "env \<Rightarrow> string \<Rightarrow> IdemResult \<Rightarrow> duration \<Rightarrow> time \<Rightarrow> unit io" where
  "RedisStore_Complete E key result ttl now =
     andThen (attempt (RedisStore_Get E key)) (\<lambda>r.
     (case r of
        Inl err \<Rightarrow> if errorsIs err IdemErrRecordNotFound then ok () else fail err
      | Inr None \<Rightarrow> fail (External ''nil pointer dereference'')
      | Inr (Some rec) \<Rightarrow>
          mapErr wrapRedisErr
            (redisErr E (SET (redisKey key) (RJson (marshalRecord (completeRecord result now rec))) ttl))))"

definition RedisStore_Release :: "env \<Rightarrow> string \<Rightarrow> unit io" where
  "RedisStore_Release E key = mapErr wrapRedisErr (redisErr E (DEL [redisKey key]))"

definition RedisStore :: "env \<Rightarrow> Store" where
  "RedisStore E = \<lparr>store_Reserve = RedisStore_Reserve E, store_Get = RedisStore_Get E,
     store_Complete = RedisStore_Complete E, store_Release = RedisStore_Release E\<rparr>"

section \<open>processed\_event\_store.go\<close>

text \<open>\<open>ON CONFLICT (consumer_name, event_id) DO NOTHING\<close>\<close>

definition insertProcessedEvent :: "string \<Rightarrow> string \<Rightarrow> time \<Rightarrow> json \<Rightarrow> nat stmt" where
  "insertProcessedEvent consumerName eventID processedAt metadata t d =
     (if \<not> (varchar 100 consumerName \<and> varchar 255 eventID) then Inl (PgError ''22001'')
      else if taken (\<lambda>p. (pe_ConsumerName p, pe_EventID p)) (consumerName, eventID) (t_processed d) then Inr (0, d)
      else Inr (1, d\<lparr>t_processed := t_processed d @
         [\<lparr>pe_ConsumerName = consumerName, pe_EventID = eventID, pe_ProcessedAt = processedAt,
           pe_Metadata = metadata\<rparr>]\<rparr>))"

text \<open>The store is given the pool: it does not look for a transaction in the context.\<close>

definition TryMarkProcessed :: "env \<Rightarrow> string \<Rightarrow> string \<Rightarrow> time \<Rightarrow> json \<Rightarrow> bool io" where
  "TryMarkProcessed E consumerName eventID processedAt metadata =
     andThen (pg E Background (insertProcessedEvent consumerName eventID processedAt metadata)) (\<lambda>n.
     ok (n = 1))"

section \<open>service.go\<close>

record IdemConfig =
  ic_InProgressTTL :: duration
  ic_CompletedTTL :: duration

record IdemService =
  is_store :: Store
  is_config :: IdemConfig

definition NewIdemService :: "Store \<Rightarrow> IdemConfig \<Rightarrow> IdemService" where
  "NewIdemService store config =
     (let c1 = (if ic_InProgressTTL config \<le> 0 then config\<lparr>ic_InProgressTTL := 3 * Minute\<rparr> else config);
          c2 = (if ic_CompletedTTL c1 \<le> 0 then c1\<lparr>ic_CompletedTTL := 24 * Hour\<rparr> else c1)
      in \<lparr>is_store = store, is_config = c2\<rparr>)"

definition NewDefaultConfig :: IdemConfig where
  "NewDefaultConfig = \<lparr>ic_InProgressTTL = 5 * Minute, ic_CompletedTTL = 24 * Hour\<rparr>"

definition beginRecord :: "string \<Rightarrow> string \<Rightarrow> string \<Rightarrow> time \<Rightarrow> IdemRecord" where
  "beginRecord key scope requestHash now =
     \<lparr>ir_Key = key, ir_Scope = scope, ir_Status = StatusInProgress, ir_RequestHash = requestHash,
      ir_ResponseCode = 0, ir_ResponseBody = '''', ir_Headers = [], ir_StartedAt = now, ir_CompletedAt = zeroTime\<rparr>"

text \<open>
  The decision once the store has answered. The result a conflict carries beside its error is not
  read by any caller: the error stands for it.
\<close>

definition beginDecide :: "IdemRecord \<Rightarrow> string \<Rightarrow> ReserveDecision \<times> IdemRecord option \<Rightarrow> gerror + BeginResult" where
  "beginDecide record0 requestHash answer = (case answer of (decision, existing) \<Rightarrow>
     if decision = ReserveAcquired then Inr \<lparr>br_Decision = BeginProceed, br_Record = Some record0\<rparr>
     else (case existing of
        None \<Rightarrow> Inl IdemErrRecordNotFound
      | Some rec \<Rightarrow>
         if ir_RequestHash rec \<noteq> '''' \<and> requestHash \<noteq> ir_RequestHash rec then Inl IdemErrRequestHashMismatch
         else if ir_Status rec = StatusCompleted then Inr \<lparr>br_Decision = BeginReplay, br_Record = Some rec\<rparr>
         else Inl IdemErrRequestInProgress))"

definition BeginHTTP :: "env \<Rightarrow> IdemService \<Rightarrow> string \<Rightarrow> string \<Rightarrow> string \<Rightarrow> BeginResult io" where
  "BeginHTTP E s scope0 rawKey requestHash =
     (if TrimSpace rawKey = '''' then fail IdemErrMissingKey
      else
        (let scope = NormalizeScope E scope0; key = BuildKey E scope rawKey
         in andThen (Now E) (\<lambda>now.
            (let record0 = beginRecord key scope requestHash now
             in andThen (store_Reserve (is_store s) record0 (ic_InProgressTTL (is_config s))) (\<lambda>answer.
                lift (beginDecide record0 requestHash answer))))))"

definition CompleteHTTP :: "env \<Rightarrow> IdemService \<Rightarrow> string \<Rightarrow> string \<Rightarrow> IdemResult \<Rightarrow> unit io" where
  "CompleteHTTP E s scope rawKey result =
     (if TrimSpace rawKey = '''' then fail IdemErrMissingKey
      else
        (let key = BuildKey E scope rawKey
         in andThen (Now E) (\<lambda>now.
            store_Complete (is_store s) key result (ic_CompletedTTL (is_config s)) now)))"

definition ReleaseHTTP :: "env \<Rightarrow> IdemService \<Rightarrow> string \<Rightarrow> string \<Rightarrow> unit io" where
  "ReleaseHTTP E s scope rawKey =
     (if TrimSpace rawKey = '''' then fail IdemErrMissingKey
      else store_Release (is_store s) (BuildKey E scope rawKey))"

definition GetHTTP :: "env \<Rightarrow> IdemService \<Rightarrow> string \<Rightarrow> string \<Rightarrow> IdemRecord option io" where
  "GetHTTP E s scope rawKey =
     (if TrimSpace rawKey = '''' then fail IdemErrMissingKey
      else store_Get (is_store s) (BuildKey E scope rawKey))"

definition TryProcessEvent :: "env \<Rightarrow> string \<Rightarrow> string \<Rightarrow> json \<Rightarrow> bool io" where
  "TryProcessEvent E consumerName eventID metadata =
     (if TrimSpace consumerName = '''' then fail IdemErrMissingConsumerName
      else if TrimSpace eventID = '''' then fail IdemErrMissingEventID
      else andThen (Now E) (\<lambda>now. TryMarkProcessed E consumerName eventID now metadata))"

section \<open>Keys\<close>

lemma NormalizeScope_map:
  "NormalizeScope E scope =
     (let r = map (\<lambda>c. if c \<in> {CHR '' '', CHR ''/'', CHR '':''} then CHR ''_'' else c) (TrimSpace (ToLower (env_toLower E) scope))
      in if r = [] then ''default'' else r)"
  by (auto simp: NormalizeScope_def ReplaceByte_def Let_def comp_def intro!: map_cong)

lemma NormalizeScope_no_colon: "CHR '':'' \<notin> set (NormalizeScope E scope)"
  by (auto simp: NormalizeScope_map Let_def split: if_splits)

lemma split_at_first: "c \<notin> set a \<Longrightarrow> c \<notin> set a' \<Longrightarrow> a @ c # b = a' @ c # b' \<Longrightarrow> a = a' \<and> b = b'"
  by (induction a arbitrary: a') (auto simp: Cons_eq_append_conv append_eq_Cons_conv)

text \<open>
  C33: the Redis key determines the normalised scope and the normalised idempotency key: requests
  of different scopes never share a record.
\<close>

theorem BuildKey_injective:
  "BuildKey E scope key = BuildKey E scope' key' \<longleftrightarrow>
     NormalizeScope E scope = NormalizeScope E scope' \<and> NormalizeKey key = NormalizeKey key'"
  using split_at_first [OF NormalizeScope_no_colon NormalizeScope_no_colon]
  by (auto simp: BuildKey_def)

text \<open>Normalising an ASCII scope twice is normalising it once.\<close>

lemma NormalizeScope_idem:
  assumes "isASCII scope"
  shows "NormalizeScope E (NormalizeScope E scope) = NormalizeScope E scope"
proof -
  let ?f = "\<lambda>c. if c \<in> {CHR '' '', CHR ''/'', CHR '':''} then CHR ''_'' else c"
  let ?t = "TrimSpace (map lowerByte scope)"
  let ?r = "map ?f ?t"
  have n: "NormalizeScope E scope = (if ?r = [] then ''default'' else ?r)"
    using assms by (simp add: NormalizeScope_map ToLower_def Let_def)
  have low: "lowerByte c = c \<and> of_char c < (128::nat)" if c: "c \<in> set ?r" for c
  proof -
    from c obtain b where b: "c = ?f b" "b \<in> set ?t"
      unfolding set_map by (rule imageE)
    then have "b \<in> set (map lowerByte scope)"
      using set_TrimSpace [of "map lowerByte scope"] by blast
    then have "lowerByte b = b" "of_char b < (128::nat)"
      using assms by (auto simp: isASCII_def list_all_iff of_char_lowerByte)
    then show ?thesis using b(1) by (auto simp: lowerByte_def)
  qed
  have "map lowerByte ?r = ?r" using low by (intro map_idI) auto
  moreover have "isASCII ?r" using low by (auto simp: isASCII_def list_all_iff)
  ultimately have "ToLower (env_toLower E) ?r = ?r" by (simp add: ToLower_def)
  moreover have "TrimSpace ?r = ?r" by (rule TrimSpace_map) auto
  moreover have "map ?f ?r = ?r" by (intro map_idI) auto
  ultimately have r: "NormalizeScope E ?r = NormalizeScope E scope"
    unfolding n NormalizeScope_map [of E ?r] Let_def by simp
  have "TrimSpace ''default'' = ''default''" by code_simp
  moreover have "isASCII ''default''" "map lowerByte ''default'' = ''default''" by code_simp+
  ultimately have "NormalizeScope E ''default'' = ''default''" by (simp add: NormalizeScope_map ToLower_def)
  with r n show ?thesis by (cases "?r = []") auto
qed

lemma BuildKey_normalized: "isASCII scope \<Longrightarrow> BuildKey E (NormalizeScope E scope) key = BuildKey E scope key"
  by (simp add: BuildKey_def NormalizeScope_idem)

section \<open>Records\<close>

lemma stringMap_map: "stringMap (map (\<lambda>(k, v). (k, JStr v)) hs) = Some hs"
  by (induction hs) auto

text \<open>Decoding an encoded record gives the record.\<close>

lemma unmarshal_marshalRecord: "unmarshalRecord (RJson (marshalRecord r)) = Some r"
proof -
  obtain fs where m: "marshalRecord r = JObj fs"
    and fs: "fs = [(''key'', JStr (ir_Key r)), (''scope'', JStr (ir_Scope r)), (''status'', JStr (ir_Status r))]
     @ omitStr ''request_hash'' (ir_RequestHash r)
     @ (if ir_ResponseCode r = 0 then [] else [(''response_code'', JNum (ir_ResponseCode r))])
     @ (if ir_ResponseBody r = [] then [] else [(''response_body'', JB64 (ir_ResponseBody r))])
     @ (if ir_Headers r = [] then [] else [(''headers'', JObj (map (\<lambda>(k, v). (k, JStr v)) (ir_Headers r)))])
     @ [(''started_at'', JTime (ir_StartedAt r)), (''completed_at'', JTime (ir_CompletedAt r))]"
    by (simp add: marshalRecord_def)
  have "getStr ''key'' fs = Some (ir_Key r)" "getStr ''scope'' fs = Some (ir_Scope r)"
    "getStr ''status'' fs = Some (ir_Status r)" "getStr ''request_hash'' fs = Some (ir_RequestHash r)"
    "getInt ''response_code'' fs = Some (ir_ResponseCode r)" "getBytes ''response_body'' fs = Some (ir_ResponseBody r)"
    "getObj ''headers'' fs = Some (if ir_Headers r = [] then None else Some (map (\<lambda>(k, v). (k, JStr v)) (ir_Headers r)))"
    "getTime ''started_at'' fs = Some (ir_StartedAt r)" "getTime ''completed_at'' fs = Some (ir_CompletedAt r)"
    unfolding fs json_decode by simp_all
  then show ?thesis by (simp add: m unmarshalRecord_def stringMap_map)
qed

section \<open>The contract of a store\<close>

text \<open>The record a reader at time \<open>t\<close> finds under a key.\<close>

definition storedRecord :: "time \<Rightarrow> world \<Rightarrow> string \<Rightarrow> IdemRecord option" where
  "storedRecord t w key = Option.bind (live t (w_redis w) (redisKey key)) unmarshalRecord"

locale idempotency_store =
  fixes S :: "env \<Rightarrow> Store"
    and stored :: "time \<Rightarrow> world \<Rightarrow> string \<Rightarrow> IdemRecord option"
  assumes reserve_acquired:
    "redis_documented E \<Longrightarrow> store_Reserve (S E) rec ttl w = (Inr (ReserveAcquired, r), w') \<Longrightarrow>
       stored (env_now E (w_n w)) w (ir_Key rec) = None
       \<and> (0 < ttl \<longrightarrow> t < env_now E (w_n w) + ttl \<longrightarrow> stored t w' (ir_Key rec) = Some rec)"
    and reserve_existing:
    "redis_documented E \<Longrightarrow> store_Reserve (S E) rec ttl w = (Inr (ReserveExisting, r), w') \<Longrightarrow>
       r = stored (env_now E (Suc (w_n w))) w (ir_Key rec) \<and> r \<noteq> None"
    and release_removes:
    "redis_documented E \<Longrightarrow> store_Release (S E) key w = (Inr (), w') \<Longrightarrow> stored t w' key = None"
    and stored_n: "stored t (w\<lparr>w_n := n\<rparr>) key = stored t w key"
begin

text \<open>
  A request that may proceed leaves its record; while the record is there, no request with the
  same key may proceed.
\<close>

lemma proceed_reserves:
  assumes "redis_documented E" and "is_store s = S E" and "0 < ic_InProgressTTL (is_config s)"
    and run: "BeginHTTP E s scope key h w = (Inr b, w')" and "br_Decision b = BeginProceed"
    and "t < env_now E (Suc (w_n w)) + ic_InProgressTTL (is_config s)"
  shows "stored (env_now E (Suc (w_n w))) w (BuildKey E (NormalizeScope E scope) key) = None
    \<and> stored t w' (BuildKey E (NormalizeScope E scope) key) =
        Some (beginRecord (BuildKey E (NormalizeScope E scope) key) (NormalizeScope E scope) h (env_now E (w_n w)))"
proof -
  let ?rec = "beginRecord (BuildKey E (NormalizeScope E scope) key) (NormalizeScope E scope) h (env_now E (w_n w))"
  from run assms(5) obtain ex where
    "store_Reserve (is_store s) ?rec (ic_InProgressTTL (is_config s)) (w\<lparr>w_n := Suc (w_n w)\<rparr>) = (Inr (ReserveAcquired, ex), w')"
    by (auto simp: BeginHTTP_def Let_def andThen_def fail_def lift_def beginDecide_def
        split: if_splits sum.splits prod.splits option.splits)
  from reserve_acquired [OF assms(1) this [unfolded assms(2)], of t] assms(3,6) show ?thesis
    by (simp add: beginRecord_def stored_n)
qed

lemma no_second_proceed:
  assumes "redis_documented E" and "is_store s = S E" and "0 < ic_InProgressTTL (is_config s)"
    and run: "BeginHTTP E s scope key h w = (Inr b, w')"
    and "stored (env_now E (Suc (w_n w))) w (BuildKey E (NormalizeScope E scope) key) \<noteq> None"
  shows "br_Decision b \<noteq> BeginProceed"
  using proceed_reserves [OF assms(1-3) run, of "env_now E (Suc (w_n w))"] assms(3,5) by auto

text \<open>A replay gives back a stored, completed record of a request with the same hash.\<close>

lemma replay_stored:
  assumes "redis_documented E" and "is_store s = S E"
    and run: "BeginHTTP E s scope key h w = (Inr b, w')" and "br_Decision b = BeginReplay"
  shows "\<exists>r. br_Record b = Some r \<and> ir_Status r = StatusCompleted \<and> (ir_RequestHash r = '''' \<or> ir_RequestHash r = h)
     \<and> stored (env_now E (Suc (Suc (w_n w)))) w (BuildKey E (NormalizeScope E scope) key) = Some r"
proof -
  let ?rec = "beginRecord (BuildKey E (NormalizeScope E scope) key) (NormalizeScope E scope) h (env_now E (w_n w))"
  from run assms(4) obtain r where
    res: "store_Reserve (is_store s) ?rec (ic_InProgressTTL (is_config s)) (w\<lparr>w_n := Suc (w_n w)\<rparr>) = (Inr (ReserveExisting, Some r), w')"
    and r: "br_Record b = Some r" "ir_Status r = StatusCompleted" "ir_RequestHash r = '''' \<or> ir_RequestHash r = h"
    by (auto simp: BeginHTTP_def Let_def andThen_def fail_def lift_def beginDecide_def
        split: if_splits sum.splits prod.splits option.splits) (metis ReserveDecision.exhaust)+
  from reserve_existing [OF assms(1) res [unfolded assms(2)]]
  have "Some r = stored (env_now E (Suc (Suc (w_n w)))) w (BuildKey E (NormalizeScope E scope) key)"
    by (simp add: beginRecord_def stored_n)
  from r this [symmetric] show ?thesis by blast
qed

end

lemma RedisStore_Get_InrD:
  assumes "redis_documented E" and "RedisStore_Get E key w = (Inr r, w')"
  shows "r = storedRecord (env_now E (w_n w)) w key \<and> r \<noteq> None \<and> w' = w\<lparr>w_n := Suc (w_n w)\<rparr>"
proof -
  from assms(2) obtain v rec where v: "redis E (GET (redisKey key)) w = (Inr (RVal v), w')" "unmarshalRecord v = Some rec" "r = Some rec"
    by (auto simp: RedisStore_Get_def redisVal_def andThen_def mapErr_def ok_def fail_def
        split: prod.splits sum.splits rreply.splits option.splits)
  from assms(1) v(1) show ?thesis
    by (rule redis_InrE) (use v(2,3) in \<open>auto simp: redis_ref_GET storedRecord_def split: option.splits\<close>)
qed

lemma RedisStore_Reserve_acquired:
  assumes "redis_documented E" and "RedisStore_Reserve E rec ttl w = (Inr (ReserveAcquired, r), w')"
  shows "storedRecord (env_now E (w_n w)) w (ir_Key rec) = None
     \<and> (0 < ttl \<longrightarrow> t < env_now E (w_n w) + ttl \<longrightarrow> storedRecord t w' (ir_Key rec) = Some rec)"
proof -
  from assms(2) have run: "redis E (SETNX (redisKey (ir_Key rec)) (RJson (marshalRecord rec)) ttl) w = (Inr (RBool True), w')"
    by (auto simp: RedisStore_Reserve_def redisBool_def andThen_def ok_def fail_def
        split: prod.splits sum.splits rreply.splits if_splits)
  from assms(1) run show ?thesis
    by (rule redis_InrE)
      (auto simp: redis_ref_SETNX storedRecord_def expiry_def unmarshal_marshalRecord split: if_splits)
qed

lemma RedisStore_Reserve_existing:
  assumes "redis_documented E" and "RedisStore_Reserve E rec ttl w = (Inr (ReserveExisting, r), w')"
  shows "r = storedRecord (env_now E (Suc (w_n w))) w (ir_Key rec) \<and> r \<noteq> None"
proof -
  from assms(2) obtain w1 where
    run: "redis E (SETNX (redisKey (ir_Key rec)) (RJson (marshalRecord rec)) ttl) w = (Inr (RBool False), w1)"
    and get: "RedisStore_Get E (ir_Key rec) w1 = (Inr r, w')"
    by (auto simp: RedisStore_Reserve_def redisBool_def andThen_def ok_def fail_def
        split: prod.splits sum.splits rreply.splits if_splits)
  from assms(1) run have "w1 = w\<lparr>w_n := Suc (w_n w)\<rparr>"
    by (rule redis_InrE) (auto simp: redis_ref_SETNX split: if_splits)
  with RedisStore_Get_InrD [OF assms(1) get] show ?thesis by (auto simp: storedRecord_def)
qed

lemma RedisStore_Release_removes:
  assumes "redis_documented E" and "RedisStore_Release E key w = (Inr (), w')"
  shows "storedRecord t w' key = None"
proof -
  from assms(2) obtain r where run: "redis E (DEL [redisKey key]) w = (Inr r, w')"
    by (auto simp: RedisStore_Release_def redisErr_def andThen_def mapErr_def ok_def split: prod.splits sum.splits)
  from assms(1) run show ?thesis
    by (rule redis_InrE) (auto simp: redis_ref_def storedRecord_def live_def)
qed

lemma storedRecord_n: "storedRecord t (w\<lparr>w_n := n\<rparr>) key = storedRecord t w key"
  by (simp add: storedRecord_def)

interpretation redis_store: idempotency_store RedisStore storedRecord
  by unfold_locales
    (auto simp: RedisStore_def dest: RedisStore_Reserve_acquired RedisStore_Reserve_existing
      RedisStore_Release_removes intro: storedRecord_n)

section \<open>Properties of the service\<close>

lemma NewIdemService_simps [simp]:
  "is_store (NewIdemService st cfg) = st" "0 < ic_InProgressTTL (is_config (NewIdemService st cfg))"
  "0 < ic_CompletedTTL (is_config (NewIdemService st cfg))"
  by (auto simp: NewIdemService_def Let_def duration_units)

text \<open>Whenever a record is found under a key, it is the one the key holds.\<close>

lemma storedRecord_unique: "storedRecord t w k = Some a \<Longrightarrow> storedRecord t' w k = Some b \<Longrightarrow> a = b"
  by (auto simp: storedRecord_def live_def split: option.splits if_splits)

lemma BeginHTTP_decision:
  "BeginHTTP E s scope key h w = (Inr b, w') \<Longrightarrow> br_Decision b = BeginProceed \<or> br_Decision b = BeginReplay"
  by (auto simp: BeginHTTP_def Let_def andThen_def fail_def lift_def beginDecide_def
      split: if_splits sum.splits prod.splits option.splits)

text \<open>
  C18: at most once. When a request was told to proceed, every second request with the same scope
  and key is refused as long as the first one's record is untouched and its time to live has not
  passed, whatever errors Redis reports to either.
\<close>

theorem BeginHTTP_at_most_once:
  assumes "redis_documented E" and "s = NewIdemService (RedisStore E) cfg"
    and "BeginHTTP E s scope key h w = (Inr b, w1)" and "br_Decision b = BeginProceed"
    and "w_redis w2 (BuildKey E (NormalizeScope E scope) key) = w_redis w1 (BuildKey E (NormalizeScope E scope) key)"
    and "env_now E (Suc (w_n w2)) < env_now E (Suc (w_n w)) + ic_InProgressTTL (is_config s)"
  shows "isl (fst (BeginHTTP E s scope key h' w2))"
proof (rule ccontr)
  let ?k = "BuildKey E (NormalizeScope E scope) key"
  have st: "is_store s = RedisStore E" "0 < ic_InProgressTTL (is_config s)" using assms(2) by simp_all
  let ?rec = "beginRecord ?k (NormalizeScope E scope) h (env_now E (w_n w))"
  have rec: "storedRecord (env_now E (Suc (w_n w2))) w2 ?k = Some ?rec"
    using redis_store.proceed_reserves [OF assms(1) st assms(3,4,6)] assms(5)
    by (simp add: storedRecord_def live_def redisKey_def)
  assume "\<not> isl (fst (BeginHTTP E s scope key h' w2))"
  then obtain b' w3 where run: "BeginHTTP E s scope key h' w2 = (Inr b', w3)"
    by (metis prod.collapse sum.collapse(2))
  then have "br_Decision b' = BeginReplay"
    using BeginHTTP_decision [OF run] redis_store.no_second_proceed [OF assms(1) st run] rec by simp
  from redis_store.replay_stored [OF assms(1) st(1) run this] obtain r where
    r: "ir_Status r = StatusCompleted" "storedRecord (env_now E (Suc (Suc (w_n w2)))) w2 ?k = Some r" by blast
  from storedRecord_unique [OF rec r(2)] r(1) show False
    by (auto simp: beginRecord_def StatusInProgress_def StatusCompleted_def)
qed

lemma RedisStore_sel [simp]:
  "store_Reserve (RedisStore E) = RedisStore_Reserve E" "store_Get (RedisStore E) = RedisStore_Get E"
  "store_Complete (RedisStore E) = RedisStore_Complete E" "store_Release (RedisStore E) = RedisStore_Release E"
  by (simp_all add: RedisStore_def)

lemma BeginHTTP_run:
  assumes "TrimSpace key \<noteq> ''''" and "rec = beginRecord (BuildKey E (NormalizeScope E scope) key) (NormalizeScope E scope) h (env_now E (w_n w))"
    and "store_Reserve (is_store s) rec (ic_InProgressTTL (is_config s)) (w\<lparr>w_n := Suc (w_n w)\<rparr>) = (Inr ans, w')"
  shows "BeginHTTP E s scope key h w = (beginDecide rec h ans, w')"
  using assms by (simp add: BeginHTTP_def Let_def andThen_def lift_def)

text \<open>The operations of the store on a server that does not fail.\<close>

lemma RedisStore_Get_up:
  "redis_up E \<Longrightarrow> storedRecord (env_now E (w_n w)) w key = Some r \<Longrightarrow>
     RedisStore_Get E key w = (Inr (Some r), w\<lparr>w_n := Suc (w_n w)\<rparr>)"
  by (cases "live (env_now E (w_n w)) (w_redis w) (redisKey key)")
    (auto simp: RedisStore_Get_def redisVal_def andThen_def mapErr_def redis_up_run redis_ref_GET ok_def
      storedRecord_def)

lemma RedisStore_Reserve_up:
  assumes "redis_up E"
  shows "live (env_now E (w_n w)) (w_redis w) (ir_Key rec) = None \<Longrightarrow>
      RedisStore_Reserve E rec ttl w = (Inr (ReserveAcquired, Some rec),
        w\<lparr>w_n := Suc (w_n w), w_redis := (w_redis w)(ir_Key rec \<mapsto> (RJson (marshalRecord rec), expiry (env_now E (w_n w)) ttl))\<rparr>)"
    and "storedRecord (env_now E (w_n w)) w (ir_Key rec) \<noteq> None \<Longrightarrow>
      storedRecord (env_now E (Suc (w_n w))) w (ir_Key rec) = Some r \<Longrightarrow>
      RedisStore_Reserve E rec ttl w = (Inr (ReserveExisting, Some r), w\<lparr>w_n := Suc (Suc (w_n w))\<rparr>)"
proof -
  show "RedisStore_Reserve E rec ttl w = (Inr (ReserveAcquired, Some rec),
      w\<lparr>w_n := Suc (w_n w), w_redis := (w_redis w)(ir_Key rec \<mapsto> (RJson (marshalRecord rec), expiry (env_now E (w_n w)) ttl))\<rparr>)"
    if "live (env_now E (w_n w)) (w_redis w) (ir_Key rec) = None"
    using that assms
    by (simp add: RedisStore_Reserve_def redisBool_def andThen_def redis_up_run redis_ref_SETNX ok_def redisKey_def)
  assume s: "storedRecord (env_now E (w_n w)) w (ir_Key rec) \<noteq> None"
    and r: "storedRecord (env_now E (Suc (w_n w))) w (ir_Key rec) = Some r"
  from s have l: "live (env_now E (w_n w)) (w_redis w) (ir_Key rec) \<noteq> None"
    by (cases "live (env_now E (w_n w)) (w_redis w) (ir_Key rec)") (auto simp: storedRecord_def redisKey_def)
  have "RedisStore_Get E (ir_Key rec) (w\<lparr>w_n := Suc (w_n w)\<rparr>) = (Inr (Some r), w\<lparr>w_n := Suc (Suc (w_n w))\<rparr>)"
    using RedisStore_Get_up [OF assms, of "w\<lparr>w_n := Suc (w_n w)\<rparr>" "ir_Key rec" r] r by (simp add: storedRecord_n)
  then show "RedisStore_Reserve E rec ttl w = (Inr (ReserveExisting, Some r), w\<lparr>w_n := Suc (Suc (w_n w))\<rparr>)"
    using l assms
    by (auto simp: RedisStore_Reserve_def redisBool_def andThen_def redis_up_run redis_ref_SETNX ok_def redisKey_def)
qed

lemma RedisStore_Complete_up:
  assumes "redis_up E" and "storedRecord (env_now E (w_n w)) w key = Some r"
  shows "RedisStore_Complete E key result ttl now w = (Inr (),
     w\<lparr>w_n := Suc (Suc (w_n w)), w_redis := (w_redis w)(key \<mapsto>
        (RJson (marshalRecord (completeRecord result now r)), expiry (env_now E (Suc (w_n w))) ttl))\<rparr>)"
  using RedisStore_Get_up [OF assms] assms(1)
  by (simp add: RedisStore_Complete_def andThen_def attempt_def mapErr_def redisErr_def redis_up_run
      redis_ref_SET ok_def redisKey_def)

text \<open>
  A request with a fresh key proceeds, its completion is stored, and the next request with the key
  finds the completed record.
\<close>

lemma begin_complete_begin:
  assumes "redis_up E" and "isASCII scope" and "TrimSpace key \<noteq> ''''" and "h \<noteq> ''''"
    and s: "s = NewIdemService (RedisStore E) cfg" and k: "k = BuildKey E scope key"
    and fresh: "live (env_now E (Suc (w_n w))) (w_redis w) k = None"
    and beg: "BeginHTTP E s scope key h w = (b, w1)"
    and w2: "w_redis w2 k = w_redis w1 k"
      "env_now E (Suc (w_n w2)) < env_now E (Suc (w_n w)) + ic_InProgressTTL (is_config s)"
    and complete: "CompleteHTTP E s scope key result w2 = (c, w3)"
    and w4: "w_redis w4 k = w_redis w3 k"
      "\<forall>i \<in> {1, 2}. env_now E (w_n w4 + i) < env_now E (w_n w2 + 2) + ic_CompletedTTL (is_config s)"
  shows "(\<exists>r. b = Inr \<lparr>br_Decision = BeginProceed, br_Record = Some r\<rparr>) \<and> c = Inr () \<and>
     (\<exists>r. ir_ResponseCode r = res_StatusCode result \<and> ir_ResponseBody r = res_Body result \<and> ir_Headers r = res_Headers result
        \<and> (\<forall>x. BeginHTTP E s scope key x w4 =
              (if h \<noteq> x then Inl IdemErrRequestHashMismatch else Inr \<lparr>br_Decision = BeginReplay, br_Record = Some r\<rparr>,
               w4\<lparr>w_n := Suc (Suc (Suc (w_n w4)))\<rparr>)))"
proof -
  have nk: "BuildKey E (NormalizeScope E scope) key = k" using assms(2) k by (simp add: BuildKey_normalized)
  let ?r = "beginRecord k (NormalizeScope E scope) h (env_now E (w_n w))"
  let ?c = "completeRecord result (env_now E (w_n w2)) ?r"
  have rk: "ir_Key (beginRecord k sc x t) = k" for sc x t by (simp add: beginRecord_def)
  have "RedisStore_Reserve E ?r (ic_InProgressTTL (is_config s)) (w\<lparr>w_n := Suc (w_n w)\<rparr>) =
      (Inr (ReserveAcquired, Some ?r), w\<lparr>w_n := Suc (Suc (w_n w)), w_redis := (w_redis w)(k \<mapsto>
        (RJson (marshalRecord ?r), expiry (env_now E (Suc (w_n w))) (ic_InProgressTTL (is_config s))))\<rparr>)"
    using RedisStore_Reserve_up(1) [OF assms(1), of "w\<lparr>w_n := Suc (w_n w)\<rparr>" ?r] fresh by (simp add: rk)
  then have b: "b = Inr \<lparr>br_Decision = BeginProceed, br_Record = Some ?r\<rparr>"
    and w1: "w_redis w1 k = Some (RJson (marshalRecord ?r), expiry (env_now E (Suc (w_n w))) (ic_InProgressTTL (is_config s)))"
    using beg BeginHTTP_run [OF assms(3), of ?r E scope h w s] s by (auto simp: nk beginDecide_def)
  have "storedRecord (env_now E (Suc (w_n w2))) (w2\<lparr>w_n := Suc (w_n w2)\<rparr>) k = Some ?r"
    using w1 w2 s by (simp add: storedRecord_def live_def redisKey_def expiry_def unmarshal_marshalRecord)
  then have c: "c = Inr ()" and w3: "w_redis w3 k = Some (RJson (marshalRecord ?c),
      expiry (env_now E (Suc (Suc (w_n w2)))) (ic_CompletedTTL (is_config s)))"
    using complete assms(3) RedisStore_Complete_up [OF assms(1), of "w2\<lparr>w_n := Suc (w_n w2)\<rparr>" k ?r]
    by (auto simp: CompleteHTTP_def Let_def andThen_def s k)
  have st: "storedRecord (env_now E (w_n w4 + i)) w4 k = Some ?c" if "i \<in> {1, 2}" for i
    using w4 w3 s that by (auto simp: storedRecord_def live_def redisKey_def expiry_def unmarshal_marshalRecord)
  have res: "RedisStore_Reserve E (beginRecord k (NormalizeScope E scope) x (env_now E (w_n w4))) ttl (w4\<lparr>w_n := Suc (w_n w4)\<rparr>)
      = (Inr (ReserveExisting, Some ?c), w4\<lparr>w_n := Suc (Suc (Suc (w_n w4)))\<rparr>)" for x ttl
    using RedisStore_Reserve_up(2) [OF assms(1), of "w4\<lparr>w_n := Suc (w_n w4)\<rparr>"] st [of 1] st [of 2]
    by (simp add: rk storedRecord_n)
  have decide: "BeginHTTP E s scope key x w4 =
      (if h \<noteq> x then Inl IdemErrRequestHashMismatch else Inr \<lparr>br_Decision = BeginReplay, br_Record = Some ?c\<rparr>,
       w4\<lparr>w_n := Suc (Suc (Suc (w_n w4)))\<rparr>)" for x
  proof -
    have "BeginHTTP E s scope key x w4 =
        (beginDecide (beginRecord k (NormalizeScope E scope) x (env_now E (w_n w4))) x (ReserveExisting, Some ?c),
         w4\<lparr>w_n := Suc (Suc (Suc (w_n w4)))\<rparr>)"
      by (rule BeginHTTP_run [OF assms(3)]) (simp_all add: nk s res)
    then show ?thesis using assms(4) by (simp add: beginDecide_def completeRecord_def beginRecord_def)
  qed
  have "ir_ResponseCode ?c = res_StatusCode result \<and> ir_ResponseBody ?c = res_Body result \<and> ir_Headers ?c = res_Headers result"
    by (simp add: completeRecord_def cloneHeaders_def)
  then show ?thesis using b c decide by blast
qed

text \<open>
  A request, its completion and a retry. On a Redis server that does not fail, a request with
  a fresh key proceeds, its completion stores the response, and a retry with the same key is
  answered with the stored status code, body and headers when it carries the same request hash and
  refused with \<open>ErrRequestHashMismatch\<close> when it carries another one.
\<close>

theorem request_complete_retry:
  assumes "redis_up E" and "isASCII scope" and "TrimSpace key \<noteq> ''''" and "h \<noteq> ''''"
    and s: "s = NewIdemService (RedisStore E) cfg" and k: "k = BuildKey E scope key"
    and fresh: "live (env_now E (Suc (w_n w))) (w_redis w) k = None"
    and beg: "BeginHTTP E s scope key h w = (b, w1)"
    and w2: "w_redis w2 k = w_redis w1 k"
      "env_now E (Suc (w_n w2)) < env_now E (Suc (w_n w)) + ic_InProgressTTL (is_config s)"
    and complete: "CompleteHTTP E s scope key result w2 = (c, w3)"
    and w4: "w_redis w4 k = w_redis w3 k"
      "\<forall>i \<in> {1, 2}. env_now E (w_n w4 + i) < env_now E (w_n w2 + 2) + ic_CompletedTTL (is_config s)"
  shows "(\<exists>r. b = Inr \<lparr>br_Decision = BeginProceed, br_Record = Some r\<rparr>) \<and> c = Inr () \<and>
     (\<exists>r. fst (BeginHTTP E s scope key h w4) = Inr \<lparr>br_Decision = BeginReplay, br_Record = Some r\<rparr>
        \<and> ir_ResponseCode r = res_StatusCode result \<and> ir_ResponseBody r = res_Body result
        \<and> ir_Headers r = res_Headers result) \<and>
     (\<forall>h'. h' = h \<or> fst (BeginHTTP E s scope key h' w4) = Inl IdemErrRequestHashMismatch)"
  using begin_complete_begin [OF assms] by (elim conjE exE) simp

section \<open>Processed events\<close>

lemma insertProcessedEvent_ok [pres]: "stmt_preserves db_ok (insertProcessedEvent cn ev t0 md)"
  by (rule stmt_preservesI)
    (auto simp: insertProcessedEvent_def db_ok_def processed_ok_def unique_on_snoc taken_iff split: if_splits)

lemma TryProcessEvent_db_ok [pres]: "preserves (on_dbs db_ok) (TryProcessEvent E cn ev md)"
  unfolding TryProcessEvent_def TryMarkProcessed_def by (intro pres preserves_pg)

definition isProcessed :: "string \<Rightarrow> string \<Rightarrow> world \<Rightarrow> bool" where
  "isProcessed cn ev w \<longleftrightarrow> taken (\<lambda>p. (pe_ConsumerName p, pe_EventID p)) (cn, ev) (t_processed (w_pool w))"

text \<open>A sequence of calls, by any consumers, and their answers.\<close>

fun processAll :: "env \<Rightarrow> (string \<times> string \<times> json) list \<Rightarrow> world \<Rightarrow> (gerror + bool) list" where
  "processAll E [] w = []"
| "processAll E ((cn, ev, md) # calls) w =
     (case TryProcessEvent E cn ev md w of (r, w') \<Rightarrow> r # processAll E calls w')"

lemma TryProcessEvent_marks:
  assumes "TryProcessEvent E cn ev md w = (r, w')"
  shows "(isProcessed cn' ev' w \<longrightarrow> isProcessed cn' ev' w')
     \<and> (r = Inr True \<longrightarrow> \<not> isProcessed cn ev w \<and> isProcessed cn ev w')"
  using assms
  by (auto simp: TryProcessEvent_def TryMarkProcessed_def andThen_def fail_def ok_def pg_def Let_def
      GetExecutor_def putExecutor_def Background_def insertProcessedEvent_def isProcessed_def taken_iff
      split: if_splits pgFault.splits sum.splits)

definition acceptedCalls :: "string \<Rightarrow> string \<Rightarrow> (string \<times> string \<times> json) list \<Rightarrow> (gerror + bool) list \<Rightarrow> nat" where
  "acceptedCalls cn ev calls rs =
     length (filter (\<lambda>(c, r). fst c = cn \<and> fst (snd c) = ev \<and> r = Inr True) (zip calls rs))"

text \<open>
  C19: exactly-once marking. In any sequence of \<open>TryProcessEvent\<close> calls, whatever fails, at most one
  call for a given consumer and event answers true, and none once the event is marked.
\<close>

theorem TryProcessEvent_at_most_once:
  "acceptedCalls cn ev calls (processAll E calls w) \<le> (if isProcessed cn ev w then 0 else 1)"
proof (induction calls arbitrary: w)
  case Nil
  then show ?case by (simp add: acceptedCalls_def)
next
  case (Cons call calls)
  obtain cn' ev' md where call: "call = (cn', ev', md)" by (cases call)
  obtain r w' where run: "TryProcessEvent E cn' ev' md w = (r, w')" by fastforce
  from TryProcessEvent_marks [OF run] Cons.IH [of w'] show ?case
    by (auto simp: call run acceptedCalls_def split: if_splits)
qed

end
