(* ===== verification/Auth_Platform.thy ===== *)
theory Auth_Platform
  imports Tx
begin

text \<open>
  The token manager and the password hasher (\<^verbatim>\<open>internal/platform/auth\<close>) and the random tokens of
  \<^verbatim>\<open>internal/platform/cryptoutil\<close>.
\<close>

section \<open>cryptoutil/token.go\<close>

definition GenerateSecureToken :: "env \<Rightarrow> string io" where
  "GenerateSecureToken E =
     andThen (mapErr (\<lambda>err. Wrapf ''rand.Read: '' err '''') (RandRead E)) (\<lambda>b.
     ok (hexEncode b))"

definition HashToken :: "env \<Rightarrow> string \<Rightarrow> string" where
  "HashToken E raw = hexEncode (env_sha256 E raw)"

section \<open>bcrypt\_hasher.go\<close>

text \<open>A generated hash is salted: it depends on the interaction.\<close>

definition GenerateFromPassword :: "env \<Rightarrow> string \<Rightarrow> int \<Rightarrow> string io" where
  "GenerateFromPassword E raw cost w = (env_bcryptGenerate E (w_n w) raw cost, w\<lparr>w_n := Suc (w_n w)\<rparr>)"

record BcryptHasher =
  bh_cost :: int

definition BcryptHasher_Hash :: "env \<Rightarrow> BcryptHasher \<Rightarrow> string \<Rightarrow> string io" where
  "BcryptHasher_Hash E h raw = GenerateFromPassword E raw (bh_cost h)"

definition BcryptHasher_Verify :: "env \<Rightarrow> string \<Rightarrow> string \<Rightarrow> gerror option" where
  "BcryptHasher_Verify E raw hash = env_bcryptCompare E hash raw"

section \<open>jwt\_auth.go\<close>

record JWTConfig =
  jwt_Secret :: string
  jwt_AccessTokenTTL :: duration
  jwt_RefreshTokenTTL :: duration
  jwt_Issuer :: string
  jwt_BcryptCost :: int

record Claims =
  cl_UserID :: int
  cl_Email :: string
  cl_Role :: string
  cl_Type :: string
  cl_SessionID :: string
  cl_DeviceID :: string
  cl_ID :: string
  cl_ExpiresAt :: "int option"
  cl_IssuedAt :: "int option"

definition AccessType :: string where "AccessType = ''access''"
definition RefreshType :: string where "RefreshType = ''refresh''"

text \<open>\<^verbatim>\<open>jwt.NewNumericDate\<close>: whole seconds since 1970.\<close>

definition NewNumericDate :: "time \<Rightarrow> int" where
  "NewNumericDate t = (t - unixEpoch) div Second"

definition marshalClaims :: "Claims \<Rightarrow> json" where
  "marshalClaims c = JObj (
     [(''user_id'', JNum (cl_UserID c)), (''email'', JStr (cl_Email c)), (''role'', JStr (cl_Role c)),
      (''type'', JStr (cl_Type c)), (''session_id'', JStr (cl_SessionID c)), (''device_id'', JStr (cl_DeviceID c))]
     @ omitIntPtr ''exp'' (cl_ExpiresAt c) @ omitIntPtr ''iat'' (cl_IssuedAt c) @ omitStr ''jti'' (cl_ID c))"

definition unmarshalClaims :: "json \<Rightarrow> Claims option" where
  "unmarshalClaims j = (case j of
     JObj fs \<Rightarrow>
      Option.bind (getInt ''user_id'' fs) (\<lambda>uid.
      Option.bind (getStr ''email'' fs) (\<lambda>email.
      Option.bind (getStr ''role'' fs) (\<lambda>role.
      Option.bind (getStr ''type'' fs) (\<lambda>ty.
      Option.bind (getStr ''session_id'' fs) (\<lambda>sid.
      Option.bind (getStr ''device_id'' fs) (\<lambda>did.
      Option.bind (getIntPtr ''exp'' fs) (\<lambda>exp.
      Option.bind (getIntPtr ''iat'' fs) (\<lambda>iat.
      Option.bind (getStr ''jti'' fs) (\<lambda>jti.
        Some \<lparr>cl_UserID = uid, cl_Email = email, cl_Role = role, cl_Type = ty, cl_SessionID = sid,
          cl_DeviceID = did, cl_ID = jti, cl_ExpiresAt = exp, cl_IssuedAt = iat\<rparr>)))))))))
   | _ \<Rightarrow> None)"

definition GenerateAccessToken ::
  "env \<Rightarrow> JWTConfig \<Rightarrow> int \<Rightarrow> string \<Rightarrow> string \<Rightarrow> string \<Rightarrow> string \<Rightarrow> (string \<times> time) io" where
  "GenerateAccessToken E cfg userID email role sessionID deviceID =
     andThen (Now E) (\<lambda>t0.
     (let expiresAt = t0 + jwt_AccessTokenTTL cfg
      in andThen (NewUUID E) (\<lambda>uuid.
         andThen (Now E) (\<lambda>t1.
         andThen (lift (env_jwtSign E (jwt_Secret cfg) (marshalClaims
           \<lparr>cl_UserID = userID, cl_Email = email, cl_Role = role, cl_Type = AccessType, cl_SessionID = sessionID,
            cl_DeviceID = deviceID, cl_ID = uuid, cl_ExpiresAt = Some (NewNumericDate expiresAt),
            cl_IssuedAt = Some (NewNumericDate t1)\<rparr>))) (\<lambda>tok.
         ok (tok, expiresAt))))))"

definition GenerateRefreshToken :: "env \<Rightarrow> JWTConfig \<Rightarrow> int \<Rightarrow> string \<Rightarrow> string \<Rightarrow> string \<Rightarrow> string io" where
  "GenerateRefreshToken E cfg userID email role deviceID =
     andThen (Now E) (\<lambda>t0.
     (let expiresAt = t0 + jwt_RefreshTokenTTL cfg
      in andThen (NewUUID E) (\<lambda>uuid.
         andThen (Now E) (\<lambda>t1.
         lift (env_jwtSign E (jwt_Secret cfg) (marshalClaims
           \<lparr>cl_UserID = userID, cl_Email = email, cl_Role = role, cl_Type = RefreshType, cl_SessionID = '''',
            cl_DeviceID = deviceID, cl_ID = uuid, cl_ExpiresAt = Some (NewNumericDate expiresAt),
            cl_IssuedAt = Some (NewNumericDate t1)\<rparr>))))))"

definition parseToken :: "env \<Rightarrow> JWTConfig \<Rightarrow> string \<Rightarrow> Claims io" where
  "parseToken E cfg tok =
     (case env_jwtDecode E tok of
        Inl err \<Rightarrow> fail err
      | Inr (isHMAC, j) \<Rightarrow>
         (case unmarshalClaims j of
            None \<Rightarrow> fail (External ''token is malformed'')
          | Some claims \<Rightarrow>
             if \<not> isHMAC then fail (External ''token is unverifiable: unexpected signing method'')
             else andThen (Now E) (\<lambda>now.
               (case env_jwtVerify E (jwt_Secret cfg) now tok of
                  Some err \<Rightarrow> fail err
                | None \<Rightarrow> ok claims))))"

definition ValidateAccessToken :: "env \<Rightarrow> JWTConfig \<Rightarrow> string \<Rightarrow> Claims io" where
  "ValidateAccessToken E cfg tok =
     andThen (parseToken E cfg tok) (\<lambda>claims.
     if cl_Type claims \<noteq> AccessType then fail (ErrorsNew ''invalid token type: expected access'') else ok claims)"

definition ValidateRefreshToken :: "env \<Rightarrow> JWTConfig \<Rightarrow> string \<Rightarrow> Claims io" where
  "ValidateRefreshToken E cfg tok =
     andThen (parseToken E cfg tok) (\<lambda>claims.
     if cl_Type claims \<noteq> RefreshType then fail (ErrorsNew ''invalid token type: expected refresh'') else ok claims)"

definition HashPassword :: "env \<Rightarrow> JWTConfig \<Rightarrow> string \<Rightarrow> string io" where
  "HashPassword E cfg password = GenerateFromPassword E password (jwt_BcryptCost cfg)"

definition VerifyPassword :: "env \<Rightarrow> string \<Rightarrow> string \<Rightarrow> gerror option" where
  "VerifyPassword E password hash = env_bcryptCompare E hash password"

section \<open>Facts\<close>

lemma unmarshal_marshalClaims: "unmarshalClaims (marshalClaims c) = Some c"
  by (cases "cl_ExpiresAt c"; cases "cl_IssuedAt c")
    (simp_all add: unmarshalClaims_def marshalClaims_def json_decode)

lemma jwtExpiry_marshalClaims: "cl_ExpiresAt c = Some n \<Longrightarrow> jwtExpiry (marshalClaims c) = unixEpoch + n * Second"
  by (simp add: jwtExpiry_def marshalClaims_def)

lemma auth_frame [pres]:
  "preserves (on_dbs P) (GenerateSecureToken E)" "preserves (on_dbs P) (GenerateFromPassword E pw cost)"
  "preserves (on_dbs P) (HashPassword E cfg pw)" "preserves (on_dbs P) (GenerateAccessToken E cfg u em ro si di)"
  "preserves (on_dbs P) (GenerateRefreshToken E cfg u em ro di)" "preserves (on_dbs P) (parseToken E cfg tok)"
proof -
  show g: "preserves (on_dbs P) (GenerateFromPassword E pw cost)" for pw cost
    by (rule preserves_on_dbs_irrelevant) (simp add: GenerateFromPassword_def)
  show "preserves (on_dbs P) (HashPassword E cfg pw)" unfolding HashPassword_def by (rule g)
qed (simp_all only: GenerateSecureToken_def GenerateAccessToken_def GenerateRefreshToken_def parseToken_def Let_def,
     (intro pres)+)

lemma auth_tx_open [pres]:
  "preserves (tx_open p) (GenerateSecureToken E)"
  unfolding GenerateSecureToken_def by (intro pres)

text \<open>What the parser makes of an issued access token: its claims before the expiry, an error from then on.\<close>

lemma issued_access_token:
  assumes "jwt_documented E" and "GenerateAccessToken E cfg uid email role sid did w = (Inr (tok, expiresAt), w1)"
  obtains c where "cl_UserID c = uid" "cl_Email c = email" "cl_Role c = role" "cl_SessionID c = sid" "cl_DeviceID c = did"
    "cl_Type c = AccessType"
    "\<And>w2. env_now E (w_n w2) < unixEpoch + NewNumericDate expiresAt * Second \<Longrightarrow>
       parseToken E cfg tok w2 = (Inr c, w2\<lparr>w_n := Suc (w_n w2)\<rparr>)"
    "\<And>w2. unixEpoch + NewNumericDate expiresAt * Second \<le> env_now E (w_n w2) \<Longrightarrow> isl (fst (parseToken E cfg tok w2))"
proof -
  from assms(2) obtain c where sign: "env_jwtSign E (jwt_Secret cfg) (marshalClaims c) = Inr tok"
    and c: "cl_UserID c = uid" "cl_Email c = email" "cl_Role c = role" "cl_SessionID c = sid" "cl_DeviceID c = did"
      "cl_Type c = AccessType" "cl_ExpiresAt c = Some (NewNumericDate expiresAt)"
    by (auto simp: GenerateAccessToken_def andThen_def Let_def lift_def ok_def split: sum.splits)
  from assms(1) sign have dec: "env_jwtDecode E tok = Inr (True, marshalClaims c)"
    and ver: "\<And>t. env_jwtVerify E (jwt_Secret cfg) t tok = None \<longleftrightarrow> t < unixEpoch + NewNumericDate expiresAt * Second"
    using jwtExpiry_marshalClaims [OF c(7)] by (auto simp: jwt_documented_def)
  have "parseToken E cfg tok w2 = (case env_jwtVerify E (jwt_Secret cfg) (env_now E (w_n w2)) tok of
      None \<Rightarrow> Inr c | Some err \<Rightarrow> Inl err, w2\<lparr>w_n := Suc (w_n w2)\<rparr>)" for w2
    by (simp add: parseToken_def dec unmarshal_marshalClaims andThen_def ok_def fail_def split: option.splits)
  with ver show thesis by (intro that [OF c(1-6)]) (auto split: option.splits simp: not_less [symmetric])
qed

text \<open>
  C24: an access token the manager issues is accepted by \<open>ValidateAccessToken\<close> until the second of
  its expiry, with the claims it was issued with, and is never accepted as a refresh token.
\<close>

theorem access_token_roundtrip:
  assumes "jwt_documented E" and "GenerateAccessToken E cfg uid email role sid did w = (Inr (tok, expiresAt), w1)"
  shows "(env_now E (w_n w2) < unixEpoch + NewNumericDate expiresAt * Second \<longrightarrow>
       (\<exists>claims. fst (ValidateAccessToken E cfg tok w2) = Inr claims \<and> cl_UserID claims = uid \<and> cl_Email claims = email
          \<and> cl_Role claims = role \<and> cl_SessionID claims = sid \<and> cl_DeviceID claims = did))
     \<and> (env_now E (w_n w2) \<ge> unixEpoch + NewNumericDate expiresAt * Second \<longrightarrow>
       (\<forall>claims. fst (ValidateAccessToken E cfg tok w2) \<noteq> Inr claims))
     \<and> (\<forall>claims. fst (ValidateRefreshToken E cfg tok w2) \<noteq> Inr claims)"
  by (rule issued_access_token [OF assms])
    (cases "env_now E (w_n w2) < unixEpoch + NewNumericDate expiresAt * Second"; cases "parseToken E cfg tok w2"; cases "fst (parseToken E cfg tok w2)";
     fastforce simp: ValidateAccessToken_def ValidateRefreshToken_def andThen_def AccessType_def RefreshType_def ok_def fail_def not_less)

end
