(* ===== verification/Identity_Adapters.thy ===== *)
theory Identity_Adapters
  imports Outbox Idempotency Auth_Platform
begin

text \<open>
  The adapters of the identity module (\<^verbatim>\<open>internal/modules/identity/infra/adapters\<close>): the session
  cache and the single-use tokens in Redis, the token blacklist and the event publisher over the
  outbox. The two interfaces the services rely on are the locales \<open>single_use_tokens\<close> and
  \<open>session_cache\<close>, interpreted on the adapter's operations.
\<close>

section \<open>redis\_session\_adapter.go\<close>

definition sessionPrefix :: string where "sessionPrefix = ''identity:refresh_token:''"
definition resetPasswordPrefix :: string where "resetPasswordPrefix = ''identity:reset_password:''"
definition emailVerifyPrefix :: string where "emailVerifyPrefix = ''identity:email_verify:''"
definition emailVerifyTTL :: duration where "emailVerifyTTL = 24 * Hour"

text \<open>
  The JSON of \<^verbatim>\<open>entity.Session\<close>: the struct has no tags, so the keys are the field names and nil
  pointers are null.
\<close>

definition marshalSession :: "Session \<Rightarrow> json" where
  "marshalSession s = JObj
     [(''ID'', JNum (sess_ID s)), (''UserID'', JNum (sess_UserID s)),
      (''RefreshTokenHash'', JStr (sess_RefreshTokenHash s)), (''DeviceID'', JNum (sess_DeviceID s)),
      (''SessionStatus'', JStr (sess_SessionStatus s)), (''ExpiredAt'', JTime (sess_ExpiredAt s)),
      (''IPAddress'', ptrStr (sess_IPAddress s)), (''UserAgent'', JStr (sess_UserAgent s)),
      (''LastSeenAt'', JTime (sess_LastSeenAt s)), (''RevokedAt'', ptrTime (sess_RevokedAt s)),
      (''RevokedReason'', ptrStr (sess_RevokedReason s)), (''CreatedAt'', JTime (sess_CreatedAt s)),
      (''UpdatedAt'', JTime (sess_UpdatedAt s))]"

definition zeroSession :: Session where
  "zeroSession = \<lparr>sess_ID = 0, sess_UserID = 0, sess_RefreshTokenHash = '''', sess_DeviceID = 0,
     sess_SessionStatus = '''', sess_ExpiredAt = zeroTime, sess_IPAddress = None, sess_UserAgent = '''',
     sess_LastSeenAt = zeroTime, sess_RevokedAt = None, sess_RevokedReason = None,
     sess_CreatedAt = zeroTime, sess_UpdatedAt = zeroTime\<rparr>"

definition unmarshalSession :: "rvalue \<Rightarrow> Session option" where
  "unmarshalSession data = (case data of
     RJson JNull \<Rightarrow> Some zeroSession
   | RJson (JObj fs) \<Rightarrow>
      Option.bind (getInt ''ID'' fs) (\<lambda>i.
      Option.bind (getInt ''UserID'' fs) (\<lambda>uid.
      Option.bind (getStr ''RefreshTokenHash'' fs) (\<lambda>hash.
      Option.bind (getInt ''DeviceID'' fs) (\<lambda>did.
      Option.bind (getStr ''SessionStatus'' fs) (\<lambda>status.
      Option.bind (getTime ''ExpiredAt'' fs) (\<lambda>expired.
      Option.bind (getStrPtr ''IPAddress'' fs) (\<lambda>ip.
      Option.bind (getStr ''UserAgent'' fs) (\<lambda>agent.
      Option.bind (getTime ''LastSeenAt'' fs) (\<lambda>seen.
      Option.bind (getTimePtr ''RevokedAt'' fs) (\<lambda>revoked.
      Option.bind (getStrPtr ''RevokedReason'' fs) (\<lambda>reason.
      Option.bind (getTime ''CreatedAt'' fs) (\<lambda>created.
      Option.bind (getTime ''UpdatedAt'' fs) (\<lambda>updated.
        Some \<lparr>sess_ID = i, sess_UserID = uid, sess_RefreshTokenHash = hash, sess_DeviceID = did,
          sess_SessionStatus = status, sess_ExpiredAt = expired, sess_IPAddress = ip, sess_UserAgent = agent,
          sess_LastSeenAt = seen, sess_RevokedAt = revoked, sess_RevokedReason = reason,
          sess_CreatedAt = created, sess_UpdatedAt = updated\<rparr>)))))))))))))
   | _ \<Rightarrow> None)"

text \<open>\<^verbatim>\<open>strconv.ParseInt\<close> of a value read from Redis; text that is JSON of a struct is not a number.\<close>

definition parseUserID :: "rvalue \<Rightarrow> gerror + int" where
  "parseUserID v = (case v of
     RText s \<Rightarrow> (case ParseInt s of
        (n, None) \<Rightarrow> Inr n
      | (_, Some ErrSyntax) \<Rightarrow> Inl (External ''strconv.ParseInt: invalid syntax'')
      | (_, Some ErrRange) \<Rightarrow> Inl (External ''strconv.ParseInt: value out of range''))
   | RJson _ \<Rightarrow> Inl (External ''strconv.ParseInt: invalid syntax''))"

definition IssueVerifyToken :: "env \<Rightarrow> int \<Rightarrow> string io" where
  "IssueVerifyToken E userID =
     andThen (mapErr (\<lambda>err. Wrapf ''generate verify token: '' err '''') (GenerateSecureToken E)) (\<lambda>rawToken.
     andThen (mapErr (\<lambda>err. Wrapf ''store verify token: '' err '''')
       (redisErr E (SET (emailVerifyPrefix @ rawToken) (RText (FormatInt userID)) emailVerifyTTL))) (\<lambda>_.
     ok rawToken))"

definition ParseVerifyToken :: "env \<Rightarrow> string \<Rightarrow> int io" where
  "ParseVerifyToken E token =
     andThen (mapErr (\<lambda>err. if errorsIs err RedisNil then ErrorsNew ''verification token not found or already used''
                            else Wrapf ''get verify token: '' err '''')
       (redisVal E (GETDEL (emailVerifyPrefix @ token)))) (\<lambda>userIDStr.
     mapErr (\<lambda>err. Wrapf ''parse user id from verify token: '' err '''') (lift (parseUserID userIDStr)))"

definition ParsePasswordResetToken :: "env \<Rightarrow> string \<Rightarrow> int io" where
  "ParsePasswordResetToken E rawToken =
     (let hashedToken = HashToken E rawToken
      in andThen (mapErr (\<lambda>err. if errorsIs err RedisNil then ErrorsNew ''reset token not found or expired''
                                else Wrapf ''get reset token: '' err '''')
           (redisVal E (GETDEL (resetPasswordPrefix @ hashedToken)))) (\<lambda>userIDStr.
         mapErr (\<lambda>err. Wrapf ''parse user id from reset token: '' err '''') (lift (parseUserID userIDStr))))"

definition StoreSession :: "env \<Rightarrow> string \<Rightarrow> Session \<Rightarrow> duration \<Rightarrow> unit io" where
  "StoreSession E refreshTokenHash session ttl =
     redisErr E (SET (sessionPrefix @ refreshTokenHash) (RJson (marshalSession session)) ttl)"

definition GetSession :: "env \<Rightarrow> string \<Rightarrow> Session option io" where
  "GetSession E refreshTokenHash =
     andThen (attempt (redisVal E (GET (sessionPrefix @ refreshTokenHash)))) (\<lambda>r.
     (case r of
        Inl err \<Rightarrow> if errorsIs err RedisNil then ok None else fail (Wrapf ''get session from cache: '' err '''')
      | Inr data \<Rightarrow>
         (case unmarshalSession data of
            None \<Rightarrow> fail (Wrapf ''unmarshal session: '' (External ''json: cannot unmarshal'') '''')
          | Some session \<Rightarrow> ok (Some session))))"

definition DeleteSession :: "env \<Rightarrow> string \<Rightarrow> unit io" where
  "DeleteSession E refreshTokenHash = redisErr E (DEL [sessionPrefix @ refreshTokenHash])"

definition DeleteSessions :: "env \<Rightarrow> string list \<Rightarrow> unit io" where
  "DeleteSessions E refreshTokenHashes =
     (if refreshTokenHashes = [] then ok ()
      else mapErr (\<lambda>err. Wrapf ''redis delete sessions failed: '' err '''')
             (redisErr E (DEL (map (\<lambda>h. sessionPrefix @ h) refreshTokenHashes))))"

definition StorePasswordResetToken :: "env \<Rightarrow> string \<Rightarrow> int \<Rightarrow> duration \<Rightarrow> unit io" where
  "StorePasswordResetToken E rawToken userID ttl =
     redisErr E (SET (resetPasswordPrefix @ HashToken E rawToken) (RText (FormatInt userID)) ttl)"

section \<open>redis\_blacklist.go\<close>

definition blacklistKey :: "string \<Rightarrow> string" where
  "blacklistKey jti = ''blacklist:access_token:'' @ jti"

definition AddToBlacklist :: "env \<Rightarrow> string \<Rightarrow> duration \<Rightarrow> unit io" where
  "AddToBlacklist E jti expiration = redisErr E (SET (blacklistKey jti) (RText ''revoked'') expiration)"

definition IsTokenBlacklisted :: "env \<Rightarrow> string \<Rightarrow> bool io" where
  "IsTokenBlacklisted E jti = andThen (redisInt E (EXISTS (blacklistKey jti))) (\<lambda>result. ok (result > 0))"

section \<open>outbox\_event\_publisher.go\<close>

record UserRegisteredPayload =
  urp_UserID :: int
  urp_Email :: string
  urp_Token :: string

record ResetPasswordRequestedPayload =
  rrp_UserID :: int
  rrp_Email :: string
  rrp_Token :: string

record ResetPasswordCompletedPayload =
  rcp_UserID :: int
  rcp_Email :: string

text \<open>The parameters the three publishers hand to the recorder.\<close>

definition userEvent ::
  "ctx \<Rightarrow> string \<Rightarrow> string \<Rightarrow> (string \<times> json) list \<Rightarrow> string \<Rightarrow> time \<Rightarrow> RecordParams" where
  "userEvent c aggID eventType eventPayload idempotencyKey occurredAt =
     (let requestID = GetRequestIdKey c
      in \<lparr>rec_Topic = TopicNotificationCmds, rec_EventKey = EventKey AggUser aggID, rec_AggregateType = AggUser,
          rec_AggregateID = Some aggID, rec_EventType = eventType, rec_OccurredAt = occurredAt,
          rec_TraceID = requestID, rec_CorrelationID = requestID, rec_CausationID = requestID,
          rec_ActorType = '''', rec_ActorID = None, rec_SchemaVersion = 1,
          rec_IdempotencyKey = idempotencyKey, rec_Payload = Some eventPayload\<rparr>)"

definition recorderFailed :: "gerror \<Rightarrow> gerror" where
  "recorderFailed err = Wrapf ''outbox recorder failed: '' err ''''"

definition userRegisteredEvent :: "ctx \<Rightarrow> UserRegisteredPayload \<Rightarrow> time \<Rightarrow> RecordParams" where
  "userRegisteredEvent c p =
     userEvent c (FormatInt (urp_UserID p)) RegisterEvent
       [(''email'', JStr (urp_Email p)), (''token'', JStr (urp_Token p)), (''user_id'', JNum (urp_UserID p))]
       (GetIdempotencyKey c)"

definition PublishUserRegistered :: "env \<Rightarrow> ctx \<Rightarrow> UserRegisteredPayload \<Rightarrow> unit io" where
  "PublishUserRegistered E c p =
     (if urp_Token p = '''' then fail (ErrorsNew ''UserRegistered event: verification token is empty'')
      else andThen (Now E) (\<lambda>now. mapErr recorderFailed (Record E c (userRegisteredEvent c p now))))"

definition resetPasswordCompletedEvent :: "ctx \<Rightarrow> ResetPasswordCompletedPayload \<Rightarrow> time \<Rightarrow> RecordParams" where
  "resetPasswordCompletedEvent c p =
     userEvent c (FormatInt (rcp_UserID p)) ResetPasswordCompletedEvent
       [(''email'', JStr (rcp_Email p)), (''user_id'', JNum (rcp_UserID p))] ''''"

definition PublishResetPasswordCompleted :: "env \<Rightarrow> ctx \<Rightarrow> ResetPasswordCompletedPayload \<Rightarrow> unit io" where
  "PublishResetPasswordCompleted E c p =
     andThen (Now E) (\<lambda>now. mapErr recorderFailed (Record E c (resetPasswordCompletedEvent c p now)))"

text \<open>The aggregate of a reset request is the e-mail address, not the user id.\<close>

definition resetPasswordRequestedEvent :: "ctx \<Rightarrow> ResetPasswordRequestedPayload \<Rightarrow> time \<Rightarrow> RecordParams" where
  "resetPasswordRequestedEvent c p =
     userEvent c (rrp_Email p) ResetPasswordRequestedEvent
       [(''email'', JStr (rrp_Email p)), (''token'', JStr (rrp_Token p)), (''user_id'', JNum (rrp_UserID p))]
       (GetIdempotencyKey c)"

definition PublishResetPasswordRequested :: "env \<Rightarrow> ctx \<Rightarrow> ResetPasswordRequestedPayload \<Rightarrow> unit io" where
  "PublishResetPasswordRequested E c p =
     (if rrp_Token p = '''' then fail (ErrorsNew ''ResetPasswordRequested event: reset token is empty'')
      else andThen (Now E) (\<lambda>now. mapErr recorderFailed (Record E c (resetPasswordRequestedEvent c p now))))"

section \<open>Frames\<close>

lemmas redis_adapter_defs = IssueVerifyToken_def ParseVerifyToken_def ParsePasswordResetToken_def StoreSession_def
  GetSession_def DeleteSession_def DeleteSessions_def StorePasswordResetToken_def AddToBlacklist_def
  IsTokenBlacklisted_def

lemma redis_adapter_db_ok [pres]:
  "preserves (on_dbs P) (IssueVerifyToken E i)" "preserves (on_dbs P) (ParseVerifyToken E tok)"
  "preserves (on_dbs P) (ParsePasswordResetToken E tok)" "preserves (on_dbs P) (StoreSession E h s ttl)"
  "preserves (on_dbs P) (GetSession E h)" "preserves (on_dbs P) (DeleteSession E h)"
  "preserves (on_dbs P) (DeleteSessions E hs)" "preserves (on_dbs P) (StorePasswordResetToken E tok i ttl)"
  "preserves (on_dbs P) (AddToBlacklist E jti ttl)" "preserves (on_dbs P) (IsTokenBlacklisted E jti)"
  unfolding redis_adapter_defs Let_def by (intro pres)+

lemma redis_adapter_tx_open [pres]:
  "preserves (tx_open p) (IssueVerifyToken E i)"
  unfolding redis_adapter_defs by (intro pres)

lemma publisher_db_ok [pres]:
  "preserves (on_dbs db_ok) (PublishUserRegistered E c u)"
  "preserves (on_dbs db_ok) (PublishResetPasswordCompleted E c v)"
  "preserves (on_dbs db_ok) (PublishResetPasswordRequested E c x)"
  unfolding PublishUserRegistered_def PublishResetPasswordCompleted_def PublishResetPasswordRequested_def
  by (intro pres)+

lemma publisher_tx_open [pres]:
  assumes "ctx_tx c"
  shows "preserves (tx_open p) (PublishUserRegistered E c u)"
    "preserves (tx_open p) (PublishResetPasswordCompleted E c v)"
    "preserves (tx_open p) (PublishResetPasswordRequested E c x)"
  unfolding PublishUserRegistered_def PublishResetPasswordCompleted_def PublishResetPasswordRequested_def
  by (intro pres assms)+

section \<open>Single-use tokens\<close>

text \<open>
  The contract of tokens that work once: whoever redeems a token finds it and removes it, and
  redeeming, whatever its outcome, never brings a token back. \<open>held\<close> says that a token is in the
  store, \<open>settled\<close> what the store relies on, including that the token is not issued again.
\<close>

locale single_use_tokens =
  fixes redeem :: "env \<Rightarrow> string \<Rightarrow> 'a io"
    and held :: "env \<Rightarrow> world \<Rightarrow> string \<Rightarrow> bool"
    and settled :: "env \<Rightarrow> world \<Rightarrow> string \<Rightarrow> bool"
  assumes redeem_settled:
    "settled E w tok \<Longrightarrow> redeem E tok' w = (r, w') \<Longrightarrow> settled E w' tok"
    and redeem_consumes:
    "settled E w tok \<Longrightarrow> redeem E tok w = (Inr u, w') \<Longrightarrow> held E w tok \<and> \<not> held E w' tok"
    and redeem_keeps:
    "settled E w tok \<Longrightarrow> redeem E tok' w = (r, w') \<Longrightarrow> \<not> held E w tok \<Longrightarrow> \<not> held E w' tok"

text \<open>A sequence of calls that redeem tokens, with their outcomes.\<close>

fun redeemAll :: "(string \<Rightarrow> 'a io) \<Rightarrow> string list \<Rightarrow> world \<Rightarrow> (string \<times> (gerror + 'a)) list" where
  "redeemAll f [] w = []"
| "redeemAll f (tok # toks) w = (case f tok w of (r, w') \<Rightarrow> (tok, r) # redeemAll f toks w')"

definition redeemed :: "string \<Rightarrow> string \<times> (gerror + 'a) \<Rightarrow> bool" where
  "redeemed tok p = (case p of (tok', r) \<Rightarrow> tok' = tok \<and> \<not> isl r)"

context single_use_tokens
begin

lemma gone_for_good:
  "settled E w tok \<Longrightarrow> \<not> held E w tok \<Longrightarrow> filter (redeemed tok) (redeemAll (redeem E) toks w) = []"
proof (induction toks arbitrary: w)
  case (Cons t toks)
  obtain r w' where run: "redeem E t w = (r, w')" by fastforce
  have "settled E w' tok" "\<not> held E w' tok"
    using redeem_settled [OF Cons.prems(1) run] redeem_keeps [OF Cons.prems(1) run Cons.prems(2)] by simp_all
  then have "filter (redeemed tok) (redeemAll (redeem E) toks w') = []" by (rule Cons.IH)
  moreover have "\<not> redeemed tok (t, r)"
    using run redeem_consumes [OF Cons.prems(1)] Cons.prems(2)
    by (cases r) (auto simp: redeemed_def)
  ultimately show ?case by (simp add: run)
qed simp

lemma at_most_once:
  "settled E w tok \<Longrightarrow> length (filter (redeemed tok) (redeemAll (redeem E) toks w)) \<le> 1"
proof (induction toks arbitrary: w)
  case (Cons t toks)
  obtain r w' where run: "redeem E t w = (r, w')" by fastforce
  note settled' = redeem_settled [OF Cons.prems run]
  show ?case
  proof (cases "redeemed tok (t, r)")
    case True
    with run redeem_consumes [OF Cons.prems] have "\<not> held E w' tok"
      by (cases r) (auto simp: redeemed_def)
    with gone_for_good [OF settled'] True show ?thesis by (simp add: run)
  next
    case False
    with Cons.IH [OF settled'] show ?thesis by (simp add: run)
  qed
qed simp

end

lemma GETDEL_effect:
  assumes "redis_documented E" and "redisVal E (GETDEL k) w = (r, w')"
  shows "(w_redis w' = w_redis w \<or> w_redis w' = (w_redis w)(k := None))
     \<and> (\<forall>v. r = Inr v \<longrightarrow> live (env_now E (w_n w)) (w_redis w) k = Some v \<and> w_redis w' = (w_redis w)(k := None)
              \<and> w_n w' = Suc (w_n w))"
  using redis_documentedD [OF assms(1), of "w_n w" "GETDEL k" "w_redis w"] assms(2)
  by (auto simp: redisVal_def redis_def andThen_def redis_ref_GETDEL ok_def fail_def
      split: prod.splits sum.splits rreply.splits option.splits)

definition verifyTokenHeld :: "env \<Rightarrow> world \<Rightarrow> string \<Rightarrow> bool" where
  "verifyTokenHeld E w tok \<longleftrightarrow> w_redis w (emailVerifyPrefix @ tok) \<noteq> None"

definition resetTokenHeld :: "env \<Rightarrow> world \<Rightarrow> string \<Rightarrow> bool" where
  "resetTokenHeld E w tok \<longleftrightarrow> w_redis w (resetPasswordPrefix @ HashToken E tok) \<noteq> None"

lemma ParseVerifyToken_run:
  "ParseVerifyToken E tok w = (r, w') \<Longrightarrow>
     \<exists>r0. redisVal E (GETDEL (emailVerifyPrefix @ tok)) w = (r0, w') \<and> (\<forall>u. r = Inr u \<longrightarrow> (\<exists>v. r0 = Inr v \<and> parseUserID v = Inr u))"
  by (auto simp: ParseVerifyToken_def andThen_def mapErr_def lift_def split: prod.splits sum.splits)

lemma ParsePasswordResetToken_run:
  "ParsePasswordResetToken E tok w = (r, w') \<Longrightarrow>
     \<exists>r0. redisVal E (GETDEL (resetPasswordPrefix @ HashToken E tok)) w = (r0, w')
        \<and> (\<forall>u. r = Inr u \<longrightarrow> (\<exists>v. r0 = Inr v \<and> parseUserID v = Inr u))"
  by (auto simp: ParsePasswordResetToken_def Let_def andThen_def mapErr_def lift_def split: prod.splits sum.splits)

lemma live_NoneI: "ks k = None \<Longrightarrow> live t ks k = None"
  by (simp add: live_def)

text \<open>Redeeming removes at most its own key, and on success it was there.\<close>

definition redeems :: "string \<Rightarrow> gerror + int \<Rightarrow> world \<Rightarrow> world \<Rightarrow> bool" where
  "redeems k r w w' \<longleftrightarrow> (w_redis w' = w_redis w \<or> w_redis w' = (w_redis w)(k := None))
     \<and> (\<not> isl r \<longrightarrow> w_redis w k \<noteq> None \<and> w_redis w' = (w_redis w)(k := None))"

lemma GETDEL_redeems:
  assumes "redis_documented E" and "redisVal E (GETDEL k) w = (r0, w')"
    and "\<forall>u. r = Inr u \<longrightarrow> (\<exists>v. r0 = Inr v \<and> parseUserID v = Inr u)"
  shows "redeems k r w w'"
proof -
  note e = GETDEL_effect [OF assms(1,2)]
  have "w_redis w k \<noteq> None \<and> w_redis w' = (w_redis w)(k := None)" if "r = Inr u" for u
  proof -
    from assms(3) that obtain v where "r0 = Inr v" by blast
    with e have "live (env_now E (w_n w)) (w_redis w) k = Some v" "w_redis w' = (w_redis w)(k := None)" by blast+
    moreover have "w_redis w k \<noteq> None" using \<open>live _ _ k = Some v\<close> by (auto simp: live_def split: option.splits)
    ultimately show ?thesis by blast
  qed
  with e show ?thesis by (cases r) (auto simp: redeems_def)
qed

lemma ParseVerifyToken_redeems:
  "redis_documented E \<Longrightarrow> ParseVerifyToken E tok w = (r, w') \<Longrightarrow> redeems (emailVerifyPrefix @ tok) r w w'"
  by (drule ParseVerifyToken_run, elim exE conjE, rule GETDEL_redeems)

lemma ParsePasswordResetToken_redeems:
  "redis_documented E \<Longrightarrow> ParsePasswordResetToken E tok w = (r, w') \<Longrightarrow>
     redeems (resetPasswordPrefix @ HashToken E tok) r w w'"
  by (drule ParsePasswordResetToken_run, elim exE conjE, rule GETDEL_redeems)

interpretation verify_tokens: single_use_tokens ParseVerifyToken verifyTokenHeld "\<lambda>E w tok. redis_documented E"
  by unfold_locales (auto simp: redeems_def verifyTokenHeld_def dest!: ParseVerifyToken_redeems split: if_splits)

interpretation reset_tokens: single_use_tokens ParsePasswordResetToken resetTokenHeld "\<lambda>E w tok. redis_documented E"
  by unfold_locales (auto simp: redeems_def resetTokenHeld_def dest!: ParsePasswordResetToken_redeems split: if_splits)

section \<open>The session cache\<close>

lemma unmarshal_marshalSession: "unmarshalSession (RJson (marshalSession s)) = Some s"
  by (cases "sess_IPAddress s"; cases "sess_RevokedAt s"; cases "sess_RevokedReason s")
    (simp_all add: unmarshalSession_def marshalSession_def json_decode ptrStr_def ptrTime_def)

locale session_cache =
  fixes store :: "env \<Rightarrow> string \<Rightarrow> Session \<Rightarrow> duration \<Rightarrow> unit io"
    and lookup :: "env \<Rightarrow> string \<Rightarrow> Session option io"
    and remove :: "env \<Rightarrow> string \<Rightarrow> unit io"
    and removeAll :: "env \<Rightarrow> string list \<Rightarrow> unit io"
  assumes lookup_store: "redis_up E \<Longrightarrow> store E h s ttl w = (r, w') \<Longrightarrow> 0 < ttl \<Longrightarrow>
      env_now E n < env_now E (w_n w) + ttl \<Longrightarrow> fst (lookup E h (w'\<lparr>w_n := n\<rparr>)) = Inr (Some s)"
    and store_other: "redis_up E \<Longrightarrow> store E h s ttl w = (r, w') \<Longrightarrow> h' \<noteq> h \<Longrightarrow>
      fst (lookup E h' (w'\<lparr>w_n := n\<rparr>)) = fst (lookup E h' (w\<lparr>w_n := n\<rparr>))"
    and lookup_remove: "redis_up E \<Longrightarrow> remove E h w = (r, w') \<Longrightarrow> fst (lookup E h (w'\<lparr>w_n := n\<rparr>)) = Inr None"
    and lookup_removeAll: "redis_up E \<Longrightarrow> removeAll E hs w = (r, w') \<Longrightarrow> h \<in> set hs \<Longrightarrow>
      fst (lookup E h (w'\<lparr>w_n := n\<rparr>)) = Inr None"
begin

text \<open>
  Rotation: after the old hash is removed and the session is stored under a new one, the old hash
  misses and the new one gives the session.
\<close>

lemma rotate:
  assumes "redis_up E" and "remove E h w = (r1, w1)" and "store E h' s ttl (w1\<lparr>w_n := m\<rparr>) = (r2, w2)"
    and "h' \<noteq> h" and "0 < ttl" and "env_now E n < env_now E m + ttl"
  shows "fst (lookup E h (w2\<lparr>w_n := n\<rparr>)) = Inr None \<and> fst (lookup E h' (w2\<lparr>w_n := n\<rparr>)) = Inr (Some s)"
  using store_other [OF assms(1,3), of h n] lookup_remove [OF assms(1,2), of n]
    lookup_store [OF assms(1,3,5), of n] assms(4,6) by simp

end

lemma GetSession_live:
  assumes "redis_up E"
  shows "fst (GetSession E h w) =
     (case live (env_now E (w_n w)) (w_redis w) (sessionPrefix @ h) of
        None \<Rightarrow> Inr None
      | Some v \<Rightarrow> (case unmarshalSession v of
           None \<Rightarrow> Inl (Wrapf ''unmarshal session: '' (External ''json: cannot unmarshal'') '''')
         | Some s \<Rightarrow> Inr (Some s)))"
  using assms
  by (auto simp: GetSession_def redisVal_def redis_up_run redis_ref_GET andThen_def attempt_def ok_def fail_def
      split: option.splits)

lemma StoreSession_redis:
  "redis_up E \<Longrightarrow> StoreSession E h s ttl w =
     (Inr (), w\<lparr>w_n := Suc (w_n w),
        w_redis := (w_redis w)(sessionPrefix @ h \<mapsto> (RJson (marshalSession s), expiry (env_now E (w_n w)) ttl))\<rparr>)"
  by (auto simp: StoreSession_def redisErr_def redis_up_run redis_ref_SET andThen_def ok_def)

lemma DeleteSessions_redis:
  "redis_up E \<Longrightarrow> DeleteSessions E hs w = (r, w') \<Longrightarrow> r = Inr () \<and>
     w_redis w' = (\<lambda>k. if k \<in> (\<lambda>h. sessionPrefix @ h) ` set hs then None else w_redis w k)
     \<and> w_pool w' = w_pool w \<and> w_tx w' = w_tx w \<and> w_bg w' = w_bg w"
  by (auto simp: DeleteSessions_def redisErr_def redis_up_run redis_ref_def andThen_def mapErr_def ok_def
      split: if_splits)

lemma DeleteSession_redis:
  "redis_up E \<Longrightarrow> DeleteSession E h w =
     (Inr (), w\<lparr>w_n := Suc (w_n w), w_redis := (w_redis w)(sessionPrefix @ h := None)\<rparr>)"
  by (auto simp: DeleteSession_def redisErr_def redis_up_run redis_ref_def andThen_def ok_def fun_upd_def)

interpretation redis_sessions: session_cache StoreSession GetSession DeleteSession DeleteSessions
proof
  fix E hs w r w' h n
  assume "redis_up E" "DeleteSessions E hs w = (r, w')" "h \<in> set hs"
  then show "fst (GetSession E h (w'\<lparr>w_n := n\<rparr>)) = Inr None"
    using DeleteSessions_redis [of E hs w r w'] by (simp add: GetSession_live live_NoneI)
qed (auto simp: GetSession_live StoreSession_redis DeleteSession_redis unmarshal_marshalSession expiry_def)

section \<open>Properties\<close>

text \<open>
  C15: verification and reset tokens are single-use: over any sequence of redemptions, with any
  failures of Redis in between, a token is redeemed successfully at most once.
\<close>

theorem tokens_single_use:
  assumes "redis_documented E"
  shows "length (filter (redeemed tok) (redeemAll (ParseVerifyToken E) toks w)) \<le> 1
     \<and> length (filter (redeemed tok) (redeemAll (ParsePasswordResetToken E) toks w)) \<le> 1"
  using verify_tokens.at_most_once [OF assms] reset_tokens.at_most_once [OF assms] by blast

end
