(* ===== verification/Auth_Service.thy ===== *)
theory Auth_Service
  imports Identity_Postgres_Inv Identity_Adapters
begin

text \<open>
  The authentication service (\<^verbatim>\<open>internal/modules/identity/app/service/auth_service.go\<close>): registration,
  login, rotation of refresh tokens, logout, e-mail verification and the password operations, each
  as the whole method with every call that changes state. The goroutine of \<^verbatim>\<open>RefreshToken\<close> is queued
  in the world and run by \<open>runBackground\<close>, at any later moment or never.
\<close>

section \<open>Commands and outputs\<close>

record RegisterCommand =
  rc_Email :: string
  rc_Password :: string
  rc_FullName :: string
  rc_Phone :: "string option"

record LoginCommand =
  lc_Email :: string
  lc_Password :: string
  lc_DeviceFingerprint :: string
  lc_DeviceLabel :: string
  lc_IPAddress :: string
  lc_UserAgent :: string

record ChangePasswordCommand =
  cp_UserID :: int
  cp_CurrentPassword :: string
  cp_NewPassword :: string
  cp_CurrentSessionID :: int

record LogoutCommand =
  lo_DeviceID :: int
  lo_UserID :: int

record ForgotPasswordCommand =
  fp_Email :: string

record ResetPasswordCommand =
  rs_Token :: string
  rs_NewPassword :: string

record RefreshTokenCommand =
  rt_RefreshToken :: string

record VerifyEmailCommand =
  ve_Token :: string

record RegisterOutput =
  ro_UserID :: int
  ro_Email :: string
  ro_Message :: string

record LoginOutput =
  lout_AccessToken :: string
  lout_RefreshToken :: string
  lout_AccessTokenExpiresAt :: time
  lout_RefreshTokenExpiresAt :: time

record RefreshTokenOutput =
  rto_AccessToken :: string
  rto_RefreshToken :: string
  rto_AccessTokenExpiresAt :: time
  rto_RefreshTokenExpiresAt :: time

section \<open>The service\<close>

text \<open>
  The collaborators of the service are the modelled components; what differs between instances
  are the token manager's configuration and the two policies.
\<close>

record AuthService =
  as_authManager :: JWTConfig
  as_registerPolicy :: RegisterPolicy
  as_devicePolicy :: DevicePolicy

definition NewAuthService :: "JWTConfig \<Rightarrow> RegisterPolicy \<Rightarrow> DevicePolicy \<Rightarrow> AuthService" where
  "NewAuthService cfg rp dp = \<lparr>as_authManager = cfg, as_registerPolicy = rp, as_devicePolicy = dp\<rparr>"

definition normalizeOptionalString :: "string option \<Rightarrow> string option" where
  "normalizeOptionalString v = (case v of
     None \<Rightarrow> None
   | Some s \<Rightarrow> if TrimSpace s = '''' then None else Some (TrimSpace s))"

definition derefOrEmpty :: "string option \<Rightarrow> string" where
  "derefOrEmpty v = (case v of None \<Rightarrow> '''' | Some s \<Rightarrow> TrimSpace s)"

text \<open>The UTF-8 bytes of the message to a new user.\<close>

definition registerMessage :: string where
  "registerMessage = map char_of
     [196, 144, 196, 131, 110, 103, 32, 107, 195, 189, 32, 116, 104, 195, 160, 110, 104, 32, 99,
      195, 180, 110, 103, 46, 32, 86, 117, 105, 32, 108, 195, 178, 110, 103, 32, 120, 195,
      161, 99, 32, 109, 105, 110, 104, 32, 101, 109, 97, 105, 108, 46 :: nat]"

definition newUser :: "Email \<Rightarrow> RegisterCommand \<Rightarrow> User" where
  "newUser email cmd =
     \<lparr>user_ID = 0, user_Email = email, user_FullName = TrimSpace (rc_FullName cmd),
      user_Phone = normalizeOptionalString (rc_Phone cmd), user_UserType = UserTypeCustomer,
      user_Status = UserStatusPendingVerification, user_EmailVerifiedAt = None, user_LastLoginAt = None,
      user_LockedReason = None, user_Metadata = JNull, user_Version = 1,
      user_CreatedAt = zeroTime, user_UpdatedAt = zeroTime\<rparr>"

definition newCredential :: "string \<Rightarrow> time \<Rightarrow> Credential" where
  "newCredential hashedPassword now =
     \<lparr>cred_UserID = 0, cred_PasswordHash = hashedPassword, cred_PasswordAlgo = PasswordAlgoBcrypt,
      cred_PasswordChangedAt = now, cred_FailedLoginCount = 0, cred_LastFailedLoginAt = None\<rparr>"

definition registerTx :: "env \<Rightarrow> User \<Rightarrow> Credential \<Rightarrow> ctx \<Rightarrow> User io" where
  "registerTx E user credential txCtx =
     andThen (UserRepository_Insert E txCtx user) (\<lambda>user.
     andThen (CredentialRepository_Insert E txCtx (credential\<lparr>cred_UserID := user_ID user\<rparr>)) (\<lambda>_.
     andThen (IssueVerifyToken E (user_ID user)) (\<lambda>verifyToken.
     andThen (PublishUserRegistered E txCtx
       \<lparr>urp_UserID = user_ID user, urp_Email = Email_String (user_Email user), urp_Token = verifyToken\<rparr>) (\<lambda>_.
     ok user))))"

definition Register :: "env \<Rightarrow> AuthService \<Rightarrow> ctx \<Rightarrow> RegisterCommand \<Rightarrow> RegisterOutput io" where
  "Register E s c cmd =
     andThen (lift (NewEmail E (rc_Email cmd))) (\<lambda>email.
     andThen (lift (ValidateRegistration E (as_registerPolicy s) email (rc_Password cmd))) (\<lambda>_.
     andThen (UserRepository_ExistsByEmail E c email) (\<lambda>exist.
     if exist then fail (DomainErr ErrEmailAlreadyExist)
     else
     andThen (HashPassword E (as_authManager s) (rc_Password cmd)) (\<lambda>hashedPassword.
     andThen (Now E) (\<lambda>now.
     andThen (txManager E c (registerTx E (newUser email cmd) (newCredential hashedPassword now))) (\<lambda>user.
     ok \<lparr>ro_UserID = user_ID user, ro_Email = Email_String (user_Email user), ro_Message = registerMessage\<rparr>))))))"

text \<open>\<^verbatim>\<open>time.Duration(MaxSessionTTL) * 24 * time.Hour\<close>, in int64 arithmetic.\<close>

definition sessionTTL :: "DevicePolicy \<Rightarrow> duration" where
  "sessionTTL p = wrap64 (wrap64 (dp_MaxSessionTTL p * 24) * Hour)"

definition loginDevice :: "User \<Rightarrow> LoginCommand \<Rightarrow> time \<Rightarrow> Device option \<Rightarrow> Device" where
  "loginDevice user cmd now existDevice =
     (let device = zeroDevice\<lparr>dev_UserID := user_ID user, dev_Fingerprint := TrimSpace (lc_DeviceFingerprint cmd),
            dev_Label := lc_DeviceLabel cmd, dev_FirstSeenAt := now, dev_LastSeenAt := now\<rparr>
      in case existDevice of
           None \<Rightarrow> device
         | Some d \<Rightarrow> device\<lparr>dev_ID := dev_ID d, dev_FirstSeenAt := dev_FirstSeenAt d\<rparr>)"

definition loginSession :: "env \<Rightarrow> User \<Rightarrow> int \<Rightarrow> LoginCommand \<Rightarrow> time \<Rightarrow> duration \<Rightarrow> string \<Rightarrow> Session" where
  "loginSession E user deviceID cmd now ttl rawRefreshToken =
     zeroSession\<lparr>sess_UserID := user_ID user, sess_DeviceID := deviceID,
       sess_RefreshTokenHash := HashToken E rawRefreshToken, sess_SessionStatus := AccountStatusActive,
       sess_ExpiredAt := now + ttl, sess_IPAddress := Some (lc_IPAddress cmd),
       sess_UserAgent := lc_UserAgent cmd, sess_LastSeenAt := now\<rparr>"

text \<open>Steps 1 to 5 of the login: the user whose password was checked.\<close>

definition loginUser :: "env \<Rightarrow> AuthService \<Rightarrow> ctx \<Rightarrow> LoginCommand \<Rightarrow> User io" where
  "loginUser E s c cmd =
     andThen (lift (NewEmail E (lc_Email cmd))) (\<lambda>email.
     andThen (UserRepository_GetByEmail E c email) (\<lambda>user.
     if \<not> UserStatus_CanLogin (user_Status user) then fail (DomainErr ErrInvalidCredentials)
     else
     andThen (CredentialRepository_GetByUserID E c (user_ID user)) (\<lambda>credential.
     (case VerifyPassword E (lc_Password cmd) (cred_PasswordHash credential) of
        Some _ \<Rightarrow> fail (DomainErr ErrInvalidCredentials)
      | None \<Rightarrow> ok user))))"

text \<open>Steps 6 and 7: the device is registered.\<close>

definition registerDevice :: "env \<Rightarrow> AuthService \<Rightarrow> ctx \<Rightarrow> LoginCommand \<Rightarrow> User \<Rightarrow> time \<Rightarrow> Device io" where
  "registerDevice E s c cmd user now =
     andThen (DeviceRepository_ListActiveByUserID E c (user_ID user)) (\<lambda>activeDevice.
     andThen (DeviceRepository_GetByFingerprint E c (user_ID user) (TrimSpace (lc_DeviceFingerprint cmd))) (\<lambda>existDevice.
     andThen (if existDevice = None then lift (CanRegisterNewDevice (as_devicePolicy s) activeDevice) else ok ()) (\<lambda>_.
     DeviceRepository_Upsert E c (loginDevice user cmd now existDevice))))"

text \<open>Step 8: the cached session of the device's previous login is dropped, as far as possible.\<close>

definition dropOldSession :: "env \<Rightarrow> ctx \<Rightarrow> int \<Rightarrow> int \<Rightarrow> unit io" where
  "dropOldSession E c userID deviceID =
     andThen (attempt (SessionRepository_GetByDeviceID E c userID deviceID)) (\<lambda>r.
     (case r of
        Inr oldSession \<Rightarrow> andThen (attempt (DeleteSession E (sess_RefreshTokenHash oldSession))) (\<lambda>_. ok ())
      | Inl _ \<Rightarrow> ok ()))"

definition Login :: "env \<Rightarrow> AuthService \<Rightarrow> ctx \<Rightarrow> LoginCommand \<Rightarrow> LoginOutput io" where
  "Login E s c cmd =
     andThen (loginUser E s c cmd) (\<lambda>user.
     andThen (Now E) (\<lambda>now.
     andThen (registerDevice E s c cmd user now) (\<lambda>device.
     (let deviceID = dev_ID device; ttlDuration = sessionTTL (as_devicePolicy s) in
     andThen (dropOldSession E c (user_ID user) deviceID) (\<lambda>_.
     andThen (GenerateRefreshToken E (as_authManager s) (user_ID user) (Email_String (user_Email user))
        (user_UserType user) (FormatInt deviceID)) (\<lambda>rawRefreshToken.
     andThen (SessionRepository_Upsert E c (loginSession E user deviceID cmd now ttlDuration rawRefreshToken)) (\<lambda>session.
     andThen (GenerateAccessToken E (as_authManager s) (user_ID user) (Email_String (user_Email user))
        (user_UserType user) (FormatInt (sess_ID session)) (FormatInt deviceID)) (\<lambda>(accessToken, expiredAt).
     andThen (attempt (StoreSession E (sess_RefreshTokenHash session) session ttlDuration)) (\<lambda>_.
     ok \<lparr>lout_AccessToken = accessToken, lout_RefreshToken = rawRefreshToken,
         lout_AccessTokenExpiresAt = expiredAt, lout_RefreshTokenExpiresAt = sess_ExpiredAt session\<rparr>)))))))))"

section \<open>Rotation of refresh tokens\<close>

text \<open>\<^verbatim>\<open>go func() \{ StoreSession(...) \}()\<close>: the goroutine is started, its work is still to come.\<close>

definition goStoreSession :: "string \<Rightarrow> Session \<Rightarrow> duration \<Rightarrow> unit io" where
  "goStoreSession newHash session ttl w = (Inr (), w\<lparr>w_bg := w_bg w @ [BgStoreSession newHash session ttl]\<rparr>)"

text \<open>The first waiting goroutine runs to its end; a failure is only logged.\<close>

definition runBackground :: "env \<Rightarrow> unit io" where
  "runBackground E w = (case w_bg w of
     [] \<Rightarrow> (Inr (), w)
   | BgStoreSession newHash session ttl # jobs \<Rightarrow>
       andThen (attempt (StoreSession E newHash session ttl)) (\<lambda>_. ok ()) (w\<lparr>w_bg := jobs\<rparr>))"

definition findSession :: "env \<Rightarrow> ctx \<Rightarrow> string \<Rightarrow> Session io" where
  "findSession E c oldHash =
     andThen (attempt (GetSession E oldHash)) (\<lambda>cached.
     (case cached of
        Inr (Some cachedSession) \<Rightarrow> ok cachedSession
      | _ \<Rightarrow> mapErr (\<lambda>_. DomainErr ErrInvalidCredentials) (SessionRepository_GetByRefreshTokenHash E c oldHash)))"

definition rotateTx :: "env \<Rightarrow> AuthService \<Rightarrow> string \<Rightarrow> string \<Rightarrow> time \<Rightarrow> ctx \<Rightarrow> Session io" where
  "rotateTx E s oldHash newHash now txCtx =
     andThen (mapErr (\<lambda>_. DomainErr ErrInvalidCredentials)
        (SessionRepository_GetByRefreshTokenHashForUpdate E txCtx oldHash)) (\<lambda>sessionForUpdate.
     (let rotated = (Session_Rotate newHash now sessionForUpdate)\<lparr>sess_ExpiredAt := now + sessionTTL (as_devicePolicy s)\<rparr>
      in andThen (SessionRepository_Update E txCtx rotated) (\<lambda>_. ok rotated)))"

definition checkSession :: "time \<Rightarrow> Session \<Rightarrow> gerror + unit" where
  "checkSession now session =
     (if Session_IsRevoked session \<or> sess_SessionStatus session \<noteq> AccountStatusActive
      then Inl (DomainErr ErrSessionRevoked)
      else if Session_IsExpired now session then Inl (DomainErr ErrSessionExpired)
      else Inr ())"

definition RefreshToken :: "env \<Rightarrow> AuthService \<Rightarrow> ctx \<Rightarrow> RefreshTokenCommand \<Rightarrow> RefreshTokenOutput io" where
  "RefreshToken E s c cmd =
     (let oldHash = HashToken E (rt_RefreshToken cmd) in
     andThen (Now E) (\<lambda>now.
     andThen (findSession E c oldHash) (\<lambda>session.
     andThen (lift (checkSession now session)) (\<lambda>_.
     andThen (UserRepository_GetByID E c (sess_UserID session)) (\<lambda>user.
     andThen (GenerateRefreshToken E (as_authManager s) (user_ID user) (Email_String (user_Email user))
        (user_UserType user) (FormatInt (sess_DeviceID session))) (\<lambda>newRawRefreshToken.
     (let newHash = HashToken E newRawRefreshToken in
     andThen (GenerateAccessToken E (as_authManager s) (user_ID user) (Email_String (user_Email user))
        (user_UserType user) (FormatInt (sess_ID session)) (FormatInt (sess_DeviceID session))) (\<lambda>(newAccessToken, expiredAt).
     andThen (txManager E c (rotateTx E s oldHash newHash now)) (\<lambda>session.
     andThen (attempt (DeleteSession E oldHash)) (\<lambda>_.
     andThen (Now E) (\<lambda>now2.
     (let ttl = sess_ExpiredAt session - now2 in
     andThen (goStoreSession newHash session ttl) (\<lambda>_.
     ok \<lparr>rto_AccessToken = newAccessToken, rto_RefreshToken = newRawRefreshToken,
         rto_AccessTokenExpiresAt = expiredAt, rto_RefreshTokenExpiresAt = sess_ExpiredAt session\<rparr>)))))))))))))"

definition Logout :: "env \<Rightarrow> ctx \<Rightarrow> LogoutCommand \<Rightarrow> unit io" where
  "Logout E c cmd = andThen (Now E) (\<lambda>now. SessionRepository_Revoke E c (lo_DeviceID cmd) (lo_UserID cmd) now)"

definition VerifyEmail :: "env \<Rightarrow> ctx \<Rightarrow> VerifyEmailCommand \<Rightarrow> unit io" where
  "VerifyEmail E c cmd =
     andThen (ParseVerifyToken E (ve_Token cmd)) (\<lambda>userID.
     andThen (Now E) (\<lambda>now.
     UserRepository_MarkEmailVerified E c userID now))"

section \<open>Passwords\<close>

definition changePasswordTx :: "env \<Rightarrow> int \<Rightarrow> string \<Rightarrow> int \<Rightarrow> time \<Rightarrow> ctx \<Rightarrow> unit io" where
  "changePasswordTx E userID newPasswordHash currentSessionID now txCtx =
     andThen (CredentialRepository_UpdatePasswordHash E txCtx userID newPasswordHash now) (\<lambda>_.
     andThen (SessionRepository_RevokeAllExcept E txCtx userID currentSessionID now) (\<lambda>_.
     ok ()))"

definition ChangePassword :: "env \<Rightarrow> AuthService \<Rightarrow> ctx \<Rightarrow> ChangePasswordCommand \<Rightarrow> unit io" where
  "ChangePassword E s c cmd =
     andThen (CredentialRepository_GetByUserID E c (cp_UserID cmd)) (\<lambda>credential.
     if VerifyPassword E (cp_CurrentPassword cmd) (cred_PasswordHash credential) \<noteq> None then fail DtoErrInvalidCredentials
     else if cp_NewPassword cmd = cp_CurrentPassword cmd then fail DtoErrSameAsOldPassword
     else
     andThen (HashPassword E (as_authManager s) (cp_NewPassword cmd)) (\<lambda>newPasswordHash.
     andThen (SessionRepository_ListActiveByUserID E c (cred_UserID credential)) (\<lambda>activeSessions.
     (let hashesToDelete = map sess_RefreshTokenHash
            (filter (\<lambda>session. sess_ID session \<noteq> cp_CurrentSessionID cmd) activeSessions) in
     andThen (Now E) (\<lambda>now.
     andThen (txManager E c (changePasswordTx E (cred_UserID credential) newPasswordHash (cp_CurrentSessionID cmd) now)) (\<lambda>_.
     if hashesToDelete \<noteq> [] then andThen (attempt (DeleteSessions E hashesToDelete)) (\<lambda>_. ok ())
     else ok ()))))))"

definition ForgotPassword :: "env \<Rightarrow> ctx \<Rightarrow> ForgotPasswordCommand \<Rightarrow> unit io" where
  "ForgotPassword E c cmd =
     andThen (lift (NewEmail E (fp_Email cmd))) (\<lambda>email.
     andThen (attempt (UserRepository_GetByEmail E c email)) (\<lambda>r.
     (case r of
        Inl err \<Rightarrow> if errorsIs err (DomainErr ErrUserNotFound) then ok () else fail err
      | Inr user \<Rightarrow>
         andThen (GenerateSecureToken E) (\<lambda>token.
         andThen (StorePasswordResetToken E token (user_ID user) (15 * Minute)) (\<lambda>_.
         PublishResetPasswordRequested E c
           \<lparr>rrp_UserID = user_ID user, rrp_Email = Email_String (user_Email user), rrp_Token = token\<rparr>)))))"

definition resetPasswordTx :: "env \<Rightarrow> int \<Rightarrow> string \<Rightarrow> string \<Rightarrow> ctx \<Rightarrow> unit io" where
  "resetPasswordTx E userID email hashedPassword txctx =
     andThen (Now E) (\<lambda>now1.
     andThen (CredentialRepository_UpdatePasswordHash E txctx userID hashedPassword now1) (\<lambda>_.
     andThen (Now E) (\<lambda>now2.
     andThen (SessionRepository_RevokeAllByUserID E txctx userID now2) (\<lambda>_.
     PublishResetPasswordCompleted E txctx \<lparr>rcp_UserID = userID, rcp_Email = email\<rparr>))))"

definition ResetPassword :: "env \<Rightarrow> AuthService \<Rightarrow> ctx \<Rightarrow> ResetPasswordCommand \<Rightarrow> unit io" where
  "ResetPassword E s c cmd =
     andThen (lift (ValidatePassword E (as_registerPolicy s) (rs_NewPassword cmd))) (\<lambda>_.
     andThen (mapErr (\<lambda>_. DomainErr ErrResetTokenExpired) (ParsePasswordResetToken E (rs_Token cmd))) (\<lambda>userID.
     andThen (UserRepository_GetByID E c userID) (\<lambda>user.
     andThen (SessionRepository_ListActiveByUserID E c userID) (\<lambda>activeSessions.
     (let hashesToDelete = map sess_RefreshTokenHash activeSessions in
     andThen (HashPassword E (as_authManager s) (rs_NewPassword cmd)) (\<lambda>hashedPassword.
     andThen (txManager E c (resetPasswordTx E userID (Email_String (user_Email user)) hashedPassword)) (\<lambda>_.
     if hashesToDelete \<noteq> [] then andThen (attempt (DeleteSessions E hashesToDelete)) (\<lambda>_. ok ())
     else ok ())))))))"

section \<open>The invariant of the database\<close>

lemma goStoreSession_db_ok [pres]: "preserves (on_dbs P) (goStoreSession h s ttl)"
  by (rule preserves_on_dbs_irrelevant) (simp add: goStoreSession_def)

lemma runBackground_db_ok [pres]: "preserves (on_dbs P) (runBackground E)"
proof (rule preservesI)
  fix w
  assume ok: "on_dbs P w"
  show "on_dbs P (snd (runBackground E w))"
  proof (cases "w_bg w")
    case (Cons job jobs)
    obtain h s ttl where "job = BgStoreSession h s ttl" by (cases job)
    moreover have "preserves (on_dbs P) (andThen (attempt (StoreSession E h s ttl)) (\<lambda>_. ok ()))" by (intro pres)
    moreover have "on_dbs P (w\<lparr>w_bg := jobs\<rparr>)" using ok by (simp add: on_dbs_def)
    ultimately show ?thesis using Cons by (simp add: runBackground_def preserves_def)
  qed (use ok in \<open>simp add: runBackground_def\<close>)
qed

lemmas auth_tx_defs = registerTx_def rotateTx_def changePasswordTx_def resetPasswordTx_def

lemmas auth_step_defs = loginUser_def registerDevice_def dropOldSession_def findSession_def

lemma auth_tx_db_ok [pres]:
  "preserves (on_dbs db_ok) (registerTx E u cr c)" "preserves (on_dbs db_ok) (rotateTx E s h h' now c)"
  "preserves (on_dbs db_ok) (changePasswordTx E i h j now c)" "preserves (on_dbs db_ok) (resetPasswordTx E i em h c)"
  unfolding auth_tx_defs Let_def by (intro pres)+

lemma auth_tx_local:
  assumes "ctx_tx c"
  shows "tx_local (registerTx E u cr c)" "tx_local (rotateTx E s h h' now c)"
    "tx_local (changePasswordTx E i h j now c)" "tx_local (resetPasswordTx E i em h c)"
  unfolding auth_tx_defs Let_def by (intro tx_localI pres assms)+

lemma auth_service_db_ok [pres]:
  "preserves (on_dbs db_ok) (Register E s c rcmd)" "preserves (on_dbs db_ok) (Login E s c lcmd)"
  "preserves (on_dbs db_ok) (RefreshToken E s c tcmd)" "preserves (on_dbs db_ok) (Logout E c ocmd)"
  "preserves (on_dbs db_ok) (VerifyEmail E c vcmd)" "preserves (on_dbs db_ok) (ChangePassword E s c ccmd)"
  "preserves (on_dbs db_ok) (ForgotPassword E c fcmd)" "preserves (on_dbs db_ok) (ResetPassword E s c pcmd)"
  unfolding Register_def Login_def RefreshToken_def Logout_def VerifyEmail_def ChangePassword_def
    ForgotPassword_def ResetPassword_def auth_step_defs Let_def
  by (intro pres)+

end
