(* ===== verification/Identity_Runs.thy ===== *)
theory Identity_Runs
  imports Identity_Postgres_Inv Identity_Adapters
begin

text \<open>
  What a successful call of a repository method or of an adapter did, in the form the proofs about
  the services use: reading methods leave the world as it was, writing methods called with a
  transaction's context give the statement's effect on the transaction's view.
\<close>

section \<open>Methods that only read\<close>

lemma reads_still [pres]:
  "preserves (still w0) (UserRepository_GetByID E c i)"
  "preserves (still w0) (UserRepository_GetByEmail E c em)"
  "preserves (still w0) (UserRepository_ExistsByEmail E c em)"
  "preserves (still w0) (CredentialRepository_GetByUserID E c i)"
  "preserves (still w0) (SessionRepository_GetByDeviceID E c i j)"
  "preserves (still w0) (SessionRepository_GetByRefreshTokenHash E c h)"
  "preserves (still w0) (SessionRepository_ListActiveByUserID E c i)"
  "preserves (still w0) (DeviceRepository_GetByID E c i)"
  "preserves (still w0) (DeviceRepository_GetByFingerprint E c i f)"
  "preserves (still w0) (DeviceRepository_ListActiveByUserID E c i)"
  "preserves (still w0) (AddressRepository_GetByID E c i)"
  unfolding repo_defs unfolding read_query_defs unfolding selectOne_def selectMany_def
  by (intro pres)+

lemma auth_still [pres]:
  "preserves (still w0) (GenerateFromPassword E pw cost)" "preserves (still w0) (HashPassword E cfg pw)"
  "preserves (still w0) (GenerateSecureToken E)"
  "preserves (still w0) (GenerateAccessToken E cfg u em ro si di)"
  "preserves (still w0) (GenerateRefreshToken E cfg u em ro di)"
proof -
  show g: "preserves (still w0) (GenerateFromPassword E pw cost)" for pw cost
    by (simp add: preserves_def GenerateFromPassword_def)
  show "preserves (still w0) (HashPassword E cfg pw)" unfolding HashPassword_def by (rule g)
qed (simp_all only: GenerateSecureToken_def GenerateAccessToken_def GenerateRefreshToken_def Let_def,
     (intro pres)+)

text \<open>Looking a session up in the cache changes nothing, even when Redis fails.\<close>

lemma GetSession_still: "redis_documented E \<Longrightarrow> preserves (still w0) (GetSession E h)"
proof -
  assume E: "redis_documented E"
  have "snd (redis E (GET k) w) = w\<lparr>w_n := Suc (w_n w)\<rparr>" for k w
    using redis_documentedD [OF E, of "w_n w" "GET k" "w_redis w"]
    by (auto simp: redis_def redis_ref_GET split: option.splits prod.splits)
  then have "preserves (still w0) (redis E (GET k))" for k by (simp add: preserves_def)
  then have "preserves (still w0) (redisVal E (GET k))" for k
    unfolding redisVal_def by (intro preserves_andThen) (auto simp: preserves_ok preserves_fail split: rreply.splits)
  then show ?thesis unfolding GetSession_def by (intro pres)
qed

section \<open>Lookups\<close>

lemma selectOne_pool:
  assumes "\<not> ctx_tx c" and "pg E c (selectOne tbl p) w = (Inr r, w')"
  shows "find p (tbl (w_pool w)) = Some r \<and> w' = w\<lparr>w_n := Suc (w_n w)\<rparr>"
  using pg_query_InrD [OF assms(2) [unfolded selectOne_def]] assms(1)
  by (auto simp: GetExecutor_def split: option.splits)

lemma selectOne_tx:
  assumes "ctx_tx c" and "w_tx w = Some d" and "pg E c (selectOne tbl p) w = (Inr r, w')"
  shows "find p (tbl d) = Some r \<and> w' = w\<lparr>w_n := Suc (w_n w)\<rparr>"
  using pg_query_InrD [OF assms(3) [unfolded selectOne_def]] assms(1,2)
  by (auto simp: GetExecutor_def split: option.splits)

section \<open>Redis\<close>

lemma IssueVerifyToken_InrD:
  assumes E: "redis_documented E" and run: "IssueVerifyToken E i w = (Inr tok, w')"
  shows "w' = w\<lparr>w_n := Suc (Suc (w_n w)), w_redis := (w_redis w)(emailVerifyPrefix @ tok \<mapsto>
     (RText (FormatInt i), Some (env_now E (Suc (w_n w)) + emailVerifyTTL)))\<rparr>"
proof -
  from run obtain w1 r where "RandRead E w = (Inr r, w1)" and tok: "tok = hexEncode r"
    and set: "redis E (SET (emailVerifyPrefix @ tok) (RText (FormatInt i)) emailVerifyTTL) w1 = (Inr ROk, w')
      \<or> (\<exists>x. redis E (SET (emailVerifyPrefix @ tok) (RText (FormatInt i)) emailVerifyTTL) w1 = (Inr x, w'))"
    by (auto simp: IssueVerifyToken_def GenerateSecureToken_def redisErr_def run_Inr)
  then have w1: "w1 = w\<lparr>w_n := Suc (w_n w)\<rparr>" by (auto simp: RandRead_def)
  from set obtain x where "redis E (SET (emailVerifyPrefix @ tok) (RText (FormatInt i)) emailVerifyTTL) w1 = (Inr x, w')"
    by blast
  from redis_InrE [OF E this] show ?thesis
    by (auto simp: redis_ref_SET expiry_def w1 emailVerifyTTL_def Hour_def)
qed

section \<open>Frames\<close>

text \<open>The database and the recorder: a statement changes nothing but the database and the count of interactions.\<close>

lemma pg_frame: "w_redis (snd (pg E c s w)) = w_redis w \<and> w_bg (snd (pg E c s w)) = w_bg w \<and> w_kafka (snd (pg E c s w)) = w_kafka w"
  by (auto simp: pg_def Let_def putExecutor_def split: option.splits pgFault.splits sum.splits)

lemma Record_frame:
  assumes "Record E c p w = (r, w')"
  shows "w_redis w' = w_redis w \<and> w_bg w' = w_bg w"
proof -
  let ?s = "insertOutboxEvent (recordRow (env_uuid E (w_n w)) (env_now E (Suc (w_n w))) p)"
  let ?w = "w\<lparr>w_n := Suc (Suc (w_n w))\<rparr>"
  from assms obtain r0 where "pg E c ?s ?w = (r0, w')"
    by (auto simp: Record_def OutboxRepo_Insert_def andThen_def mapErr_def split: prod.splits sum.splits)
  with pg_frame [of E c ?s ?w] show ?thesis by simp
qed

section \<open>Runs with a connection that does not fail\<close>

lemma selectOne_pool_run:
  "pg_up E \<Longrightarrow> \<not> ctx_tx c \<Longrightarrow> pg E c (selectOne tbl p) w =
     ((case find p (tbl (w_pool w)) of None \<Rightarrow> Inl PgxErrNoRows | Some r \<Rightarrow> Inr r), w\<lparr>w_n := Suc (w_n w)\<rparr>)"
  by (simp add: pg_pool pg_up_def selectOne_def query_def split: option.splits)

lemma selectOne_tx_run:
  "pg_up E \<Longrightarrow> ctx_tx c \<Longrightarrow> w_tx w = Some d \<Longrightarrow> pg E c (selectOne tbl p) w =
     ((case find p (tbl d) of None \<Rightarrow> Inl PgxErrNoRows | Some r \<Rightarrow> Inr r), w\<lparr>w_n := Suc (w_n w)\<rparr>)"
  by (simp add: pg_tx pg_up_def selectOne_def query_def world_tx_id split: option.splits)

lemma GetSession_run:
  assumes "redis_up E"
  shows "GetSession E h w = (fst (GetSession E h w), w\<lparr>w_n := Suc (w_n w)\<rparr>)"
  using assms
  by (auto simp: GetSession_def redisVal_def redis_up_run redis_ref_GET andThen_def attempt_def ok_def fail_def
      split: option.splits)

lemma UserRepository_GetByID_run:
  assumes "pg_up E" and "\<not> ctx_tx c" and "find (\<lambda>u. ur_ID u = i) (t_users (w_pool w)) = Some u"
  shows "UserRepository_GetByID E c i w = (mapUserRowToEntity E u, w\<lparr>w_n := Suc (w_n w)\<rparr>)"
  using assms
  by (simp add: UserRepository_GetByID_def queryGetUserByID_def selectOne_pool_run andThen_def mapErr_def lift_def)

lemma find_unique:
  "unique_on k rs \<Longrightarrow> r \<in> set rs \<Longrightarrow> k r = v \<Longrightarrow> find (\<lambda>x. k x = v) rs = Some r"
  using unique_on_find by fastforce

end
