(* ===== verification/Auth_Sessions.thy ===== *)
theory Auth_Sessions
  imports Auth_Service Identity_Runs
begin

text \<open>
  Login, rotation of refresh tokens and logout: what a login establishes, that a refresh token is
  accepted at most once, and where the session cache lets a revoked session through.
\<close>

section \<open>Rotation\<close>

text \<open>The row of a session after its rotation.\<close>

definition rotatedRow :: "string \<Rightarrow> time \<Rightarrow> time \<Rightarrow> time \<Rightarrow> sessionRow \<Rightarrow> sessionRow" where
  "rotatedRow newHash expiresAt now t r =
     r\<lparr>sr_RefreshTokenHash := newHash, sr_ExpiredAt := expiresAt, sr_LastSeenAt := now, sr_UpdatedAt := t\<rparr>"

lemma queryUpdateSession_InrD:
  "queryUpdateSession i h ex ls t d = Inr (n, d') \<Longrightarrow>
     d' = d\<lparr>t_sessions := update_where (\<lambda>s. sr_ID s = i) (rotatedRow h ex ls t) (t_sessions d)\<rparr>"
  by (auto simp: queryUpdateSession_def Let_def rotatedRow_def [abs_def] split: if_splits)

lemma rotateTx_post:
  assumes c: "ctx_tx c" and d: "w_tx w = Some d" and run: "rotateTx E s oldHash newHash now c w = (Inr ses, w3)"
  shows "\<exists>r t. find (\<lambda>x. sr_RefreshTokenHash x = oldHash) (t_sessions d) = Some r
     \<and> w_tx w3 = Some (d\<lparr>t_sessions := update_where (\<lambda>x. sr_ID x = sr_ID r)
          (rotatedRow newHash (now + sessionTTL (as_devicePolicy s)) now t) (t_sessions d)\<rparr>)
     \<and> sess_ExpiredAt ses = now + sessionTTL (as_devicePolicy s) \<and> sess_RevokedAt ses = sr_RevokedAt r
     \<and> w_redis w3 = w_redis w \<and> w_bg w3 = w_bg w"
proof -
  let ?upd = "\<lambda>r. queryUpdateSession (sr_ID r) newHash (now + sessionTTL (as_devicePolicy s)) now"
  from run obtain r w1 where get: "pg E c (queryGetByRefreshTokenHash oldHash) w = (Inr r, w1)"
    and upd: "\<exists>n. pg E c (?upd r) w1 = (Inr n, w3)"
    and ses: "sess_ExpiredAt ses = now + sessionTTL (as_devicePolicy s)" "sess_RevokedAt ses = sr_RevokedAt r"
    by (auto simp: rotateTx_def SessionRepository_GetByRefreshTokenHashForUpdate_def
        SessionRepository_getByRefreshTokenHash_def SessionRepository_Update_def Let_def run_Inr
        mapSessionRowToEntity_def Session_Rotate_def)
  from selectOne_tx [OF c d get [unfolded queryGetByRefreshTokenHash_def]]
  have r: "find (\<lambda>x. sr_RefreshTokenHash x = oldHash) (t_sessions d) = Some r" and w1: "w1 = w\<lparr>w_n := Suc (w_n w)\<rparr>"
    by simp_all
  with d have "w_tx w1 = Some d" by simp
  from upd obtain n where "pg E c (?upd r) w1 = (Inr n, w3)" by blast
  from pg_tx_InrD [OF c \<open>w_tx w1 = Some d\<close> this] r w1 ses show ?thesis
    by (auto dest!: queryUpdateSession_InrD)
qed

text \<open>Before its transaction a refresh only reads, also when Redis fails.\<close>

lemma findSession_still: "redis_documented E \<Longrightarrow> preserves (still w0) (findSession E c h)"
proof -
  assume E: "redis_documented E"
  have "preserves (still w0) (case r of Inr (Some x) \<Rightarrow> ok x
      | _ \<Rightarrow> mapErr (\<lambda>_. DomainErr ErrInvalidCredentials) (SessionRepository_GetByRefreshTokenHash E c h))"
    for r :: "gerror + Session option"
    by (cases r; cases "projr r") (simp_all add: preserves_ok preserves_mapErr reads_still)
  then show ?thesis unfolding findSession_def
    by (intro preserves_andThen preserves_attempt GetSession_still [OF E])
qed

text \<open>Everything a refresh does before its transaction, and the split of the method there.\<close>

definition refreshPrefix :: "env \<Rightarrow> AuthService \<Rightarrow> ctx \<Rightarrow> RefreshTokenCommand \<Rightarrow> (time \<times> string \<times> string \<times> time) io" where
  "refreshPrefix E s c cmd =
     andThen (Now E) (\<lambda>now.
     andThen (findSession E c (HashToken E (rt_RefreshToken cmd))) (\<lambda>session.
     andThen (lift (checkSession now session)) (\<lambda>_.
     andThen (UserRepository_GetByID E c (sess_UserID session)) (\<lambda>user.
     andThen (GenerateRefreshToken E (as_authManager s) (user_ID user) (Email_String (user_Email user))
        (user_UserType user) (FormatInt (sess_DeviceID session))) (\<lambda>tok.
     andThen (GenerateAccessToken E (as_authManager s) (user_ID user) (Email_String (user_Email user))
        (user_UserType user) (FormatInt (sess_ID session)) (FormatInt (sess_DeviceID session))) (\<lambda>(acc, ex).
     ok (now, tok, acc, ex)))))))"

lemma RefreshToken_split:
  "RefreshToken E s c cmd =
     andThen (refreshPrefix E s c cmd) (\<lambda>(now, tok, acc, ex).
     andThen (txManager E c (rotateTx E s (HashToken E (rt_RefreshToken cmd)) (HashToken E tok) now)) (\<lambda>session.
     andThen (attempt (DeleteSession E (HashToken E (rt_RefreshToken cmd)))) (\<lambda>_.
     andThen (Now E) (\<lambda>now2.
     andThen (goStoreSession (HashToken E tok) session (sess_ExpiredAt session - now2)) (\<lambda>_.
     ok \<lparr>rto_AccessToken = acc, rto_RefreshToken = tok, rto_AccessTokenExpiresAt = ex,
         rto_RefreshTokenExpiresAt = sess_ExpiredAt session\<rparr>)))))"
  by (simp add: RefreshToken_def refreshPrefix_def Let_def andThen_assoc split_def)

lemma refreshPrefix_still: "redis_documented E \<Longrightarrow> preserves (still w0) (refreshPrefix E s c cmd)"
  unfolding refreshPrefix_def by (intro pres findSession_still)

text \<open>A token signed at interaction \<open>n\<close> or later: its claims carry an identifier generated there.\<close>

definition issuedFrom :: "env \<Rightarrow> AuthService \<Rightarrow> nat \<Rightarrow> string \<Rightarrow> bool" where
  "issuedFrom E s n tok \<longleftrightarrow> (\<exists>m \<ge> n. \<exists>claims. cl_ID claims = env_uuid E m
     \<and> env_jwtSign E (jwt_Secret (as_authManager s)) (marshalClaims claims) = Inr tok)"

lemma GenerateRefreshToken_issued:
  assumes "GenerateRefreshToken E (as_authManager s) u em ro di w = (Inr tok, w')" and "n \<le> w_n w"
  shows "issuedFrom E s n tok"
proof -
  let ?claims = "\<lparr>cl_UserID = u, cl_Email = em, cl_Role = ro, cl_Type = RefreshType, cl_SessionID = '''',
      cl_DeviceID = di, cl_ID = env_uuid E (Suc (w_n w)),
      cl_ExpiresAt = Some (NewNumericDate (env_now E (w_n w) + jwt_RefreshTokenTTL (as_authManager s))),
      cl_IssuedAt = Some (NewNumericDate (env_now E (Suc (Suc (w_n w)))))\<rparr>"
  from assms(1) have "env_jwtSign E (jwt_Secret (as_authManager s)) (marshalClaims ?claims) = Inr tok"
    by (auto simp: GenerateRefreshToken_def Let_def run_Inr)
  moreover have "cl_ID ?claims = env_uuid E (Suc (w_n w))" by simp
  moreover have "n \<le> Suc (w_n w)" using assms(2) by simp
  ultimately show ?thesis unfolding issuedFrom_def by blast
qed

lemma later_adapters [pres]:
  "preserves (later n) (GetSession E h)" "preserves (later n) (DeleteSession E h)"
  "preserves (later n) (goStoreSession h x ttl)"
  "preserves (later n) (SessionRepository_GetByRefreshTokenHash E c h)"
  "preserves (later n) (UserRepository_GetByID E c i)"
  "preserves (later n) (GenerateAccessToken E cfg u em ro si di)"
  "preserves (later n) (GenerateRefreshToken E cfg u em ro di)"
  "preserves (later n) (rotateTx E s h h' now c)"
proof -
  show "preserves (later n) (goStoreSession h x ttl)" by (simp add: preserves_def later_def goStoreSession_def)
qed (simp_all only: GetSession_def DeleteSession_def repo_defs GenerateAccessToken_def GenerateRefreshToken_def
      rotateTx_def Let_def, (intro pres)+)

lemma later_findSession [pres]: "preserves (later n) (findSession E c h)"
proof -
  have "preserves (later n) (case r of Inr (Some x) \<Rightarrow> ok x
      | _ \<Rightarrow> mapErr (\<lambda>_. DomainErr ErrInvalidCredentials) (SessionRepository_GetByRefreshTokenHash E c h))"
    for r :: "gerror + Session option"
    by (cases r; cases "projr r") (simp_all add: preserves_ok preserves_mapErr later_adapters)
  then show ?thesis unfolding findSession_def by (intro preserves_andThen preserves_attempt later_adapters)
qed

lemma refreshPrefix_run:
  assumes E: "redis_documented E" and run: "refreshPrefix E s c cmd w = (Inr (now, tok, acc, ex), w1)"
  shows "still w w1 \<and> w_n w \<le> w_n w1 \<and> now = env_now E (w_n w) \<and> issuedFrom E s (w_n w) tok"
proof -
  have "w_n w \<le> w_n w1" using run unfolding refreshPrefix_def by (rule later_preserves [rotated]) (intro pres)
  moreover have "still w w1" using refreshPrefix_still [OF E] run by (rule still_preserves)
  moreover from run obtain session wa user wb u em ro di wc where
    f: "findSession E c (HashToken E (rt_RefreshToken cmd)) (w\<lparr>w_n := Suc (w_n w)\<rparr>) = (Inr session, wa)"
    and u: "UserRepository_GetByID E c (sess_UserID session) wa = (Inr user, wb)"
    and t: "GenerateRefreshToken E (as_authManager s) u em ro di wb = (Inr tok, wc)" and now: "now = env_now E (w_n w)"
    by (auto simp: refreshPrefix_def run_Inr split: prod.splits)
  have "w_n w \<le> w_n wb"
    using later_preserves [OF later_findSession f] later_preserves [OF later_adapters(5) u] by simp
  with t have "issuedFrom E s (w_n w) tok" by (rule GenerateRefreshToken_issued)
  ultimately show ?thesis using now by blast
qed

text \<open>
  The outcome of a refresh: no table changed and an error, or the row that has the old hash was
  rotated to the hash of a token signed during this call.
\<close>

definition rotatedSessions :: "env \<Rightarrow> AuthService \<Rightarrow> string \<Rightarrow> string \<Rightarrow> time \<Rightarrow> db \<Rightarrow> db \<Rightarrow> bool" where
  "rotatedSessions E s oldTok newTok now d d' \<longleftrightarrow>
     (\<exists>r t. find (\<lambda>x. sr_RefreshTokenHash x = HashToken E oldTok) (t_sessions d) = Some r
        \<and> d' = d\<lparr>t_sessions := update_where (\<lambda>x. sr_ID x = sr_ID r)
             (rotatedRow (HashToken E newTok) (now + sessionTTL (as_devicePolicy s)) now t) (t_sessions d)\<rparr>)"

lemma RefreshToken_outcome:
  assumes E: "redis_documented E" and c: "\<not> ctx_tx c" and w: "w_tx w = None"
    and run: "RefreshToken E s c cmd w = (r, w')"
  shows "w_tx w' = None \<and> w_n w \<le> w_n w' \<and> (same_tables (w_pool w) (w_pool w') \<and> isl r \<or>
     (\<exists>tok. issuedFrom E s (w_n w) tok \<and> rotatedSessions E s (rt_RefreshToken cmd) tok (env_now E (w_n w)) (w_pool w) (w_pool w')
        \<and> (\<forall>out. r = Inr out \<longrightarrow> rto_RefreshToken out = tok
              \<and> rto_RefreshTokenExpiresAt out = env_now E (w_n w) + sessionTTL (as_devicePolicy s))))"
proof -
  let ?old = "HashToken E (rt_RefreshToken cmd)"
  have n: "w_n w \<le> w_n w'" using run unfolding RefreshToken_def Let_def
    by (rule later_preserves [rotated]) (intro pres)
  from run [unfolded RefreshToken_split] show ?thesis
  proof (cases rule: andThen_cases)
    case (stop e)
    with still_preserves [OF refreshPrefix_still [OF E]] have "still w w'" by blast
    then show ?thesis using stop n w by (auto dest: still_fields)
  next
    case (go x w1)
    obtain now tok acc ex where x: "x = (now, tok, acc, ex)" by (cases x)
    from refreshPrefix_run [OF E go(1) [unfolded x]] have w1: "still w w1" and now: "now = env_now E (w_n w)"
      and iss: "issuedFrom E s (w_n w) tok" by simp_all
    let ?f = "rotateTx E s ?old (HashToken E tok) now"
    obtain r2 w2 where tx: "txManager E c ?f w1 = (r2, w2)" by fastforce
    have w': "w_pool w' = w_pool w2 \<and> w_tx w' = w_tx w2" and r: "isl r2 \<Longrightarrow> isl r"
      and ex: "\<And>out. r = Inr out \<Longrightarrow> \<exists>ses. r2 = Inr ses \<and> rto_RefreshToken out = tok
           \<and> rto_RefreshTokenExpiresAt out = sess_ExpiredAt ses"
      using go(2) tx unfolding x
      by (auto simp: andThen_def attempt_def ok_def goStoreSession_def DeleteSession_def redisErr_def redis_def
          split: sum.splits prod.splits)
    from tm.within_atomic [OF c _ auth_tx_local(2) [OF ctx_tx_WithTx] tx] w still_fields [OF w1]
    consider (same) "w_tx w2 = None" "same_tables (w_pool w) (w_pool w2)" "isl r2"
      | (rotated) ses w3 where "w_tx w2 = None" "?f (WithTx c) (in_tx w1) = (Inr ses, w3)" "committed w3 w2"
          "r2 = Inr ses \<or> isl r2" by auto
    then show ?thesis
    proof cases
      case same
      then show ?thesis using w' r n by simp
    next
      case rotated
      from rotateTx_post [OF ctx_tx_WithTx _ rotated(2), of "w_pool w"] still_fields [OF w1]
      obtain row t where "find (\<lambda>x. sr_RefreshTokenHash x = ?old) (t_sessions (w_pool w)) = Some row"
        and "w_pool w' = (w_pool w)\<lparr>t_sessions := update_where (\<lambda>x. sr_ID x = sr_ID row)
          (rotatedRow (HashToken E tok) (now + sessionTTL (as_devicePolicy s)) now t) (t_sessions (w_pool w))\<rparr>"
        and ses: "sess_ExpiredAt ses = now + sessionTTL (as_devicePolicy s)"
        using rotated(3) w' by (auto simp: in_tx_def committed_def)
      then have "rotatedSessions E s (rt_RefreshToken cmd) tok now (w_pool w) (w_pool w')"
        unfolding rotatedSessions_def by blast
      with rotated(1,4) w' iss ses ex n show ?thesis unfolding now by (metis sum.disc(1) sum.disc(2) sum.sel(2))
    qed
  qed
qed

section \<open>Refresh tokens work once\<close>

text \<open>
  A refresh token is held while a session row carries its hash. It is settled when the schema's
  constraints hold, no transaction is open, and no token signed from now on has its hash.
\<close>

definition refreshTokenHeld :: "env \<Rightarrow> world \<Rightarrow> string \<Rightarrow> bool" where
  "refreshTokenHeld E w tok \<longleftrightarrow> taken sr_RefreshTokenHash (HashToken E tok) (t_sessions (w_pool w))"

definition notReissued :: "env \<Rightarrow> AuthService \<Rightarrow> nat \<Rightarrow> string \<Rightarrow> bool" where
  "notReissued E s n tok \<longleftrightarrow> (\<forall>tok'. issuedFrom E s n tok' \<longrightarrow> HashToken E tok' \<noteq> HashToken E tok)"

definition refreshSettled :: "AuthService \<Rightarrow> ctx \<Rightarrow> env \<Rightarrow> world \<Rightarrow> string \<Rightarrow> bool" where
  "refreshSettled s c E w tok \<longleftrightarrow> redis_documented E \<and> \<not> ctx_tx c \<and> w_tx w = None \<and> db_ok (w_pool w)
     \<and> notReissued E s (w_n w) tok"

definition refreshWith :: "AuthService \<Rightarrow> ctx \<Rightarrow> env \<Rightarrow> string \<Rightarrow> RefreshTokenOutput io" where
  "refreshWith s c E tok = RefreshToken E s c \<lparr>rt_RefreshToken = tok\<rparr>"

lemma notReissued_mono: "notReissued E s n tok \<Longrightarrow> n \<le> m \<Longrightarrow> notReissued E s m tok"
  unfolding notReissued_def issuedFrom_def by (meson order_trans)

lemma rotatedSessions_hashes:
  assumes "rotatedSessions E s old new now d d'" and "db_ok d" and "x \<in> set (t_sessions d')"
  shows "sr_RefreshTokenHash x = HashToken E new
     \<or> x \<in> set (t_sessions d) \<and> sr_RefreshTokenHash x \<noteq> HashToken E old"
proof -
  from assms(1) obtain r t where r: "find (\<lambda>x. sr_RefreshTokenHash x = HashToken E old) (t_sessions d) = Some r"
    and d': "t_sessions d' = update_where (\<lambda>x. sr_ID x = sr_ID r)
             (rotatedRow (HashToken E new) (now + sessionTTL (as_devicePolicy s)) now t) (t_sessions d)"
    unfolding rotatedSessions_def by auto
  have uniq: "unique_on sr_RefreshTokenHash (t_sessions d)" using assms(2) by (simp add: db_ok_def sessions_ok_def)
  have r': "r \<in> set (t_sessions d)" "sr_RefreshTokenHash r = HashToken E old" using find_SomeD [OF r] by simp_all
  have "y = r" if "y \<in> set (t_sessions d)" "sr_RefreshTokenHash y = HashToken E old" for y
    using unique_onD [OF uniq that(1) r'(1)] that(2) r'(2) by simp
  with assms(3) show ?thesis unfolding d' set_update_where by (auto simp: rotatedRow_def)
qed

lemma refresh_keeps:
  assumes w: "refreshSettled s c E w tok" and run: "refreshWith s c E tok' w = (r, w')"
  shows "refreshSettled s c E w' tok \<and> (\<not> refreshTokenHeld E w tok \<longrightarrow> \<not> refreshTokenHeld E w' tok)
     \<and> (\<not> isl r \<longrightarrow> refreshTokenHeld E w tok' \<and> (tok' = tok \<longrightarrow> \<not> refreshTokenHeld E w' tok))"
proof -
  from w have E: "redis_documented E" and c: "\<not> ctx_tx c" and w0: "w_tx w = None" and ok: "db_ok (w_pool w)"
    and new: "notReissued E s (w_n w) tok" by (simp_all add: refreshSettled_def)
  note out = RefreshToken_outcome [OF E c w0 run [unfolded refreshWith_def]]
  have ok': "db_ok (w_pool w')"
    using preservesD [OF auth_service_db_ok(3) _ run [unfolded refreshWith_def]] ok w0 by (simp add: on_dbs_def)
  have settled: "refreshSettled s c E w' tok"
    using E c out ok' notReissued_mono [OF new] by (auto simp: refreshSettled_def)
  from out consider "same_tables (w_pool w) (w_pool w')" "isl r"
    | new' where "issuedFrom E s (w_n w) new'" "rotatedSessions E s tok' new' (env_now E (w_n w)) (w_pool w) (w_pool w')"
    by auto
  then show ?thesis
  proof cases
    case 1
    then show ?thesis using settled by (auto simp: refreshTokenHeld_def same_tables_iff)
  next
    case 2
    have ne: "HashToken E new' \<noteq> HashToken E tok" using 2(1) new by (simp add: notReissued_def)
    note h = rotatedSessions_hashes [OF 2(2) ok]
    have "refreshTokenHeld E w tok'"
      using 2(2) find_SomeD by (fastforce simp: rotatedSessions_def refreshTokenHeld_def taken_def)
    moreover have "\<not> refreshTokenHeld E w tok \<or> tok' = tok \<longrightarrow> \<not> refreshTokenHeld E w' tok"
      unfolding refreshTokenHeld_def taken_def using h ne by metis
    ultimately show ?thesis using settled by blast
  qed
qed

interpretation refresh_tokens: single_use_tokens "refreshWith s c" refreshTokenHeld "refreshSettled s c" for s c
  by unfold_locales (use refresh_keeps in \<open>fastforce+\<close>)

text \<open>
  C2: a refresh token is accepted at most once: over any sequence of refreshes with any tokens, with
  any failures of Redis and of the database and whatever the session cache holds, the calls with
  one token succeed at most once, provided no token signed meanwhile has its hash.
\<close>

theorem refresh_token_at_most_once:
  assumes "redis_documented E" and "\<not> ctx_tx c" and "w_tx w = None" and "db_ok (w_pool w)"
    and "notReissued E s (w_n w) tok"
  shows "length (filter (redeemed tok) (redeemAll (\<lambda>tok. RefreshToken E s c \<lparr>rt_RefreshToken = tok\<rparr>) toks w)) \<le> 1"
  using refresh_tokens.at_most_once [of s c E w tok toks] assms
  by (simp add: refreshSettled_def refreshWith_def [abs_def])

section \<open>Which sessions are refused\<close>

lemma findSession_uncached:
  assumes "redis_up E" and "pg_up E" and "\<not> ctx_tx c"
    and "live (env_now E (w_n w)) (w_redis w) (sessionPrefix @ h) = None"
  shows "findSession E c h w =
     ((case find (\<lambda>x. sr_RefreshTokenHash x = h) (t_sessions (w_pool w)) of
         None \<Rightarrow> Inl (DomainErr ErrInvalidCredentials) | Some r \<Rightarrow> Inr (mapSessionRowToEntity r)),
      w\<lparr>w_n := w_n w + 2\<rparr>)"
proof -
  have "GetSession E h w = (Inr None, w\<lparr>w_n := Suc (w_n w)\<rparr>)"
    using GetSession_run [OF assms(1), of h w] GetSession_live [OF assms(1), of h w] assms(4) by simp
  then show ?thesis
    using assms(2,3)
    by (simp add: findSession_def SessionRepository_GetByRefreshTokenHash_def SessionRepository_getByRefreshTokenHash_def
        queryGetByRefreshTokenHash_def selectOne_pool_run andThen_def attempt_def mapErr_def ok_def split: option.splits)
qed

lemma RefreshToken_refuses_raw:
  assumes "redis_up E" and "pg_up E" and "\<not> ctx_tx c"
    and "live (env_now E (w_n w + 1)) (w_redis w) (sessionPrefix @ HashToken E tok) = None"
    and "find (\<lambda>x. sr_RefreshTokenHash x = HashToken E tok) (t_sessions (w_pool w)) = row"
    and "row = None \<or> sr_RevokedAt (the row) \<noteq> None \<or> sr_SessionStatus (the row) \<noteq> ''active''
       \<or> sr_ExpiredAt (the row) < env_now E (w_n w)"
  shows "RefreshToken E s c \<lparr>rt_RefreshToken = tok\<rparr> w =
     (Inl (DomainErr (if row = None then ErrInvalidCredentials
        else if sr_RevokedAt (the row) \<noteq> None \<or> sr_SessionStatus (the row) \<noteq> ''active'' then ErrSessionRevoked
        else ErrSessionExpired)), w\<lparr>w_n := w_n w + 3\<rparr>)"
proof -
  have "findSession E c (HashToken E tok) (w\<lparr>w_n := Suc (w_n w)\<rparr>) =
     ((case row of None \<Rightarrow> Inl (DomainErr ErrInvalidCredentials) | Some r \<Rightarrow> Inr (mapSessionRowToEntity r)),
      w\<lparr>w_n := w_n w + 3\<rparr>)"
    using findSession_uncached [OF assms(1-3), of "w\<lparr>w_n := Suc (w_n w)\<rparr>"] assms(4,5) by (simp add: numeral_eq_Suc)
  then show ?thesis
    using assms(6)
    by (cases row) (auto simp: RefreshToken_def Let_def andThen_def lift_def fail_def checkSession_def
        mapSessionRowToEntity_def Session_IsRevoked_def Session_IsExpired_def entity_consts)
qed

text \<open>
  C34: with no cached copy, a refresh answers from the database and changes nothing when it refuses:
  an unknown token is \<open>ErrInvalidCredentials\<close>, a revoked or inactive session \<open>ErrSessionRevoked\<close>, an
  expired one \<open>ErrSessionExpired\<close>.
\<close>

theorem RefreshToken_refuses:
  assumes "redis_up E" and "pg_up E" and "\<not> ctx_tx c"
    and "live (env_now E (w_n w + 1)) (w_redis w) (sessionPrefix @ HashToken E tok) = None"
    and "find (\<lambda>x. sr_RefreshTokenHash x = HashToken E tok) (t_sessions (w_pool w)) = row"
    and "row = None \<or> sr_RevokedAt (the row) \<noteq> None \<or> sr_SessionStatus (the row) \<noteq> ''active''
       \<or> sr_ExpiredAt (the row) < env_now E (w_n w)"
  shows "RefreshToken E s c \<lparr>rt_RefreshToken = tok\<rparr> w =
     (Inl (DomainErr (if row = None then ErrInvalidCredentials
        else if sr_RevokedAt (the row) \<noteq> None \<or> sr_SessionStatus (the row) \<noteq> ''active'' then ErrSessionRevoked
        else ErrSessionExpired)), w\<lparr>w_n := w_n w + 3\<rparr>)"
  using assms by (rule RefreshToken_refuses_raw)

section \<open>Logout and the session cache\<close>

definition canSign :: "env \<Rightarrow> AuthService \<Rightarrow> bool" where
  "canSign E s \<longleftrightarrow> (\<forall>claims. \<not> isl (env_jwtSign E (jwt_Secret (as_authManager s)) claims))"

lemma canSignD: "canSign E s \<Longrightarrow> \<exists>t. env_jwtSign E (jwt_Secret (as_authManager s)) claims = Inr t"
  unfolding canSign_def by (metis sum.collapse(2))

lemma GenerateRefreshToken_run:
  assumes "canSign E s"
  shows "\<exists>tok. GenerateRefreshToken E (as_authManager s) u em ro di w = (Inr tok, w\<lparr>w_n := w_n w + 3\<rparr>)"
  using canSignD [OF assms] by (simp add: GenerateRefreshToken_def Let_def andThen_def lift_def numeral_eq_Suc)

lemma GenerateAccessToken_run:
  assumes "canSign E s"
  shows "\<exists>a. GenerateAccessToken E (as_authManager s) u em ro si di w = (Inr a, w\<lparr>w_n := w_n w + 3\<rparr>)"
proof -
  from canSignD [OF assms] obtain t where
    "env_jwtSign E (jwt_Secret (as_authManager s)) (marshalClaims
       \<lparr>cl_UserID = u, cl_Email = em, cl_Role = ro, cl_Type = AccessType, cl_SessionID = si, cl_DeviceID = di,
        cl_ID = env_uuid E (Suc (w_n w)), cl_ExpiresAt = Some (NewNumericDate (env_now E (w_n w) + jwt_AccessTokenTTL (as_authManager s))),
        cl_IssuedAt = Some (NewNumericDate (env_now E (Suc (Suc (w_n w)))))\<rparr>) = Inr t" by blast
  then show ?thesis by (simp add: GenerateAccessToken_def Let_def andThen_def lift_def ok_def numeral_eq_Suc)
qed

lemma rotateTx_run:
  assumes "pg_up E" and "ctx_tx c" and "w_tx w = Some d"
    and "find (\<lambda>x. sr_RefreshTokenHash x = oldHash) (t_sessions d) = Some r"
    and "\<not> taken sr_RefreshTokenHash newHash (t_sessions d)"
  shows "\<exists>ses w3. rotateTx E s oldHash newHash now c w = (Inr ses, w3)"
proof -
  have get: "SessionRepository_GetByRefreshTokenHashForUpdate E c oldHash w = (Inr (mapSessionRowToEntity r), w\<lparr>w_n := Suc (w_n w)\<rparr>)"
    using assms(4)
    by (simp add: SessionRepository_GetByRefreshTokenHashForUpdate_def SessionRepository_getByRefreshTokenHash_def
        queryGetByRefreshTokenHash_def selectOne_tx_run [OF assms(1-3)] andThen_def mapErr_def ok_def)
  have "\<exists>w3. SessionRepository_Update E c x (w\<lparr>w_n := Suc (w_n w)\<rparr>) = (Inr (), w3)"
    if "sess_RefreshTokenHash x = newHash" for x
    using assms that by (simp add: SessionRepository_Update_def andThen_def ok_def pg_tx pg_up_def queryUpdateSession_def
        Let_def taken_def)
  moreover let ?x = "(Session_Rotate newHash now (mapSessionRowToEntity r))\<lparr>sess_ExpiredAt := now + sessionTTL (as_devicePolicy s)\<rparr>"
  have "sess_RefreshTokenHash ?x = newHash" by (simp add: Session_Rotate_def)
  ultimately obtain w3 where "SessionRepository_Update E c ?x (w\<lparr>w_n := Suc (w_n w)\<rparr>) = (Inr (), w3)" by blast
  with get show ?thesis by (simp add: rotateTx_def andThen_def mapErr_def Let_def ok_def)
qed

text \<open>
  A refresh whose cached session is usable succeeds whenever some row has the hash, revoked or not.
\<close>

lemma RefreshToken_cached:
  assumes "redis_up E" and "pg_up E" and c: "\<not> ctx_tx c"
    and cached: "w_redis w (sessionPrefix @ HashToken E tok) = Some (RJson (marshalSession ses), Some e)"
      "env_now E (w_n w + 1) < e"
    and usable: "checkSession (env_now E (w_n w)) ses = Inr ()"
    and user: "find (\<lambda>u. ur_ID u = sess_UserID ses) (t_users (w_pool w)) = Some u" "mapUserRowToEntity E u = Inr user"
    and sign: "canSign E s"
    and row: "find (\<lambda>x. sr_RefreshTokenHash x = HashToken E tok) (t_sessions (w_pool w)) = Some r"
    and fresh: "\<And>t. issuedFrom E s (w_n w) t \<Longrightarrow> \<not> taken sr_RefreshTokenHash (HashToken E t) (t_sessions (w_pool w))"
  shows "\<not> isl (fst (RefreshToken E s c \<lparr>rt_RefreshToken = tok\<rparr> w))"
proof -
  have get: "GetSession E (HashToken E tok) (w\<lparr>w_n := Suc (w_n w)\<rparr>) = (Inr (Some ses), w\<lparr>w_n := Suc (Suc (w_n w))\<rparr>)"
    using GetSession_run [OF assms(1), of "HashToken E tok" "w\<lparr>w_n := Suc (w_n w)\<rparr>"]
      GetSession_live [OF assms(1), of "HashToken E tok" "w\<lparr>w_n := Suc (w_n w)\<rparr>"] cached
    by (simp add: live_def unmarshal_marshalSession)
  have usr: "UserRepository_GetByID E c (sess_UserID ses) (w\<lparr>w_n := Suc (Suc (w_n w))\<rparr>) = (Inr user, w\<lparr>w_n := w_n w + 3\<rparr>)"
    using UserRepository_GetByID_run [OF assms(2) c, of "sess_UserID ses" "w\<lparr>w_n := Suc (Suc (w_n w))\<rparr>"] user by (simp add: numeral_eq_Suc)
  obtain newTok where rt: "GenerateRefreshToken E (as_authManager s) (user_ID user) (Email_String (user_Email user))
        (user_UserType user) (FormatInt (sess_DeviceID ses)) (w\<lparr>w_n := w_n w + 3\<rparr>) = (Inr newTok, w\<lparr>w_n := w_n w + 6\<rparr>)"
    using GenerateRefreshToken_run [OF sign, of "user_ID user" "Email_String (user_Email user)" "user_UserType user"
        "FormatInt (sess_DeviceID ses)" "w\<lparr>w_n := w_n w + 3\<rparr>"] by (auto simp: add.commute)
  obtain acc where at: "GenerateAccessToken E (as_authManager s) (user_ID user) (Email_String (user_Email user))
        (user_UserType user) (FormatInt (sess_ID ses)) (FormatInt (sess_DeviceID ses)) (w\<lparr>w_n := w_n w + 6\<rparr>) =
        (Inr acc, w\<lparr>w_n := w_n w + 9\<rparr>)"
    using GenerateAccessToken_run [OF sign, of "user_ID user" "Email_String (user_Email user)" "user_UserType user"
        "FormatInt (sess_ID ses)" "FormatInt (sess_DeviceID ses)" "w\<lparr>w_n := w_n w + 6\<rparr>"] by (auto simp: add.commute)
  have "refreshPrefix E s c \<lparr>rt_RefreshToken = tok\<rparr> w = (Inr (env_now E (w_n w), newTok, fst acc, snd acc), w\<lparr>w_n := w_n w + 9\<rparr>)"
    using usable by (simp add: refreshPrefix_def findSession_def andThen_def attempt_def get usr rt at lift_def ok_def split_def)
  moreover have "issuedFrom E s (w_n w) newTok" by (rule GenerateRefreshToken_issued [OF rt]) simp
  then have fresh': "\<not> taken sr_RefreshTokenHash (HashToken E newTok) (t_sessions (w_pool w))" by (rule fresh)
  have "w_tx (in_tx (w\<lparr>w_n := w_n w + 9\<rparr>)) = Some (w_pool w)" by (simp add: in_tx_def)
  from rotateTx_run [OF assms(2) ctx_tx_WithTx this row fresh'] obtain ses' w3 where
    "rotateTx E s (HashToken E tok) (HashToken E newTok) (env_now E (w_n w)) (WithTx c) (in_tx (w\<lparr>w_n := w_n w + 9\<rparr>)) = (Inr ses', w3)"
    by blast
  ultimately show ?thesis
    by (cases acc) (simp add: txManager_up [OF assms(2) c] RefreshToken_split andThen_def attempt_def ok_def goStoreSession_def DeleteSession_redis [OF assms(1)])
qed

definition revokedRow :: "time \<Rightarrow> time \<Rightarrow> sessionRow \<Rightarrow> sessionRow" where
  "revokedRow at t r = r\<lparr>sr_RevokedAt := Some at, sr_SessionStatus := ''revoked'', sr_UpdatedAt := t\<rparr>"

lemma Logout_InrD:
  assumes c: "\<not> ctx_tx c" and run: "Logout E c cmd w = (Inr (), w')"
  shows "w' = w\<lparr>w_n := w_n w + 2, w_pool := (w_pool w)\<lparr>t_sessions :=
     update_where (\<lambda>r. sr_UserID r = lo_UserID cmd \<and> sr_DeviceID r = lo_DeviceID cmd \<and> sr_RevokedAt r = None \<and> sr_SessionStatus r = ''active'')
       (revokedRow (env_now E (w_n w)) (env_now E (w_n w + 1))) (t_sessions (w_pool w))\<rparr>\<rparr>"
proof -
  from run obtain n where "pg E c (queryRevokeSession (lo_DeviceID cmd) (env_now E (w_n w)) (lo_UserID cmd)) (w\<lparr>w_n := Suc (w_n w)\<rparr>) = (Inr n, w')"
    by (auto simp: Logout_def SessionRepository_Revoke_def run_Inr split: if_splits)
  from pg_pool_InrD [OF c this] show ?thesis
    by (auto simp: queryRevokeSession_def Let_def revokedRow_def [abs_def])
qed

text \<open>
  C36: logging out revokes the session's row and leaves its cached copy, and \<open>RefreshToken\<close> trusts the
  cache: after a successful logout the session's refresh token still buys a new pair of tokens.
\<close>

theorem refresh_after_logout:
  assumes "redis_up E" and "pg_up E" and "\<not> ctx_tx c" and "db_ok (w_pool w)"
    and "r \<in> set (t_sessions (w_pool w))" and "sr_RefreshTokenHash r = HashToken E tok"
    and "sr_RevokedAt r = None" and "sr_SessionStatus r = ''active''"
    and "w_redis w (sessionPrefix @ HashToken E tok) = Some (RJson (marshalSession (mapSessionRowToEntity r)), Some e)"
    and "Logout E c \<lparr>lo_DeviceID = sr_DeviceID r, lo_UserID = sr_UserID r\<rparr> w = (Inr (), w1)"
    and "env_now E n \<le> sr_ExpiredAt r" and "env_now E (n + 1) < e"
    and "u \<in> set (t_users (w_pool w))" and "ur_ID u = sr_UserID r" and "mapUserRowToEntity E u = Inr user"
    and "canSign E s" and "\<forall>t. issuedFrom E s n t \<longrightarrow> \<not> taken sr_RefreshTokenHash (HashToken E t) (t_sessions (w_pool w))"
  shows "(\<exists>r' \<in> set (t_sessions (w_pool w1)). sr_RefreshTokenHash r' = HashToken E tok \<and> sr_RevokedAt r' \<noteq> None)
     \<and> \<not> isl (fst (RefreshToken E s c \<lparr>rt_RefreshToken = tok\<rparr> (w1\<lparr>w_n := n\<rparr>)))"
proof -
  let ?p = "\<lambda>x. sr_UserID x = sr_UserID r \<and> sr_DeviceID x = sr_DeviceID r \<and> sr_RevokedAt x = None \<and> sr_SessionStatus x = ''active''"
  let ?g = "revokedRow (env_now E (w_n w)) (env_now E (w_n w + 1))"
  from Logout_InrD [OF assms(3,10)] have w1: "w_redis w1 = w_redis w" "t_users (w_pool w1) = t_users (w_pool w)"
    "t_sessions (w_pool w1) = update_where ?p ?g (t_sessions (w_pool w))" by simp_all
  have "?g r \<in> set (t_sessions (w_pool w1))" unfolding w1(3) set_update_where using assms(5,7,8) by auto
  then have rev: "\<exists>r' \<in> set (t_sessions (w_pool w1)). sr_RefreshTokenHash r' = HashToken E tok \<and> sr_RevokedAt r' \<noteq> None"
    using assms(6) by (intro bexI [of _ "?g r"]) (simp_all add: revokedRow_def)
  then obtain r' where row: "find (\<lambda>x. sr_RefreshTokenHash x = HashToken E tok) (t_sessions (w_pool w1)) = Some r'"
    using find_None_iff by (metis (mono_tags, lifting) not_None_eq)
  have uid: "find (\<lambda>u. ur_ID u = sr_UserID r) (t_users (w_pool w1)) = Some u"
    using assms(4,13,14) unfolding w1(2) by (intro find_unique) (simp_all add: db_ok_def users_ok_def)
  have hashes: "taken sr_RefreshTokenHash h (t_sessions (w_pool w1)) = taken sr_RefreshTokenHash h (t_sessions (w_pool w))" for h
    unfolding w1(3) taken_iff by (simp flip: set_map add: map_update_where revokedRow_def)
  have "\<not> isl (fst (RefreshToken E s c \<lparr>rt_RefreshToken = tok\<rparr> (w1\<lparr>w_n := n\<rparr>)))"
    by (rule RefreshToken_cached [where ses = "mapSessionRowToEntity r" and e = e and u = u and user = user and r = r'])
      (use assms row uid hashes w1 in \<open>auto simp: checkSession_def mapSessionRowToEntity_def Session_IsRevoked_def
        Session_IsExpired_def entity_consts\<close>)
  with rev show ?thesis by blast
qed

end
