(* ===== verification/Auth_Passwords.thy ===== *)
theory Auth_Passwords
  imports Auth_Sessions
begin

text \<open>
  Changing and resetting a password: the new hash and the revocation of sessions are committed
  together, the sessions it revokes can no longer be refreshed, and asking for a reset does not
  tell whether an address is registered.
\<close>

section \<open>What the transactions commit\<close>

definition rehashed :: "int \<Rightarrow> string \<Rightarrow> time \<Rightarrow> credentialRow list \<Rightarrow> credentialRow list" where
  "rehashed uid hash now =
     update_where (\<lambda>c. cr_UserID c = uid) (\<lambda>c. c\<lparr>cr_PasswordHash := hash, cr_PasswordChangedAt := now\<rparr>)"

text \<open>After a change of password every active session but the current one is revoked.\<close>

definition passwordChanged :: "int \<Rightarrow> string \<Rightarrow> int \<Rightarrow> time \<Rightarrow> time \<Rightarrow> db \<Rightarrow> db \<Rightarrow> bool" where
  "passwordChanged uid hash current now t d d' \<longleftrightarrow>
     references uid cr_UserID (t_credentials d) \<and>
     d' = d\<lparr>t_credentials := rehashed uid hash now (t_credentials d),
       t_sessions := update_where (\<lambda>s. sr_UserID s = uid \<and> sr_ID s \<noteq> current \<and> sr_RevokedAt s = None \<and> sr_SessionStatus s = ''active'')
         (revokedRow now t) (t_sessions d)\<rparr>"

text \<open>After a reset every unexpired session of the user is revoked (its status stays as it was).\<close>

definition stampedRow :: "time \<Rightarrow> time \<Rightarrow> sessionRow \<Rightarrow> sessionRow" where
  "stampedRow at t s = s\<lparr>sr_RevokedAt := Some at, sr_UpdatedAt := t\<rparr>"

definition stamped :: "int \<Rightarrow> time \<Rightarrow> time \<Rightarrow> time \<Rightarrow> sessionRow list \<Rightarrow> sessionRow list" where
  "stamped uid at now t = update_where (\<lambda>s. sr_UserID s = uid \<and> sr_RevokedAt s = None \<and> sr_ExpiredAt s > now) (stampedRow at t)"

definition passwordReset :: "ctx \<Rightarrow> int \<Rightarrow> string \<Rightarrow> string \<Rightarrow> db \<Rightarrow> db \<Rightarrow> bool" where
  "passwordReset c uid email hash d d' \<longleftrightarrow> references uid cr_UserID (t_credentials d) \<and>
     (\<exists>t1 t2 t3 t4 t5 e q. d' = d\<lparr>t_credentials := rehashed uid hash t1 (t_credentials d),
          t_sessions := stamped uid t2 t3 t4 (t_sessions d), t_outbox := t_outbox d @ [e], db_seq := q\<rparr>
        \<and> recordsEvent (resetPasswordCompletedEvent c \<lparr>rcp_UserID = uid, rcp_Email = email\<rparr> t5) e)"

lemma UpdatePasswordHash_tx:
  assumes "ctx_tx c" and "w_tx w = Some d" and "CredentialRepository_UpdatePasswordHash E c uid hash now w = (Inr x, w')"
  shows "references uid cr_UserID (t_credentials d)
     \<and> w' = w\<lparr>w_n := Suc (w_n w), w_tx := Some (d\<lparr>t_credentials := rehashed uid hash now (t_credentials d)\<rparr>)\<rparr>"
proof -
  from assms(3) obtain n where pg: "pg E c (queryUpdatePasswordHash uid hash now) w = (Inr n, w')" and "n \<noteq> 0"
    by (auto simp: CredentialRepository_UpdatePasswordHash_def run_Inr split: if_splits)
  from pg_tx_InrD [OF assms(1,2) pg] \<open>n \<noteq> 0\<close> rows_affected_0 [of "\<lambda>c. cr_UserID c = uid" "t_credentials d"] show ?thesis
    by (auto simp: queryUpdatePasswordHash_def Let_def rehashed_def references_def)
qed

lemma changePasswordTx_post:
  assumes c: "ctx_tx c" and d: "w_tx w = Some d"
    and run: "changePasswordTx E uid hash current now c w = (Inr x, w3)"
  shows "\<exists>t d'. w_tx w3 = Some d' \<and> passwordChanged uid hash current now t d d' \<and> w_redis w3 = w_redis w"
proof -
  from run obtain y w1 n where up: "CredentialRepository_UpdatePasswordHash E c uid hash now w = (Inr y, w1)"
    and rev: "pg E c (queryRevokeAllExcept uid current now) w1 = (Inr n, w3)"
    by (auto simp: changePasswordTx_def SessionRepository_RevokeAllExcept_def run_Inr)
  note w1 = UpdatePasswordHash_tx [OF c d up]
  then have "w_tx w1 = Some (d\<lparr>t_credentials := rehashed uid hash now (t_credentials d)\<rparr>)" by simp
  from pg_tx_InrD [OF c this rev] w1 show ?thesis
    by (auto simp: queryRevokeAllExcept_def Let_def passwordChanged_def revokedRow_def [abs_def])
qed

lemma queryRevokeAllByUserID_InrD:
  "queryRevokeAllByUserID uid at now t d = Inr (n, d') \<Longrightarrow> d' = d\<lparr>t_sessions := stamped uid at now t (t_sessions d)\<rparr>"
  by (auto simp: queryRevokeAllByUserID_def Let_def stamped_def stampedRow_def update_where_def)

lemma resetPasswordTx_post:
  assumes c: "ctx_tx c" and d: "w_tx w = Some d"
    and run: "resetPasswordTx E uid email hash c w = (Inr x, w3)"
  shows "\<exists>d'. w_tx w3 = Some d' \<and> passwordReset c uid email hash d d' \<and> w_redis w3 = w_redis w"
proof -
  let ?t1 = "env_now E (w_n w)"
  from run obtain y w1 n w2 where up: "CredentialRepository_UpdatePasswordHash E c uid hash ?t1 (w\<lparr>w_n := Suc (w_n w)\<rparr>) = (Inr y, w1)"
    and rev: "pg E c (queryRevokeAllByUserID uid (env_now E (w_n w1)) (env_now E (Suc (w_n w1)))) (w1\<lparr>w_n := Suc (Suc (w_n w1))\<rparr>) = (Inr n, w2)"
    and pub: "Record E c (resetPasswordCompletedEvent c \<lparr>rcp_UserID = uid, rcp_Email = email\<rparr> (env_now E (w_n w2))) (w2\<lparr>w_n := Suc (w_n w2)\<rparr>) = (Inr (), w3)"
    by (auto simp: resetPasswordTx_def SessionRepository_RevokeAllByUserID_def PublishResetPasswordCompleted_def run_Inr)
  from UpdatePasswordHash_tx [OF c _ up] d have refs: "references uid cr_UserID (t_credentials d)"
    and w1: "w_tx w1 = Some (d\<lparr>t_credentials := rehashed uid hash ?t1 (t_credentials d)\<rparr>)" "w_redis w1 = w_redis w" by auto
  from pg_tx_InrD [OF c _ rev] w1 obtain t4 where
    w2: "w_tx w2 = Some (d\<lparr>t_credentials := rehashed uid hash ?t1 (t_credentials d),
        t_sessions := stamped uid (env_now E (w_n w1)) (env_now E (Suc (w_n w1))) t4 (t_sessions d)\<rparr>)" "w_redis w2 = w_redis w"
    by (auto dest!: queryRevokeAllByUserID_InrD)
  from Record_appends [OF c _ pub] w2(1) obtain e q where
    "w_tx w3 = Some (d\<lparr>t_credentials := rehashed uid hash ?t1 (t_credentials d),
        t_sessions := stamped uid (env_now E (w_n w1)) (env_now E (Suc (w_n w1))) t4 (t_sessions d),
        t_outbox := t_outbox d @ [e], db_seq := q\<rparr>)"
    "recordsEvent (resetPasswordCompletedEvent c \<lparr>rcp_UserID = uid, rcp_Email = email\<rparr> (env_now E (w_n w2))) e" by auto
  then have "\<exists>d'. w_tx w3 = Some d' \<and> passwordReset c uid email hash d d'"
    unfolding passwordReset_def using refs by blast
  with Record_frame [OF pub] w2(2) show ?thesis by auto
qed

section \<open>Changing a password\<close>

text \<open>Everything before the transaction, and the split of the method there.\<close>

definition changePrefix :: "env \<Rightarrow> AuthService \<Rightarrow> ctx \<Rightarrow> ChangePasswordCommand \<Rightarrow> (int \<times> string \<times> string list \<times> time) io" where
  "changePrefix E s c cmd =
     andThen (CredentialRepository_GetByUserID E c (cp_UserID cmd)) (\<lambda>credential.
     if VerifyPassword E (cp_CurrentPassword cmd) (cred_PasswordHash credential) \<noteq> None then fail DtoErrInvalidCredentials
     else if cp_NewPassword cmd = cp_CurrentPassword cmd then fail DtoErrSameAsOldPassword
     else
     andThen (HashPassword E (as_authManager s) (cp_NewPassword cmd)) (\<lambda>newPasswordHash.
     andThen (SessionRepository_ListActiveByUserID E c (cred_UserID credential)) (\<lambda>activeSessions.
     andThen (Now E) (\<lambda>now.
     ok (cred_UserID credential, newPasswordHash,
         map sess_RefreshTokenHash (filter (\<lambda>session. sess_ID session \<noteq> cp_CurrentSessionID cmd) activeSessions), now)))))"

definition dropCached :: "env \<Rightarrow> string list \<Rightarrow> unit io" where
  "dropCached E hashes = (if hashes \<noteq> [] then andThen (attempt (DeleteSessions E hashes)) (\<lambda>_. ok ()) else ok ())"

lemma ChangePassword_split:
  "ChangePassword E s c cmd =
     andThen (changePrefix E s c cmd) (\<lambda>(uid, hash, hashes, now).
     andThen (txManager E c (changePasswordTx E uid hash (cp_CurrentSessionID cmd) now)) (\<lambda>_. dropCached E hashes))"
  unfolding ChangePassword_def changePrefix_def dropCached_def Let_def andThen_assoc
  by (intro arg_cong2 [where f = andThen] refl ext) (simp add: andThen_assoc andThen_if)

lemma changePrefix_still: "preserves (still w0) (changePrefix E s c cmd)"
  unfolding changePrefix_def by (intro pres)

lemma dropCached_frame:
  "dropCached E hashes w = (r, w') \<Longrightarrow> r = Inr () \<and> w_pool w' = w_pool w \<and> w_tx w' = w_tx w"
  by (auto simp: dropCached_def andThen_def attempt_def ok_def DeleteSessions_def mapErr_def redisErr_def redis_def
      split: if_splits prod.splits sum.splits)

text \<open>A transaction followed by the clean-up of the cache: unchanged with an error, or committed.\<close>

lemma tx_then_drop:
  fixes f :: "ctx \<Rightarrow> unit io"
  assumes run: "andThen (txManager E c f) (\<lambda>_. dropCached E hashes) w = (r, w')"
    and "\<not> ctx_tx c" and "w_tx w = None" and "tx_local (f (WithTx c))"
  obtains (same) "same_tables (w_pool w) (w_pool w')" "isl r"
  | (finished) w3 where "f (WithTx c) (in_tx w) = (Inr (), w3)" "w_tx w3 = Some (w_pool w')"
      "r = Inr () \<or> (\<exists>e. r = Inl e \<and> errorsIs e TxErrCommitFailed)"
proof -
  obtain r2 w2 where tx: "txManager E c f w = (r2, w2)" by fastforce
  have "w_pool w' = w_pool w2" "r = r2"
    using run tx by (auto simp: andThen_def dest: dropCached_frame split: sum.splits)
  with tm.within_atomic [OF assms(2-4) tx] that show thesis by (auto simp: committed_def)
qed

text \<open>The sessions of a user that a listing at a given time returns.\<close>

definition activeSessions :: "int \<Rightarrow> time \<Rightarrow> db \<Rightarrow> sessionRow list" where
  "activeSessions uid now d = sort_key (\<lambda>s. - sr_CreatedAt s)
     (filter (\<lambda>s. sr_UserID s = uid \<and> sr_RevokedAt s = None \<and> sr_ExpiredAt s > now) (t_sessions d))"

lemma ListActiveByUserID_InrD:
  assumes "\<not> ctx_tx c" and "SessionRepository_ListActiveByUserID E c uid w = (Inr l, w')"
  shows "l = map mapSessionRowToEntity (activeSessions uid (env_now E (w_n w)) (w_pool w)) \<and> w' = w\<lparr>w_n := w_n w + 2\<rparr>"
proof -
  from assms(2) obtain rs where "pg E c (queryListActiveByUserID uid (env_now E (w_n w))) (w\<lparr>w_n := Suc (w_n w)\<rparr>) = (Inr rs, w')"
    and "l = map mapSessionRowToEntity rs" by (auto simp: SessionRepository_ListActiveByUserID_def run_Inr)
  with pg_query_InrD [OF this(1) [unfolded queryListActiveByUserID_def selectMany_def]] assms(1) show ?thesis
    by (auto simp: GetExecutor_def activeSessions_def)
qed

lemma changePrefix_InrD:
  assumes c: "\<not> ctx_tx c" and run: "changePrefix E s c cmd w = (Inr (uid, hash, hashes, now), w1)"
  shows "uid = cp_UserID cmd \<and> cp_NewPassword cmd \<noteq> cp_CurrentPassword cmd
     \<and> env_bcryptGenerate E (w_n w + 1) (cp_NewPassword cmd) (jwt_BcryptCost (as_authManager s)) = Inr hash
     \<and> (\<exists>cr \<in> set (t_credentials (w_pool w)). cr_UserID cr = uid
          \<and> env_bcryptCompare E (cr_PasswordHash cr) (cp_CurrentPassword cmd) = None)
     \<and> hashes = map sr_RefreshTokenHash (filter (\<lambda>r. sr_ID r \<noteq> cp_CurrentSessionID cmd)
          (activeSessions uid (env_now E (w_n w + 2)) (w_pool w)))
     \<and> now = env_now E (w_n w + 4) \<and> w1 = w\<lparr>w_n := w_n w + 5\<rparr>"
proof -
  from run obtain cr w0 w2 l w3 where
    get: "pg E c (queryCredentialGetByUserID (cp_UserID cmd)) w = (Inr cr, w0)"
    and pw: "env_bcryptCompare E (cr_PasswordHash cr) (cp_CurrentPassword cmd) = None" "cp_NewPassword cmd \<noteq> cp_CurrentPassword cmd"
    and hash: "HashPassword E (as_authManager s) (cp_NewPassword cmd) w0 = (Inr hash, w2)"
    and list: "SessionRepository_ListActiveByUserID E c (cr_UserID cr) w2 = (Inr l, w3)"
    and res: "uid = cr_UserID cr" "now = env_now E (w_n w3)" "w1 = w3\<lparr>w_n := Suc (w_n w3)\<rparr>"
      "hashes = map sess_RefreshTokenHash (filter (\<lambda>x. sess_ID x \<noteq> cp_CurrentSessionID cmd) l)"
    by (auto simp: changePrefix_def CredentialRepository_GetByUserID_def run_Inr VerifyPassword_def
        mapCredentialRowToEntity_def split: if_splits)
  from selectOne_pool [OF c get [unfolded queryCredentialGetByUserID_def]] have cr: "cr \<in> set (t_credentials (w_pool w))"
    "cr_UserID cr = cp_UserID cmd" and w0: "w0 = w\<lparr>w_n := Suc (w_n w)\<rparr>" by (auto dest: find_SomeD)
  have w2: "w2 = w\<lparr>w_n := Suc (Suc (w_n w))\<rparr>"
    and h: "env_bcryptGenerate E (Suc (w_n w)) (cp_NewPassword cmd) (jwt_BcryptCost (as_authManager s)) = Inr hash"
    using hash by (simp_all add: HashPassword_def GenerateFromPassword_def w0)
  from ListActiveByUserID_InrD [OF c list] w2 res pw cr h show ?thesis
    by (auto simp: filter_map comp_def mapSessionRowToEntity_def numeral_eq_Suc)
qed

text \<open>
  C21: a change of password is all or nothing: either no table changed and the caller gets an error,
  or the current password was right, the new one differs from it, and a bcrypt hash of the new one
  was committed together with the revocation of every other active session of the user.
\<close>

theorem ChangePassword_all_or_nothing:
  assumes "\<not> ctx_tx c" and "w_tx w = None" and "ChangePassword E s c cmd w = (r, w')"
  shows "same_tables (w_pool w) (w_pool w') \<and> isl r \<or>
     (\<exists>n hash now t. cp_NewPassword cmd \<noteq> cp_CurrentPassword cmd
        \<and> (\<exists>cr \<in> set (t_credentials (w_pool w)). cr_UserID cr = cp_UserID cmd
             \<and> env_bcryptCompare E (cr_PasswordHash cr) (cp_CurrentPassword cmd) = None)
        \<and> env_bcryptGenerate E n (cp_NewPassword cmd) (jwt_BcryptCost (as_authManager s)) = Inr hash
        \<and> passwordChanged (cp_UserID cmd) hash (cp_CurrentSessionID cmd) now t (w_pool w) (w_pool w')
        \<and> (r = Inr () \<or> (\<exists>e. r = Inl e \<and> errorsIs e TxErrCommitFailed)))"
  using assms(3) unfolding ChangePassword_split
proof (cases rule: andThen_cases)
  case (stop e)
  have "still w w'" using changePrefix_still stop(1) by (rule still_preserves)
  then show ?thesis using stop still_fields [of w w'] by simp
next
  case (go x w1)
  obtain uid hash hashes now where x: "x = (uid, hash, hashes, now)" by (cases x)
  note pre = changePrefix_InrD [OF assms(1) go(1) [unfolded x]]
  have w1: "w_pool w1 = w_pool w" "w_tx w1 = None" using pre assms(2) by simp_all
  from go(2) [unfolded x prod.case] show ?thesis
  proof (rule tx_then_drop)
    fix w3
    assume f: "changePasswordTx E uid hash (cp_CurrentSessionID cmd) now (WithTx c) (in_tx w1) = (Inr (), w3)"
      and "w_tx w3 = Some (w_pool w')" and r: "r = Inr () \<or> (\<exists>e. r = Inl e \<and> errorsIs e TxErrCommitFailed)"
    with changePasswordTx_post [OF ctx_tx_WithTx _ f, of "w_pool w1"] obtain t where
      "passwordChanged uid hash (cp_CurrentSessionID cmd) now t (w_pool w) (w_pool w')" using w1 by (auto simp: in_tx_def)
    with pre r show ?thesis by auto
  qed (use assms(1) w1 in \<open>simp_all add: auth_tx_local\<close>)
qed

lemma dropCached_redis:
  assumes "redis_up E" and "dropCached E hashes w = (r, w')"
  shows "w_redis w' = (\<lambda>k. if k \<in> (\<lambda>h. sessionPrefix @ h) ` set hashes then None else w_redis w k)"
proof (cases "hashes = []")
  case False
  with assms(2) have "snd (DeleteSessions E hashes w) = w'"
    by (auto simp: dropCached_def andThen_def attempt_def ok_def split: prod.splits)
  then show ?thesis using DeleteSessions_redis [OF assms(1), of hashes w] by (metis surjective_pairing)
qed (use assms(2) in \<open>simp add: dropCached_def ok_def fun_eq_iff\<close>)

text \<open>A row with a hash that no longer is in the cache and carries a revocation time is refused.\<close>

lemma revoked_and_uncached:
  assumes "redis_up E" and "pg_up E" and "\<not> ctx_tx c" and "db_ok (w_pool w)"
    and "r \<in> set (t_sessions (w_pool w))" and "sr_RefreshTokenHash r = HashToken E tok" and "sr_RevokedAt r \<noteq> None"
    and "w_redis w (sessionPrefix @ HashToken E tok) = None"
  shows "RefreshToken E s c \<lparr>rt_RefreshToken = tok\<rparr> w = (Inl (DomainErr ErrSessionRevoked), w\<lparr>w_n := w_n w + 3\<rparr>)"
proof -
  have "find (\<lambda>x. sr_RefreshTokenHash x = HashToken E tok) (t_sessions (w_pool w)) = Some r"
    using assms(4,5,6) by (intro find_unique) (simp_all add: db_ok_def sessions_ok_def)
  from RefreshToken_refuses_raw [OF assms(1-3) _ this] assms(7,8) show ?thesis by (simp add: live_NoneI)
qed


section \<open>Resetting a password\<close>

text \<open>Everything after the token was redeemed and before the transaction.\<close>

definition resetPrefix :: "env \<Rightarrow> AuthService \<Rightarrow> ctx \<Rightarrow> string \<Rightarrow> int \<Rightarrow> (string \<times> string \<times> string list) io" where
  "resetPrefix E s c newPassword userID =
     andThen (UserRepository_GetByID E c userID) (\<lambda>user.
     andThen (SessionRepository_ListActiveByUserID E c userID) (\<lambda>activeSessions.
     andThen (HashPassword E (as_authManager s) newPassword) (\<lambda>hashedPassword.
     ok (Email_String (user_Email user), hashedPassword, map sess_RefreshTokenHash activeSessions))))"

lemma ResetPassword_split:
  "ResetPassword E s c cmd =
     andThen (lift (ValidatePassword E (as_registerPolicy s) (rs_NewPassword cmd))) (\<lambda>_.
     andThen (mapErr (\<lambda>_. DomainErr ErrResetTokenExpired) (ParsePasswordResetToken E (rs_Token cmd))) (\<lambda>uid.
     andThen (resetPrefix E s c (rs_NewPassword cmd) uid) (\<lambda>(email, hash, hashes).
     andThen (txManager E c (resetPasswordTx E uid email hash)) (\<lambda>_. dropCached E hashes))))"
  by (simp add: ResetPassword_def resetPrefix_def dropCached_def Let_def andThen_assoc)

lemma resetPrefix_still: "preserves (still w0) (resetPrefix E s c pw uid)"
  unfolding resetPrefix_def by (intro pres)

lemma resetPrefix_InrD:
  assumes c: "\<not> ctx_tx c" and run: "resetPrefix E s c pw uid w = (Inr (email, hash, hashes), w1)"
  shows "(\<exists>n. env_bcryptGenerate E n pw (jwt_BcryptCost (as_authManager s)) = Inr hash)
     \<and> hashes = map sr_RefreshTokenHash (activeSessions uid (env_now E (w_n w + 1)) (w_pool w)) \<and> still w w1"
proof -
  from run obtain user w0 l w2 where u: "UserRepository_GetByID E c uid w = (Inr user, w0)"
    and list: "SessionRepository_ListActiveByUserID E c uid w0 = (Inr l, w2)"
    and hash: "HashPassword E (as_authManager s) pw w2 = (Inr hash, w1)" and hs: "hashes = map sess_RefreshTokenHash l"
    by (auto simp: resetPrefix_def run_Inr)
  from u have w0: "w0 = w\<lparr>w_n := Suc (w_n w)\<rparr>"
    by (auto simp: UserRepository_GetByID_def run_Inr queryGetUserByID_def dest!: selectOne_pool [OF c])
  have "still w w1" using resetPrefix_still run by (rule still_preserves)
  with ListActiveByUserID_InrD [OF c list] hash hs w0 show ?thesis
    by (auto simp: HashPassword_def GenerateFromPassword_def mapSessionRowToEntity_def)
qed

lemma ParsePasswordResetToken_tables:
  "ParsePasswordResetToken E tok w = (r, w') \<Longrightarrow> w_pool w' = w_pool w \<and> w_tx w' = w_tx w"
  by (auto simp: ParsePasswordResetToken_def Let_def redisVal_def redis_def andThen_def mapErr_def lift_def ok_def fail_def
      split: prod.splits sum.splits rreply.splits)

text \<open>
  C22: a password reset is all or nothing: either no table changed and the caller gets an error, or
  the reset token was redeemed for a user and, together, a bcrypt hash of an acceptable new
  password, the revocation of every unexpired session of the user and one pending event were
  committed.
\<close>

theorem ResetPassword_all_or_nothing:
  assumes "\<not> ctx_tx c" and "w_tx w = None" and "ResetPassword E s c cmd w = (r, w')"
  shows "same_tables (w_pool w) (w_pool w') \<and> isl r \<or>
     (\<exists>uid email n hash. fst (ParsePasswordResetToken E (rs_Token cmd) w) = Inr uid
        \<and> ValidatePassword E (as_registerPolicy s) (rs_NewPassword cmd) = Inr ()
        \<and> env_bcryptGenerate E n (rs_NewPassword cmd) (jwt_BcryptCost (as_authManager s)) = Inr hash
        \<and> passwordReset (WithTx c) uid email hash (w_pool w) (w_pool w')
        \<and> (r = Inr () \<or> (\<exists>e. r = Inl e \<and> errorsIs e TxErrCommitFailed)))"
proof (cases "ValidatePassword E (as_registerPolicy s) (rs_NewPassword cmd)")
  case (Inl e)
  with assms(3) show ?thesis by (auto simp: ResetPassword_split run_Inr)
next
  case valid: (Inr x)
  obtain r0 w0 where tok: "ParsePasswordResetToken E (rs_Token cmd) w = (r0, w0)" by fastforce
  note w0 = ParsePasswordResetToken_tables [OF tok]
  show ?thesis
  proof (cases r0)
    case (Inl e)
    with assms(3) tok valid w0 show ?thesis by (auto simp: ResetPassword_split andThen_def mapErr_def)
  next
    case (Inr uid)
    from assms(3) have run: "andThen (resetPrefix E s c (rs_NewPassword cmd) uid) (\<lambda>(email, hash, hashes).
        andThen (txManager E c (resetPasswordTx E uid email hash)) (\<lambda>_. dropCached E hashes)) w0 = (r, w')"
      using tok valid Inr by (simp add: ResetPassword_split andThen_def mapErr_def)
    then show ?thesis
    proof (cases rule: andThen_cases)
      case (stop e)
      have "still w0 w'" using resetPrefix_still stop(1) by (rule still_preserves)
      then show ?thesis using stop still_fields [of w0 w'] w0 by simp
    next
      case (go x w1)
      obtain email hash hashes where x: "x = (email, hash, hashes)" by (cases x)
      note pre = resetPrefix_InrD [OF assms(1) go(1) [unfolded x]]
      then have w1: "w_pool w1 = w_pool w" "w_tx w1 = None" using still_fields [of w0 w1] w0 assms(2) by auto
      from go(2) [unfolded x prod.case] show ?thesis
      proof (rule tx_then_drop)
        fix w3
        assume f: "resetPasswordTx E uid email hash (WithTx c) (in_tx w1) = (Inr (), w3)"
          and "w_tx w3 = Some (w_pool w')" and r: "r = Inr () \<or> (\<exists>e. r = Inl e \<and> errorsIs e TxErrCommitFailed)"
        with resetPasswordTx_post [OF ctx_tx_WithTx _ f, of "w_pool w1"] have
          "passwordReset (WithTx c) uid email hash (w_pool w) (w_pool w')" using w1 by (auto simp: in_tx_def)
        with pre r valid tok Inr show ?thesis by auto
      qed (use assms(1) w1 in \<open>simp_all add: auth_tx_local\<close>)
    qed
  qed
qed

section \<open>Asking for a reset\<close>

text \<open>
  Asking for a reset of an address that is not registered succeeds like one that is, and does
  nothing: no token is stored, no event recorded.
\<close>

theorem ForgotPassword_unknown_address:
  assumes "pg_up E" and "\<not> ctx_tx c" and "NewEmail E (fp_Email cmd) = Inr email"
    and "\<not> taken ur_Email (Email_String email) (t_users (w_pool w))"
  shows "ForgotPassword E c cmd w = (Inr (), w\<lparr>w_n := Suc (w_n w)\<rparr>)"
proof -
  have "find (\<lambda>u. ur_Email u = Email_String email) (t_users (w_pool w)) = None"
    using assms(4) by (auto simp: taken_def find_None_iff)
  then show ?thesis
    using assms(3)
    by (simp add: ForgotPassword_def UserRepository_GetByEmail_def queryGetUserByEmail_def
        selectOne_pool_run [OF assms(1,2)] andThen_def attempt_def mapErr_def ok_def noRowsAs_def isNoRows_def)
qed

end
