(* ===== verification/Address_Service.thy ===== *)
theory Address_Service
  imports Identity_Runs
begin

text \<open>
  The address book of a user (\<^verbatim>\<open>internal/modules/identity/app/service/address_service.go\<close>): adding,
  updating and deleting addresses, with at most one default address per user.
\<close>

section \<open>Operations\<close>

record AddAddressCommand =
  aa_UserID :: int
  aa_RecipientName :: string
  aa_RecipientPhone :: string
  aa_Line1 :: string
  aa_Line2 :: string
  aa_ProvinceCode :: string
  aa_DistrictCode :: string
  aa_WardCode :: string
  aa_PostalCode :: string
  aa_CountryCode :: string
  aa_IsDefault :: bool

record UpdateAddressCommand =
  ua_ID :: int
  ua_UserID :: int
  ua_RecipientName :: string
  ua_RecipientPhone :: string
  ua_Line1 :: string
  ua_Line2 :: string
  ua_ProvinceCode :: string
  ua_DistrictCode :: string
  ua_WardCode :: string
  ua_PostalCode :: string
  ua_CountryCode :: string
  ua_IsDefault :: bool

record DeleteAddressCommand =
  da_ID :: int
  da_UserID :: int

definition newAddress :: "AddAddressCommand \<Rightarrow> Address" where
  "newAddress cmd =
     \<lparr>addr_ID = 0, addr_UserID = aa_UserID cmd, addr_RecipientName = TrimSpace (aa_RecipientName cmd),
      addr_RecipientPhone = TrimSpace (aa_RecipientPhone cmd), addr_Line1 = TrimSpace (aa_Line1 cmd),
      addr_Line2 = TrimSpace (aa_Line2 cmd), addr_Province = TrimSpace (aa_ProvinceCode cmd),
      addr_District = TrimSpace (aa_DistrictCode cmd), addr_Ward = TrimSpace (aa_WardCode cmd),
      addr_PostalCode = TrimSpace (aa_PostalCode cmd), addr_CountryCode = TrimSpace (aa_CountryCode cmd),
      addr_IsDefault = aa_IsDefault cmd, addr_Version = 0, addr_CreatedAt = zeroTime, addr_UpdatedAt = zeroTime\<rparr>"

definition addAddressTx :: "env \<Rightarrow> Address \<Rightarrow> ctx \<Rightarrow> Address io" where
  "addAddressTx E address txCtx =
     andThen (if addr_IsDefault address then AddressRepository_UnsetDefaultByUserID E txCtx (addr_UserID address)
              else ok ()) (\<lambda>_.
     AddressRepository_Insert E txCtx address)"

definition AddAddress :: "env \<Rightarrow> ctx \<Rightarrow> AddAddressCommand \<Rightarrow> int io" where
  "AddAddress E c cmd =
     andThen (txManager E c (addAddressTx E (newAddress cmd))) (\<lambda>address.
     ok (addr_ID address))"

definition changedAddress :: "UpdateAddressCommand \<Rightarrow> Address \<Rightarrow> Address" where
  "changedAddress cmd address = address
     \<lparr>addr_RecipientName := TrimSpace (ua_RecipientName cmd), addr_RecipientPhone := TrimSpace (ua_RecipientPhone cmd),
      addr_Line1 := TrimSpace (ua_Line1 cmd), addr_Line2 := TrimSpace (ua_Line2 cmd),
      addr_Province := TrimSpace (ua_ProvinceCode cmd), addr_District := TrimSpace (ua_DistrictCode cmd),
      addr_Ward := TrimSpace (ua_WardCode cmd), addr_PostalCode := TrimSpace (ua_PostalCode cmd),
      addr_CountryCode := TrimSpace (ua_CountryCode cmd), addr_IsDefault := ua_IsDefault cmd\<rparr>"

definition updateAddressTx :: "env \<Rightarrow> Address \<Rightarrow> ctx \<Rightarrow> unit io" where
  "updateAddressTx E address txCtx =
     andThen (if addr_IsDefault address then AddressRepository_UnsetDefaultByUserID E txCtx (addr_UserID address)
              else ok ()) (\<lambda>_.
     AddressRepository_Update E txCtx address)"

definition UpdateAddress :: "env \<Rightarrow> ctx \<Rightarrow> UpdateAddressCommand \<Rightarrow> unit io" where
  "UpdateAddress E c cmd =
     andThen (AddressRepository_GetByID E c (ua_ID cmd)) (\<lambda>address.
     andThen (lift (Address_AssertOwnership (ua_UserID cmd) address)) (\<lambda>_.
     txManager E c (updateAddressTx E (changedAddress cmd address))))"

definition DeleteAddress :: "env \<Rightarrow> ctx \<Rightarrow> DeleteAddressCommand \<Rightarrow> unit io" where
  "DeleteAddress E c cmd =
     andThen (AddressRepository_GetByID E c (da_ID cmd)) (\<lambda>address.
     andThen (lift (Address_AssertOwnership (da_UserID cmd) address)) (\<lambda>_.
     AddressRepository_Delete E c (da_ID cmd)))"

section \<open>Invariants\<close>

lemma address_tx_db_ok [pres]:
  "preserves (on_dbs db_ok) (addAddressTx E a c)" "preserves (on_dbs db_ok) (updateAddressTx E a c)"
  unfolding addAddressTx_def updateAddressTx_def by (intro pres)+

lemma address_tx_local:
  assumes "ctx_tx c"
  shows "tx_local (addAddressTx E a c)" "tx_local (updateAddressTx E a c)"
  unfolding addAddressTx_def updateAddressTx_def by (intro tx_localI pres assms)+

lemma address_service_db_ok [pres]:
  "preserves (on_dbs db_ok) (AddAddress E c acmd)" "preserves (on_dbs db_ok) (UpdateAddress E c ucmd)"
  "preserves (on_dbs db_ok) (DeleteAddress E c dcmd)"
  unfolding AddAddress_def UpdateAddress_def DeleteAddress_def by (intro pres)+

section \<open>The default address\<close>

lemma unset_default_rows:
  assumes "b \<in> set (update_where (\<lambda>a. ar_UserID a = uid) (\<lambda>a. a\<lparr>ar_IsDefault := False, ar_UpdatedAt := t\<rparr>) rs)"
    and "ar_UserID b = uid"
  shows "\<not> ar_IsDefault b"
proof -
  from assms(1) consider a where "b = a\<lparr>ar_IsDefault := False, ar_UpdatedAt := t\<rparr>" | "ar_UserID b \<noteq> uid"
    by (auto simp: update_where_def)
  then show ?thesis using assms(2) by cases simp_all
qed

lemma queryInsertAddress_InrD:
  assumes "queryInsertAddress a t d = Inr (i, d')"
  shows "\<exists>r. t_addresses d' = t_addresses d @ [r] \<and> ar_ID r = i \<and> ar_UserID r = addr_UserID a \<and> ar_IsDefault r = addr_IsDefault a"
  using assms unfolding queryInsertAddress_def Let_def by (simp split: if_split_asm) (elim conjE, hypsubst, simp)

lemma addAddressTx_default:
  assumes c: "ctx_tx c" and d: "w_tx w = Some d" and a: "addr_IsDefault a"
    and run: "addAddressTx E a c w = (Inr x, w3)"
  shows "\<exists>d'. w_tx w3 = Some d' \<and> (\<exists>r \<in> set (t_addresses d'). ar_ID r = addr_ID x \<and> ar_UserID r = addr_UserID a \<and> ar_IsDefault r
     \<and> (\<forall>b \<in> set (t_addresses d'). ar_UserID b = addr_UserID a \<and> ar_IsDefault b \<longrightarrow> b = r))"
proof -
  from run a obtain n w1 i where un: "pg E c (queryUnsetDefaultByUserID (addr_UserID a)) w = (Inr n, w1)"
    and ins: "pg E c (queryInsertAddress a) w1 = (Inr i, w3)" and x: "addr_ID x = i"
    by (auto simp: addAddressTx_def AddressRepository_UnsetDefaultByUserID_def AddressRepository_Insert_def run_Inr)
  from pg_tx_InrD [OF c d un] obtain t where
    w1: "w_tx w1 = Some (d\<lparr>t_addresses := update_where (\<lambda>r. ar_UserID r = addr_UserID a)
           (\<lambda>r. r\<lparr>ar_IsDefault := False, ar_UpdatedAt := t\<rparr>) (t_addresses d)\<rparr>)"
    by (auto simp: queryUnsetDefaultByUserID_def Let_def)
  from pg_tx_InrD [OF c w1 ins] obtain d' where
    "queryInsertAddress a (env_now E (w_n w1)) (d\<lparr>t_addresses := update_where (\<lambda>r. ar_UserID r = addr_UserID a)
           (\<lambda>r. r\<lparr>ar_IsDefault := False, ar_UpdatedAt := t\<rparr>) (t_addresses d)\<rparr>) = Inr (i, d')"
    and w3: "w_tx w3 = Some d'" by auto
  from queryInsertAddress_InrD [OF this(1)] w3 x a show ?thesis
    by (auto dest: unset_default_rows)
qed

text \<open>
  C23: adding a default address makes it the only default one: after a success the new row is the
  user's default address, and no other row of that user is.
\<close>

theorem AddAddress_only_default:
  assumes "\<not> ctx_tx c" and "w_tx w = None" and "aa_IsDefault cmd" and "AddAddress E c cmd w = (Inr i, w')"
  shows "\<exists>r \<in> set (t_addresses (w_pool w')). ar_ID r = i \<and> ar_UserID r = aa_UserID cmd \<and> ar_IsDefault r
     \<and> (\<forall>b \<in> set (t_addresses (w_pool w')). ar_UserID b = aa_UserID cmd \<and> ar_IsDefault b \<longrightarrow> b = r)"
proof -
  from assms(4) obtain x where tx: "txManager E c (addAddressTx E (newAddress cmd)) w = (Inr x, w')" and i: "i = addr_ID x"
    by (auto simp: AddAddress_def run_Inr)
  from tm.success_committed [OF assms(1,2) address_tx_local(1) [OF ctx_tx_WithTx] tx] obtain w3 where
    f: "addAddressTx E (newAddress cmd) (WithTx c) (in_tx w) = (Inr x, w3)" and w3: "committed w3 w'" by blast
  from addAddressTx_default [OF ctx_tx_WithTx _ _ f, of "w_pool w"] w3 assms(3) i show ?thesis
    by (auto simp: in_tx_def committed_def newAddress_def)
qed

section \<open>Ownership\<close>

text \<open>
  An address of somebody else can be neither changed nor deleted: both calls give
  \<open>ErrAddressNotOwned\<close> and change nothing.
\<close>

theorem address_not_owned:
  assumes "pg_up E" and "\<not> ctx_tx c" and "find (\<lambda>a. ar_ID a = i) (t_addresses (w_pool w)) = Some r"
    and "ar_UserID r \<noteq> uid"
  shows "(ua_ID ucmd = i \<longrightarrow> ua_UserID ucmd = uid \<longrightarrow>
       UpdateAddress E c ucmd w = (Inl (DomainErr ErrAddressNotOwned), w\<lparr>w_n := Suc (w_n w)\<rparr>)) \<and>
     DeleteAddress E c \<lparr>da_ID = i, da_UserID = uid\<rparr> w = (Inl (DomainErr ErrAddressNotOwned), w\<lparr>w_n := Suc (w_n w)\<rparr>)"
proof -
  have "AddressRepository_GetByID E c i w = (Inr (mapAddressRowToEntity r), w\<lparr>w_n := Suc (w_n w)\<rparr>)"
    using assms(3) by (simp add: AddressRepository_GetByID_def queryGetAddressByID_def selectOne_pool_run [OF assms(1,2)]
        andThen_def mapErr_def ok_def)
  moreover have "Address_AssertOwnership uid (mapAddressRowToEntity r) = Inl (DomainErr ErrAddressNotOwned)"
    using assms(4) by (simp add: Address_AssertOwnership_def mapAddressRowToEntity_def)
  ultimately show ?thesis by (auto simp: UpdateAddress_def DeleteAddress_def andThen_def lift_def fail_def)
qed

section \<open>Isolation between users\<close>

text \<open>The requests on address books, each with the user who makes it, and runs of them.\<close>

datatype addressRequest =
    ReqAdd AddAddressCommand
  | ReqUpdate UpdateAddressCommand
  | ReqDelete DeleteAddressCommand

fun requestedBy :: "addressRequest \<Rightarrow> int" where
  "requestedBy (ReqAdd cmd) = aa_UserID cmd"
| "requestedBy (ReqUpdate cmd) = ua_UserID cmd"
| "requestedBy (ReqDelete cmd) = da_UserID cmd"

fun serveAddress :: "env \<Rightarrow> ctx \<Rightarrow> addressRequest \<Rightarrow> world \<Rightarrow> world" where
  "serveAddress E c (ReqAdd cmd) w = snd (AddAddress E c cmd w)"
| "serveAddress E c (ReqUpdate cmd) w = snd (UpdateAddress E c cmd w)"
| "serveAddress E c (ReqDelete cmd) w = snd (DeleteAddress E c cmd w)"

definition addressBook :: "int \<Rightarrow> db \<Rightarrow> addressRow list" where
  "addressBook v d = filter (\<lambda>a. ar_UserID a = v) (t_addresses d)"

text \<open>
  The invariant behind isolation: the book of \<open>v\<close> is as it was, and \<open>v\<close> does not own the row the
  request is about.
\<close>

definition isolated :: "int \<Rightarrow> addressRow list \<Rightarrow> int \<Rightarrow> db \<Rightarrow> bool" where
  "isolated v book i d \<longleftrightarrow> addressBook v d = book \<and> (\<forall>a \<in> set (t_addresses d). ar_ID a = i \<longrightarrow> ar_UserID a \<noteq> v)"

lemma filter_update_where_other:
  "(\<And>r. r \<in> set rs \<Longrightarrow> p r \<Longrightarrow> \<not> q r \<and> \<not> q (g r)) \<Longrightarrow> filter q (update_where p g rs) = filter q rs"
  by (induction rs) auto

lemma isolated_statements:
  "u \<noteq> v \<Longrightarrow> stmt_preserves (isolated v book i) (queryUnsetDefaultByUserID u)"
  "addr_ID a = i \<Longrightarrow> stmt_preserves (isolated v book i) (queryUpdateAddress a)"
  "stmt_preserves (isolated v book i) (queryDeleteAddress i)"
  "addr_UserID a \<noteq> v \<Longrightarrow> stmt_preserves (\<lambda>d. addressBook v d = book) (queryInsertAddress a)"
  "u \<noteq> v \<Longrightarrow> stmt_preserves (\<lambda>d. addressBook v d = book) (queryUnsetDefaultByUserID u)"
  by (auto simp: stmt_preserves_def isolated_def addressBook_def queryUnsetDefaultByUserID_def queryUpdateAddress_def
      queryDeleteAddress_def queryInsertAddress_def Let_def set_update_where filter_filter split: if_splits
      intro!: filter_update_where_other filter_cong)

lemma AddAddress_isolated:
  "aa_UserID cmd \<noteq> v \<Longrightarrow> preserves (on_dbs (\<lambda>d. addressBook v d = book)) (AddAddress E c cmd)"
  unfolding AddAddress_def addAddressTx_def AddressRepository_Insert_def AddressRepository_UnsetDefaultByUserID_def
  by (intro pres preserves_txManager preserves_pg isolated_statements)
    (simp_all add: newAddress_def addressBook_def)

lemma updateAddressTx_isolated:
  assumes "addr_ID a = i" and "addr_UserID a \<noteq> v"
  shows "preserves (on_dbs (isolated v book i)) (txManager E c (updateAddressTx E a))"
  unfolding updateAddressTx_def AddressRepository_Update_def AddressRepository_UnsetDefaultByUserID_def
  using assms
  by (intro pres preserves_txManager preserves_pg isolated_statements)
    (simp_all add: isolated_def addressBook_def)

lemma AddressRepository_Delete_isolated:
  "preserves (on_dbs (isolated v book i)) (AddressRepository_Delete E c i)"
  unfolding AddressRepository_Delete_def by (intro pres preserves_pg isolated_statements)

text \<open>What \<open>GetByID\<close> and the check of ownership establish.\<close>

lemma owned_isolated:
  assumes c: "\<not> ctx_tx c" and ok: "db_ok (w_pool w)" and get: "AddressRepository_GetByID E c i w = (Inr a, w1)"
    and own: "Address_AssertOwnership uid a = Inr ()" and "uid \<noteq> v"
  shows "addr_ID a = i \<and> addr_UserID a = uid \<and> still w w1 \<and> isolated v (addressBook v (w_pool w)) i (w_pool w1)"
proof -
  have still: "still w w1" using reads_still(11) get by (rule still_preserves)
  from get obtain r where "find (\<lambda>x. ar_ID x = i) (t_addresses (w_pool w)) = Some r" and a: "a = mapAddressRowToEntity r"
    by (auto simp: AddressRepository_GetByID_def run_Inr queryGetAddressByID_def dest!: selectOne_pool [OF c])
  then have r: "r \<in> set (t_addresses (w_pool w))" "ar_ID r = i" by (auto dest: find_SomeD)
  have u: "ar_UserID r = uid" using own a by (auto simp: Address_AssertOwnership_def mapAddressRowToEntity_def split: if_splits)
  have "unique_on ar_ID (t_addresses (w_pool w))" using ok by (simp add: db_ok_def addresses_ok_def)
  then have "x = r" if "x \<in> set (t_addresses (w_pool w))" "ar_ID x = i" for x
    using unique_onD [of ar_ID] that r by metis
  then have "\<forall>x \<in> set (t_addresses (w_pool w)). ar_ID x = i \<longrightarrow> ar_UserID x \<noteq> v" using u assms(5) by blast
  with r u a still_fields [OF still] still show ?thesis by (simp add: isolated_def mapAddressRowToEntity_def)
qed

lemma UpdateAddress_isolated:
  assumes c: "\<not> ctx_tx c" and w: "w_tx w = None" and ok: "db_ok (w_pool w)" and "ua_UserID cmd \<noteq> v"
  shows "addressBook v (w_pool (snd (UpdateAddress E c cmd w))) = addressBook v (w_pool w)"
proof -
  obtain r w1 where get: "AddressRepository_GetByID E c (ua_ID cmd) w = (r, w1)" by fastforce
  have still: "still w w1" using reads_still(11) get by (rule still_preserves)
  consider (owned) a where "r = Inr a" "Address_AssertOwnership (ua_UserID cmd) a = Inr ()"
    | (refused) e where "UpdateAddress E c cmd w = (Inl e, w1)"
    using get by (cases r; cases "Address_AssertOwnership (ua_UserID cmd) (projr r)")
      (auto simp: UpdateAddress_def andThen_def fail_def)
  then show ?thesis
  proof cases
    case owned
    from owned_isolated [OF c ok get [unfolded owned(1)] owned(2) assms(4)]
    have i: "addr_ID (changedAddress cmd a) = ua_ID cmd" "addr_UserID (changedAddress cmd a) \<noteq> v"
      "on_dbs (isolated v (addressBook v (w_pool w)) (ua_ID cmd)) w1"
      using still_fields [OF still] w assms(4) by (auto simp: on_dbs_def changedAddress_def)
    obtain r2 w2 where tx: "txManager E c (updateAddressTx E (changedAddress cmd a)) w1 = (r2, w2)" by fastforce
    from preservesD [OF updateAddressTx_isolated [OF i(1,2)] i(3) tx] have "addressBook v (w_pool w2) = addressBook v (w_pool w)"
      by (simp add: on_dbs_def isolated_def)
    then show ?thesis using get owned tx by (simp add: UpdateAddress_def andThen_def)
  qed (use still_fields [OF still] in simp)
qed

lemma DeleteAddress_isolated:
  assumes c: "\<not> ctx_tx c" and w: "w_tx w = None" and ok: "db_ok (w_pool w)" and "da_UserID cmd \<noteq> v"
  shows "addressBook v (w_pool (snd (DeleteAddress E c cmd w))) = addressBook v (w_pool w)"
proof -
  obtain r w1 where get: "AddressRepository_GetByID E c (da_ID cmd) w = (r, w1)" by fastforce
  have still: "still w w1" using reads_still(11) get by (rule still_preserves)
  consider (owned) a where "r = Inr a" "Address_AssertOwnership (da_UserID cmd) a = Inr ()"
    | (refused) e where "DeleteAddress E c cmd w = (Inl e, w1)"
    using get by (cases r; cases "Address_AssertOwnership (da_UserID cmd) (projr r)")
      (auto simp: DeleteAddress_def andThen_def fail_def)
  then show ?thesis
  proof cases
    case owned
    from owned_isolated [OF c ok get [unfolded owned(1)] owned(2) assms(4)]
    have i: "on_dbs (isolated v (addressBook v (w_pool w)) (da_ID cmd)) w1"
      using still_fields [OF still] w by (auto simp: on_dbs_def)
    obtain r2 w2 where del: "AddressRepository_Delete E c (da_ID cmd) w1 = (r2, w2)" by fastforce
    from preservesD [OF AddressRepository_Delete_isolated i del] have "addressBook v (w_pool w2) = addressBook v (w_pool w)"
      by (simp add: on_dbs_def isolated_def)
    then show ?thesis using get owned del by (simp add: DeleteAddress_def andThen_def)
  qed (use still_fields [OF still] in simp)
qed

lemma serveAddress_isolated:
  assumes c: "\<not> ctx_tx c" and w: "w_tx w = None" and ok: "db_ok (w_pool w)" and "requestedBy req \<noteq> v"
  shows "addressBook v (w_pool (serveAddress E c req w)) = addressBook v (w_pool w)"
proof (cases req)
  case (ReqAdd cmd)
  have "on_dbs (\<lambda>d. addressBook v d = addressBook v (w_pool w)) w" using w by (simp add: on_dbs_def)
  with AddAddress_isolated [of cmd v "addressBook v (w_pool w)" E c] assms(4) ReqAdd
  have "on_dbs (\<lambda>d. addressBook v d = addressBook v (w_pool w)) (snd (AddAddress E c cmd w))"
    unfolding preserves_def by auto
  then show ?thesis using ReqAdd by (simp add: on_dbs_def)
qed (use assms UpdateAddress_isolated DeleteAddress_isolated in simp_all)

lemma address_service_no_tx:
  assumes "\<not> ctx_tx c"
  shows "preserves no_tx (AddAddress E c acmd)" "preserves no_tx (UpdateAddress E c ucmd)" "preserves no_tx (DeleteAddress E c dcmd)"
  unfolding AddAddress_def UpdateAddress_def DeleteAddress_def unfolding repo_defs by (intro pres assms)+

text \<open>A request made between transactions leaves the constraints and the absence of a transaction in place.\<close>

lemma serveAddress_inv:
  assumes c: "\<not> ctx_tx c" and w: "w_tx w = None" and ok: "db_ok (w_pool w)"
  shows "w_tx (serveAddress E c req w) = None \<and> db_ok (w_pool (serveAddress E c req w))"
proof -
  have "on_dbs db_ok w" "no_tx w" using w ok by (simp_all add: on_dbs_def no_tx_def)
  then have "on_dbs db_ok (serveAddress E c req w)" "no_tx (serveAddress E c req w)"
    using address_service_db_ok address_service_no_tx [OF c] unfolding preserves_def by (cases req; simp)+
  then show ?thesis by (simp add: on_dbs_def no_tx_def)
qed

text \<open>
  C16: address books are isolated: whatever requests other users make, in any number and order and
  with any failures of the database on the way, the addresses of a user stay exactly as they were.
\<close>

theorem address_books_isolated:
  assumes "\<not> ctx_tx c" and "w_tx w = None" and "db_ok (w_pool w)" and "\<forall>req \<in> set reqs. requestedBy req \<noteq> v"
  shows "addressBook v (w_pool (fold (serveAddress E c) reqs w)) = addressBook v (w_pool w)"
  using assms
proof (induction reqs arbitrary: w)
  case (Cons req reqs)
  note inv = serveAddress_inv [OF Cons.prems(1-3), of E req]
  have "addressBook v (w_pool (fold (serveAddress E c) reqs (serveAddress E c req w)))
      = addressBook v (w_pool (serveAddress E c req w))"
    using Cons.IH [of "serveAddress E c req w"] inv Cons.prems(1,4) by simp
  also have "\<dots> = addressBook v (w_pool w)" using serveAddress_isolated [OF Cons.prems(1-3)] Cons.prems(4) by simp
  finally show ?case by simp
qed simp


end
