(* ===== verification/Profile_Service.thy ===== *)
theory Profile_Service
  imports Auth_Passwords
begin

text \<open>
  The profile service (\<^verbatim>\<open>internal/modules/identity/app/service/profile_service.go\<close>): the read models of
  a user, and the revocation of sessions and devices.
\<close>

definition GetMe :: "env \<Rightarrow> ctx \<Rightarrow> int \<Rightarrow> MeView io" where
  "GetMe E c userID = QueryRepository_GetMe E c userID"

definition ListSessions :: "env \<Rightarrow> ctx \<Rightarrow> int \<Rightarrow> SessionView list io" where
  "ListSessions E c userID = QueryRepository_ListSessions E c userID"

definition ListDevices :: "env \<Rightarrow> ctx \<Rightarrow> int \<Rightarrow> DeviceView list io" where
  "ListDevices E c userID = QueryRepository_ListDevices E c userID"

definition ListAddresses :: "env \<Rightarrow> ctx \<Rightarrow> int \<Rightarrow> AddressView list io" where
  "ListAddresses E c userID = QueryRepository_ListAddresses E c userID"

definition RevokeAllSessions :: "env \<Rightarrow> ctx \<Rightarrow> int \<Rightarrow> unit io" where
  "RevokeAllSessions E c userID = andThen (Now E) (\<lambda>now. SessionRepository_RevokeAllByUserID E c userID now)"

definition revokeDeviceTx :: "env \<Rightarrow> int \<Rightarrow> int \<Rightarrow> time \<Rightarrow> ctx \<Rightarrow> unit io" where
  "revokeDeviceTx E userID deviceID now txCtx =
     andThen (DeviceRepository_Revoke E txCtx deviceID now) (\<lambda>_.
     SessionRepository_RevokeAllByUserID E txCtx userID now)"

definition RevokeDevice :: "env \<Rightarrow> ctx \<Rightarrow> int \<Rightarrow> int \<Rightarrow> unit io" where
  "RevokeDevice E c userID deviceID =
     andThen (DeviceRepository_GetByID E c deviceID) (\<lambda>device.
     andThen (lift (Device_AssertOwnership userID device)) (\<lambda>_.
     andThen (Now E) (\<lambda>now.
     txManager E c (revokeDeviceTx E userID deviceID now))))"

section \<open>Invariants\<close>

lemma revokeDeviceTx_db_ok [pres]: "preserves (on_dbs db_ok) (revokeDeviceTx E u i now c)"
  unfolding revokeDeviceTx_def by (intro pres)

lemma revokeDeviceTx_local: "ctx_tx c \<Longrightarrow> tx_local (revokeDeviceTx E u i now c)"
  unfolding revokeDeviceTx_def by (intro tx_localI pres)

lemma profile_service_db_ok [pres]:
  "preserves (on_dbs db_ok) (GetMe E c u)" "preserves (on_dbs db_ok) (ListSessions E c u)"
  "preserves (on_dbs db_ok) (ListDevices E c u)" "preserves (on_dbs db_ok) (ListAddresses E c u)"
  "preserves (on_dbs db_ok) (RevokeAllSessions E c u)" "preserves (on_dbs db_ok) (RevokeDevice E c u i)"
  unfolding GetMe_def ListSessions_def ListDevices_def ListAddresses_def RevokeAllSessions_def RevokeDevice_def
  by (intro pres)+

lemma profile_service_no_tx:
  assumes "\<not> ctx_tx c"
  shows "preserves no_tx (GetMe E c u)" "preserves no_tx (ListSessions E c u)" "preserves no_tx (ListDevices E c u)"
    "preserves no_tx (ListAddresses E c u)" "preserves no_tx (RevokeAllSessions E c u)" "preserves no_tx (RevokeDevice E c u i)"
  unfolding GetMe_def ListSessions_def ListDevices_def ListAddresses_def RevokeAllSessions_def RevokeDevice_def
  unfolding repo_defs by (intro pres assms)+

section \<open>Revoking a device\<close>

text \<open>
  The database after device \<open>i\<close> was revoked at \<open>at\<close>: the device carries its first revocation, and
  every session of the user that was neither revoked nor expired is stamped; nothing else changed.
\<close>

definition retiredRow :: "time \<Rightarrow> time \<Rightarrow> deviceRow \<Rightarrow> deviceRow" where
  "retiredRow at t r = r\<lparr>dr_RevokedAt := (case dr_RevokedAt r of None \<Rightarrow> Some at | Some x \<Rightarrow> Some x), dr_UpdatedAt := t\<rparr>"

definition deviceRevoked :: "int \<Rightarrow> int \<Rightarrow> time \<Rightarrow> time \<Rightarrow> time \<Rightarrow> time \<Rightarrow> db \<Rightarrow> db \<Rightarrow> bool" where
  "deviceRevoked uid i at now t t' d d' \<longleftrightarrow>
     d' = d\<lparr>t_devices := update_where (\<lambda>r. dr_ID r = i) (retiredRow at t) (t_devices d),
            t_sessions := stamped uid at now t' (t_sessions d)\<rparr>"

lemma revokeDeviceTx_post:
  assumes c: "ctx_tx c" and d: "w_tx w = Some d" and run: "revokeDeviceTx E uid i at c w = (Inr (), w3)"
  shows "\<exists>now t t' d'. w_tx w3 = Some d' \<and> deviceRevoked uid i at now t t' d d'"
proof -
  from run obtain n w1 m where dev: "pg E c (queryRevokeDevice i at) w = (Inr n, w1)"
    and ses: "pg E c (queryRevokeAllByUserID uid at (env_now E (w_n w1))) (w1\<lparr>w_n := Suc (w_n w1)\<rparr>) = (Inr m, w3)"
    by (auto simp: revokeDeviceTx_def DeviceRepository_Revoke_def SessionRepository_RevokeAllByUserID_def run_Inr)
  from pg_tx_InrD [OF c d dev] have w1: "w_tx w1 = Some (d\<lparr>t_devices := update_where (\<lambda>r. dr_ID r = i)
      (retiredRow at (env_now E (w_n w))) (t_devices d)\<rparr>)"
    by (auto simp: queryRevokeDevice_def Let_def retiredRow_def [abs_def])
  from pg_tx_InrD [OF c _ ses] w1 queryRevokeAllByUserID_InrD show ?thesis
    unfolding deviceRevoked_def by fastforce
qed

text \<open>
  Revoking a device is all or nothing: either the tables are as they were and the call failed,
  or the device belongs to the caller, it is revoked, and every unexpired session of the user is
  revoked with it (not only those of that device).
\<close>

theorem RevokeDevice_all_or_nothing:
  assumes "\<not> ctx_tx c" and "w_tx w = None" and "RevokeDevice E c uid i w = (r, w')"
  shows "same_tables (w_pool w) (w_pool w') \<and> isl r \<or>
     ((\<exists>dv \<in> set (t_devices (w_pool w)). dr_ID dv = i \<and> dr_UserID dv = uid)
      \<and> (\<exists>at now t t'. deviceRevoked uid i at now t t' (w_pool w) (w_pool w'))
      \<and> (r = Inr () \<or> (\<exists>e. r = Inl e \<and> errorsIs e TxErrCommitFailed)))"
proof -
  obtain r1 w1 where get: "DeviceRepository_GetByID E c i w = (r1, w1)" by fastforce
  then have still: "still w w1" by (rule still_preserves [OF reads_still(8)])
  note w1 = still_fields [OF still]
  consider (refused) "isl r" "w' = w1"
    | (owned) dv where "r1 = Inr dv" "Device_AssertOwnership uid dv = Inr ()"
        "txManager E c (revokeDeviceTx E uid i (env_now E (w_n w1))) (w1\<lparr>w_n := Suc (w_n w1)\<rparr>) = (r, w')"
    using assms(3) get by (cases r1)
      (auto simp: RevokeDevice_def andThen_def fail_def ok_def Device_AssertOwnership_def split: if_splits)
  then show ?thesis
  proof cases
    case owned
    from get owned(1) obtain row where "find (\<lambda>x. dr_ID x = i) (t_devices (w_pool w)) = Some row" and dv: "dv = mapDeviceRowToEntity row"
      by (auto simp: DeviceRepository_GetByID_def run_Inr queryGetDeviceByID_def dest!: selectOne_pool [OF assms(1)])
    then have "row \<in> set (t_devices (w_pool w)) \<and> dr_ID row = i \<and> dr_UserID row = uid"
      using owned(2) by (auto simp: Device_AssertOwnership_def mapDeviceRowToEntity_def dest: find_SomeD split: if_splits)
    moreover
    let ?w = "w1\<lparr>w_n := Suc (w_n w1)\<rparr>" and ?at = "env_now E (w_n w1)"
    have "\<exists>now t t'. deviceRevoked uid i ?at now t t' (w_pool ?w) d"
      if "revokeDeviceTx E uid i ?at (WithTx c) (in_tx ?w) = (Inr x, w3)" "w_tx w3 = Some d" for x w3 d
    proof -
      have "revokeDeviceTx E uid i ?at (WithTx c) (in_tx ?w) = (Inr (), w3)" using that(1) by simp
      from revokeDeviceTx_post [OF ctx_tx_WithTx _ this, of "w_pool ?w"] that(2) show ?thesis by (auto simp: in_tx_def)
    qed
    from tm.all_or_nothing [OF assms(1) _ revokeDeviceTx_local [OF ctx_tx_WithTx] owned(3),
        where Q = "\<lambda>x d d'. \<exists>now t t'. deviceRevoked uid i ?at now t t' d d'", OF _ this] w1 assms(2)
    have "same_tables (w_pool w) (w_pool w') \<and> isl r \<or>
       ((\<exists>now t t'. deviceRevoked uid i ?at now t t' (w_pool w) (w_pool w'))
        \<and> (r = Inr () \<or> (\<exists>e. r = Inl e \<and> errorsIs e TxErrCommitFailed)))"
      by simp
    ultimately show ?thesis by blast
  qed (use w1 in simp)
qed


end
