(* ===== verification/Samples.thy ===== *)
theory Samples
  imports Auth_Passwords Address_Service Profile_Service
begin

text \<open>
  A concrete environment and concrete states: Redis and PostgreSQL that never fail, a clock that
  advances one second with every interaction, and simple functions in place of the hash, password
  and signature libraries that satisfy what is documented of them. The witnesses of the properties
  run the model on them.
\<close>

definition sampleSign :: "string \<Rightarrow> json \<Rightarrow> gerror + string" where
  "sampleSign secret claims = Inr (case claims of
     JObj fs \<Rightarrow> (case jfield ''jti'' fs of Some (JStr s) \<Rightarrow> s | _ \<Rightarrow> '''')
   | _ \<Rightarrow> '''')"

definition sampleEnv :: env where
  "sampleEnv = \<lparr>env_now = (\<lambda>n. int n), env_rand = (\<lambda>n. Inr (showNat n)), env_uuid = (\<lambda>n. CHR ''u'' # showNat n),
     env_timeString = (\<lambda>t. FormatInt t), env_float64 = (\<lambda>i. i), env_toLower = (\<lambda>s. s),
     env_isUpper = (\<lambda>_. False), env_isLower = (\<lambda>_. False), env_isDigit = (\<lambda>_. False),
     env_parseAddress = (\<lambda>s. CHR ''@'' \<in> set s), env_sha256 = (\<lambda>s. s),
     env_bcryptGenerate = (\<lambda>n pw c. if 72 < length pw then Inl (External ''bcrypt: password too long'') else Inr pw),
     env_bcryptCompare = (\<lambda>h pw. if pw = h then None else Some (External ''bcrypt: mismatch'')),
     env_jwtSign = sampleSign, env_jwtDecode = (\<lambda>_. Inl (External ''token is malformed'')),
     env_jwtVerify = (\<lambda>_ _ _. Some (External ''token is malformed'')),
     env_redis = (\<lambda>n cmd ks. redis_ref (int n) cmd ks), env_pg = (\<lambda>_. NoFault),
     env_kafkaWrite = (\<lambda>n ms. if \<exists>m \<in> set ms. km_Topic m = '''' then ([], Some (External ''kafka: no topic'')) else (ms, None))\<rparr>"

lemma sampleEnv_documented [simp]:
  "redis_up sampleEnv" "pg_up sampleEnv" "clock_monotonic sampleEnv" "bcrypt_documented sampleEnv"
  "kafka_documented sampleEnv" "float64_documented sampleEnv" "redis_documented sampleEnv"
  by (auto simp: env_hyps sampleEnv_def)

definition sampleService :: AuthService where
  "sampleService = NewAuthService \<lparr>jwt_Secret = ''s'', jwt_AccessTokenTTL = 15 * Minute, jwt_RefreshTokenTTL = 24 * Hour,
     jwt_Issuer = '''', jwt_BcryptCost = 10\<rparr> ProvideRegisterPolicy ProvideDevicePolicy"

definition emptyWorld :: world where
  "emptyWorld = \<lparr>w_n = 0, w_pool = emptyDB, w_tx = None, w_redis = (\<lambda>_. None), w_kafka = [], w_bg = []\<rparr>"

definition registerCmd :: RegisterCommand where
  "registerCmd = \<lparr>rc_Email = ''a@b'', rc_Password = ''Secret12'', rc_FullName = ''A'', rc_Phone = None\<rparr>"

lemma emptyWorld_simps [simp]: "w_tx emptyWorld = None" "w_pool emptyWorld = emptyDB" "w_n emptyWorld = 0"
  by (simp_all add: emptyWorld_def)

lemma Background_no_tx [simp]: "\<not> ctx_tx Background"
  by (simp add: Background_def)

section \<open>A populated database\<close>

definition sampleUser :: "int \<Rightarrow> string \<Rightarrow> string \<Rightarrow> userRow" where
  "sampleUser i email status = \<lparr>ur_ID = i, ur_Email = email, ur_FullName = ''A'', ur_Phone = None, ur_UserType = ''customer'',
     ur_Status = status, ur_EmailVerifiedAt = None, ur_LastLoginAt = None, ur_LockedReason = None, ur_Metadata = JNull,
     ur_Version = 1, ur_CreatedAt = 0, ur_UpdatedAt = 0\<rparr>"

definition sampleDevice :: "int \<Rightarrow> string \<Rightarrow> deviceRow" where
  "sampleDevice i f = \<lparr>dr_ID = i, dr_UserID = 1, dr_Fingerprint = f, dr_Label = ''l'', dr_FirstSeenAt = 0, dr_LastSeenAt = 0,
     dr_RevokedAt = None, dr_RevokedReason = None, dr_Metadata = JNull, dr_CreatedAt = 0, dr_UpdatedAt = 0\<rparr>"

definition sampleSession :: "int \<Rightarrow> int \<Rightarrow> string \<Rightarrow> sessionRow" where
  "sampleSession i dev tok = \<lparr>sr_ID = i, sr_UserID = 1, sr_DeviceID = dev, sr_RefreshTokenHash = HashToken sampleEnv tok,
     sr_SessionStatus = ''active'', sr_ExpiredAt = 1000, sr_IPAddress = None, sr_UserAgent = '''', sr_LastSeenAt = 0,
     sr_RevokedAt = None, sr_RevokedReason = None, sr_CreatedAt = 0, sr_UpdatedAt = 0\<rparr>"

definition sampleAddress :: addressRow where
  "sampleAddress = \<lparr>ar_ID = 1, ar_UserID = 2, ar_RecipientName = ''B'', ar_RecipientPhone = ''1'', ar_Line1 = ''l'', ar_Line2 = '''',
     ar_Province = ''p'', ar_District = ''d'', ar_Ward = ''w'', ar_PostalCode = ''1'', ar_CountryCode = ''VN'',
     ar_IsDefault = True, ar_Version = 1, ar_CreatedAt = 0, ar_UpdatedAt = 0\<rparr>"

definition sampleCredential :: credentialRow where
  "sampleCredential = \<lparr>cr_UserID = 1, cr_PasswordHash = ''Secret12'', cr_PasswordAlgo = ''bcrypt'', cr_PasswordChangedAt = 0,
     cr_FailedLoginCount = 0, cr_LastFailedLoginAt = None\<rparr>"

definition sampleDB :: db where
  "sampleDB = \<lparr>t_users = [sampleUser 1 ''a@b'' ''active'', sampleUser 2 ''c@d'' ''locked''], t_credentials = [sampleCredential],
     t_devices = [sampleDevice 1 ''f'', sampleDevice 2 ''g''],
     t_sessions = [sampleSession 1 1 ''x'', sampleSession 2 2 ''y''], t_addresses = [sampleAddress],
     t_outbox = [], t_processed = [],
     db_seq = \<lparr>seq_users = 2, seq_devices = 2, seq_sessions = 2, seq_addresses = 1, seq_outbox = 0\<rparr>\<rparr>"

text \<open>User 1 has two sessions, the second in the cache; user 2 is locked and has a verification token.\<close>

definition sampleRedis :: keyspace where
  "sampleRedis = (\<lambda>_. None)
     (sessionPrefix @ HashToken sampleEnv ''y'' \<mapsto> (RJson (marshalSession (mapSessionRowToEntity (sampleSession 2 2 ''y''))), Some 1000),
      emailVerifyPrefix @ ''v'' \<mapsto> (RText (FormatInt 2), Some 1000))"

definition sampleWorld :: world where
  "sampleWorld = \<lparr>w_n = 0, w_pool = sampleDB, w_tx = None, w_redis = sampleRedis, w_kafka = [], w_bg = []\<rparr>"

lemma sampleWorld_simps [simp]:
  "w_tx sampleWorld = None" "w_pool sampleWorld = sampleDB" "w_n sampleWorld = 0" "w_redis sampleWorld = sampleRedis"
  by (simp_all add: sampleWorld_def)

lemma sampleEnv_now [simp]: "env_now sampleEnv n = int n"
  by (simp add: sampleEnv_def)

lemma sampleDB_tables:
  "t_users sampleDB = [sampleUser 1 ''a@b'' ''active'', sampleUser 2 ''c@d'' ''locked'']"
  "t_sessions sampleDB = [sampleSession 1 1 ''x'', sampleSession 2 2 ''y'']" "t_addresses sampleDB = [sampleAddress]"
  by (simp_all add: sampleDB_def)

lemma sampleDB_ok [simp]: "db_ok sampleDB"
  by code_simp

text \<open>Tokens are named after the identifier they carry, so no two interactions issue the same one.\<close>

lemma sampleEnv_canSign: "canSign sampleEnv s"
  by (simp add: canSign_def sampleEnv_def sampleSign_def)

lemma sampleEnv_issued: "issuedFrom sampleEnv s n tok \<Longrightarrow> \<exists>m. tok = CHR ''u'' # showNat m"
  by (auto simp: issuedFrom_def sampleEnv_def sampleSign_def marshalClaims_def jfield_def omitStr_def omitIntPtr_def
      split: option.splits if_splits)

section \<open>Outcomes of runs\<close>

lemma run_of: "fst p = Inr x \<Longrightarrow> p = (Inr x, snd p)"
  by (simp add: prod_eq_iff)

end
