(* ===== verification/Auth_Registration.thy ===== *)
theory Auth_Registration
  imports Auth_Service Identity_Runs
begin

text \<open>
  Registration and e-mail verification: what \<open>Register\<close> commits, that it commits all of it or
  nothing, and that the token it issues activates the account.
\<close>

section \<open>What a registration commits\<close>

definition registeredUser :: "int \<Rightarrow> Email \<Rightarrow> RegisterCommand \<Rightarrow> time \<Rightarrow> userRow" where
  "registeredUser uid email cmd t =
     \<lparr>ur_ID = uid, ur_Email = Email_String email, ur_FullName = TrimSpace (rc_FullName cmd),
      ur_Phone = normalizeOptionalString (rc_Phone cmd), ur_UserType = ''customer'', ur_Status = ''pending_verification'',
      ur_EmailVerifiedAt = None, ur_LastLoginAt = None, ur_LockedReason = None, ur_Metadata = JNull, ur_Version = 1,
      ur_CreatedAt = t, ur_UpdatedAt = t\<rparr>"

definition registeredCredential :: "int \<Rightarrow> string \<Rightarrow> time \<Rightarrow> credentialRow" where
  "registeredCredential uid hash t =
     \<lparr>cr_UserID = uid, cr_PasswordHash = hash, cr_PasswordAlgo = ''bcrypt'', cr_PasswordChangedAt = t,
      cr_FailedLoginCount = 0, cr_LastFailedLoginAt = None\<rparr>"

text \<open>
  The database after a registration: one user, one credential and one pending event more, all other
  tables as before; \<open>tok\<close> is the verification token in the event.
\<close>

definition registered :: "ctx \<Rightarrow> Email \<Rightarrow> RegisterCommand \<Rightarrow> string \<Rightarrow> int \<Rightarrow> string \<Rightarrow> db \<Rightarrow> db \<Rightarrow> bool" where
  "registered c email cmd hash uid tok d d' \<longleftrightarrow>
     (\<exists>t t0 t1 e s. d' = d\<lparr>t_users := t_users d @ [registeredUser uid email cmd t],
          t_credentials := t_credentials d @ [registeredCredential uid hash t0],
          t_outbox := t_outbox d @ [e], db_seq := s\<rparr>
        \<and> uid = seq_users (db_seq d) + 1 \<and> \<not> taken ur_Email (Email_String email) (t_users d)
        \<and> recordsEvent (userRegisteredEvent c \<lparr>urp_UserID = uid, urp_Email = Email_String email, urp_Token = tok\<rparr> t1) e)"

lemma registeredI:
  "d' = d\<lparr>t_users := t_users d @ [registeredUser uid email cmd t],
          t_credentials := t_credentials d @ [registeredCredential uid hash t0],
          t_outbox := t_outbox d @ [e], db_seq := s\<rparr> \<Longrightarrow>
   uid = seq_users (db_seq d) + 1 \<Longrightarrow> \<not> taken ur_Email (Email_String email) (t_users d) \<Longrightarrow>
   recordsEvent (userRegisteredEvent c \<lparr>urp_UserID = uid, urp_Email = Email_String email, urp_Token = tok\<rparr> t1) e \<Longrightarrow>
   registered c email cmd hash uid tok d d'"
  unfolding registered_def by blast

lemma queryInsertUser_InrD:
  "queryInsertUser em fn ph ut st va md ve t d = Inr (i, d') \<Longrightarrow>
     i = seq_users (db_seq d) + 1 \<and> \<not> taken ur_Email em (t_users d) \<and>
     d' = d\<lparr>t_users := t_users d @ [\<lparr>ur_ID = i, ur_Email = em, ur_FullName = fn, ur_Phone = ph, ur_UserType = ut,
              ur_Status = st, ur_EmailVerifiedAt = va, ur_LastLoginAt = None,
              ur_LockedReason = None, ur_Metadata = md, ur_Version = ve, ur_CreatedAt = t, ur_UpdatedAt = t\<rparr>],
            db_seq := (db_seq d)\<lparr>seq_users := i\<rparr>\<rparr>"
  by (auto simp: queryInsertUser_def Let_def split: if_splits)

lemma queryInsert_InrD:
  "queryInsert uid h al t0 n t1 t d = Inr (x, d') \<Longrightarrow>
     d' = d\<lparr>t_credentials := t_credentials d @ [\<lparr>cr_UserID = uid, cr_PasswordHash = h, cr_PasswordAlgo = al,
           cr_PasswordChangedAt = t0, cr_FailedLoginCount = n, cr_LastFailedLoginAt = t1\<rparr>]\<rparr>"
  by (auto simp: queryInsert_def split: if_splits)

lemma PublishUserRegistered_InrD:
  assumes "ctx_tx c" and "w_tx w = Some d" and "PublishUserRegistered E c p w = (Inr x, w')"
  shows "\<exists>t e s. w_tx w' = Some (d\<lparr>t_outbox := t_outbox d @ [e], db_seq := s\<rparr>) \<and> recordsEvent (userRegisteredEvent c p t) e"
proof -
  from assms(3) have "Record E c (userRegisteredEvent c p (env_now E (w_n w))) (w\<lparr>w_n := Suc (w_n w)\<rparr>) = (Inr (), w')"
    by (auto simp: PublishUserRegistered_def run_Inr split: if_splits)
  from Record_appends [OF assms(1) _ this] assms(2) show ?thesis by auto
qed

lemma registerTx_post:
  assumes c: "ctx_tx c" and d: "w_tx w = Some d" and E: "redis_documented E"
    and run: "registerTx E (newUser email cmd) (newCredential hash now) c w = (Inr u, w3)"
  shows "\<exists>tok d'. w_tx w3 = Some d' \<and> registered c email cmd hash (user_ID u) tok d d'
     \<and> user_Email u = email
     \<and> w_redis w3 = (w_redis w)(emailVerifyPrefix @ tok \<mapsto>
          (RText (FormatInt (user_ID u)), Some (env_now E (w_n w + 3) + emailVerifyTTL)))"
proof -
  from run obtain w1 w2 tok w4 where
    ins: "UserRepository_Insert E c (newUser email cmd) w = (Inr u, w1)"
    and cred: "CredentialRepository_Insert E c ((newCredential hash now)\<lparr>cred_UserID := user_ID u\<rparr>) w1 = (Inr (), w2)"
    and tok: "IssueVerifyToken E (user_ID u) w2 = (Inr tok, w4)"
    and pub: "PublishUserRegistered E c
        \<lparr>urp_UserID = user_ID u, urp_Email = Email_String (user_Email u), urp_Token = tok\<rparr> w4 = (Inr (), w3)"
    by (auto simp: registerTx_def run_Inr)
  from ins obtain i d1 where i: "queryInsertUser (Email_String email) (TrimSpace (rc_FullName cmd))
        (normalizeOptionalString (rc_Phone cmd)) UserTypeCustomer UserStatusPendingVerification None JNull 1
        (env_now E (w_n w)) d = Inr (i, d1)"
    and u: "u = (newUser email cmd)\<lparr>user_ID := i\<rparr>" and w1: "w1 = w\<lparr>w_n := Suc (w_n w), w_tx := Some d1\<rparr>"
    by (auto simp: UserRepository_Insert_def run_Inr newUser_def dest!: pg_tx_InrD [OF c d])
  from w1 have "w_tx w1 = Some d1" by simp
  from pg_tx_InrD [OF c this cred [unfolded CredentialRepository_Insert_def]] obtain d2 where
    cr: "queryInsert i hash PasswordAlgoBcrypt now 0 None (env_now E (w_n w1)) d1 = Inr ((), d2)"
    and w2: "w2 = w1\<lparr>w_n := Suc (w_n w1), w_tx := Some d2\<rparr>"
    by (auto simp: newCredential_def u)
  note w4 = IssueVerifyToken_InrD [OF E tok]
  from w4 w2 have "w_tx w4 = Some d2" by simp
  from PublishUserRegistered_InrD [OF c this pub] obtain t1 e s where
    w3: "w_tx w3 = Some (d2\<lparr>t_outbox := t_outbox d2 @ [e], db_seq := s\<rparr>)"
    and e: "recordsEvent (userRegisteredEvent c \<lparr>urp_UserID = i, urp_Email = Email_String email, urp_Token = tok\<rparr> t1) e"
    by (auto simp: u newUser_def)
  have "w_redis w3 = w_redis w4"
    using pub Record_frame by (fastforce simp: PublishUserRegistered_def run_Inr split: if_splits)
  moreover have "registered c email cmd hash i tok d (d2\<lparr>t_outbox := t_outbox d2 @ [e], db_seq := s\<rparr>)"
    by (rule registeredI [OF _ _ _ e, where t = "env_now E (w_n w)" and ?t0.0 = now])
      (use queryInsertUser_InrD [OF i] queryInsert_InrD [OF cr] in
        \<open>simp_all add: registeredUser_def registeredCredential_def status_defs entity_consts\<close>)
  ultimately show ?thesis
    using w3 w4 w2 w1 by (auto simp: u newUser_def numeral_eq_Suc)
qed

text \<open>Before its transaction a registration only reads.\<close>

lemma Register_prefix:
  assumes "Register E s c cmd w = (r, w')"
  obtains (refused) "isl r" "still w w'"
  | (tx) email n hash now w1 where "NewEmail E (rc_Email cmd) = Inr email"
      "ValidatePassword E (as_registerPolicy s) (rc_Password cmd) = Inr ()"
      "env_bcryptGenerate E n (rc_Password cmd) (jwt_BcryptCost (as_authManager s)) = Inr hash" "still w w1" "w_n w \<le> w_n w1"
      "andThen (txManager E c (registerTx E (newUser email cmd) (newCredential hash now))) (\<lambda>user.
         ok \<lparr>ro_UserID = user_ID user, ro_Email = Email_String (user_Email user), ro_Message = registerMessage\<rparr>) w1 = (r, w')"
proof (cases "NewEmail E (rc_Email cmd)")
  case (Inr email)
  show thesis
  proof (cases "ValidateRegistration E (as_registerPolicy s) email (rc_Password cmd)")
    case valid: (Inr u)
    then have pw: "ValidatePassword E (as_registerPolicy s) (rc_Password cmd) = Inr ()"
      by (auto simp: ValidateRegistration_def split: if_splits)
    obtain r1 w1 where ex: "UserRepository_ExistsByEmail E c email w = (r1, w1)" by fastforce
    have w1: "still w w1" using reads_still(3) ex by (rule still_preserves)
    obtain r2 w2 where hash: "HashPassword E (as_authManager s) (rc_Password cmd) w1 = (r2, w2)" by fastforce
    have w2: "still w w2" using auth_still(2) w1 hash by (rule preservesD)
    have n: "w_n w \<le> w_n w2"
      using ex hash by (auto simp: UserRepository_ExistsByEmail_def queryCheckExistEmail_def HashPassword_def
          GenerateFromPassword_def dest!: pg_query_world)
    show thesis
    proof (cases "r1 = Inr False \<and> \<not> isl r2")
      case True
      then obtain h where h: "r2 = Inr h" by (cases r2) auto
      show thesis
        by (rule tx [where ?w1.0 = "w2\<lparr>w_n := Suc (w_n w2)\<rparr>" and n = "w_n w1" and hash = h and email = email and now = "env_now E (w_n w2)"])
          (use assms Inr valid pw ex hash w2 n True h in \<open>auto simp: Register_def andThen_def HashPassword_def GenerateFromPassword_def\<close>)
    next
      case False
      then show thesis
        by (intro refused)
          (use assms Inr valid ex hash w1 w2 in \<open>auto simp: Register_def andThen_def fail_def split: sum.splits if_splits\<close>)
    qed
  qed (use assms Inr refused in \<open>auto simp: Register_def run_Inr\<close>)
qed (use assms refused in \<open>auto simp: Register_def run_Inr\<close>)

section \<open>Properties\<close>

text \<open>
  C1: registration is all or nothing. Whatever fails on the way, either no table changed and the
  caller gets an error, or the user, a credential with a bcrypt hash of the password and one
  pending event with the verification token were committed together, the token is in Redis, and
  the caller gets the new user's id (or the error of a commit whose answer was lost).
\<close>

theorem Register_all_or_nothing:
  assumes "\<not> ctx_tx c" and "w_tx w = None" and "redis_documented E" and "Register E s c cmd w = (r, w')"
  shows "same_tables (w_pool w) (w_pool w') \<and> isl r \<or>
     (\<exists>email n hash uid tok k. NewEmail E (rc_Email cmd) = Inr email
        \<and> ValidatePassword E (as_registerPolicy s) (rc_Password cmd) = Inr ()
        \<and> env_bcryptGenerate E n (rc_Password cmd) (jwt_BcryptCost (as_authManager s)) = Inr hash
        \<and> registered (WithTx c) email cmd hash uid tok (w_pool w) (w_pool w')
        \<and> w_n w \<le> k \<and> w_redis w' = (w_redis w)(emailVerifyPrefix @ tok \<mapsto>
             (RText (FormatInt uid), Some (env_now E k + emailVerifyTTL)))
        \<and> (r = Inr \<lparr>ro_UserID = uid, ro_Email = Email_String email, ro_Message = registerMessage\<rparr>
           \<or> (\<exists>e. r = Inl e \<and> errorsIs e TxErrCommitFailed)))"
  using assms(4)
proof (cases rule: Register_prefix)
  case refused
  then show ?thesis using still_fields [of w w'] by simp
next
  case (tx email n hash now w1)
  let ?f = "registerTx E (newUser email cmd) (newCredential hash now)"
  note w1 = still_fields [OF tx(4)]
  then have notx: "w_tx w1 = None" using assms(2) by simp
  obtain r2 w2 where run: "txManager E c ?f w1 = (r2, w2)" by fastforce
  with tx(6) have w': "w' = w2" and r: "r = (case r2 of Inl e \<Rightarrow> Inl e | Inr user \<Rightarrow>
      Inr \<lparr>ro_UserID = user_ID user, ro_Email = Email_String (user_Email user), ro_Message = registerMessage\<rparr>)"
    by (auto simp: andThen_def ok_def split: sum.splits)
  from tm.within_atomic [OF assms(1) notx auth_tx_local(1) [OF ctx_tx_WithTx] run]
  consider (same) "same_tables (w_pool w1) (w_pool w2)" "isl r2"
    | (finished) u w3 where "?f (WithTx c) (in_tx w1) = (Inr u, w3)" "committed w3 w2"
        "r2 = Inr u \<or> (\<exists>e. r2 = Inl e \<and> errorsIs e TxErrCommitFailed)" by blast
  then show ?thesis
  proof cases
    case same
    then show ?thesis using w1 w' r by (cases r2) auto
  next
    case finished
    from registerTx_post [OF ctx_tx_WithTx _ assms(3) finished(1), of "w_pool w1"] obtain tok where
      reg: "registered (WithTx c) email cmd hash (user_ID u) tok (w_pool w) (w_pool w')" and u: "user_Email u = email"
      and ks: "w_redis w' = (w_redis w)(emailVerifyPrefix @ tok \<mapsto>
          (RText (FormatInt (user_ID u)), Some (env_now E (Suc (w_n w1) + 3) + emailVerifyTTL)))"
      using finished(2) w1 w' by (auto simp: in_tx_def committed_def)
    have "r = Inr \<lparr>ro_UserID = user_ID u, ro_Email = Email_String email, ro_Message = registerMessage\<rparr>
        \<or> (\<exists>e. r = Inl e \<and> errorsIs e TxErrCommitFailed)"
      using finished(3) r u by auto
    moreover have "w_n w \<le> Suc (w_n w1) + 3" using tx(5) by simp
    ultimately show ?thesis using reg ks tx(1-3) by blast
  qed
qed

text \<open>
  An e-mail address that is already registered is refused with \<open>ErrEmailAlreadyExist\<close> before
  anything is hashed, stored or published.
\<close>

theorem Register_duplicate_email:
  assumes "pg_up E" and "\<not> ctx_tx c" and "NewEmail E (rc_Email cmd) = Inr email"
    and "ValidateRegistration E (as_registerPolicy s) email (rc_Password cmd) = Inr ()"
    and "taken ur_Email (Email_String email) (t_users (w_pool w))"
  shows "Register E s c cmd w = (Inl (DomainErr ErrEmailAlreadyExist), w\<lparr>w_n := Suc (w_n w)\<rparr>)"
  using assms
  by (simp add: Register_def UserRepository_ExistsByEmail_def queryCheckExistEmail_def andThen_def fail_def
      pg_pool query_def pg_up_def)

section \<open>Verification\<close>

lemma ParseVerifyToken_live:
  assumes "redis_up E" and "w_redis w (emailVerifyPrefix @ tok) = Some (RText (FormatInt uid), Some e)"
    and "env_now E (w_n w) < e" and "0 \<le> uid" and "uid \<le> int64_max"
  shows "ParseVerifyToken E tok w =
     (Inr uid, w\<lparr>w_n := Suc (w_n w), w_redis := (w_redis w)(emailVerifyPrefix @ tok := None)\<rparr>)"
proof -
  have "ParseInt (FormatInt uid) = (uid, None)" using assms(4,5) by (intro ParseInt_FormatInt) (simp_all add: int64_max_def)
  then show ?thesis
    using assms
    by (simp add: ParseVerifyToken_def redisVal_def redis_up_run redis_ref_GETDEL live_def andThen_def mapErr_def
        ok_def lift_def parseUserID_def)
qed

text \<open>The row of a user whose address was verified at a given time.\<close>

definition verifiedUser :: "time \<Rightarrow> time \<Rightarrow> userRow \<Rightarrow> userRow" where
  "verifiedUser at t u = u\<lparr>ur_EmailVerifiedAt := Some at, ur_Status := ''active'', ur_Version := ur_Version u + 1, ur_UpdatedAt := t\<rparr>"

lemma VerifyEmail_run:
  assumes "redis_up E" and "pg_up E" and "\<not> ctx_tx c"
    and "w_redis w (emailVerifyPrefix @ tok) = Some (RText (FormatInt uid), Some e)" and "env_now E (w_n w) < e"
    and "0 \<le> uid" and "uid \<le> int64_max"
    and "u \<in> set (t_users (w_pool w))" and "ur_ID u = uid" and "ur_EmailVerifiedAt u = None"
  shows "\<exists>w'. VerifyEmail E c \<lparr>ve_Token = tok\<rparr> w = (Inr (), w')
     \<and> t_users (w_pool w') = update_where (\<lambda>u. ur_ID u = uid \<and> ur_EmailVerifiedAt u = None)
          (verifiedUser (env_now E (w_n w + 1)) (env_now E (w_n w + 2))) (t_users (w_pool w))
     \<and> w_redis w' (emailVerifyPrefix @ tok) = None"
proof -
  have "rows_affected (\<lambda>u. ur_ID u = uid \<and> ur_EmailVerifiedAt u = None) (t_users (w_pool w)) \<noteq> 0"
    using assms(8-10) by (auto simp: rows_affected_0)
  then show ?thesis
    using assms(2,3) ParseVerifyToken_live [OF assms(1,4-7)]
    by (simp add: VerifyEmail_def UserRepository_MarkEmailVerified_def queryMarkEmailVerified_def andThen_def pg_pool
        pg_up_def Let_def ok_def verifiedUser_def [abs_def] numeral_eq_Suc)
qed

text \<open>
  C13: the token of a registration activates the account: within 24 hours of the registration, with
  Redis and the database up, \<open>VerifyEmail\<close> with the token of the recorded event succeeds, marks the
  new user's address as verified, makes the account active and uses the token up.
\<close>

theorem Register_then_VerifyEmail:
  assumes "redis_up E" and "pg_up E" and "clock_monotonic E" and "\<not> ctx_tx c" and "w_tx w = None"
    and "0 \<le> seq_users (db_seq (w_pool w))" and "seq_users (db_seq (w_pool w)) < int64_max"
    and "Register E s c cmd w = (Inr out, w1)" and "env_now E n < env_now E (w_n w) + emailVerifyTTL"
  shows "\<exists>tok e t w2. t_outbox (w_pool w1) = t_outbox (w_pool w) @ [e]
     \<and> recordsEvent (userRegisteredEvent (WithTx c)
          \<lparr>urp_UserID = ro_UserID out, urp_Email = ro_Email out, urp_Token = tok\<rparr> t) e
     \<and> VerifyEmail E c \<lparr>ve_Token = tok\<rparr> (w1\<lparr>w_n := n\<rparr>) = (Inr (), w2)
     \<and> w_redis w2 (emailVerifyPrefix @ tok) = None
     \<and> (\<exists>u \<in> set (t_users (w_pool w2)). ur_ID u = ro_UserID out \<and> ur_Email u = ro_Email out
          \<and> ur_EmailVerifiedAt u = Some (env_now E (n + 1)) \<and> UserStatus_CanLogin (ur_Status u))"
proof -
  from Register_all_or_nothing [OF assms(4,5) redis_up_documented [OF assms(1)] assms(8)]
  obtain email hash uid tok k where reg: "registered (WithTx c) email cmd hash uid tok (w_pool w) (w_pool w1)"
    and k: "w_n w \<le> k" and ks: "w_redis w1 = (w_redis w)(emailVerifyPrefix @ tok \<mapsto>
          (RText (FormatInt uid), Some (env_now E k + emailVerifyTTL)))"
    and out: "out = \<lparr>ro_UserID = uid, ro_Email = Email_String email, ro_Message = registerMessage\<rparr>"
    by auto
  from reg obtain t t1 e where users: "t_users (w_pool w1) = t_users (w_pool w) @ [registeredUser uid email cmd t]"
    and ob: "t_outbox (w_pool w1) = t_outbox (w_pool w) @ [e]" and uid: "uid = seq_users (db_seq (w_pool w)) + 1"
    and e: "recordsEvent (userRegisteredEvent (WithTx c) \<lparr>urp_UserID = uid, urp_Email = Email_String email, urp_Token = tok\<rparr> t1) e"
    unfolding registered_def by auto
  let ?u = "registeredUser uid email cmd t" and ?w = "w1\<lparr>w_n := n\<rparr>"
  have u: "?u \<in> set (t_users (w_pool ?w))" "ur_ID ?u = uid" "ur_EmailVerifiedAt ?u = None" "ur_Email ?u = Email_String email"
    by (simp_all add: users registeredUser_def)
  have live: "w_redis ?w (emailVerifyPrefix @ tok) = Some (RText (FormatInt uid), Some (env_now E k + emailVerifyTTL))"
    "env_now E (w_n ?w) < env_now E k + emailVerifyTTL"
    using ks k assms(3,9) by (auto simp: clock_monotonic_def intro: less_le_trans)
  have "0 \<le> uid" "uid \<le> int64_max" using assms(6,7) uid by simp_all
  from VerifyEmail_run [OF assms(1,2,4) live this u(1-3)] obtain w2 where
    v: "VerifyEmail E c \<lparr>ve_Token = tok\<rparr> ?w = (Inr (), w2)" "w_redis w2 (emailVerifyPrefix @ tok) = None"
    and users2: "t_users (w_pool w2) = update_where (\<lambda>u. ur_ID u = uid \<and> ur_EmailVerifiedAt u = None)
          (verifiedUser (env_now E (n + 1)) (env_now E (n + 2))) (t_users (w_pool w1))" by auto
  have "verifiedUser (env_now E (n + 1)) (env_now E (n + 2)) ?u \<in> set (t_users (w_pool w2))"
    unfolding users2 set_update_where using u by auto
  then have "\<exists>u \<in> set (t_users (w_pool w2)). ur_ID u = uid \<and> ur_Email u = Email_String email
          \<and> ur_EmailVerifiedAt u = Some (env_now E (n + 1)) \<and> UserStatus_CanLogin (ur_Status u)"
    using u by (intro bexI) (auto simp: verifiedUser_def UserStatus_CanLogin_def status_defs)
  with ob e v show ?thesis unfolding out by auto
qed

text \<open>
  C38: verification ignores the account's status: a locked account whose address was never verified
  becomes active, although the status machine of the domain has no transition out of \<open>locked\<close>.
\<close>

theorem VerifyEmail_reactivates_locked:
  assumes "redis_up E" and "pg_up E" and "\<not> ctx_tx c"
    and "w_redis w (emailVerifyPrefix @ tok) = Some (RText (FormatInt uid), Some e)" and "env_now E (w_n w) < e"
    and "0 \<le> uid" and "uid \<le> int64_max"
    and "u \<in> set (t_users (w_pool w))" and "ur_ID u = uid" and "ur_EmailVerifiedAt u = None"
    and "ur_Status u = UserStatusBanned"
  shows "(\<exists>w'. VerifyEmail E c \<lparr>ve_Token = tok\<rparr> w = (Inr (), w') \<and>
       (\<exists>u' \<in> set (t_users (w_pool w')). ur_ID u' = uid \<and> ur_Email u' = ur_Email u \<and> ur_Status u' = UserStatusActive))
     \<and> isl (UserStatus_CanTransitionTo (ur_Status u) UserStatusActive)"
proof -
  from VerifyEmail_run [OF assms(1-10)] obtain w' where
    v: "VerifyEmail E c \<lparr>ve_Token = tok\<rparr> w = (Inr (), w')"
    and us: "t_users (w_pool w') = update_where (\<lambda>u. ur_ID u = uid \<and> ur_EmailVerifiedAt u = None)
          (verifiedUser (env_now E (w_n w + 1)) (env_now E (w_n w + 2))) (t_users (w_pool w))" by blast
  let ?u = "verifiedUser (env_now E (w_n w + 1)) (env_now E (w_n w + 2)) u"
  have "?u \<in> set (t_users (w_pool w'))" unfolding us set_update_where using assms(8-10) by auto
  moreover have "ur_ID ?u = uid \<and> ur_Email ?u = ur_Email u \<and> ur_Status ?u = UserStatusActive"
    using assms(9) by (simp add: verifiedUser_def status_defs)
  moreover have "isl (UserStatus_CanTransitionTo (ur_Status u) UserStatusActive)"
    using assms(11) CanTransitionTo_iff [of "ur_Status u" UserStatusActive]
    by (cases "UserStatus_CanTransitionTo (ur_Status u) UserStatusActive") (auto simp: status_defs)
  ultimately show ?thesis using v by blast
qed

end
