(* ===== verification/Auth_Login.thy ===== *)
theory Auth_Login
  imports Auth_Service Identity_Runs
begin

text \<open>
  Login: a success implies the right password of an active account and leaves a usable session for
  the device; failures before the device step change nothing; the limit on devices has no effect.
\<close>

section \<open>The steps of a login\<close>

lemma loginUser_InrD:
  assumes c: "\<not> ctx_tx c" and run: "loginUser E s c cmd w = (Inr user, w1)"
  shows "\<exists>email u cr. NewEmail E (lc_Email cmd) = Inr email
     \<and> u \<in> set (t_users (w_pool w)) \<and> ur_Email u = Email_String email \<and> ur_Status u = ''active''
     \<and> mapUserRowToEntity E u = Inr user
     \<and> cr \<in> set (t_credentials (w_pool w)) \<and> cr_UserID cr = ur_ID u
     \<and> env_bcryptCompare E (cr_PasswordHash cr) (lc_Password cmd) = None
     \<and> w1 = w\<lparr>w_n := w_n w + 2\<rparr>"
proof -
  from run obtain email u w0 cr where email: "NewEmail E (lc_Email cmd) = Inr email"
    and u: "pg E c (queryGetUserByEmail (Email_String email)) w = (Inr u, w0)" "mapUserRowToEntity E u = Inr user"
    and active: "UserStatus_CanLogin (user_Status user)"
    and cr: "pg E c (queryCredentialGetByUserID (user_ID user)) w0 = (Inr cr, w1)"
    and pw: "env_bcryptCompare E (cr_PasswordHash cr) (lc_Password cmd) = None"
    by (auto simp: loginUser_def UserRepository_GetByEmail_def CredentialRepository_GetByUserID_def run_Inr
        VerifyPassword_def mapCredentialRowToEntity_def split: if_splits option.splits)
  from u(2) active have "user_ID user = ur_ID u" "ur_Status u = ''active''"
    by (auto simp: mapUserRowToEntity_def UserStatus_CanLogin_def status_defs split: sum.splits)
  with selectOne_pool [OF c u(1) [unfolded queryGetUserByEmail_def]]
    selectOne_pool [OF c cr [unfolded queryCredentialGetByUserID_def]] email u(2) pw
  show ?thesis by (auto dest!: find_SomeD)
qed

lemma mapUserRowToEntity_InrD:
  "mapUserRowToEntity E u = Inr user \<Longrightarrow> user_ID user = ur_ID u \<and> user_Status user = ur_Status u"
  by (auto simp: mapUserRowToEntity_def split: sum.splits)

lemma queryUpsertDevice_InrD:
  assumes "queryUpsertDevice uid fp label first seen None t d = Inr ((i, f), d')"
  shows "(\<exists>ds q. d' = d\<lparr>t_devices := ds, db_seq := q\<rparr>)
     \<and> (\<exists>r \<in> set (t_devices d'). dr_ID r = i \<and> dr_UserID r = uid \<and> dr_Fingerprint r = fp \<and> dr_RevokedAt r = None)"
proof (cases "find (\<lambda>r. (dr_UserID r, dr_Fingerprint r) = (uid, fp)) (t_devices d)")
  case None
  then obtain r q where "d' = d\<lparr>db_seq := q, t_devices := t_devices d @ [r]\<rparr>"
    and "dr_ID r = i" "dr_UserID r = uid" "dr_Fingerprint r = fp" "dr_RevokedAt r = None"
    using assms by (auto simp: queryUpsertDevice_def Let_def split: if_splits)
  then show ?thesis by (cases d) auto
next
  case (Some r)
  let ?g = "\<lambda>r. r\<lparr>dr_Label := label, dr_LastSeenAt := seen, dr_RevokedAt := None, dr_UpdatedAt := t\<rparr>"
  have d': "d' = d\<lparr>db_seq := (db_seq d)\<lparr>seq_devices := seq_devices (db_seq d) + 1\<rparr>,
      t_devices := update_where (\<lambda>r. (dr_UserID r, dr_Fingerprint r) = (uid, fp)) ?g (t_devices d)\<rparr>" and i: "i = dr_ID r"
    using assms Some by (auto simp: queryUpsertDevice_def Let_def split: if_splits)
  have "?g r \<in> set (t_devices d')" using find_SomeD [OF Some] by (auto simp: d' set_update_where)
  then have "\<exists>r \<in> set (t_devices d'). dr_ID r = i \<and> dr_UserID r = uid \<and> dr_Fingerprint r = fp \<and> dr_RevokedAt r = None"
    using find_SomeD [OF Some] i by (intro bexI [of _ "?g r"]) auto
  moreover have "\<exists>ds q. d' = d\<lparr>t_devices := ds, db_seq := q\<rparr>" unfolding d' by (cases d) auto
  ultimately show ?thesis by blast
qed

lemma loginDevice_fields:
  "dev_UserID (loginDevice user cmd now x) = user_ID user" "dev_RevokedAt (loginDevice user cmd now x) = None"
  "dev_Fingerprint (loginDevice user cmd now x) = TrimSpace (lc_DeviceFingerprint cmd)"
  by (auto simp: loginDevice_def zeroDevice_def Let_def split: option.splits)

lemma registerDevice_InrD:
  assumes c: "\<not> ctx_tx c" and run: "registerDevice E s c cmd user now w = (Inr dev, w')"
  shows "(\<exists>ds q. w_pool w' = (w_pool w)\<lparr>t_devices := ds, db_seq := q\<rparr>) \<and> w_tx w' = w_tx w
     \<and> (\<exists>r \<in> set (t_devices (w_pool w')). dr_ID r = dev_ID dev \<and> dr_UserID r = user_ID user
          \<and> dr_Fingerprint r = TrimSpace (lc_DeviceFingerprint cmd) \<and> dr_RevokedAt r = None)"
proof -
  from run obtain ds w1 x w2 where
    l: "DeviceRepository_ListActiveByUserID E c (user_ID user) w = (Inr ds, w1)"
    and g: "DeviceRepository_GetByFingerprint E c (user_ID user) (TrimSpace (lc_DeviceFingerprint cmd)) w1 = (Inr x, w2)"
    and up: "DeviceRepository_Upsert E c (loginDevice user cmd now x) w2 = (Inr dev, w')"
    by (auto simp: registerDevice_def run_Inr split: if_splits)
  have "still w w1" using reads_still(10) l by (rule still_preserves)
  with reads_still(9) have w2: "still w w2" using g by (rule preservesD)
  from up obtain i f where pg: "pg E c (queryUpsertDevice (user_ID user) (TrimSpace (lc_DeviceFingerprint cmd))
      (dev_Label (loginDevice user cmd now x)) (dev_FirstSeenAt (loginDevice user cmd now x))
      (dev_LastSeenAt (loginDevice user cmd now x)) None) w2 = (Inr (i, f), w')" and dev: "dev_ID dev = i"
    by (auto simp: DeviceRepository_Upsert_def run_Inr loginDevice_fields split: prod.splits)
  from pg_pool_InrD [OF c pg] obtain d' where
    "queryUpsertDevice (user_ID user) (TrimSpace (lc_DeviceFingerprint cmd))
      (dev_Label (loginDevice user cmd now x)) (dev_FirstSeenAt (loginDevice user cmd now x))
      (dev_LastSeenAt (loginDevice user cmd now x)) None (env_now E (w_n w2)) (w_pool w2) = Inr ((i, f), d')"
    and w': "w' = w2\<lparr>w_n := Suc (w_n w2), w_pool := d'\<rparr>" by blast
  from queryUpsertDevice_InrD [OF this(1)] still_fields [OF w2] w' dev show ?thesis by auto
qed

lemma dropOldSession_pool:
  assumes "dropOldSession E c u i w = (r, w')"
  shows "w_pool w' = w_pool w \<and> w_tx w' = w_tx w"
proof -
  obtain r1 w1 where get: "SessionRepository_GetByDeviceID E c u i w = (r1, w1)" by fastforce
  have "still w w1" using reads_still(5) get by (rule still_preserves)
  with assms get still_fields [of w w1] show ?thesis
    by (auto simp: dropOldSession_def andThen_def attempt_def ok_def DeleteSession_def redisErr_def redis_def
        split: sum.splits prod.splits)
qed

lemma queryUpsertSession_InrD:
  assumes "queryUpsertSession uid did h st ex ip ag ls t d = Inr ((i, cr, up), d')"
  shows "(\<exists>ss q. d' = d\<lparr>t_sessions := ss, db_seq := q\<rparr>)
     \<and> (\<exists>r \<in> set (t_sessions d'). sr_ID r = i \<and> sr_UserID r = uid \<and> sr_DeviceID r = did \<and> sr_RefreshTokenHash r = h
          \<and> sr_SessionStatus r = st \<and> sr_ExpiredAt r = ex \<and> sr_RevokedAt r = None)"
proof (cases "find (\<lambda>s. (sr_UserID s, sr_DeviceID s) = (uid, did)) (t_sessions d)")
  case None
  with assms show ?thesis
    by (auto simp: queryUpsertSession_def queryInsertSession_def Let_def split: if_splits)
next
  case (Some r)
  let ?g = "\<lambda>s. s\<lparr>sr_RefreshTokenHash := h, sr_SessionStatus := st, sr_ExpiredAt := ex, sr_IPAddress := ip,
    sr_UserAgent := ag, sr_LastSeenAt := ls, sr_RevokedAt := None, sr_UpdatedAt := t\<rparr>"
  have d': "d' = d\<lparr>t_sessions := update_where (\<lambda>s. (sr_UserID s, sr_DeviceID s) = (uid, did)) ?g (t_sessions d),
      db_seq := (db_seq d)\<lparr>seq_sessions := seq_sessions (db_seq d) + 1\<rparr>\<rparr>" and i: "i = sr_ID r"
    using assms Some by (auto simp: queryUpsertSession_def Let_def split: if_splits)
  have "?g r \<in> set (t_sessions d')" using find_SomeD [OF Some] by (auto simp: d' set_update_where)
  then have "\<exists>r \<in> set (t_sessions d'). sr_ID r = i \<and> sr_UserID r = uid \<and> sr_DeviceID r = did \<and> sr_RefreshTokenHash r = h
          \<and> sr_SessionStatus r = st \<and> sr_ExpiredAt r = ex \<and> sr_RevokedAt r = None"
    using find_SomeD [OF Some] i by (intro bexI [of _ "?g r"]) auto
  with d' show ?thesis by blast
qed

text \<open>A login once its user is known: the device, the old session, the tokens, the new session.\<close>

lemma Login_steps:
  assumes "Login E s c cmd w = (Inr out, w')"
  obtains user w1 dev w2 r w3 w4 ses w5 w6 ac ex where
    "loginUser E s c cmd w = (Inr user, w1)"
    "registerDevice E s c cmd user (env_now E (w_n w1)) (w1\<lparr>w_n := Suc (w_n w1)\<rparr>) = (Inr dev, w2)"
    "dropOldSession E c (user_ID user) (dev_ID dev) w2 = (r, w3)"
    "GenerateRefreshToken E (as_authManager s) (user_ID user) (Email_String (user_Email user)) (user_UserType user)
        (FormatInt (dev_ID dev)) w3 = (Inr (lout_RefreshToken out), w4)"
    "SessionRepository_Upsert E c (loginSession E user (dev_ID dev) cmd (env_now E (w_n w1))
        (sessionTTL (as_devicePolicy s)) (lout_RefreshToken out)) w4 = (Inr ses, w5)"
    "GenerateAccessToken E (as_authManager s) (user_ID user) (Email_String (user_Email user)) (user_UserType user)
        (FormatInt (sess_ID ses)) (FormatInt (dev_ID dev)) w5 = (Inr (ac, ex), w6)"
    "w_pool w' = w_pool w6" "w_tx w' = w_tx w6" "lout_RefreshTokenExpiresAt out = sess_ExpiredAt ses"
    "lout_AccessToken out = ac" "lout_AccessTokenExpiresAt out = ex"
proof -
  from assms obtain user w1 dev w2 u w3 tok w4 ses w5 a w6 r where
    steps: "loginUser E s c cmd w = (Inr user, w1)"
    "registerDevice E s c cmd user (env_now E (w_n w1)) (w1\<lparr>w_n := Suc (w_n w1)\<rparr>) = (Inr dev, w2)"
    "dropOldSession E c (user_ID user) (dev_ID dev) w2 = (Inr u, w3)"
    "GenerateRefreshToken E (as_authManager s) (user_ID user) (Email_String (user_Email user)) (user_UserType user)
        (FormatInt (dev_ID dev)) w3 = (Inr tok, w4)"
    "SessionRepository_Upsert E c (loginSession E user (dev_ID dev) cmd (env_now E (w_n w1))
        (sessionTTL (as_devicePolicy s)) tok) w4 = (Inr ses, w5)"
    "GenerateAccessToken E (as_authManager s) (user_ID user) (Email_String (user_Email user)) (user_UserType user)
        (FormatInt (sess_ID ses)) (FormatInt (dev_ID dev)) w5 = (Inr a, w6)"
    and st: "StoreSession E (sess_RefreshTokenHash ses) ses (sessionTTL (as_devicePolicy s)) w6 = (r, w')"
    and out: "lout_RefreshToken out = tok" "lout_RefreshTokenExpiresAt out = sess_ExpiredAt ses"
      "lout_AccessToken out = fst a" "lout_AccessTokenExpiresAt out = snd a"
    by (auto simp: Login_def Let_def run_Inr split: prod.splits)
  from st have "w_pool w' = w_pool w6" "w_tx w' = w_tx w6"
    by (auto simp: StoreSession_def redisErr_def redis_def andThen_def ok_def split: prod.splits sum.splits)
  with steps out that show thesis by (cases a) auto
qed

text \<open>The new session's row, as \<open>Login\<close> stores it.\<close>

lemma loginSession_upsert:
  assumes c: "\<not> ctx_tx c"
    and up: "SessionRepository_Upsert E c (loginSession E user did cmd now ttl tok) w = (Inr ses, w')"
  shows "(\<exists>ss q. w_pool w' = (w_pool w)\<lparr>t_sessions := ss, db_seq := q\<rparr>) \<and> w_tx w' = w_tx w \<and> sess_ExpiredAt ses = now + ttl
     \<and> (\<exists>r \<in> set (t_sessions (w_pool w')). sr_ID r = sess_ID ses \<and> sr_UserID r = user_ID user \<and> sr_DeviceID r = did
          \<and> sr_RefreshTokenHash r = HashToken E tok \<and> sr_SessionStatus r = ''active'' \<and> sr_ExpiredAt r = now + ttl
          \<and> sr_RevokedAt r = None)"
proof -
  from up obtain x where
    pg: "pg E c (queryUpsertSession (user_ID user) did (HashToken E tok) ''active'' (now + ttl)
        (Some (lc_IPAddress cmd)) (lc_UserAgent cmd) now) w = (Inr x, w')"
    and ses: "sess_ID ses = fst x" "sess_ExpiredAt ses = now + ttl"
    by (auto simp: SessionRepository_Upsert_def loginSession_def zeroSession_def entity_consts run_Inr split: prod.splits)
  obtain i cr u where x: "x = (i, cr, u)" by (cases x)
  from pg_pool_InrD [OF c pg] obtain d' where
    "queryUpsertSession (user_ID user) did (HashToken E tok) ''active'' (now + ttl)
        (Some (lc_IPAddress cmd)) (lc_UserAgent cmd) now (env_now E (w_n w)) (w_pool w) = Inr ((i, cr, u), d')"
    and w': "w' = w\<lparr>w_n := Suc (w_n w), w_pool := d'\<rparr>" unfolding x by blast
  from queryUpsertSession_InrD [OF this(1)] w' ses x show ?thesis by auto
qed

section \<open>Properties\<close>



section \<open>The limit on devices\<close>

text \<open>
  C37: the limit on devices is never enforced: when the policy refuses a new device because the user
  has too many active ones, a login from an unknown fingerprint still registers it, because the
  repository answers an unknown fingerprint with an empty device instead of none; and the new row
  gets the zero time as its first-seen time.
\<close>

theorem device_limit_not_enforced:
  assumes "pg_up E" and "\<not> ctx_tx c" and "references (user_ID user) ur_ID (t_users (w_pool w))"
    and "varchar 255 (lc_DeviceLabel cmd)"
    and "\<forall>r \<in> set (t_devices (w_pool w)). \<not> (dr_UserID r = user_ID user \<and> dr_Fingerprint r = TrimSpace (lc_DeviceFingerprint cmd))"
    and "CanRegisterNewDevice (as_devicePolicy s)
       (map mapDeviceRowToEntity (filter (\<lambda>r. dr_UserID r = user_ID user \<and> dr_RevokedAt r = None) (t_devices (w_pool w))))
       = Inl (DomainErr ErrDeviceLimitReached)"
  shows "\<exists>dev w' r. registerDevice E s c cmd user now w = (Inr dev, w')
     \<and> t_devices (w_pool w') = t_devices (w_pool w) @ [r] \<and> dr_UserID r = user_ID user
     \<and> dr_Fingerprint r = TrimSpace (lc_DeviceFingerprint cmd) \<and> dr_RevokedAt r = None \<and> dr_FirstSeenAt r = zeroTime"
proof -
  let ?fp = "TrimSpace (lc_DeviceFingerprint cmd)"
  have none: "find (\<lambda>r. dr_UserID r = user_ID user \<and> dr_Fingerprint r = ?fp) (t_devices (w_pool w)) = None"
    using assms(5) by (simp add: find_None_iff)
  have l: "\<exists>ds. DeviceRepository_ListActiveByUserID E c (user_ID user) w = (Inr ds, w\<lparr>w_n := Suc (w_n w)\<rparr>)"
    using assms(1,2) by (simp add: DeviceRepository_ListActiveByUserID_def queryListActiveDeviceByUserID_def selectMany_def
        query_def pg_pool pg_up_def andThen_def attempt_def ok_def)
  have g: "DeviceRepository_GetByFingerprint E c (user_ID user) ?fp (w\<lparr>w_n := Suc (w_n w)\<rparr>) =
      (Inr (Some zeroDevice), w\<lparr>w_n := Suc (Suc (w_n w))\<rparr>)"
    using none by (simp add: DeviceRepository_GetByFingerprint_def queryGetDeviceByFingerprint_def
        selectOne_pool_run [OF assms(1,2)] andThen_def attempt_def ok_def)
  have "queryUpsertDevice (user_ID user) ?fp (lc_DeviceLabel cmd) zeroTime now None t (w_pool w) =
     Inr ((seq_devices (db_seq (w_pool w)) + 1, zeroTime), (w_pool w)\<lparr>db_seq := (db_seq (w_pool w))\<lparr>seq_devices := seq_devices (db_seq (w_pool w)) + 1\<rparr>,
       t_devices := t_devices (w_pool w) @ [\<lparr>dr_ID = seq_devices (db_seq (w_pool w)) + 1, dr_UserID = user_ID user, dr_Fingerprint = ?fp,
         dr_Label = lc_DeviceLabel cmd, dr_FirstSeenAt = zeroTime, dr_LastSeenAt = now, dr_RevokedAt = None,
         dr_RevokedReason = None, dr_Metadata = JObj [], dr_CreatedAt = t, dr_UpdatedAt = t\<rparr>]\<rparr>)" for t
    using none assms(3,4) by (simp add: queryUpsertDevice_def Let_def)
  with l g assms(1,2) show ?thesis
    by (auto simp: registerDevice_def DeviceRepository_Upsert_def andThen_def ok_def pg_pool pg_up_def loginDevice_def
        zeroDevice_def Let_def)
qed

end
