(* ===== verification/Identity_System.thy ===== *)
theory Identity_System
  imports Auth_Registration Auth_Login Auth_Passwords Address_Service Profile_Service
begin

text \<open>
  The identity module as a whole: a step relation over all requests to the services, the background
  jobs, the outbox dispatcher and the consumers, and invariants of every reachable state. An
  invariant of the tables is an interpretation of the locales below, which carry it through the
  services once.
\<close>

section \<open>Invariants of the tables\<close>

text \<open>
  What a predicate on databases owes to survive every service but registration and login: larger
  counters and each writing statement keep it.
\<close>

locale db_invariant =
  fixes P :: "db \<Rightarrow> bool"
  assumes P_seq: "P d \<Longrightarrow> P (d\<lparr>db_seq := seq_max (db_seq d) q\<rparr>)"
    and P_users: "stmt_preserves P (queryMarkEmailVerified t i)"
    and P_credentials: "stmt_preserves P (queryUpdatePasswordHash i h t)"
    and P_revoke: "stmt_preserves P (queryRevokeSession j t i)" "stmt_preserves P (queryRevokeAllByUserID i t t')"
      "stmt_preserves P (queryRevokeAllExcept i j t)"
    and P_rotate: "stmt_preserves P (queryUpdateSession i h t t')"
    and P_devices: "stmt_preserves P (queryUpsertDevice i h l t t' r)" "stmt_preserves P (queryRevokeDevice i t)"
    and P_addresses: "stmt_preserves P (queryInsertAddress a)" "stmt_preserves P (queryUpdateAddress a)"
      "stmt_preserves P (queryDeleteAddress i)" "stmt_preserves P (queryUnsetDefaultByUserID i)"
    and P_outbox: "stmt_preserves P (insertOutboxEvent e)" "stmt_preserves P (markPublishedEvent i t)"
      "stmt_preserves P (markFailedEvent i m)"
    and P_processed: "stmt_preserves P (insertProcessedEvent cn ev t md)"
begin

lemmas P_stmts = P_users P_credentials P_revoke P_rotate P_devices P_addresses P_outbox P_processed

lemma P_tx: "(\<And>c'. preserves (on_dbs P) (f c')) \<Longrightarrow> preserves (on_dbs P) (txManager E c f)"
  by (rule preserves_txManager) (simp_all add: P_seq)

lemma P_publishers:
  "preserves (on_dbs P) (PublishResetPasswordCompleted E c v)" "preserves (on_dbs P) (PublishResetPasswordRequested E c x)"
  unfolding PublishResetPasswordCompleted_def PublishResetPasswordRequested_def Record_def OutboxRepo_Insert_def
  by (intro pres preserves_pg P_outbox)+

lemma P_reads:
  "preserves (on_dbs P) (loginUser E s c lcmd)" "preserves (on_dbs P) (dropOldSession E c i j)"
  "preserves (on_dbs P) (findSession E c h)" "preserves (on_dbs P) (GetMe E c i)" "preserves (on_dbs P) (ListSessions E c i)"
  "preserves (on_dbs P) (ListDevices E c i)" "preserves (on_dbs P) (ListAddresses E c i)"
  unfolding auth_step_defs GetMe_def ListSessions_def ListDevices_def ListAddresses_def
  unfolding repo_defs unfolding read_query_defs unfolding selectOne_def selectMany_def
  by (intro pres preserves_pg)+

lemma P_registerDevice: "preserves (on_dbs P) (registerDevice E s c lcmd u t)"
  unfolding registerDevice_def unfolding repo_defs unfolding read_query_defs unfolding selectOne_def selectMany_def
  by (intro pres preserves_pg P_devices)

lemma P_goStoreSession: "preserves (on_dbs P) (goStoreSession h x ttl)"
  by (rule preserves_on_dbs_irrelevant) (simp add: goStoreSession_def)

lemma P_auth:
  "preserves (on_dbs P) (RefreshToken E s c tcmd)" "preserves (on_dbs P) (Logout E c ocmd)"
  "preserves (on_dbs P) (VerifyEmail E c vcmd)" "preserves (on_dbs P) (ChangePassword E s c ccmd)"
  "preserves (on_dbs P) (ForgotPassword E c fcmd)" "preserves (on_dbs P) (ResetPassword E s c pcmd)"
  unfolding RefreshToken_def Logout_def VerifyEmail_def ChangePassword_def ForgotPassword_def ResetPassword_def
    rotateTx_def changePasswordTx_def resetPasswordTx_def Let_def
  unfolding repo_defs unfolding read_query_defs unfolding selectOne_def selectMany_def
  by (intro pres preserves_pg P_tx P_stmts P_publishers P_reads P_goStoreSession)+

lemma P_address:
  "preserves (on_dbs P) (AddAddress E c acmd)" "preserves (on_dbs P) (UpdateAddress E c ucmd)"
  "preserves (on_dbs P) (DeleteAddress E c dcmd)"
  unfolding AddAddress_def UpdateAddress_def DeleteAddress_def addAddressTx_def updateAddressTx_def
  unfolding repo_defs unfolding read_query_defs unfolding selectOne_def selectMany_def
  by (intro pres preserves_pg P_tx P_stmts)+

lemma P_profile:
  "preserves (on_dbs P) (RevokeAllSessions E c i)" "preserves (on_dbs P) (RevokeDevice E c i j)"
  unfolding RevokeAllSessions_def RevokeDevice_def revokeDeviceTx_def
  unfolding repo_defs unfolding read_query_defs unfolding selectOne_def selectMany_def
  by (intro pres preserves_pg P_tx P_stmts)+

lemma P_runBackground: "preserves (on_dbs P) (runBackground E)"
  by (auto simp: preserves_def on_dbs_def runBackground_def StoreSession_def redisErr_def redis_def andThen_def attempt_def ok_def
      split: list.splits bgJob.splits prod.splits sum.splits)

lemma P_events: "preserves (on_dbs P) (TryProcessEvent E cn ev md)"
  unfolding TryProcessEvent_def TryMarkProcessed_def by (intro pres preserves_pg P_processed)

lemma P_Publish: "preserves (on_dbs P) (KafkaPublisher_Publish E topic key payload)"
  unfolding KafkaPublisher_Publish_def NewEnvelope_def newUUID_def PublishEnvelope_def Let_def by (intro pres)

lemma P_dispatchLoop: "preserves (on_dbs P) (dispatchLoop E c es k)"
proof (induction es arbitrary: k)
  case (Cons e es)
  then show ?case unfolding dispatchLoop.simps OutboxRepo_MarkFailed_def OutboxRepo_MarkPublished_def
    by (intro pres preserves_pg P_Publish P_outbox)
qed (simp add: preserves_ok)

lemma P_DispatchOnce: "preserves (on_dbs P) (DispatchOnce E c n)"
  unfolding DispatchOnce_def OutboxRepo_ClaimPending_def by (intro pres preserves_pg P_dispatchLoop)

end

text \<open>Login also writes a session, registration a user and a credential.\<close>

locale session_invariant = db_invariant +
  assumes P_upsert: "stmt_preserves P (queryUpsertSession i j h st t ip ag t')"
begin

lemma P_Login: "preserves (on_dbs P) (Login E s c lcmd)"
  unfolding Login_def Let_def SessionRepository_Upsert_def
  by (intro pres preserves_pg P_upsert P_reads P_registerDevice)

end

locale schema_invariant = session_invariant +
  assumes P_insert_user: "stmt_preserves P (queryInsertUser em fn ph ut st va md ve)"
    and P_insert_credential: "stmt_preserves P (queryInsert i h al t n t')"
begin

lemma P_Register: "preserves (on_dbs P) (Register E s c rcmd)"
  unfolding Register_def registerTx_def PublishUserRegistered_def Record_def OutboxRepo_Insert_def
    UserRepository_ExistsByEmail_def UserRepository_Insert_def CredentialRepository_Insert_def queryCheckExistEmail_def
  by (intro pres preserves_pg P_tx P_insert_user P_insert_credential P_outbox)

end

text \<open>The constraints of the schema are such an invariant.\<close>

interpretation schema: schema_invariant db_ok
  by unfold_locales (rule db_ok_seq_max pres, assumption?)+

section \<open>The system\<close>

text \<open>The requests the HTTP layer makes to the services.\<close>

datatype request =
    RqRegister RegisterCommand
  | RqLogin LoginCommand
  | RqRefreshToken RefreshTokenCommand
  | RqLogout LogoutCommand
  | RqVerifyEmail VerifyEmailCommand
  | RqChangePassword ChangePasswordCommand
  | RqForgotPassword ForgotPasswordCommand
  | RqResetPassword ResetPasswordCommand
  | RqAddress addressRequest
  | RqGetMe int
  | RqListSessions int
  | RqListDevices int
  | RqListAddresses int
  | RqRevokeAllSessions int
  | RqRevokeDevice int int

fun serve :: "env \<Rightarrow> AuthService \<Rightarrow> ctx \<Rightarrow> request \<Rightarrow> world \<Rightarrow> world" where
  "serve E s c (RqRegister cmd) w = snd (Register E s c cmd w)"
| "serve E s c (RqLogin cmd) w = snd (Login E s c cmd w)"
| "serve E s c (RqRefreshToken cmd) w = snd (RefreshToken E s c cmd w)"
| "serve E s c (RqLogout cmd) w = snd (Logout E c cmd w)"
| "serve E s c (RqVerifyEmail cmd) w = snd (VerifyEmail E c cmd w)"
| "serve E s c (RqChangePassword cmd) w = snd (ChangePassword E s c cmd w)"
| "serve E s c (RqForgotPassword cmd) w = snd (ForgotPassword E c cmd w)"
| "serve E s c (RqResetPassword cmd) w = snd (ResetPassword E s c cmd w)"
| "serve E s c (RqAddress req) w = serveAddress E c req w"
| "serve E s c (RqGetMe i) w = snd (GetMe E c i w)"
| "serve E s c (RqListSessions i) w = snd (ListSessions E c i w)"
| "serve E s c (RqListDevices i) w = snd (ListDevices E c i w)"
| "serve E s c (RqListAddresses i) w = snd (ListAddresses E c i w)"
| "serve E s c (RqRevokeAllSessions i) w = snd (RevokeAllSessions E c i w)"
| "serve E s c (RqRevokeDevice i j) w = snd (RevokeDevice E c i j w)"

text \<open>
  A step: a request, a waiting goroutine, a run of the dispatcher, an event offered to a consumer,
  a Redis command of another component; and what happens around the program: Redis drops a key, the process restarts and loses its
  goroutines, time passes.
\<close>

inductive sysStep :: "env \<Rightarrow> AuthService \<Rightarrow> world \<Rightarrow> world \<Rightarrow> bool" for E s where
  Request: "\<not> ctx_tx c \<Longrightarrow> sysStep E s w (serve E s c req w)"
| Background: "sysStep E s w (snd (runBackground E w))"
| Dispatch: "\<not> ctx_tx c \<Longrightarrow> sysStep E s w (snd (DispatchOnce E c limit w))"
| Event: "sysStep E s w (snd (TryProcessEvent E cn ev md w))"
| Cache: "sysStep E s w (snd (redis E cmd w))"
| Evict: "sysStep E s w (w\<lparr>w_redis := (w_redis w)(k := None)\<rparr>)"
| Restart: "sysStep E s w (w\<lparr>w_bg := []\<rparr>)"
| Idle: "w_n w \<le> n \<Longrightarrow> sysStep E s w (w\<lparr>w_n := n\<rparr>)"

inductive reachable :: "env \<Rightarrow> AuthService \<Rightarrow> world \<Rightarrow> bool" for E s where
  start: "w_pool w = emptyDB \<Longrightarrow> w_tx w = None \<Longrightarrow> reachable E s w"
| step: "reachable E s w \<Longrightarrow> sysStep E s w w' \<Longrightarrow> reachable E s w'"

text \<open>Between steps no transaction is open.\<close>

lemma auth_service_no_tx:
  assumes "\<not> ctx_tx c"
  shows "preserves no_tx (Register E s c rcmd)" "preserves no_tx (Login E s c lcmd)" "preserves no_tx (RefreshToken E s c tcmd)"
    "preserves no_tx (Logout E c ocmd)" "preserves no_tx (VerifyEmail E c vcmd)" "preserves no_tx (ChangePassword E s c ccmd)"
    "preserves no_tx (ForgotPassword E c fcmd)" "preserves no_tx (ResetPassword E s c pcmd)"
proof -
  have go: "preserves no_tx (goStoreSession h x ttl)" for h x ttl
    by (simp add: preserves_def no_tx_def goStoreSession_def)
  have hash: "preserves no_tx (HashPassword E cfg pw)" for cfg pw
    by (simp add: preserves_def no_tx_def HashPassword_def GenerateFromPassword_def)
  show "preserves no_tx (Register E s c rcmd)" "preserves no_tx (Login E s c lcmd)" "preserves no_tx (RefreshToken E s c tcmd)"
    "preserves no_tx (Logout E c ocmd)" "preserves no_tx (VerifyEmail E c vcmd)" "preserves no_tx (ChangePassword E s c ccmd)"
    "preserves no_tx (ForgotPassword E c fcmd)" "preserves no_tx (ResetPassword E s c pcmd)"
    unfolding Register_def Login_def RefreshToken_def Logout_def VerifyEmail_def ChangePassword_def
      ForgotPassword_def ResetPassword_def auth_step_defs Let_def
    unfolding repo_defs redis_adapter_defs GenerateAccessToken_def GenerateRefreshToken_def GenerateSecureToken_def
      PublishResetPasswordRequested_def Record_def OutboxRepo_Insert_def Let_def
    by (intro pres assms go hash)+
qed

lemma serve_no_tx:
  assumes "\<not> ctx_tx c" and "no_tx w"
  shows "no_tx (serve E s c req w)"
  using auth_service_no_tx [OF assms(1)] address_service_no_tx [OF assms(1)] profile_service_no_tx [OF assms(1)] assms(2)
  unfolding preserves_def
  by (cases req; (rename_tac a; case_tac a)?) simp_all

lemma dispatch_no_tx: "preserves no_tx (DispatchOnce E c limit)"
proof -
  have pub: "preserves no_tx (KafkaPublisher_Publish E topic key payload)" for topic key payload
    unfolding KafkaPublisher_Publish_def NewEnvelope_def newUUID_def PublishEnvelope_def Let_def by (intro pres)
  have "preserves no_tx (dispatchLoop E c es k)" for es k
  proof (induction es arbitrary: k)
    case (Cons e es)
    then show ?case unfolding dispatchLoop.simps OutboxRepo_MarkFailed_def OutboxRepo_MarkPublished_def
      by (intro pres pub)
  qed (simp add: preserves_ok)
  then show ?thesis unfolding DispatchOnce_def OutboxRepo_ClaimPending_def by (intro pres)
qed

lemma event_no_tx: "preserves no_tx (TryProcessEvent E cn ev md)"
  unfolding TryProcessEvent_def TryMarkProcessed_def by (intro pres)

lemma background_no_tx: "preserves no_tx (runBackground E)"
  by (auto simp: preserves_def no_tx_def runBackground_def StoreSession_def redisErr_def redis_def andThen_def attempt_def ok_def
      split: list.splits bgJob.splits prod.splits sum.splits)

lemma redis_no_tx: "preserves no_tx (redis E cmd)"
  by (simp add: preserves_def no_tx_def redis_def split: prod.splits)

lemma sysStep_no_tx: "sysStep E s w w' \<Longrightarrow> no_tx w \<Longrightarrow> no_tx w'"
  by (induction rule: sysStep.induct)
    (auto simp: no_tx_def intro: serve_no_tx [unfolded no_tx_def]
      dispatch_no_tx [unfolded preserves_def no_tx_def, rule_format] event_no_tx [unfolded preserves_def no_tx_def, rule_format]
      background_no_tx [unfolded preserves_def no_tx_def, rule_format] redis_no_tx [unfolded preserves_def no_tx_def, rule_format])

text \<open>An invariant survives a step when registration and login keep it.\<close>

context db_invariant
begin

lemma P_serve:
  assumes "on_dbs P w" and "\<And>cmd. req = RqRegister cmd \<Longrightarrow> on_dbs P (snd (Register E s c cmd w))"
    and "\<And>cmd. req = RqLogin cmd \<Longrightarrow> on_dbs P (snd (Login E s c cmd w))"
  shows "on_dbs P (serve E s c req w)"
  using P_auth P_address P_profile P_reads(4-7) assms unfolding preserves_def
  by (cases req; (rename_tac a; case_tac a)?) simp_all

lemma P_sysStep:
  assumes "sysStep E s w w'" and "on_dbs P w"
    and "\<And>c cmd. \<not> ctx_tx c \<Longrightarrow> w' = snd (Register E s c cmd w) \<Longrightarrow> on_dbs P w'"
    and "\<And>c cmd. \<not> ctx_tx c \<Longrightarrow> w' = snd (Login E s c cmd w) \<Longrightarrow> on_dbs P w'"
  shows "on_dbs P w'"
  using assms
proof (cases rule: sysStep.cases)
  case (Request c req)
  show ?thesis unfolding Request(1) by (rule P_serve) (use assms Request in auto)
next
  case (Dispatch c limit)
  then show ?thesis using P_DispatchOnce assms(2) unfolding preserves_def by blast
next
  case (Event cn ev md)
  then show ?thesis using P_events assms(2) unfolding preserves_def by blast
next
  case Background
  then show ?thesis using P_runBackground assms(2) unfolding preserves_def by blast
next
  case (Cache cmd)
  then show ?thesis using preserves_redis assms(2) unfolding preserves_def by blast
qed (use assms(2) in \<open>simp_all add: on_dbs_def\<close>)

end

text \<open>Induction over reachable states: no transaction is open, and the invariant may use the schema's.\<close>

lemma reachable_base: "reachable E s w \<Longrightarrow> no_tx w \<and> db_ok (w_pool w)"
proof (induction rule: reachable.induct)
  case (step w w')
  then have "on_dbs db_ok w" by (simp add: on_dbs_def no_tx_def)
  then have "on_dbs db_ok w'"
    using schema.P_sysStep [OF step.hyps(2)] schema.P_Register schema.P_Login unfolding preserves_def by blast
  then show ?case using sysStep_no_tx step by (auto simp: on_dbs_def)
qed (simp add: no_tx_def db_ok_emptyDB)

section \<open>Accounts are complete\<close>

text \<open>
  What the services do to the accounts: no user comes or goes, no credential and no recorded event
  disappears.
\<close>

definition eventOf :: "OutboxEvent \<Rightarrow> string \<times> string option" where
  "eventOf e = (oe_EventType e, oe_AggregateID e)"

definition accounts_grow :: "db \<Rightarrow> db \<Rightarrow> bool" where
  "accounts_grow d0 d \<longleftrightarrow> ur_ID ` set (t_users d) = ur_ID ` set (t_users d0)
     \<and> cr_UserID ` set (t_credentials d0) \<subseteq> cr_UserID ` set (t_credentials d)
     \<and> eventOf ` set (t_outbox d0) \<subseteq> eventOf ` set (t_outbox d)"

lemma image_update_where: "(\<And>r. k (g r) = k r) \<Longrightarrow> k ` set (update_where p g rs) = k ` set rs"
  by (induction rs) auto

lemma queryUpsertDevice_frame:
  "queryUpsertDevice i h l t0 t1 r t d = Inr (x, d') \<Longrightarrow> \<exists>ds q. d' = d\<lparr>t_devices := ds, db_seq := q\<rparr>"
  by (cases d) (auto simp: queryUpsertDevice_def Let_def split: if_splits option.splits)

lemma queryUpsertSession_frame:
  "queryUpsertSession i j h st t0 ip ag t1 t d = Inr (x, d') \<Longrightarrow> \<exists>ss q. d' = d\<lparr>t_sessions := ss, db_seq := q\<rparr>"
  by (cases d) (auto simp: queryUpsertSession_def queryInsertSession_def Let_def split: if_splits option.splits)

interpretation accounts: session_invariant "accounts_grow d0" for d0
proof unfold_locales
  show "stmt_preserves (accounts_grow d0) (queryUpsertDevice i h l t t' r)" for i h l t t' r
    by (rule stmt_preservesI, drule queryUpsertDevice_frame) (auto simp: accounts_grow_def)
  show "stmt_preserves (accounts_grow d0) (queryUpsertSession i j h st t ip ag t')" for i j h st t ip ag t'
    by (rule stmt_preservesI, drule queryUpsertSession_frame) (auto simp: accounts_grow_def)
  show "stmt_preserves (accounts_grow d0) (insertOutboxEvent e)" for e
    by (auto simp: stmt_preserves_def insertOutboxEvent_def accounts_grow_def Let_def split: if_splits)
  show "stmt_preserves (accounts_grow d0) (insertProcessedEvent cn ev t md)" for cn ev t md
    by (auto simp: stmt_preserves_def insertProcessedEvent_def accounts_grow_def split: if_splits)
qed (auto simp: stmt_preserves_def accounts_grow_def image_update_where eventOf_def Let_def
    queryMarkEmailVerified_def queryUpdatePasswordHash_def queryRevokeSession_def queryRevokeAllByUserID_def
    queryRevokeAllExcept_def queryUpdateSession_def queryRevokeDevice_def queryInsertAddress_def queryUpdateAddress_def
    queryDeleteAddress_def queryUnsetDefaultByUserID_def markPublishedEvent_def markFailedEvent_def split: if_splits)

text \<open>A user without a credential could never log in; one without an event would never be told to verify.\<close>

definition accounted :: "db \<Rightarrow> bool" where
  "accounted d \<longleftrightarrow> (\<forall>u \<in> set (t_users d). (\<exists>cr \<in> set (t_credentials d). cr_UserID cr = ur_ID u)
     \<and> (\<exists>e \<in> set (t_outbox d). oe_EventType e = RegisterEvent \<and> oe_AggregateID e = Some (FormatInt (ur_ID u))))"

lemma accounted_iff:
  "accounted d \<longleftrightarrow> ur_ID ` set (t_users d) \<subseteq> cr_UserID ` set (t_credentials d)
     \<and> (\<lambda>i. (RegisterEvent, Some (FormatInt i))) ` ur_ID ` set (t_users d) \<subseteq> eventOf ` set (t_outbox d)"
proof -
  have "(RegisterEvent, Some (FormatInt i)) \<in> eventOf ` set (t_outbox d) \<longleftrightarrow>
      (\<exists>e \<in> set (t_outbox d). oe_EventType e = RegisterEvent \<and> oe_AggregateID e = Some (FormatInt i))" for i
    unfolding eventOf_def image_iff by (simp add: Bex_def) metis
  moreover have "ur_ID u \<in> cr_UserID ` set (t_credentials d) \<longleftrightarrow> (\<exists>cr \<in> set (t_credentials d). cr_UserID cr = ur_ID u)"
    for u :: userRow
    unfolding image_iff by (simp add: Bex_def) metis
  ultimately show ?thesis unfolding accounted_def image_subset_iff ball_conj_distrib by simp
qed

lemma accounted_grow:
  assumes "accounted d" and "accounts_grow d d'"
  shows "accounted d'"
proof -
  have "ur_ID ` set (t_users d') = ur_ID ` set (t_users d)"
    "cr_UserID ` set (t_credentials d) \<subseteq> cr_UserID ` set (t_credentials d')" "eventOf ` set (t_outbox d) \<subseteq> eventOf ` set (t_outbox d')"
    using assms(2) unfolding accounts_grow_def by blast+
  then show ?thesis using assms(1) unfolding accounted_iff by (metis subset_trans)
qed

lemma accounted_same_tables: "accounted d \<Longrightarrow> same_tables d d' \<Longrightarrow> accounted d'"
  by (simp add: accounted_def same_tables_iff)

lemma registered_accounted:
  assumes "accounted d" and "registered c email cmd hash uid tok d d'"
  shows "accounted d'"
proof -
  from assms(2) obtain t t0 t1 e q where
    d': "d' = d\<lparr>t_users := t_users d @ [registeredUser uid email cmd t],
          t_credentials := t_credentials d @ [registeredCredential uid hash t0], t_outbox := t_outbox d @ [e], db_seq := q\<rparr>"
    and e: "recordsEvent (userRegisteredEvent c \<lparr>urp_UserID = uid, urp_Email = Email_String email, urp_Token = tok\<rparr> t1) e"
    unfolding registered_def by blast
  have "oe_EventType e = RegisterEvent" "oe_AggregateID e = Some (FormatInt uid)"
    using e by (auto simp: recordsEvent_def userRegisteredEvent_def userEvent_def Let_def)
  then show ?thesis using assms(1) by (auto simp: accounted_def d' registeredUser_def registeredCredential_def)
qed

text \<open>What a registration does to the tables.\<close>

lemma Register_tables:
  assumes "redis_documented E" and "\<not> ctx_tx c" and w: "no_tx w"
  obtains "same_tables (w_pool w) (w_pool (snd (Register E s c cmd w)))"
  | email hash uid tok where "registered (WithTx c) email cmd hash uid tok (w_pool w) (w_pool (snd (Register E s c cmd w)))"
proof -
  obtain r w' where run: "Register E s c cmd w = (r, w')" by fastforce
  then show thesis
  proof (cases rule: Register_prefix)
    case refused
    then show ?thesis using that(1) still_fields [of w w'] run by (simp add: same_tables_iff)
  next
    case (tx email n hash now w1)
    obtain r2 w2 where tx2: "txManager E c (registerTx E (newUser email cmd) (newCredential hash now)) w1 = (r2, w2)" by fastforce
    have w1: "w_tx w1 = None" "w_pool w1 = w_pool w" using still_fields [OF tx(4)] w by (simp_all add: no_tx_def)
    have w': "w' = w2" using tx(6) tx2 by (auto simp: andThen_def ok_def split: sum.splits)
    from tm.within_atomic [OF assms(2) w1(1) auth_tx_local(1) [OF ctx_tx_WithTx] tx2]
    consider "same_tables (w_pool w1) (w_pool w2)"
      | u w3 where "registerTx E (newUser email cmd) (newCredential hash now) (WithTx c) (in_tx w1) = (Inr u, w3)" "committed w3 w2"
      by blast
    then show ?thesis
    proof cases
      case 1
      then show ?thesis using that(1) w1 w' run by simp
    next
      case 2
      from registerTx_post [OF ctx_tx_WithTx _ assms(1) 2(1), of "w_pool w1"] 2(2)
      obtain tok where "registered (WithTx c) email cmd hash (user_ID u) tok (w_pool w1) (w_pool w2)"
        by (auto simp: in_tx_def committed_def)
      then show ?thesis using that(2) w1 w' run by simp
    qed
  qed
qed

lemma Register_accounted:
  assumes "redis_documented E" and "\<not> ctx_tx c" and "no_tx w" and "accounted (w_pool w)"
  shows "accounted (w_pool (snd (Register E s c cmd w)))"
  using assms(1-3)
  by (rule Register_tables) (use assms(4) in \<open>auto intro: accounted_same_tables registered_accounted\<close>)

lemma accounted_step:
  assumes "redis_documented E" and "sysStep E s w w'" and "no_tx w" and "accounted (w_pool w)"
  shows "accounted (w_pool w')"
proof (cases "\<exists>c cmd. \<not> ctx_tx c \<and> w' = snd (Register E s c cmd w)")
  case True
  then show ?thesis using Register_accounted [OF assms(1) _ assms(3,4)] by blast
next
  case False
  have w: "on_dbs (accounts_grow (w_pool w)) w" using assms(3) by (simp add: on_dbs_def no_tx_def accounts_grow_def)
  have "on_dbs (accounts_grow (w_pool w)) w'"
    by (rule accounts.P_sysStep [OF assms(2) w]) (use False w accounts.P_Login in \<open>auto simp: preserves_def\<close>)
  then show ?thesis using assms(4) accounted_grow by (auto simp: on_dbs_def)
qed

section \<open>Sessions belong to the owner of their device\<close>

text \<open>The foreign keys of a session do not say that its user owns its device; the services do.\<close>

definition holds_device :: "int \<Rightarrow> int \<Rightarrow> db \<Rightarrow> bool" where
  "holds_device uid i d \<longleftrightarrow> (\<exists>dv \<in> set (t_devices d). dr_ID dv = i \<and> dr_UserID dv = uid)"

definition own_devices :: "db \<Rightarrow> bool" where
  "own_devices d \<longleftrightarrow> (\<forall>x \<in> set (t_sessions d). holds_device (sr_UserID x) (sr_DeviceID x) d)"

text \<open>Devices never leave their owner; the owners of sessions stay among those before.\<close>

definition ownerOf :: "deviceRow \<Rightarrow> int \<times> int" where
  "ownerOf dv = (dr_UserID dv, dr_ID dv)"

definition holderOf :: "sessionRow \<Rightarrow> int \<times> int" where
  "holderOf x = (sr_UserID x, sr_DeviceID x)"

definition devices_grow :: "db \<Rightarrow> db \<Rightarrow> bool" where
  "devices_grow d0 d \<longleftrightarrow> ownerOf ` set (t_devices d0) \<subseteq> ownerOf ` set (t_devices d)
     \<and> holderOf ` set (t_sessions d) \<subseteq> holderOf ` set (t_sessions d0)"

lemma holds_device_iff: "holds_device uid i d \<longleftrightarrow> (uid, i) \<in> ownerOf ` set (t_devices d)"
  unfolding holds_device_def image_iff ownerOf_def by (simp add: Bex_def) metis

lemma own_devices_iff: "own_devices d \<longleftrightarrow> holderOf ` set (t_sessions d) \<subseteq> ownerOf ` set (t_devices d)"
  unfolding own_devices_def image_subset_iff holds_device_iff holderOf_def ..

lemma own_devices_grow: "own_devices d \<Longrightarrow> devices_grow d d' \<Longrightarrow> own_devices d'"
  unfolding own_devices_iff devices_grow_def by (metis subset_trans)

lemma owners_update_where:
  "(\<And>v. dr_UserID (g v) = dr_UserID v) \<Longrightarrow> (\<And>v. dr_ID (g v) = dr_ID v) \<Longrightarrow> ownerOf ` set (update_where p g vs) = ownerOf ` set vs"
  "(\<And>x. sr_UserID (f x) = sr_UserID x) \<Longrightarrow> (\<And>x. sr_DeviceID (f x) = sr_DeviceID x) \<Longrightarrow>
     holderOf ` set (update_where q f xs) = holderOf ` set xs"
  by (simp_all add: image_update_where ownerOf_def holderOf_def)

lemma queryUpsertDevice_keeps:
  assumes "queryUpsertDevice i h l t0 t1 r t d = Inr (x, d')"
  shows "ownerOf ` set (t_devices d) \<subseteq> ownerOf ` set (t_devices d') \<and> t_sessions d' = t_sessions d"
proof (cases "find (\<lambda>r. (dr_UserID r, dr_Fingerprint r) = (i, h)) (t_devices d)")
  case None
  then show ?thesis using assms by (auto simp: queryUpsertDevice_def Let_def split: if_split_asm)
next
  case (Some v)
  with assms have "t_sessions d' = t_sessions d" "ownerOf ` set (t_devices d') = ownerOf ` set (t_devices d)"
    by (simp_all add: queryUpsertDevice_def Let_def split: if_split_asm) (elim conjE, hypsubst, simp add: owners_update_where)+
  then show ?thesis by simp
qed

lemma devices_frame:
  assumes "\<And>t d x d'. s t d = Inr (x, d') \<Longrightarrow> ownerOf ` set (t_devices d') = ownerOf ` set (t_devices d)
     \<and> holderOf ` set (t_sessions d') = holderOf ` set (t_sessions d)"
  shows "stmt_preserves (devices_grow d0) s"
  using assms unfolding stmt_preserves_def devices_grow_def by metis

lemma quiet_statements:
  "stmt_preserves (devices_grow d0) (queryMarkEmailVerified t i)" "stmt_preserves (devices_grow d0) (queryUpdatePasswordHash i h t)"
  "stmt_preserves (devices_grow d0) (queryInsertAddress a)" "stmt_preserves (devices_grow d0) (queryUpdateAddress a)"
  "stmt_preserves (devices_grow d0) (queryDeleteAddress i)" "stmt_preserves (devices_grow d0) (queryUnsetDefaultByUserID i)"
  "stmt_preserves (devices_grow d0) (insertOutboxEvent e)" "stmt_preserves (devices_grow d0) (insertProcessedEvent cn ev t md)"
  "stmt_preserves (devices_grow d0) (markPublishedEvent i t)" "stmt_preserves (devices_grow d0) (markFailedEvent i m)"
  "stmt_preserves (devices_grow d0) (queryInsertUser em fn ph ut st va md ve)" "stmt_preserves (devices_grow d0) (queryInsert i h al t n t')"
  by (rule devices_frame; force simp: queryMarkEmailVerified_def queryUpdatePasswordHash_def queryInsertAddress_def
      queryUpdateAddress_def queryDeleteAddress_def queryUnsetDefaultByUserID_def insertOutboxEvent_def
      insertProcessedEvent_def markPublishedEvent_def markFailedEvent_def queryInsertUser_def queryInsert_def Let_def
      split: if_split_asm)+

lemma owner_statements:
  "stmt_preserves (devices_grow d0) (queryRevokeSession j t i)" "stmt_preserves (devices_grow d0) (queryRevokeAllByUserID i t t')"
  "stmt_preserves (devices_grow d0) (queryRevokeAllExcept i j t)" "stmt_preserves (devices_grow d0) (queryUpdateSession i h t t')"
  "stmt_preserves (devices_grow d0) (queryRevokeDevice i t)"
  by (rule devices_frame; clarsimp simp: queryRevokeSession_def queryRevokeAllByUserID_def queryRevokeAllExcept_def
      queryUpdateSession_def queryRevokeDevice_def Let_def owners_update_where split: if_split_asm)+

lemma upsert_device_statement: "stmt_preserves (devices_grow d0) (queryUpsertDevice i h l t t' r)"
  unfolding devices_grow_def
  by (rule stmt_preservesI, drule queryUpsertDevice_keeps) (elim conjE, intro conjI, erule (1) subset_trans, simp)

interpretation devices: db_invariant "devices_grow d0" for d0
  by unfold_locales (rule quiet_statements owner_statements upsert_device_statement | simp add: devices_grow_def)+

text \<open>Registration touches neither table, and login writes the session of a device it has just registered.\<close>

lemma Register_devices: "preserves (on_dbs (devices_grow d0)) (Register E s c cmd)"
  unfolding Register_def registerTx_def PublishUserRegistered_def Record_def OutboxRepo_Insert_def
    UserRepository_ExistsByEmail_def UserRepository_Insert_def CredentialRepository_Insert_def queryCheckExistEmail_def
  by (intro pres preserves_pg devices.P_tx quiet_statements)

lemma queryUpsertSession_holders:
  assumes "queryUpsertSession uid did h st t0 ip ag t1 t d = Inr (x, d')"
  shows "holderOf ` set (t_sessions d') \<subseteq> insert (uid, did) (holderOf ` set (t_sessions d)) \<and> t_devices d' = t_devices d"
proof (cases "find (\<lambda>s. (sr_UserID s, sr_DeviceID s) = (uid, did)) (t_sessions d)")
  case None
  then show ?thesis using assms
    by (auto simp: queryUpsertSession_def queryInsertSession_def Let_def holderOf_def split: if_split_asm)
next
  case (Some r)
  with assms have "t_devices d' = t_devices d" "holderOf ` set (t_sessions d') = holderOf ` set (t_sessions d)"
    by (simp_all add: queryUpsertSession_def Let_def split: if_split_asm) (elim conjE, hypsubst, simp add: owners_update_where)+
  then show ?thesis by blast
qed

lemma upsert_own_devices:
  "stmt_preserves (\<lambda>d. own_devices d \<and> holds_device uid did d) (queryUpsertSession uid did h st t ip ag t')"
proof (rule stmt_preservesI)
  fix now d x d'
  assume P: "own_devices d \<and> holds_device uid did d" and run: "queryUpsertSession uid did h st t ip ag t' now d = Inr (x, d')"
  from P have "insert (uid, did) (holderOf ` set (t_sessions d)) \<subseteq> ownerOf ` set (t_devices d)"
    by (simp add: own_devices_iff holds_device_iff)
  with queryUpsertSession_holders [OF run] P show "own_devices d' \<and> holds_device uid did d'"
    unfolding own_devices_iff holds_device_iff by (metis subset_trans)
qed

lemma loginSession_own_devices:
  "preserves (on_dbs (\<lambda>d. own_devices d \<and> holds_device (user_ID user) did d))
     (SessionRepository_Upsert E c (loginSession E user did cmd now ttl tok))"
proof -
  have "sess_UserID (loginSession E user did cmd now ttl tok) = user_ID user" "sess_DeviceID (loginSession E user did cmd now ttl tok) = did"
    by (simp_all add: loginSession_def)
  then show ?thesis unfolding SessionRepository_Upsert_def by (simp, intro pres preserves_pg upsert_own_devices)
qed

lemma dropOldSession_on_dbs: "preserves (on_dbs P) (dropOldSession E c i j)"
  by (rule preserves_on_dbs_irrelevant) (metis dropOldSession_pool prod.collapse)

lemma loginUser_no_tx: "preserves no_tx (loginUser E s c cmd)"
  unfolding loginUser_def unfolding repo_defs by (intro pres)

lemma Login_own_devices:
  assumes c: "\<not> ctx_tx c" and w: "no_tx w" and own: "own_devices (w_pool w)"
  shows "own_devices (w_pool (snd (Login E s c cmd w)))"
proof -
  let ?grow = "on_dbs (devices_grow (w_pool w))"
  have start: "?grow w" using w by (simp add: on_dbs_def no_tx_def devices_grow_def)
  have grown: "own_devices (w_pool v)" if "?grow v" for v
    using own_devices_grow [OF own] that by (simp add: on_dbs_def)
  obtain r1 w1 where lu: "loginUser E s c cmd w = (r1, w1)" by fastforce
  from preservesD [OF devices.P_reads(1) start lu] have w1: "?grow w1" .
  show ?thesis
  proof (cases r1)
    case (Inl e)
    then show ?thesis using lu grown [OF w1] by (simp add: Login_def andThen_def)
  next
    case (Inr user)
    let ?w1 = "w1\<lparr>w_n := Suc (w_n w1)\<rparr>" and ?now = "env_now E (w_n w1)"
    obtain r2 w2 where rd: "registerDevice E s c cmd user ?now ?w1 = (r2, w2)" by fastforce
    have "?grow ?w1" using w1 by (simp add: on_dbs_def)
    from preservesD [OF devices.P_registerDevice this rd] have w2: "?grow w2" .
    show ?thesis
    proof (cases r2)
      case (Inl e)
      then show ?thesis using lu rd Inr grown [OF w2] by (simp add: Login_def andThen_def)
    next
      case dev: (Inr dev)
      let ?P = "\<lambda>d. own_devices d \<and> holds_device (user_ID user) (dev_ID dev) d"
      have tx: "w_tx w1 = None" using preservesD [OF loginUser_no_tx _ lu] w by (simp add: no_tx_def)
      have "w_tx w2 = None" "holds_device (user_ID user) (dev_ID dev) (w_pool w2)"
        using registerDevice_InrD [OF c rd [unfolded dev]] tx by (auto simp: holds_device_def)
      then have P: "on_dbs ?P w2" using grown [OF w2] by (simp add: on_dbs_def)
      let ?rest = "andThen (dropOldSession E c (user_ID user) (dev_ID dev)) (\<lambda>_.
         andThen (GenerateRefreshToken E (as_authManager s) (user_ID user) (Email_String (user_Email user))
           (user_UserType user) (FormatInt (dev_ID dev))) (\<lambda>tok.
         andThen (SessionRepository_Upsert E c (loginSession E user (dev_ID dev) cmd ?now (sessionTTL (as_devicePolicy s)) tok)) (\<lambda>x.
         andThen (GenerateAccessToken E (as_authManager s) (user_ID user) (Email_String (user_Email user))
           (user_UserType user) (FormatInt (sess_ID x)) (FormatInt (dev_ID dev))) (\<lambda>(accessToken, expiredAt).
         andThen (attempt (StoreSession E (sess_RefreshTokenHash x) x (sessionTTL (as_devicePolicy s)))) (\<lambda>_.
         ok \<lparr>lout_AccessToken = accessToken, lout_RefreshToken = tok,
             lout_AccessTokenExpiresAt = expiredAt, lout_RefreshTokenExpiresAt = sess_ExpiredAt x\<rparr>)))))"
      have "preserves (on_dbs ?P) ?rest"
        by (intro pres loginSession_own_devices dropOldSession_on_dbs)
      then have "on_dbs ?P (snd (?rest w2))" using P unfolding preserves_def by blast
      moreover have "Login E s c cmd w = ?rest w2"
        using lu rd Inr dev by (simp add: Login_def andThen_def Let_def)
      ultimately show ?thesis by (simp add: on_dbs_def)
    qed
  qed
qed

lemma own_devices_step:
  assumes "sysStep E s w w'" and w: "no_tx w" and own: "own_devices (w_pool w)"
  shows "own_devices (w_pool w')"
proof (cases "\<exists>c cmd. \<not> ctx_tx c \<and> w' = snd (Login E s c cmd w)")
  case True
  then show ?thesis using Login_own_devices [OF _ w own] by blast
next
  case False
  have start: "on_dbs (devices_grow (w_pool w)) w" using w by (simp add: on_dbs_def no_tx_def devices_grow_def)
  have "on_dbs (devices_grow (w_pool w)) w'"
    by (rule devices.P_sysStep [OF assms(1) start]) (use False start Register_devices in \<open>auto simp: preserves_def\<close>)
  then show ?thesis using own_devices_grow [OF own] by (simp add: on_dbs_def)
qed

section \<open>Properties\<close>


text \<open>
  C4: accounts are complete in every reachable state: every user has a credential, and the event of
  its registration is in the outbox. No failure of the database or of Redis, at any point of any
  request, leaves a user without either.
\<close>

theorem reachable_accounts:
  assumes "reachable E s w" and "redis_documented E" and "u \<in> set (t_users (w_pool w))"
  shows "(\<exists>cr \<in> set (t_credentials (w_pool w)). cr_UserID cr = ur_ID u)
     \<and> (\<exists>e \<in> set (t_outbox (w_pool w)). oe_EventType e = RegisterEvent \<and> oe_AggregateID e = Some (FormatInt (ur_ID u)))"
proof -
  have "accounted (w_pool w)" using assms(1)
  proof (induction rule: reachable.induct)
    case (step w w')
    then show ?case using accounted_step [OF assms(2)] reachable_base by blast
  qed (simp add: accounted_def emptyDB_def)
  then show ?thesis using assms(3) unfolding accounted_def by blast
qed

text \<open>
  C6: in every reachable state the device of a session belongs to the session's user, although no
  constraint of the schema says so.
\<close>

theorem reachable_own_devices:
  assumes "reachable E s w" and "x \<in> set (t_sessions (w_pool w))"
  shows "\<exists>dv \<in> set (t_devices (w_pool w)). dr_ID dv = sr_DeviceID x \<and> dr_UserID dv = sr_UserID x"
proof -
  have "own_devices (w_pool w)" using assms(1)
  proof (induction rule: reachable.induct)
    case (step w w')
    then show ?case using own_devices_step reachable_base by blast
  qed (simp add: own_devices_def emptyDB_def)
  then show ?thesis using assms(2) unfolding own_devices_def holds_device_def by blast
qed


end
