(* ===== verification/Redis_Platform.thy ===== *)
theory Redis_Platform
  imports Tx
begin

text \<open>
  The Redis package (\<^verbatim>\<open>internal/platform/redis\<close>): key construction, the JSON cache, the lock, the
  quota counter and the rate limiter. The contract of the lock is the locale \<open>token_lock\<close>, met by
  \<open>Acquire\<close> and \<open>Release\<close> on a documented server.
\<close>

section \<open>keys.go\<close>

record KeyBuilder =
  kb_prefix :: string

definition NewKeyBuilder :: "string \<Rightarrow> KeyBuilder" where
  "NewKeyBuilder prefix0 = \<lparr>kb_prefix = (if TrimSpace prefix0 = '''' then ''app'' else prefix0)\<rparr>"

fun stringsJoin :: "string list \<Rightarrow> string \<Rightarrow> string" where
  "stringsJoin [] sep = ''''"
| "stringsJoin [x] sep = x"
| "stringsJoin (x # y # ys) sep = x @ sep @ stringsJoin (y # ys) sep"

definition KeyBuilder_join :: "KeyBuilder \<Rightarrow> string list \<Rightarrow> string" where
  "KeyBuilder_join b parts =
     stringsJoin (kb_prefix b # map TrimSpace (filter (\<lambda>p. TrimSpace p \<noteq> '''') parts)) '':''"

definition Hash :: "env \<Rightarrow> string \<Rightarrow> string" where
  "Hash E s = hexEncode (env_sha256 E s)"

definition CatalogList :: "KeyBuilder \<Rightarrow> string \<Rightarrow> string" where
  "CatalogList b hash = KeyBuilder_join b [''catalog_list'', hash]"
definition BookDetail :: "KeyBuilder \<Rightarrow> string \<Rightarrow> string" where
  "BookDetail b bookID = KeyBuilder_join b [''book_detail'', bookID]"
definition SearchBooks :: "KeyBuilder \<Rightarrow> string \<Rightarrow> string" where
  "SearchBooks b hash = KeyBuilder_join b [''search_books'', hash]"
definition CartKey :: "KeyBuilder \<Rightarrow> int \<Rightarrow> string" where
  "CartKey b userID = KeyBuilder_join b [''cart'', FormatInt userID]"
definition SessionKey :: "KeyBuilder \<Rightarrow> string \<Rightarrow> string" where
  "SessionKey b sessionID = KeyBuilder_join b [''session'', sessionID]"
definition UserSessions :: "KeyBuilder \<Rightarrow> int \<Rightarrow> string" where
  "UserSessions b userID = KeyBuilder_join b [''user_sessions'', FormatInt userID]"
definition DeviceKey :: "KeyBuilder \<Rightarrow> int \<Rightarrow> int \<Rightarrow> string" where
  "DeviceKey b userID deviceID = KeyBuilder_join b [''device'', FormatInt userID, FormatInt deviceID]"
definition IdempotencyKey :: "KeyBuilder \<Rightarrow> string \<Rightarrow> string \<Rightarrow> string" where
  "IdempotencyKey b scope key = KeyBuilder_join b [''idempotency'', scope, key]"
definition LockKey :: "KeyBuilder \<Rightarrow> string \<Rightarrow> string" where
  "LockKey b resource = KeyBuilder_join b [''lock'', resource]"
definition QuotaDownload :: "KeyBuilder \<Rightarrow> int \<Rightarrow> int \<Rightarrow> string" where
  "QuotaDownload b userID bookID = KeyBuilder_join b [''quota'', ''download'', FormatInt userID, FormatInt bookID]"
definition RateKey :: "KeyBuilder \<Rightarrow> string \<Rightarrow> string \<Rightarrow> string" where
  "RateKey b scope subject = KeyBuilder_join b [''rate'', scope, subject]"
definition JobDedup :: "KeyBuilder \<Rightarrow> string \<Rightarrow> string \<Rightarrow> string" where
  "JobDedup b jobType bizKey = KeyBuilder_join b [''job_dedup'', jobType, bizKey]"
definition DownloadToken :: "KeyBuilder \<Rightarrow> string \<Rightarrow> string" where
  "DownloadToken b tokenID = KeyBuilder_join b [''dl_token'', tokenID]"
definition HoldKey :: "KeyBuilder \<Rightarrow> int \<Rightarrow> string" where
  "HoldKey b orderID = KeyBuilder_join b [''hold'', FormatInt orderID]"

section \<open>cache.go, health.go\<close>

text \<open>The decoder of the value is the caller's \<^verbatim>\<open>out\<close>; it gives \<open>None\<close> when \<^verbatim>\<open>Unmarshal\<close> fails.\<close>

definition Cache_Get :: "env \<Rightarrow> string \<Rightarrow> (json \<Rightarrow> 'a option) \<Rightarrow> 'a io" where
  "Cache_Get E key decode =
     andThen (mapErr (\<lambda>err. if errorsIs err RedisNil then RedisErrCacheMiss else RedisErrUnavailable)
       (redisVal E (GET key))) (\<lambda>b.
     (case b of
        RText _ \<Rightarrow> fail (External ''invalid character'')
      | RJson j \<Rightarrow> (case decode j of None \<Rightarrow> fail (External ''json: cannot unmarshal'') | Some x \<Rightarrow> ok x)))"

definition Cache_Set :: "env \<Rightarrow> string \<Rightarrow> json \<Rightarrow> duration \<Rightarrow> unit io" where
  "Cache_Set E key value ttl = mapErr (\<lambda>_. RedisErrUnavailable) (redisErr E (SET key (RJson value) ttl))"

definition Cache_Delete :: "env \<Rightarrow> string list \<Rightarrow> unit io" where
  "Cache_Delete E keys =
     (if keys = [] then ok () else mapErr (\<lambda>_. RedisErrUnavailable) (redisErr E (DEL keys)))"

definition RedisHealth_Check :: "env \<Rightarrow> unit io" where
  "RedisHealth_Check E = mapErr (\<lambda>_. RedisErrUnavailable) (redisErr E PING)"

definition Key :: "string list \<Rightarrow> string" where
  "Key parts = stringsJoin parts '':''"

section \<open>lock.go\<close>

record Lock =
  lock_Key :: string
  lock_Token :: string
  lock_TTL :: duration

definition Acquire :: "env \<Rightarrow> string \<Rightarrow> duration \<Rightarrow> Lock io" where
  "Acquire E key ttl =
     andThen (NewUUID E) (\<lambda>token.
     andThen (mapErr (\<lambda>_. RedisErrUnavailable) (redisBool E (SETNX key (RText token) ttl))) (\<lambda>acquired.
     if \<not> acquired then fail RedisErrLockNotAcquired
     else ok \<lparr>lock_Key = key, lock_Token = token, lock_TTL = ttl\<rparr>))"

definition Release :: "env \<Rightarrow> Lock option \<Rightarrow> unit io" where
  "Release E lock = (case lock of
     None \<Rightarrow> ok ()
   | Some l \<Rightarrow>
      andThen (mapErr (\<lambda>_. RedisErrUnavailable) (redisInt E (EVAL CompareAndDelete (lock_Key l) (lock_Token l)))) (\<lambda>n.
      if n = 0 then fail RedisErrLockNotHeld else ok ()))"

section \<open>quota.go, ratelimit.go\<close>

definition Quota_Increment :: "env \<Rightarrow> string \<Rightarrow> duration \<Rightarrow> int io" where
  "Quota_Increment E key ttl =
     andThen (mapErr (\<lambda>_. RedisErrUnavailable) (redisInt E (INCR key))) (\<lambda>n.
     if n = 1 \<and> ttl > 0 then
       andThen (mapErr (\<lambda>_. RedisErrUnavailable) (redisErr E (EXPIRE key ttl))) (\<lambda>_. ok n)
     else ok n)"

definition Quota_Get :: "env \<Rightarrow> string \<Rightarrow> int io" where
  "Quota_Get E key =
     andThen (mapErr (\<lambda>_. RedisErrUnavailable) (redisVal E (GET key))) (\<lambda>v.
     (case v of
        RText s \<Rightarrow> (case ParseInt s of (n, None) \<Rightarrow> ok n | (_, Some _) \<Rightarrow> fail RedisErrUnavailable)
      | RJson (JNum n) \<Rightarrow> ok n
      | RJson _ \<Rightarrow> fail RedisErrUnavailable))"

record RateLimitResult =
  rl_Allowed :: bool
  rl_Count :: int
  rl_Remaining :: int
  rl_ResetIn :: duration

definition Allow :: "env \<Rightarrow> string \<Rightarrow> int \<Rightarrow> duration \<Rightarrow> RateLimitResult io" where
  "Allow E key limit window =
     andThen (mapErr (\<lambda>_. RedisErrUnavailable) (redisInt E (INCR key))) (\<lambda>n.
     andThen (if n = 1 then mapErr (\<lambda>_. RedisErrUnavailable) (redisErr E (EXPIRE key window)) else ok ()) (\<lambda>_.
     andThen (mapErr (\<lambda>_. RedisErrUnavailable) (redisDur E (TTL key))) (\<lambda>ttl.
     ok \<lparr>rl_Allowed = n \<le> limit, rl_Count = n, rl_Remaining = (if limit - n < 0 then 0 else limit - n), rl_ResetIn = ttl\<rparr>)))"

section \<open>The contract of the lock\<close>

text \<open>The token that holds a key at a time.\<close>

definition lockHolder :: "time \<Rightarrow> world \<Rightarrow> string \<Rightarrow> rvalue option" where
  "lockHolder t w key = live t (w_redis w) key"

locale token_lock =
  fixes acquire :: "env \<Rightarrow> string \<Rightarrow> duration \<Rightarrow> Lock io"
    and release :: "env \<Rightarrow> Lock option \<Rightarrow> unit io"
    and holder :: "time \<Rightarrow> world \<Rightarrow> string \<Rightarrow> rvalue option"
  assumes acquire_free: "redis_documented E \<Longrightarrow> acquire E key ttl w = (Inr l, w') \<Longrightarrow>
      holder (env_now E (Suc (w_n w))) w key = None \<and> lock_Key l = key \<and>
      (0 < ttl \<longrightarrow> t < env_now E (Suc (w_n w)) + ttl \<longrightarrow> holder t w' key = Some (RText (lock_Token l)))"
    and release_held: "redis_documented E \<Longrightarrow> release E (Some l) w = (Inr (), w') \<Longrightarrow>
      holder (env_now E (w_n w)) w (lock_Key l) = Some (RText (lock_Token l)) \<and> holder t w' (lock_Key l) = None"
    and release_other: "redis_documented E \<Longrightarrow> release E (Some l) w = (r, w') \<Longrightarrow>
      holder (env_now E (w_n w)) w (lock_Key l) \<noteq> Some (RText (lock_Token l)) \<Longrightarrow> holder t w' k = holder t w k"
begin

lemma exclusive:
  assumes "redis_documented E" and "acquire E key ttl w = (Inr l, w1)" and "0 < ttl"
    and "env_now E (Suc (w_n w2)) < env_now E (Suc (w_n w)) + ttl"
    and "holder (env_now E (Suc (w_n w2))) w2 key = holder (env_now E (Suc (w_n w2))) w1 key"
  shows "acquire E key ttl' w2 \<noteq> (Inr l', w3)"
  using acquire_free [OF assms(1,2), of "env_now E (Suc (w_n w2))"] acquire_free [OF assms(1), of key ttl' w2 l' w3] assms(3-5)
  by auto

end

lemma Acquire_free:
  assumes "redis_documented E" and "Acquire E key ttl w = (Inr l, w')"
  shows "lockHolder (env_now E (Suc (w_n w))) w key = None \<and> lock_Key l = key \<and>
      (0 < ttl \<longrightarrow> t < env_now E (Suc (w_n w)) + ttl \<longrightarrow> lockHolder t w' key = Some (RText (lock_Token l)))"
proof -
  from assms(2) obtain tok where
    run: "redis E (SETNX key (RText tok) ttl) (w\<lparr>w_n := Suc (w_n w)\<rparr>) = (Inr (RBool True), w')"
    and l: "l = \<lparr>lock_Key = key, lock_Token = tok, lock_TTL = ttl\<rparr>"
    by (auto simp: Acquire_def andThen_def mapErr_def redisBool_def ok_def fail_def
        split: prod.splits sum.splits rreply.splits if_splits)
  from assms(1) run show ?thesis
    by (rule redis_InrE) (auto simp: redis_ref_SETNX lockHolder_def expiry_def l split: if_splits)
qed

lemma Release_run:
  assumes "redis_documented E" and "Release E (Some l) w = (r, w')"
  shows "(lockHolder (env_now E (w_n w)) w (lock_Key l) = Some (RText (lock_Token l)) \<longrightarrow>
            r = Inr () \<longrightarrow> lockHolder t w' (lock_Key l) = None)
     \<and> (lockHolder (env_now E (w_n w)) w (lock_Key l) \<noteq> Some (RText (lock_Token l)) \<longrightarrow>
            r \<noteq> Inr () \<and> w_redis w' = w_redis w)"
proof -
  let ?cmd = "EVAL CompareAndDelete (lock_Key l) (lock_Token l)"
  from redis_documentedD [OF assms(1), of "w_n w" ?cmd "w_redis w"] assms(2) show ?thesis
    by (auto simp: Release_def andThen_def mapErr_def redisInt_def redis_def redis_ref_def ok_def fail_def
        lockHolder_def split: if_splits)
qed

interpretation redis_lock: token_lock Acquire Release lockHolder
proof unfold_locales
  fix E key ttl w l w' t
  assume "redis_documented E" and "Acquire E key ttl w = (Inr l, w')"
  then show "lockHolder (env_now E (Suc (w_n w))) w key = None \<and> lock_Key l = key \<and>
      (0 < ttl \<longrightarrow> t < env_now E (Suc (w_n w)) + ttl \<longrightarrow> lockHolder t w' key = Some (RText (lock_Token l)))"
    by (rule Acquire_free)
next
  fix E l w w' t
  assume "redis_documented E" and "Release E (Some l) w = (Inr (), w')"
  from Release_run [OF this, of t]
  show "lockHolder (env_now E (w_n w)) w (lock_Key l) = Some (RText (lock_Token l)) \<and> lockHolder t w' (lock_Key l) = None"
    by auto
next
  fix E l w r w' t k
  assume "redis_documented E" and "Release E (Some l) w = (r, w')"
    and "lockHolder (env_now E (w_n w)) w (lock_Key l) \<noteq> Some (RText (lock_Token l))"
  with Release_run [OF this(1,2)] show "lockHolder t w' k = lockHolder t w k"
    by (simp add: lockHolder_def)
qed

text \<open>
  C28: mutual exclusion: while an acquired lock has neither expired nor been changed, nobody
  acquires the same key; and releasing with a token that does not hold the key reports an error
  and leaves every key as it is.
\<close>

theorem lock_exclusive:
  assumes "redis_documented E" and "Acquire E key ttl w = (Inr l, w1)" and "0 < ttl"
    and "env_now E (Suc (w_n w2)) < env_now E (Suc (w_n w)) + ttl" and "w_redis w2 key = w_redis w1 key"
  shows "Acquire E key ttl' w2 \<noteq> (Inr l', w3) \<and>
     (lock_Key l2 = key \<and> lock_Token l2 \<noteq> lock_Token l \<and> env_now E (w_n w2) < env_now E (Suc (w_n w)) + ttl
       \<longrightarrow> fst (Release E (Some l2) w2) \<noteq> Inr () \<and> w_redis (snd (Release E (Some l2) w2)) = w_redis w2)"
proof -
  have same: "lockHolder t w2 key = lockHolder t w1 key" for t
    using assms(5) by (simp add: lockHolder_def live_def)
  have held: "lockHolder t w2 key = Some (RText (lock_Token l))" if "t < env_now E (Suc (w_n w)) + ttl" for t
    using redis_lock.acquire_free [OF assms(1,2), of t] that assms(3) same by simp
  have "Release E (Some l2) w2 = (fst (Release E (Some l2) w2), snd (Release E (Some l2) w2))" by simp
  from Release_run [OF assms(1) this] held redis_lock.exclusive [OF assms(1-4) same] show ?thesis by auto
qed

section \<open>The fixed window of the rate limiter\<close>

text \<open>\<open>n\<close> calls in a row.\<close>

fun allowAll :: "env \<Rightarrow> string \<Rightarrow> int \<Rightarrow> duration \<Rightarrow> nat \<Rightarrow> world \<Rightarrow> (gerror + RateLimitResult) list" where
  "allowAll E key limit window 0 w = []"
| "allowAll E key limit window (Suc n) w =
     (case Allow E key limit window w of (r, w') \<Rightarrow> r # allowAll E key limit window n w')"

definition wasAllowed :: "gerror + RateLimitResult \<Rightarrow> bool" where
  "wasAllowed r = (case r of Inl _ \<Rightarrow> False | Inr x \<Rightarrow> rl_Allowed x)"

lemma wasAllowed_simps [simp]: "wasAllowed (Inl e) = False" "wasAllowed (Inr x) = rl_Allowed x"
  by (simp_all add: wasAllowed_def)

lemma FormatInt_1: "FormatInt 1 = ''1''"
  by code_simp

lemma Allow_first:
  assumes "redis_up E" and "0 < window" and "live (env_now E (w_n w)) (w_redis w) key = None"
    and "env_now E (Suc (Suc (w_n w))) < env_now E (Suc (w_n w)) + window"
  shows "\<exists>r. Allow E key limit window w = (Inr r,
       w\<lparr>w_n := w_n w + 3, w_redis := (w_redis w)(key \<mapsto> (RText (FormatInt 1), Some (env_now E (Suc (w_n w)) + window)))\<rparr>)
     \<and> rl_Allowed r = (1 \<le> limit)"
  using assms
  by (auto simp: Allow_def andThen_def mapErr_def redisInt_def redisErr_def redisDur_def redis_up_run redis_ref_def
      ok_def FormatInt_1 numeral_3_eq_3)

lemma Allow_next:
  assumes "redis_up E" and "w_redis w key = Some (RText (FormatInt c), Some e)" and "0 < c" and "c < int64_max"
    and "env_now E (w_n w) < e" and "env_now E (Suc (w_n w)) < e"
  shows "\<exists>r. Allow E key limit window w = (Inr r,
       w\<lparr>w_n := w_n w + 2, w_redis := (w_redis w)(key \<mapsto> (RText (FormatInt (c + 1)), Some e))\<rparr>)
     \<and> rl_Allowed r = (c + 1 \<le> limit)"
proof -
  have "ParseInt (FormatInt c) = (c, None)" using assms(3,4) by (intro ParseInt_FormatInt) (auto simp: int64_max_def)
  moreover have "live (env_now E (w_n w)) (w_redis w) key = Some (RText (FormatInt c))"
    using assms(2,5) by (simp add: live_def)
  ultimately show ?thesis
    using assms
    by (auto simp: Allow_def andThen_def mapErr_def redisInt_def redisErr_def redisDur_def redis_up_run redis_ref_def
        ok_def live_def)
qed

lemma allowAll_window:
  assumes "redis_up E"
  shows "w_redis w key = Some (RText (FormatInt c), Some e) \<Longrightarrow> 0 < c \<Longrightarrow> c + int n \<le> int64_max \<Longrightarrow>
     (\<forall>m. w_n w \<le> m \<and> m < w_n w + 2 * n \<longrightarrow> env_now E m < e) \<Longrightarrow>
     map wasAllowed (allowAll E key limit window n w) = map (\<lambda>i. c + int i < limit) [0..<n]"
proof (induction n arbitrary: w c)
  case (Suc n)
  obtain r where r: "Allow E key limit window w = (Inr r,
       w\<lparr>w_n := w_n w + 2, w_redis := (w_redis w)(key \<mapsto> (RText (FormatInt (c + 1)), Some e))\<rparr>)"
     "rl_Allowed r = (c + 1 \<le> limit)"
    using Allow_next [OF assms Suc.prems(1,2)] Suc.prems(3,4) by fastforce
  have "map wasAllowed (allowAll E key limit window n
       (w\<lparr>w_n := w_n w + 2, w_redis := (w_redis w)(key \<mapsto> (RText (FormatInt (c + 1)), Some e))\<rparr>))
     = map (\<lambda>i. (c + 1) + int i < limit) [0..<n]"
    using Suc.prems(2-4) by (intro Suc.IH) auto
  moreover have "[0..<Suc n] = 0 # map Suc [0..<n]" by (simp only: upt_conv_Cons map_Suc_upt zero_less_Suc)
  ultimately show ?case using r by (auto simp: add.assoc comp_def simp del: upt_Suc)
qed simp


end
