(* ===== verification/Config.thy ===== *)
theory Config
  imports Auth_Platform Kafka Redis_Platform
begin

text \<open>
  The configuration (\<^verbatim>\<open>internal/platform/config\<close>): how the program reads its environment variables,
  and the providers of \<^verbatim>\<open>internal/bootstrap\<close> and \<^verbatim>\<open>internal/platform/redis\<close> that turn it into the
  configurations of the components. A loader is a program on the environment that either yields
  its part of the configuration or ends the process.
\<close>

section \<open>Environment variables\<close>

text \<open>\<^verbatim>\<open>os.Getenv\<close>: a variable that is not set reads as the empty string.\<close>

type_synonym environ = "string \<Rightarrow> string"

text \<open>How start-up ends early: \<^verbatim>\<open>log.Fatalf\<close> exits, \<^verbatim>\<open>panic\<close> unwinds.\<close>

datatype startupError = Fatal string | Panic string

type_synonym 'a loader = "(environ, startupError, 'a) prog"

definition Getenv :: "string \<Rightarrow> string loader" where
  "Getenv key e = (Inr (e key), e)"

definition mustGetEnv :: "string \<Rightarrow> string loader" where
  "mustGetEnv key =
     andThen (Getenv key) (\<lambda>v.
     if v = '''' then fail (Fatal (''missing required env: '' @ key)) else ok v)"

text \<open>\<^verbatim>\<open>strconv.Atoi\<close> accepts what \<^verbatim>\<open>strconv.ParseInt(s, 10, 64)\<close> accepts.\<close>

definition getEnvAsInt :: "string \<Rightarrow> int \<Rightarrow> int loader" where
  "getEnvAsInt key def =
     andThen (Getenv key) (\<lambda>v.
     if v \<noteq> '''' then (case ParseInt v of (n, None) \<Rightarrow> ok n | (_, Some _) \<Rightarrow> ok def)
     else ok def)"

text \<open>\<^verbatim>\<open>strconv.ParseBool\<close>.\<close>

definition ParseBool :: "string \<Rightarrow> bool option" where
  "ParseBool s =
     (if s \<in> set [''1'', ''t'', ''T'', ''TRUE'', ''true'', ''True''] then Some True
      else if s \<in> set [''0'', ''f'', ''F'', ''FALSE'', ''false'', ''False''] then Some False
      else None)"

definition getEnvAsBool :: "string \<Rightarrow> bool \<Rightarrow> bool loader" where
  "getEnvAsBool key def =
     andThen (Getenv key) (\<lambda>v.
     if v \<noteq> '''' then (case ParseBool v of Some b \<Rightarrow> ok b | None \<Rightarrow> ok def)
     else ok def)"

text \<open>\<^verbatim>\<open>time.Duration(n) * unit\<close> on 64 bits, and the conversion to \<^verbatim>\<open>int32\<close>.\<close>

definition durationOf :: "int \<Rightarrow> duration \<Rightarrow> duration" where
  "durationOf n unit = wrap64 (n * unit)"

definition toInt32 :: "int \<Rightarrow> int" where
  "toInt32 n = (n + 2147483648) mod 4294967296 - 2147483648"

section \<open>The parts\<close>

record AppConfig =
  app_Env :: string
  app_Name :: string
  app_Port :: string
  app_Version :: string
  app_Debug :: bool
  app_GracefulShutdownTimeout :: duration

definition loadAppConfig :: "AppConfig loader" where
  "loadAppConfig =
     andThen (mustGetEnv ''APP_ENV'') (\<lambda>env.
     andThen (mustGetEnv ''APP_NAME'') (\<lambda>name.
     andThen (mustGetEnv ''APP_PORT'') (\<lambda>port.
     andThen (mustGetEnv ''APP_VERSION'') (\<lambda>version.
     andThen (getEnvAsBool ''APP_DEBUG'' False) (\<lambda>debug.
     andThen (getEnvAsInt ''APP_GRACEFUL_SHUTDOWN_TIMEOUT_SECONDS'' 10) (\<lambda>n.
     ok \<lparr>app_Env = env, app_Name = name, app_Port = port, app_Version = version, app_Debug = debug,
         app_GracefulShutdownTimeout = durationOf n Second\<rparr>))))))"

record AsynqConfig =
  aq_RedisAddr :: string
  aq_RedisDB :: int
  aq_RedisPass :: string
  aq_Concurrency :: int
  aq_Queues :: "(string \<times> int) list"
  aq_AsynqMonitorPort :: int

definition loadAsynqConfig :: "AsynqConfig loader" where
  "loadAsynqConfig =
     andThen (mustGetEnv ''REDIS_HOST'') (\<lambda>host.
     andThen (mustGetEnv ''REDIS_PORT'') (\<lambda>port.
     andThen (getEnvAsInt ''REDIS_DB'' 1) (\<lambda>database.
     andThen (mustGetEnv ''REDIS_PASSWORD'') (\<lambda>pass.
     andThen (getEnvAsInt ''ASYNQ_CONCURRENCY'' 10) (\<lambda>concurrency.
     andThen (getEnvAsInt ''ASYNQ_QUEUES_DEFAULT'' 3) (\<lambda>qd.
     andThen (getEnvAsInt ''ASYNQ_QUEUES_CRITICAL'' 6) (\<lambda>qc.
     andThen (getEnvAsInt ''ASYNQ_MONITOR_PORT'' 8081) (\<lambda>monitor.
     ok \<lparr>aq_RedisAddr = host @ '':'' @ port, aq_RedisDB = database, aq_RedisPass = pass, aq_Concurrency = concurrency,
         aq_Queues = [(''default'', qd), (''critical'', qc)], aq_AsynqMonitorPort = monitor\<rparr>))))))))"

record CORSConfig =
  cors_AllowedOrigins :: "string list"
  cors_AllowedMethods :: "string list"
  cors_AllowedHeaders :: "string list"
  cors_AllowCredentials :: bool
  cors_MaxAge :: int

definition loadCORSConfig :: CORSConfig where
  "loadCORSConfig =
     \<lparr>cors_AllowedOrigins = [''http://localhost:3000'', ''http://localhost:8080''],
      cors_AllowedMethods = [''GET'', ''POST'', ''PUT'', ''DELETE'', ''OPTIONS''],
      cors_AllowedHeaders = [''Content-Type'', ''Authorization'', ''X-Request-ID'', ''X-Idempotency-Key''],
      cors_AllowCredentials = True, cors_MaxAge = Hour * 24\<rparr>"

record DBConfig =
  dbc_Host :: string
  dbc_Port :: string
  dbc_Name :: string
  dbc_User :: string
  dbc_Password :: string
  dbc_SSLMode :: string
  dbc_MaxOpenConns :: int
  dbc_MinIdleConns :: int
  dbc_MaxConnLifetime :: duration
  dbc_MaxConnIdleTime :: duration
  dbc_HealthcheckPeriod :: duration
  dbc_MigrationDir :: string

definition loadDBConfig :: "DBConfig loader" where
  "loadDBConfig =
     andThen (mustGetEnv ''DB_HOST'') (\<lambda>host.
     andThen (mustGetEnv ''DB_PORT'') (\<lambda>port.
     andThen (mustGetEnv ''DB_NAME'') (\<lambda>name.
     andThen (mustGetEnv ''DB_USER'') (\<lambda>user.
     andThen (mustGetEnv ''DB_PASSWORD'') (\<lambda>password.
     andThen (mustGetEnv ''DB_SSL_MODE'') (\<lambda>ssl.
     andThen (getEnvAsInt ''DB_MAX_OPEN_CONNS'' 25) (\<lambda>maxOpen.
     andThen (getEnvAsInt ''DB_MIN_IDLE_CONNS'' 5) (\<lambda>minIdle.
     andThen (getEnvAsInt ''DB_CONN_MAX_LIFETIME_MINUTES'' 30) (\<lambda>lifetime.
     andThen (getEnvAsInt ''DB_CONN_MAX_IDLE_TIME_MINUTES'' 10) (\<lambda>idle.
     andThen (getEnvAsInt ''DB_HEALTHCHECK_PERIOD_SECONDS'' 30) (\<lambda>health.
     andThen (mustGetEnv ''DB_MIGRATION_DIR'') (\<lambda>dir.
     ok \<lparr>dbc_Host = host, dbc_Port = port, dbc_Name = name, dbc_User = user, dbc_Password = password,
         dbc_SSLMode = ssl, dbc_MaxOpenConns = toInt32 maxOpen, dbc_MinIdleConns = toInt32 minIdle,
         dbc_MaxConnLifetime = durationOf lifetime Minute, dbc_MaxConnIdleTime = durationOf idle Minute,
         dbc_HealthcheckPeriod = durationOf health Second, dbc_MigrationDir = dir\<rparr>))))))))))))"

definition DSN :: "DBConfig \<Rightarrow> string" where
  "DSN c = ''postgres://'' @ dbc_User c @ '':'' @ dbc_Password c @ ''@'' @ dbc_Host c @ '':'' @ dbc_Port c
     @ ''/'' @ dbc_Name c @ ''?sslmode='' @ dbc_SSLMode c"

record EmailConfig =
  em_Host :: string
  em_Port :: int
  em_Username :: string
  em_Password :: string
  em_FromEmail :: string
  em_FromName :: string
  em_UseTLS :: bool

definition loadEmailConfig :: "EmailConfig loader" where
  "loadEmailConfig =
     andThen (mustGetEnv ''SMTP_HOST'') (\<lambda>host.
     andThen (getEnvAsInt ''SMTP_PORT'' 1025) (\<lambda>port.
     andThen (mustGetEnv ''SMTP_USER'') (\<lambda>user.
     andThen (mustGetEnv ''SMTP_PASSWORD'') (\<lambda>password.
     andThen (mustGetEnv ''SMTP_FROM_EMAIL'') (\<lambda>fromEmail.
     andThen (mustGetEnv ''SMTP_FROM_NAME'') (\<lambda>fromName.
     andThen (getEnvAsBool ''SMTP_TLS'' False) (\<lambda>tls.
     ok \<lparr>em_Host = host, em_Port = port, em_Username = user, em_Password = password, em_FromEmail = fromEmail,
         em_FromName = fromName, em_UseTLS = tls\<rparr>)))))))"

text \<open>The variable is named in minutes; the code counts hours.\<close>

definition loadJWTConfig :: "JWTConfig loader" where
  "loadJWTConfig =
     andThen (mustGetEnv ''JWT_SECRET'') (\<lambda>secret.
     andThen (getEnvAsInt ''JWT_ACCESS_TOKEN_TTL_MINUTES'' 24) (\<lambda>access.
     andThen (getEnvAsInt ''JWT_REFRESH_TOKEN_TTL_DAYS'' 30) (\<lambda>refresh.
     andThen (mustGetEnv ''JWT_ISSUER'') (\<lambda>issuer.
     andThen (getEnvAsInt ''BCRYPT_COST'' 12) (\<lambda>cost.
     ok \<lparr>jwt_Secret = secret, jwt_AccessTokenTTL = durationOf access Hour,
         jwt_RefreshTokenTTL = wrap64 (durationOf refresh Hour * 24), jwt_Issuer = issuer, jwt_BcryptCost = cost\<rparr>)))))"

text \<open>\<^verbatim>\<open>config.KafkaConfig\<close>, which is not the \<^verbatim>\<open>kafka.Config\<close> of the Kafka package.\<close>

record KafkaEnvConfig =
  kec_Brokers :: "string list"
  kec_ConsumerGroupID :: string
  kec_ClientID :: string
  kec_MaxRetry :: int
  kec_RetryBackoff :: duration
  kec_ProducerTimeout :: duration
  kec_ConsumerTimeout :: duration
  kec_TopicPrefix :: string

definition loadKafkaConfig :: "KafkaEnvConfig loader" where
  "loadKafkaConfig =
     andThen (mustGetEnv ''KAFKA_BROKERS'') (\<lambda>brokers.
     andThen (mustGetEnv ''KAFKA_CONSUMER_GROUP_ID'') (\<lambda>grp.
     andThen (mustGetEnv ''KAFKA_CLIENT_ID'') (\<lambda>client.
     andThen (getEnvAsInt ''KAFKA_MAX_RETRY'' 3) (\<lambda>retry.
     andThen (getEnvAsInt ''KAFKA_RETRY_BACKOFF_MS'' 500) (\<lambda>backoff.
     andThen (getEnvAsInt ''KAFKA_PRODUCER_TIMEOUT_MS'' 5000) (\<lambda>producer.
     andThen (getEnvAsInt ''KAFKA_CONSUMER_TIMEOUT_MS'' 10000) (\<lambda>consumer.
     andThen (mustGetEnv ''KAFKA_TOPIC_PREFIX'') (\<lambda>pre.
     ok \<lparr>kec_Brokers = Split (CHR '','') brokers, kec_ConsumerGroupID = grp, kec_ClientID = client, kec_MaxRetry = retry,
         kec_RetryBackoff = durationOf backoff Millisecond, kec_ProducerTimeout = durationOf producer Millisecond,
         kec_ConsumerTimeout = durationOf consumer Millisecond, kec_TopicPrefix = pre\<rparr>))))))))"

record LoggerConfig =
  log_Level :: string
  log_Format :: string
  log_Output :: string

definition loadLoggerConfig :: "LoggerConfig loader" where
  "loadLoggerConfig =
     andThen (mustGetEnv ''LOG_LEVEL'') (\<lambda>level.
     andThen (mustGetEnv ''LOG_FORMAT'') (\<lambda>format.
     andThen (mustGetEnv ''LOG_OUTPUT'') (\<lambda>output.
     ok \<lparr>log_Level = level, log_Format = format, log_Output = output\<rparr>)))"

record MinioConfig =
  minio_Endpoint :: string
  minio_AccessKey :: string
  minio_SecretKey :: string
  minio_UseSSL :: bool
  minio_PresignedUrlExpiry :: duration
  minio_BucketAvatars :: string
  minio_BucketBooks :: string

definition loadMinioConfig :: "MinioConfig loader" where
  "loadMinioConfig =
     andThen (mustGetEnv ''MINIO_ENDPOINT'') (\<lambda>endpoint.
     andThen (mustGetEnv ''MINIO_ACCESS_KEY'') (\<lambda>access.
     andThen (mustGetEnv ''MINIO_SECRET_KEY'') (\<lambda>secret.
     andThen (getEnvAsBool ''MINIO_USE_SSL'' False) (\<lambda>ssl.
     andThen (getEnvAsInt ''MINIO_PRESIGNED_URL_EXPIRY_MINUTES'' 60) (\<lambda>expiry.
     andThen (mustGetEnv ''MINIO_BUCKET_AVATARS'') (\<lambda>avatars.
     andThen (mustGetEnv ''MINIO_BUCKET_BOOKS'') (\<lambda>books.
     ok \<lparr>minio_Endpoint = endpoint, minio_AccessKey = access, minio_SecretKey = secret, minio_UseSSL = ssl,
         minio_PresignedUrlExpiry = durationOf expiry Minute, minio_BucketAvatars = avatars,
         minio_BucketBooks = books\<rparr>)))))))"

record RateLimitConfig =
  rl_Enabled :: bool
  rl_RequestPerMinute :: int
  rl_BurstSize :: int

definition loadRateLimitConfig :: "RateLimitConfig loader" where
  "loadRateLimitConfig =
     andThen (getEnvAsBool ''RATE_LIMIT_ENABLED'' True) (\<lambda>enabled.
     andThen (getEnvAsInt ''RATE_LIMIT_REQUESTS_PER_MINUTE'' 100) (\<lambda>rate.
     andThen (getEnvAsInt ''RATE_LIMIT_BURST_SIZE'' 20) (\<lambda>burst.
     ok \<lparr>rl_Enabled = enabled, rl_RequestPerMinute = rate, rl_BurstSize = burst\<rparr>)))"

record RedisEnvConfig =
  rec_Addr :: string
  rec_Password :: string
  rec_DB :: int
  rec_PoolSize :: int
  rec_MinIdleConns :: int
  rec_MaxRetries :: int
  rec_ReadTimeout :: duration
  rec_WriteTimeout :: duration
  rec_IdleTimeout :: duration

definition loadRedisConfig :: "RedisEnvConfig loader" where
  "loadRedisConfig =
     andThen (mustGetEnv ''REDIS_HOST'') (\<lambda>host.
     andThen (mustGetEnv ''REDIS_PORT'') (\<lambda>port.
     andThen (mustGetEnv ''REDIS_PASSWORD'') (\<lambda>password.
     andThen (getEnvAsInt ''REDIS_DB'' 0) (\<lambda>database.
     andThen (getEnvAsInt ''REDIS_MAX_RETRIES'' 3) (\<lambda>retries.
     andThen (getEnvAsInt ''REDIS_POOL_SIZE'' 10) (\<lambda>poolSize.
     andThen (getEnvAsInt ''REDIS_MIN_IDLE_CONNS'' 5) (\<lambda>minIdle.
     andThen (getEnvAsInt ''REDIS_READ_TIMEOUT_SECONDS'' 5) (\<lambda>readT.
     andThen (getEnvAsInt ''REDIS_WRITE_TIMEOUT_SECONDS'' 5) (\<lambda>writeT.
     andThen (getEnvAsInt ''REDIS_DIAL_TIMEOUT_SECONDS'' 5) (\<lambda>dialT.
     ok \<lparr>rec_Addr = host @ '':'' @ port, rec_Password = password, rec_DB = database, rec_PoolSize = poolSize,
         rec_MinIdleConns = minIdle, rec_MaxRetries = retries, rec_ReadTimeout = durationOf readT Second,
         rec_WriteTimeout = durationOf writeT Second, rec_IdleTimeout = durationOf dialT Second\<rparr>))))))))))"

record VNPayConfig =
  vnp_TMNCode :: string
  vnp_HashSecret :: string
  vnp_PaymentURL :: string
  vnp_ReturnURL :: string
  vnp_NotifyURL :: string

definition loadVNPayConfig :: "VNPayConfig loader" where
  "loadVNPayConfig =
     andThen (mustGetEnv ''VNPAY_TMN_CODE'') (\<lambda>tmn.
     andThen (mustGetEnv ''VNPAY_HASH_SECRET'') (\<lambda>secret.
     andThen (mustGetEnv ''VNPAY_PAYMENT_URL'') (\<lambda>payment.
     andThen (mustGetEnv ''VNPAY_RETURN_URL'') (\<lambda>ret.
     andThen (mustGetEnv ''VNPAY_NOTIFY_URL'') (\<lambda>notify.
     ok \<lparr>vnp_TMNCode = tmn, vnp_HashSecret = secret, vnp_PaymentURL = payment, vnp_ReturnURL = ret,
         vnp_NotifyURL = notify\<rparr>)))))"

section \<open>The whole\<close>

record Config =
  cfg_App :: AppConfig
  cfg_DB :: DBConfig
  cfg_Redis :: RedisEnvConfig
  cfg_Kafka :: KafkaEnvConfig
  cfg_Minio :: MinioConfig
  cfg_JWT :: JWTConfig
  cfg_Email :: EmailConfig
  cfg_VNPay :: VNPayConfig
  cfg_AsynqConfig :: AsynqConfig
  cfg_RateLimit :: RateLimitConfig
  cfg_CORS :: CORSConfig
  cfg_Logger :: LoggerConfig

definition Config_validate :: "Config \<Rightarrow> unit loader" where
  "Config_validate c =
     (if jwt_Secret (cfg_JWT c) = '''' then fail (Panic ''missing JWT secret'')
      else if dbc_Host (cfg_DB c) = '''' \<or> dbc_Name (cfg_DB c) = '''' \<or> dbc_User (cfg_DB c) = ''''
      then fail (Panic ''missing database config'')
      else ok ())"

text \<open>The database part is loaded first. \<open>dotenv\<close> is \<^verbatim>\<open>godotenv.Load\<close>, whose error is ignored.\<close>

definition MustLoad :: "(environ \<Rightarrow> environ) \<Rightarrow> Config loader" where
  "MustLoad dotenv e =
     (andThen loadDBConfig (\<lambda>database.
     andThen loadAppConfig (\<lambda>app.
     andThen loadRedisConfig (\<lambda>red.
     andThen loadKafkaConfig (\<lambda>kafka.
     andThen loadMinioConfig (\<lambda>minio.
     andThen loadJWTConfig (\<lambda>jwt.
     andThen loadEmailConfig (\<lambda>email.
     andThen loadVNPayConfig (\<lambda>vnpay.
     andThen loadAsynqConfig (\<lambda>asynq.
     andThen loadRateLimitConfig (\<lambda>rate.
     andThen loadLoggerConfig (\<lambda>logger.
     (let cfg = \<lparr>cfg_App = app, cfg_DB = database, cfg_Redis = red, cfg_Kafka = kafka, cfg_Minio = minio, cfg_JWT = jwt,
          cfg_Email = email, cfg_VNPay = vnpay, cfg_AsynqConfig = asynq, cfg_RateLimit = rate,
          cfg_CORS = loadCORSConfig, cfg_Logger = logger\<rparr>
      in andThen (Config_validate cfg) (\<lambda>_. ok cfg)))))))))))))) (dotenv e)"

section \<open>Providers\<close>

definition ProvideAuthManager :: "Config \<Rightarrow> JWTConfig" where
  "ProvideAuthManager cfg = cfg_JWT cfg"

definition ProvideKafkaConfig :: "Config \<Rightarrow> KafkaConfig" where
  "ProvideKafkaConfig cfg =
     (let k = cfg_Kafka cfg;
          c0 = DefaultKafkaConfig;
          c1 = (if length (kec_Brokers k) > 0 then c0\<lparr>kc_Brokers := kec_Brokers k\<rparr> else c0);
          c2 = (if kec_ClientID k \<noteq> '''' then c1\<lparr>kc_ClientID := kec_ClientID k\<rparr> else c1)
      in if kec_ConsumerGroupID k \<noteq> '''' then c2\<lparr>kc_ConsumerGroupID := kec_ConsumerGroupID k\<rparr> else c2)"

definition ProvideShutdownTimeout :: "Config \<Rightarrow> duration" where
  "ProvideShutdownTimeout cfg = app_GracefulShutdownTimeout (cfg_App cfg)"

text \<open>\<^verbatim>\<open>internal/platform/redis/config.go\<close> and \<^verbatim>\<open>provider.go\<close>.\<close>

record RedisConfig =
  rcf_Addr :: string
  rcf_Username :: string
  rcf_Password :: string
  rcf_DB :: int
  rcf_KeyPrefix :: string
  rcf_DialTimeout :: duration
  rcf_ReadTimeout :: duration
  rcf_WriteTimeout :: duration
  rcf_PoolSize :: int
  rcf_MinIdleConns :: int

definition withDefaults :: "RedisConfig \<Rightarrow> RedisConfig" where
  "withDefaults c0 =
     (let c1 = (if rcf_Addr c0 = '''' then c0\<lparr>rcf_Addr := ''127.0.0.1:6379''\<rparr> else c0);
          c2 = (if rcf_KeyPrefix c1 = '''' then c1\<lparr>rcf_KeyPrefix := ''app''\<rparr> else c1);
          c3 = (if rcf_DialTimeout c2 \<le> 0 then c2\<lparr>rcf_DialTimeout := 3 * Second\<rparr> else c2);
          c4 = (if rcf_ReadTimeout c3 \<le> 0 then c3\<lparr>rcf_ReadTimeout := 2 * Second\<rparr> else c3);
          c5 = (if rcf_WriteTimeout c4 \<le> 0 then c4\<lparr>rcf_WriteTimeout := 2 * Second\<rparr> else c4)
      in if rcf_PoolSize c5 \<le> 0 then c5\<lparr>rcf_PoolSize := 20\<rparr> else c5)"

definition ProvideKeyBuilder :: "RedisConfig \<Rightarrow> KeyBuilder" where
  "ProvideKeyBuilder cfg = NewKeyBuilder (rcf_KeyPrefix (withDefaults cfg))"

section \<open>What start-up requires\<close>

text \<open>The variables that have no default, in the order the code first reads them.\<close>

definition requiredEnv :: "string list" where
  "requiredEnv =
     [''DB_HOST'', ''DB_PORT'', ''DB_NAME'', ''DB_USER'', ''DB_PASSWORD'', ''DB_SSL_MODE'', ''DB_MIGRATION_DIR'',
      ''APP_ENV'', ''APP_NAME'', ''APP_PORT'', ''APP_VERSION'', ''REDIS_HOST'', ''REDIS_PORT'', ''REDIS_PASSWORD'',
      ''KAFKA_BROKERS'', ''KAFKA_CONSUMER_GROUP_ID'', ''KAFKA_CLIENT_ID'', ''KAFKA_TOPIC_PREFIX'',
      ''MINIO_ENDPOINT'', ''MINIO_ACCESS_KEY'', ''MINIO_SECRET_KEY'', ''MINIO_BUCKET_AVATARS'', ''MINIO_BUCKET_BOOKS'',
      ''JWT_SECRET'', ''JWT_ISSUER'', ''SMTP_HOST'', ''SMTP_USER'', ''SMTP_PASSWORD'', ''SMTP_FROM_EMAIL'',
      ''SMTP_FROM_NAME'', ''VNPAY_TMN_CODE'', ''VNPAY_HASH_SECRET'', ''VNPAY_PAYMENT_URL'', ''VNPAY_RETURN_URL'',
      ''VNPAY_NOTIFY_URL'', ''LOG_LEVEL'', ''LOG_FORMAT'', ''LOG_OUTPUT'']"

text \<open>
  What a loader needs: it leaves the environment alone; it ends the process, naming the first of
  \<open>ks\<close> that is empty, when there is one, and otherwise yields a value that satisfies \<open>Q\<close>.
\<close>

definition needs :: "string list \<Rightarrow> ('a \<Rightarrow> bool) \<Rightarrow> 'a loader \<Rightarrow> bool" where
  "needs ks Q m \<longleftrightarrow> (\<forall>e. snd (m e) = e \<and>
     (case find (\<lambda>k. e k = '''') ks of
        Some k \<Rightarrow> fst (m e) = Inl (Fatal (''missing required env: '' @ k))
      | None \<Rightarrow> \<exists>x. fst (m e) = Inr x \<and> Q x))"

lemma needsD: "needs ks Q m \<Longrightarrow> snd (m e) = e \<and>
     (case find (\<lambda>k. e k = '''') ks of
        Some k \<Rightarrow> fst (m e) = Inl (Fatal (''missing required env: '' @ k))
      | None \<Rightarrow> \<exists>x. fst (m e) = Inr x \<and> Q x)"
  by (simp add: needs_def)

lemma find_append: "find P (xs @ ys) = (case find P xs of None \<Rightarrow> find P ys | Some x \<Rightarrow> Some x)"
  by (induction xs) auto

lemma needs_andThen:
  assumes "needs ks Q m" and "\<And>x. Q x \<Longrightarrow> needs ks' R (f x)"
  shows "needs (ks @ ks') R (andThen m f)"
  unfolding needs_def
proof
  fix e
  show "snd (andThen m f e) = e \<and> (case find (\<lambda>k. e k = '''') (ks @ ks') of
      Some k \<Rightarrow> fst (andThen m f e) = Inl (Fatal (''missing required env: '' @ k))
    | None \<Rightarrow> \<exists>x. fst (andThen m f e) = Inr x \<and> R x)"
  proof (cases "find (\<lambda>k. e k = '''') ks")
    case None
    with needsD [OF assms(1), of e] obtain x where "m e = (Inr x, e)" "Q x" by (cases "m e") auto
    then have step: "andThen m f e = f x e" and "needs ks' R (f x)" by (simp_all add: andThen_step assms(2))
    then show ?thesis unfolding step find_append None option.case using needsD by blast
  next
    case (Some k)
    with needsD [OF assms(1), of e] have "m e = (Inl (Fatal (''missing required env: '' @ k)), e)" by (cases "m e") auto
    then show ?thesis using Some by (simp add: andThen_stop find_append)
  qed
qed

lemma needs_mustGetEnv: "(\<And>v. v \<noteq> '''' \<Longrightarrow> needs ks R (f v)) \<Longrightarrow> needs (key # ks) R (andThen (mustGetEnv key) f)"
  by (rule needs_andThen [where ks = "[key]" and Q = "\<lambda>v. v \<noteq> ''''", simplified append_Cons append_Nil])
    (auto simp: needs_def mustGetEnv_def Getenv_def andThen_def fail_def ok_def)

lemma needs_getEnvAsInt: "(\<And>n. needs ks R (f n)) \<Longrightarrow> needs ks R (andThen (getEnvAsInt key d) f)"
  by (rule needs_andThen [where ks = "[]" and Q = "\<lambda>_. True", simplified append_Nil])
    (auto simp: needs_def getEnvAsInt_def Getenv_def andThen_def ok_def split: prod.splits option.splits)

lemma needs_getEnvAsBool: "(\<And>b. needs ks R (f b)) \<Longrightarrow> needs ks R (andThen (getEnvAsBool key d) f)"
  by (rule needs_andThen [where ks = "[]" and Q = "\<lambda>_. True", simplified append_Nil])
    (auto simp: needs_def getEnvAsBool_def Getenv_def andThen_def ok_def split: option.splits)

lemma needs_ok: "R x \<Longrightarrow> needs [] R (ok x)"
  by (simp add: needs_def ok_def)

lemmas needs_steps = needs_mustGetEnv needs_getEnvAsInt needs_getEnvAsBool needs_ok

text \<open>The parts, with what the validation at the end looks at.\<close>

lemma needs_loadDBConfig:
  "needs [''DB_HOST'', ''DB_PORT'', ''DB_NAME'', ''DB_USER'', ''DB_PASSWORD'', ''DB_SSL_MODE'', ''DB_MIGRATION_DIR'']
     (\<lambda>d. dbc_Host d \<noteq> '''' \<and> dbc_Name d \<noteq> '''' \<and> dbc_User d \<noteq> '''') loadDBConfig"
  unfolding loadDBConfig_def by (intro needs_steps) simp

lemma needs_loadJWTConfig: "needs [''JWT_SECRET'', ''JWT_ISSUER''] (\<lambda>j. jwt_Secret j \<noteq> '''') loadJWTConfig"
  unfolding loadJWTConfig_def by (intro needs_steps) simp

lemma needs_loaders:
  "needs [''APP_ENV'', ''APP_NAME'', ''APP_PORT'', ''APP_VERSION''] (\<lambda>_. True) loadAppConfig"
  "needs [''REDIS_HOST'', ''REDIS_PORT'', ''REDIS_PASSWORD''] (\<lambda>_. True) loadRedisConfig"
  "needs [''KAFKA_BROKERS'', ''KAFKA_CONSUMER_GROUP_ID'', ''KAFKA_CLIENT_ID'', ''KAFKA_TOPIC_PREFIX''] (\<lambda>_. True) loadKafkaConfig"
  "needs [''MINIO_ENDPOINT'', ''MINIO_ACCESS_KEY'', ''MINIO_SECRET_KEY'', ''MINIO_BUCKET_AVATARS'', ''MINIO_BUCKET_BOOKS'']
     (\<lambda>_. True) loadMinioConfig"
  "needs [''SMTP_HOST'', ''SMTP_USER'', ''SMTP_PASSWORD'', ''SMTP_FROM_EMAIL'', ''SMTP_FROM_NAME''] (\<lambda>_. True) loadEmailConfig"
  "needs [''VNPAY_TMN_CODE'', ''VNPAY_HASH_SECRET'', ''VNPAY_PAYMENT_URL'', ''VNPAY_RETURN_URL'', ''VNPAY_NOTIFY_URL'']
     (\<lambda>_. True) loadVNPayConfig"
  "needs [''REDIS_HOST'', ''REDIS_PORT'', ''REDIS_PASSWORD''] (\<lambda>_. True) loadAsynqConfig"
  "needs [] (\<lambda>_. True) loadRateLimitConfig"
  "needs [''LOG_LEVEL'', ''LOG_FORMAT'', ''LOG_OUTPUT''] (\<lambda>_. True) loadLoggerConfig"
  unfolding loadAppConfig_def loadRedisConfig_def loadKafkaConfig_def loadMinioConfig_def loadEmailConfig_def
    loadVNPayConfig_def loadAsynqConfig_def loadRateLimitConfig_def loadLoggerConfig_def
  by (intro needs_steps TrueI)+

text \<open>The validation at the end never fails: the loaders have ended the process before.\<close>

lemma needs_validate:
  assumes "jwt_Secret (cfg_JWT c) \<noteq> ''''"
    and "dbc_Host (cfg_DB c) \<noteq> '''' \<and> dbc_Name (cfg_DB c) \<noteq> '''' \<and> dbc_User (cfg_DB c) \<noteq> ''''"
  shows "andThen (Config_validate c) (\<lambda>_. ok c) = ok c"
  using assms by (simp add: Config_validate_def)

lemma find_again: "set ys \<subseteq> set xs \<Longrightarrow> find P (xs @ ys @ zs) = find P (xs @ zs)"
proof (cases "find P xs")
  case None
  assume "set ys \<subseteq> set xs"
  with None have "find P ys = None" by (auto simp: find_None_iff)
  with None show ?thesis by (simp add: find_append)
qed (simp add: find_append)

text \<open>The variables in the order they are read: the second reading of the Redis variables adds nothing.\<close>

definition envReads :: "string list" where
  "envReads = [''DB_HOST'', ''DB_PORT'', ''DB_NAME'', ''DB_USER'', ''DB_PASSWORD'', ''DB_SSL_MODE'', ''DB_MIGRATION_DIR'']
    @ [''APP_ENV'', ''APP_NAME'', ''APP_PORT'', ''APP_VERSION''] @ [''REDIS_HOST'', ''REDIS_PORT'', ''REDIS_PASSWORD'']
    @ [''KAFKA_BROKERS'', ''KAFKA_CONSUMER_GROUP_ID'', ''KAFKA_CLIENT_ID'', ''KAFKA_TOPIC_PREFIX'']
    @ [''MINIO_ENDPOINT'', ''MINIO_ACCESS_KEY'', ''MINIO_SECRET_KEY'', ''MINIO_BUCKET_AVATARS'', ''MINIO_BUCKET_BOOKS'']
    @ [''JWT_SECRET'', ''JWT_ISSUER''] @ [''SMTP_HOST'', ''SMTP_USER'', ''SMTP_PASSWORD'', ''SMTP_FROM_EMAIL'', ''SMTP_FROM_NAME'']
    @ [''VNPAY_TMN_CODE'', ''VNPAY_HASH_SECRET'', ''VNPAY_PAYMENT_URL'', ''VNPAY_RETURN_URL'', ''VNPAY_NOTIFY_URL'']
    @ [''REDIS_HOST'', ''REDIS_PORT'', ''REDIS_PASSWORD''] @ [] @ [''LOG_LEVEL'', ''LOG_FORMAT'', ''LOG_OUTPUT''] @ []"

lemma find_envReads: "find P envReads = find P requiredEnv"
  using find_again [of "[''REDIS_HOST'', ''REDIS_PORT'', ''REDIS_PASSWORD'']" "take 35 requiredEnv" P
      "[''LOG_LEVEL'', ''LOG_FORMAT'', ''LOG_OUTPUT'']"]
  by (simp add: requiredEnv_def envReads_def del: find.simps)

lemma needs_MustLoad: "needs requiredEnv (\<lambda>_. True) (MustLoad id)"
proof -
  have "needs envReads (\<lambda>_. True) (MustLoad id)"
    unfolding envReads_def MustLoad_def [abs_def] id_apply Let_def
    by (rule needs_andThen [OF needs_loadDBConfig] needs_andThen [OF needs_loadJWTConfig] needs_loaders [THEN needs_andThen])+
      (subst needs_validate; simp add: needs_ok)
  then show ?thesis unfolding needs_def find_envReads .
qed


section \<open>What the configuration means\<close>

text \<open>What \<open>MustLoad\<close> stores is what the loaders read.\<close>

lemma andThen_needsE:
  assumes "andThen m f e = (Inr y, e')" and "needs ks Q m"
  obtains x where "m e = (Inr x, e)" "f x e = (Inr y, e')"
proof -
  from assms(1) obtain x e1 where "m e = (Inr x, e1)" "f x e1 = (Inr y, e')" by (rule andThen_InrE)
  then show ?thesis using needsD [OF assms(2), of e] that by simp
qed

lemma MustLoad_JWT:
  assumes "fst (MustLoad dotenv e) = Inr cfg"
  shows "loadJWTConfig (dotenv e) = (Inr (cfg_JWT cfg), dotenv e)"
proof -
  from assms obtain e' where "MustLoad dotenv e = (Inr cfg, e')" by (metis prod.collapse)
  then show ?thesis
    unfolding MustLoad_def Let_def
    apply -
    apply (erule andThen_needsE [OF _ needs_loadDBConfig])
    apply (erule andThen_needsE [OF _ needs_loaders(1)])
    apply (erule andThen_needsE [OF _ needs_loaders(2)])
    apply (erule andThen_needsE [OF _ needs_loaders(3)])
    apply (erule andThen_needsE [OF _ needs_loaders(4)])
    apply (erule andThen_needsE [OF _ needs_loadJWTConfig])
    apply (elim andThen_InrE)
    apply (clarsimp simp: ok_def)
    done
qed

text \<open>
  The number in JWT\_ACCESS\_TOKEN\_TTL\_MINUTES is taken as hours: an access token lives
  sixty times as long as the variable says.
\<close>

theorem access_token_ttl_in_hours:
  assumes "fst (MustLoad dotenv e) = Inr cfg" and "dotenv e ''JWT_ACCESS_TOKEN_TTL_MINUTES'' = FormatInt n"
    and "\<bar>n\<bar> \<le> 2562047"
  shows "jwt_AccessTokenTTL (ProvideAuthManager cfg) = 60 * (n * Minute)"
proof -
  have "ParseInt (FormatInt n) = (n, None)" "FormatInt n \<noteq> ''''"
    using assms(3) by (simp_all add: ParseInt_FormatInt int64_max_def)
  moreover obtain j where j: "j = cfg_JWT cfg" by simp
  ultimately show ?thesis using MustLoad_JWT [OF assms(1), folded j] assms(2,3) unfolding ProvideAuthManager_def j [symmetric]
    by (auto simp: loadJWTConfig_def getEnvAsInt_def mustGetEnv_def Getenv_def andThen_def ok_def fail_def
        durationOf_def wrap64_id Hour_def Minute_def split: if_splits sum.splits prod.splits option.splits)
qed

text \<open>No variable sets the dead-letter topic, the retries or the back-off of the Kafka client.\<close>

lemma ProvideKafkaConfig_fixed:
  "kc_DLQTopic (ProvideKafkaConfig cfg) = ''''"
  "kc_ConsumerMaxRetries (ProvideKafkaConfig cfg) = kc_ConsumerMaxRetries DefaultKafkaConfig"
  "kc_ConsumerRetryBackoff (ProvideKafkaConfig cfg) = kc_ConsumerRetryBackoff DefaultKafkaConfig"
  by (simp_all add: ProvideKafkaConfig_def DefaultKafkaConfig_def Let_def)

text \<open>The Redis client never runs without a timeout.\<close>

lemma withDefaults_positive:
  "0 < rcf_DialTimeout (withDefaults c)" "0 < rcf_ReadTimeout (withDefaults c)" "0 < rcf_WriteTimeout (withDefaults c)"
  "0 < rcf_PoolSize (withDefaults c)" "rcf_KeyPrefix (withDefaults c) \<noteq> ''''"
  by (simp_all add: withDefaults_def Let_def Second_def)


end
