(* ===== verification/Httpx.thy ===== *)
theory Httpx
  imports Config Idempotency
begin

text \<open>
  The HTTP platform (\<^verbatim>\<open>internal/platform/httpx\<close>) and the idempotency middleware
  (\<^verbatim>\<open>internal/platform/idempotency/middleware.go\<close>). A gin handler is a function of its context and the
  world; a middleware takes the rest of the chain (what \<^verbatim>\<open>c.Next()\<close> runs) as an argument, and
  aborting is not calling it. What gin, the JSON encoder and the validator do with bytes is the
  parameter \<open>gin\<close>.
\<close>

section \<open>Requests, responses and the gin context\<close>

text \<open>
  A request as gin hands it to the handlers: \<open>rq_FullPath\<close> is the pattern of the matched route
  (empty when there is none), \<open>rq_Params\<close> the values of its parameters; header names are canonical.
\<close>

record httpRequest =
  rq_Method :: string
  rq_FullPath :: string
  rq_Params :: "(string \<times> string) list"
  rq_Header :: "string \<Rightarrow> string"
  rq_Cookie :: "string \<Rightarrow> string option"
  rq_Body :: string
  rq_ClientIP :: string

record httpResponse =
  hr_Status :: int
  hr_Header :: "(string \<times> string list) list"
  hr_Body :: string

record cookie =
  ck_Name :: string
  ck_Value :: string
  ck_MaxAge :: int
  ck_Path :: string
  ck_Domain :: string
  ck_Secure :: bool
  ck_HttpOnly :: bool

text \<open>
  \<open>gin_JSON\<close> is the text \<^verbatim>\<open>c.JSON\<close> writes for a value, \<open>gin_Bind\<close> the members of the request's JSON
  object under the names of a struct's tags, \<open>gin_Validate\<close> the validator on the fields of a struct
  (field, binding tag, value), \<open>gin_Cookie\<close> the Set-Cookie text, \<open>gin_NoRoute\<close> gin's answer when no
  route matches and \<open>gin_ParseUUID\<close> the UUID parser.
\<close>

record gin =
  gin_JSON :: "json \<Rightarrow> string"
  gin_Bind :: "string list \<Rightarrow> string \<Rightarrow> gerror + (string \<times> json) list"
  gin_Validate :: "(string \<times> string \<times> string) list \<Rightarrow> gerror option"
  gin_Cookie :: "cookie \<Rightarrow> string"
  gin_NoRoute :: "httpResponse \<Rightarrow> httpResponse"
  gin_ParseUUID :: "string \<Rightarrow> gerror + string"

text \<open>What the authentication middleware stores in the context (\<^verbatim>\<open>AuthContext\<close> of the identity module).\<close>

record AuthContext =
  acx_UserID :: int
  acx_Email :: string
  acx_Role :: string
  acx_DeviceID :: int
  acx_SessionID :: int
  acx_JTI :: string

datatype ginValue = GVString string | GVBool bool | GVUUID string | GVAuth AuthContext

record ginCtx =
  gc_Request :: httpRequest
  gc_ctx :: ctx
  gc_Keys :: "string \<Rightarrow> ginValue option"
  gc_Writer :: httpResponse

type_synonym handler = "ginCtx \<Rightarrow> world \<Rightarrow> ginCtx \<times> world"

subsection \<open>Headers\<close>

definition isTokenByte :: "char \<Rightarrow> bool" where
  "isTokenByte c \<longleftrightarrow> (let n = of_char c :: nat in
     48 \<le> n \<and> n \<le> 57 \<or> 65 \<le> n \<and> n \<le> 90 \<or> 97 \<le> n \<and> n \<le> 122 \<or> c \<in> set ''!#$%&*+-.^_|~'' \<or> n = 39 \<or> n = 96)"

definition upperByte :: "char \<Rightarrow> char" where
  "upperByte c = (let n = of_char c :: nat in if 97 \<le> n \<and> n \<le> 122 then char_of (n - 32) else c)"

fun canonicalBytes :: "bool \<Rightarrow> string \<Rightarrow> string" where
  "canonicalBytes up [] = []"
| "canonicalBytes up (c # s) = (if up then upperByte c else lowerByte c) # canonicalBytes (c = CHR ''-'') s"

text \<open>\<^verbatim>\<open>textproto.CanonicalMIMEHeaderKey\<close>, which \<^verbatim>\<open>Header.Get\<close> and \<^verbatim>\<open>Header.Set\<close> apply to names.\<close>

definition CanonicalHeaderKey :: "string \<Rightarrow> string" where
  "CanonicalHeaderKey k = (if list_all isTokenByte k then canonicalBytes True k else k)"

definition GetHeader :: "string \<Rightarrow> ginCtx \<Rightarrow> string" where
  "GetHeader k gc = rq_Header (gc_Request gc) (CanonicalHeaderKey k)"

definition headerDel :: "string \<Rightarrow> (string \<times> string list) list \<Rightarrow> (string \<times> string list) list" where
  "headerDel k h = filter (\<lambda>p. fst p \<noteq> CanonicalHeaderKey k) h"

definition headerSet :: "string \<Rightarrow> string \<Rightarrow> (string \<times> string list) list \<Rightarrow> (string \<times> string list) list" where
  "headerSet k v h = headerDel k h @ [(CanonicalHeaderKey k, [v])]"

definition headerValues :: "string \<Rightarrow> (string \<times> string list) list \<Rightarrow> string list" where
  "headerValues k h = (case map_of h (CanonicalHeaderKey k) of None \<Rightarrow> [] | Some vs \<Rightarrow> vs)"

definition headerAdd :: "string \<Rightarrow> string \<Rightarrow> (string \<times> string list) list \<Rightarrow> (string \<times> string list) list" where
  "headerAdd k v h = headerDel k h @ [(CanonicalHeaderKey k, headerValues k h @ [v])]"

subsection \<open>Operations of the context\<close>

text \<open>\<^verbatim>\<open>c.Header\<close>: an empty value removes the header.\<close>

definition setHeader :: "string \<Rightarrow> string \<Rightarrow> ginCtx \<Rightarrow> ginCtx" where
  "setHeader k v gc = gc\<lparr>gc_Writer := (gc_Writer gc)\<lparr>hr_Header :=
     (if v = '''' then headerDel k (hr_Header (gc_Writer gc)) else headerSet k v (hr_Header (gc_Writer gc)))\<rparr>\<rparr>"

text \<open>\<^verbatim>\<open>c.Data\<close>: the content type is written only where none is set.\<close>

definition writeData :: "int \<Rightarrow> string \<Rightarrow> string \<Rightarrow> ginCtx \<Rightarrow> ginCtx" where
  "writeData code ctype body gc =
     (let h = hr_Header (gc_Writer gc)
      in gc\<lparr>gc_Writer := \<lparr>hr_Status = code,
           hr_Header = (if headerValues ''Content-Type'' h = [] then headerSet ''Content-Type'' ctype h else h),
           hr_Body = hr_Body (gc_Writer gc) @ body\<rparr>\<rparr>)"

definition writeJSON :: "gin \<Rightarrow> int \<Rightarrow> json \<Rightarrow> ginCtx \<Rightarrow> ginCtx" where
  "writeJSON G code obj = writeData code ''application/json; charset=utf-8'' (gin_JSON G obj)"

definition setKey :: "string \<Rightarrow> ginValue \<Rightarrow> ginCtx \<Rightarrow> ginCtx" where
  "setKey k v gc = gc\<lparr>gc_Keys := (gc_Keys gc)(k \<mapsto> v)\<rparr>"

definition Param :: "string \<Rightarrow> ginCtx \<Rightarrow> string" where
  "Param k gc = (case map_of (rq_Params (gc_Request gc)) k of None \<Rightarrow> '''' | Some v \<Rightarrow> v)"

definition SetCookie :: "gin \<Rightarrow> cookie \<Rightarrow> ginCtx \<Rightarrow> ginCtx" where
  "SetCookie G ck gc = gc\<lparr>gc_Writer := (gc_Writer gc)\<lparr>hr_Header :=
     headerAdd ''Set-Cookie'' (gin_Cookie G ck) (hr_Header (gc_Writer gc))\<rparr>\<rparr>"

section \<open>response.go\<close>

definition httpx_Success :: "gin \<Rightarrow> int \<Rightarrow> string \<Rightarrow> json option \<Rightarrow> ginCtx \<Rightarrow> ginCtx" where
  "httpx_Success G statusCode message data =
     writeJSON G statusCode (JObj ([(''success'', JBool True), (''message'', JStr message)]
       @ (case data of None \<Rightarrow> [] | Some d \<Rightarrow> [(''data'', d)]) @ [(''code'', JNum statusCode)]))"

definition httpx_Error :: "gin \<Rightarrow> int \<Rightarrow> string \<Rightarrow> string \<Rightarrow> ginCtx \<Rightarrow> ginCtx" where
  "httpx_Error G statusCode message err =
     writeJSON G statusCode (JObj [(''success'', JBool False), (''message'', JStr message), (''error'', JStr err),
       (''code'', JNum statusCode)])"

section \<open>request\_id.go, logger.go, cors.go, ratelimit.go\<close>

definition RequestIDMiddleware :: "env \<Rightarrow> handler \<Rightarrow> handler" where
  "RequestIDMiddleware E next gc w =
     (let given = GetHeader ''X-Request-ID'' gc;
          (requestID, w1) = (if given = '''' then (env_uuid E (w_n w), w\<lparr>w_n := Suc (w_n w)\<rparr>) else (given, w));
          gc1 = setKey ''request_id'' (GVString requestID) gc;
          gc2 = gc1\<lparr>gc_ctx := WithRequestIdKey (gc_ctx gc1) requestID\<rparr>
      in next (setHeader ''X-Request-ID'' requestID gc2) w1)"

text \<open>The logger reads the clock before and after.\<close>

definition LoggerMiddleware :: "env \<Rightarrow> handler \<Rightarrow> handler" where
  "LoggerMiddleware E next gc w =
     (case next gc (snd (Now E w)) of (gc', w') \<Rightarrow> (gc', snd (Now E w')))"

definition corsHeaders :: "CORSConfig \<Rightarrow> string \<Rightarrow> ginCtx \<Rightarrow> ginCtx" where
  "corsHeaders cfg origin gc =
     (if \<exists>allowed \<in> set (cors_AllowedOrigins cfg). TrimSpace allowed = origin
      then gc\<lparr>gc_Writer := (gc_Writer gc)\<lparr>hr_Header :=
             headerSet ''Access-Control-Allow-Credentials'' (if cors_AllowCredentials cfg then ''true'' else ''false'')
            (headerSet ''Access-Control-Allow-Headers'' (stringsJoin (cors_AllowedHeaders cfg) '','')
            (headerSet ''Access-Control-Allow-Methods'' (stringsJoin (cors_AllowedMethods cfg) '','')
            (headerSet ''Access-Control-Allow-Origin'' origin (hr_Header (gc_Writer gc)))))\<rparr>\<rparr>
      else gc)"

definition CORSMiddleware :: "CORSConfig \<Rightarrow> handler \<Rightarrow> handler" where
  "CORSMiddleware cfg next gc w =
     (let origin = GetHeader ''Origin'' gc
      in if origin = '''' then next gc w
         else
           (let gc1 = corsHeaders cfg origin gc
            in if rq_Method (gc_Request gc1) = ''OPTIONS''
               then (gc1\<lparr>gc_Writer := (gc_Writer gc1)\<lparr>hr_Status := 204\<rparr>\<rparr>, w)
               else next gc1 w))"

definition RateLimitMiddleware :: "env \<Rightarrow> gin \<Rightarrow> RateLimitConfig \<Rightarrow> handler \<Rightarrow> handler" where
  "RateLimitMiddleware E G cfg next gc w =
     (if \<not> rl_Enabled cfg then next gc w
      else
        (let limit = rl_RequestPerMinute cfg;
             key = ''rate:global:'' @ rq_ClientIP (gc_Request gc)
         in case redisInt E (INCR key) w of
              (Inl err, w1) \<Rightarrow> next gc w1
            | (Inr count, w1) \<Rightarrow>
               (let w2 = (if count = 1 then snd (redis E (EXPIRE key Minute) w1) else w1);
                    remaining = max 0 (wrap64 (limit - count));
                    gc1 = setHeader ''X-RateLimit-Limit'' (FormatInt limit) gc;
                    gc2 = setHeader ''X-RateLimit-Remaining'' (FormatInt remaining) gc1
                in if count > limit
                   then (httpx_Error G 429 ''RATE_LIMIT_EXCEEDED'' ''too many requests, please slow down''
                           (setHeader ''Retry-After'' ''60'' gc2), w2)
                   else next gc2 w2)))"

section \<open>auth\_context.go\<close>

text \<open>An older authentication middleware; the secret is the variable JWT\_SECRET.\<close>

definition unauthorized :: "gin \<Rightarrow> string \<Rightarrow> ginCtx \<Rightarrow> ginCtx" where
  "unauthorized G message =
     writeJSON G 401 (JObj [(''error'', JObj [(''code'', JStr ''UNAUTHORIZED''), (''message'', JStr message)]),
       (''success'', JBool False)])"

definition parseMapClaims :: "env \<Rightarrow> string \<Rightarrow> string \<Rightarrow> (string \<times> json) list io" where
  "parseMapClaims E secret tok =
     (case env_jwtDecode E tok of
        Inl err \<Rightarrow> fail err
      | Inr (isHMAC, JObj claims) \<Rightarrow>
          if \<not> isHMAC then fail (External ''token is unverifiable: unexpected signing method'')
          else andThen (Now E) (\<lambda>now.
            (case env_jwtVerify E secret now tok of Some err \<Rightarrow> fail err | None \<Rightarrow> ok claims))
      | Inr _ \<Rightarrow> fail (External ''token is malformed''))"

definition httpx_AuthMiddleware :: "env \<Rightarrow> gin \<Rightarrow> string \<Rightarrow> handler \<Rightarrow> handler" where
  "httpx_AuthMiddleware E G secret next gc w =
     (let authHeader = GetHeader ''Authorization'' gc
      in if authHeader = '''' then (unauthorized G ''missing authorization header'' gc, w)
         else (case Split (CHR '' '') authHeader of
            [scheme, tokenString] \<Rightarrow>
             if scheme \<noteq> ''Bearer'' then (unauthorized G ''invalid authorization header format'' gc, w)
             else (case parseMapClaims E secret tokenString w of
                (Inl err, w1) \<Rightarrow> (unauthorized G ''invalid token'' gc, w1)
              | (Inr claims, w1) \<Rightarrow>
                 (case jfield ''user_id'' claims of
                    Some (JStr userIDStr) \<Rightarrow>
                     (case gin_ParseUUID G userIDStr of
                        Inl err \<Rightarrow> (writeJSON G 401 (JObj [(''error'', JStr ''invalid UUID format'')]) gc, w1)
                      | Inr userID \<Rightarrow>
                          next (setKey ''user_id'' (GVUUID userID) (setKey ''is_authenticated'' (GVBool True) gc)) w1)
                  | _ \<Rightarrow> (writeJSON G 401 (JObj [(''error'', JStr ''invalid user ID in token'')]) gc, w1)))
          | _ \<Rightarrow> (unauthorized G ''invalid authorization header format'' gc, w)))"

section \<open>The idempotency middleware\<close>

record MiddlewareConfig =
  mc_KeyHeader :: string
  mc_ScopeResolver :: "(ginCtx \<Rightarrow> string) option"
  mc_RequestHasher :: "(ginCtx \<Rightarrow> string \<Rightarrow> gerror + string) option"

definition contentType :: "(string \<times> string) list \<Rightarrow> string" where
  "contentType headers = (case map_of headers ''Content-Type'' of
     Some v \<Rightarrow> if v \<noteq> '''' then v else ''application/json; charset=utf-8''
   | None \<Rightarrow> ''application/json; charset=utf-8'')"

definition flattenHeaders :: "(string \<times> string list) list \<Rightarrow> (string \<times> string) list" where
  "flattenHeaders h = concat (map (\<lambda>(k, vals). case vals of [] \<Rightarrow> [] | v # _ \<Rightarrow> [(k, v)]) h)"

definition errorH :: "gin \<Rightarrow> int \<Rightarrow> gerror \<Rightarrow> ginCtx \<Rightarrow> ginCtx" where
  "errorH G code err = writeJSON G code (JObj [(''error'', JStr (errorText err))])"

definition replayResponse :: "IdemRecord \<Rightarrow> ginCtx \<Rightarrow> ginCtx" where
  "replayResponse rec gc =
     (let gc1 = fold (\<lambda>(k, v). setHeader k v) (ir_Headers rec) gc
      in writeData (ir_ResponseCode rec) (contentType (ir_Headers rec)) (ir_ResponseBody rec)
           (setHeader ''X-Idempotency-Replayed'' ''true'' gc1))"

text \<open>The recorder copies what the handlers write; the headers are those of the underlying writer.\<close>

definition recordedResult :: "httpResponse \<Rightarrow> IdemResult" where
  "recordedResult r = \<lparr>res_StatusCode = hr_Status r, res_Body = hr_Body r, res_Headers = flattenHeaders (hr_Header r)\<rparr>"

definition proceed :: "env \<Rightarrow> IdemService \<Rightarrow> string \<Rightarrow> string \<Rightarrow> handler \<Rightarrow> handler" where
  "proceed E svc scope rawKey next gc w =
     (let before = hr_Body (gc_Writer gc)
      in case next (gc\<lparr>gc_Writer := (gc_Writer gc)\<lparr>hr_Body := ''''\<rparr>\<rparr>) w of (gc', w') \<Rightarrow>
           (let rec = gc_Writer gc'
            in (gc'\<lparr>gc_Writer := rec\<lparr>hr_Body := before @ hr_Body rec\<rparr>\<rparr>,
                snd (CompleteHTTP E svc scope rawKey (recordedResult rec) w'))))"

definition GinMiddleware :: "env \<Rightarrow> gin \<Rightarrow> IdemService \<Rightarrow> MiddlewareConfig \<Rightarrow> handler \<Rightarrow> handler" where
  "GinMiddleware E G svc cfg next gc w =
     (let keyHeader = (if mc_KeyHeader cfg = '''' then ''Idempotency-Key'' else mc_KeyHeader cfg);
          rawKey = GetHeader keyHeader gc;
          scope = (case mc_ScopeResolver cfg of None \<Rightarrow> ''default'' | Some resolve \<Rightarrow> resolve gc)
      in if rawKey = '''' then (errorH G 400 IdemErrMissingKey gc, w)
         else
           (let gc1 = gc\<lparr>gc_ctx := WithIdempotencyKey (gc_ctx gc) rawKey\<rparr>;
                body = rq_Body (gc_Request gc1)
            in case (case mc_RequestHasher cfg of Some hash \<Rightarrow> hash gc1 body | None \<Rightarrow> Inr (HashBytes E body)) of
                 Inl err \<Rightarrow> (errorH G 400 err gc1, w)
               | Inr requestHash \<Rightarrow>
                  (case BeginHTTP E svc scope rawKey requestHash w of
                     (Inl err, w1) \<Rightarrow>
                       if err = IdemErrRequestHashMismatch then (errorH G 409 err gc1, w1)
                       else if err = IdemErrRequestInProgress then (errorH G 409 err gc1, w1)
                       else (errorH G 500 err gc1, w1)
                   | (Inr begin, w1) \<Rightarrow>
                       (case (br_Decision begin, br_Record begin) of
                          (BeginReplay, Some rec) \<Rightarrow> (replayResponse rec gc1, w1)
                        | _ \<Rightarrow> proceed E svc scope rawKey next gc1 w1))))"

end
