(* ===== verification/Identity_Http.thy ===== *)
theory Identity_Http
  imports Httpx Auth_Service Address_Service Profile_Service
begin

text \<open>
  The HTTP layer of the identity module (\<^verbatim>\<open>internal/modules/identity/http\<close>): the authentication
  middlewares, the requests with their validation, the handlers, the routes, and the engine
  \<^verbatim>\<open>internal/bootstrap\<close> builds from them.
\<close>

section \<open>middleware/auth\_middleware.go and strict\_auth.go\<close>

definition authContextKey :: string where "authContextKey = ''auth_context''"
definition AuthorizationHeader :: string where "AuthorizationHeader = ''Authorization''"

definition ERROR_MISSING_TOKEN :: string where "ERROR_MISSING_TOKEN = ''MISSING_TOKEN''"
definition ERROR_INVALID_TOKEN_FORMAT :: string where "ERROR_INVALID_TOKEN_FORMAT = ''INVALID_TOKEN_FORMAT''"
definition ERROR_INVALID_TOKEN :: string where "ERROR_INVALID_TOKEN = ''INVALID_TOKEN''"
definition MESSAGE_MISSING_TOKEN :: string where "MESSAGE_MISSING_TOKEN = ''authorization header is required''"
definition MESSAGE_INVALID_TOKEN :: string where "MESSAGE_INVALID_TOKEN = ''token is invalid or expired''"
definition MESSAGE_INVALID_TOKEN_FORMAT :: string where
  "MESSAGE_INVALID_TOKEN_FORMAT = ''authorization header must be '' @ [CHR 0x27] @ ''Bearer <token>'' @ [CHR 0x27]"

definition tokenError :: "gin \<Rightarrow> string \<Rightarrow> string \<Rightarrow> ginCtx \<Rightarrow> ginCtx" where
  "tokenError G code message =
     writeJSON G 401 (JObj [(''error'', JObj [(''code'', JStr code), (''message'', JStr message)])])"

text \<open>The errors of the two conversions are ignored: what \<open>ParseInt\<close> returns beside them is used.\<close>

definition authContextOf :: "Claims \<Rightarrow> AuthContext" where
  "authContextOf claims =
     \<lparr>acx_UserID = cl_UserID claims, acx_Email = cl_Email claims, acx_Role = cl_Role claims,
      acx_DeviceID = fst (ParseInt (cl_DeviceID claims)), acx_SessionID = fst (ParseInt (cl_SessionID claims)),
      acx_JTI = cl_ID claims\<rparr>"

definition NewAuthMiddleware :: "env \<Rightarrow> gin \<Rightarrow> JWTConfig \<Rightarrow> handler \<Rightarrow> handler" where
  "NewAuthMiddleware E G cfg next gc w =
     (let authHeader = GetHeader AuthorizationHeader gc
      in if authHeader = '''' then (tokenError G ERROR_MISSING_TOKEN MESSAGE_MISSING_TOKEN gc, w)
         else (case SplitN2 (CHR '' '') authHeader of
            [scheme, rest] \<Rightarrow>
             if \<not> EqualFoldASCII scheme ''Bearer''
             then (tokenError G ERROR_INVALID_TOKEN_FORMAT MESSAGE_INVALID_TOKEN_FORMAT gc, w)
             else (case ValidateAccessToken E cfg (TrimSpace rest) w of
                (Inl err, w1) \<Rightarrow> (tokenError G ERROR_INVALID_TOKEN MESSAGE_INVALID_TOKEN gc, w1)
              | (Inr claims, w1) \<Rightarrow> next (setKey authContextKey (GVAuth (authContextOf claims)) gc) w1)
          | _ \<Rightarrow> (tokenError G ERROR_INVALID_TOKEN_FORMAT MESSAGE_INVALID_TOKEN_FORMAT gc, w)))"

definition GetAuthContext :: "ginCtx \<Rightarrow> AuthContext option" where
  "GetAuthContext gc = (case gc_Keys gc authContextKey of Some (GVAuth ac) \<Rightarrow> Some ac | _ \<Rightarrow> None)"

definition NewStrictAuthMiddleware :: "env \<Rightarrow> gin \<Rightarrow> handler \<Rightarrow> handler" where
  "NewStrictAuthMiddleware E G next gc w =
     (case GetAuthContext gc of
        None \<Rightarrow> (writeJSON G 401 (JObj [(''error'', JStr ''Unauthorized: Missing JTI'')]) gc, w)
      | Some ac \<Rightarrow>
         if acx_JTI ac = '''' then (writeJSON G 401 (JObj [(''error'', JStr ''Unauthorized: Missing JTI'')]) gc, w)
         else (case IsTokenBlacklisted E (acx_JTI ac) w of
            (Inl err, w1) \<Rightarrow> (writeJSON G 500 (JObj [(''error'', JStr ''Internal server error'')]) gc, w1)
          | (Inr isBlacklisted, w1) \<Rightarrow>
             if isBlacklisted then (writeJSON G 401 (JObj [(''error'', JStr ''Unauthorized: Token revoked'')]) gc, w1)
             else next gc w1))"

section \<open>response.go\<close>

definition RegisterSuccess :: string where "RegisterSuccess = ''REGISTER_SUCCESS''"
definition LoginSuccess :: string where "LoginSuccess = ''LOGIN_SUCCESS''"
definition RefreshTokenSuccess :: string where "RefreshTokenSuccess = ''REFRESH_TOKEN_SUCCESS''"
definition VerifyEmailSuccess :: string where "VerifyEmailSuccess = ''VERIFY_EMAIL_SUCCESS''"
definition LogoutSuccess :: string where "LogoutSuccess = ''LOGOUT_SUCCESS''"
definition ChangePasswordSuccess :: string where "ChangePasswordSuccess = ''CHANGE_PASSWORD_SUCCESS''"
definition NotAuthenticated :: string where "NotAuthenticated = ''NOT_AUTHENTICATED''"
definition ValidationErr :: string where "ValidationErr = ''VALIDATION_ERROR''"
definition RegisterSuccessMessage :: string where "RegisterSuccessMessage = ''Registration successful, please verify your email''"
definition MissingRefreshTokenMessage :: string where "MissingRefreshTokenMessage = ''missing refresh token''"
definition MissingAuthContextMessage :: string where "MissingAuthContextMessage = ''missing auth context''"

record RegisterResponse =
  rrp_UserID :: int
  rrp_Email :: string
  rrp_Message :: string

definition jsonRegisterResponse :: "RegisterResponse \<Rightarrow> json" where
  "jsonRegisterResponse r =
     JObj [(''user_id'', JNum (rrp_UserID r)), (''email'', JStr (rrp_Email r)), (''message'', JStr (rrp_Message r))]"

record LoginResponse =
  lrp_AccessToken :: string
  lrp_ExpiresAt :: time

definition jsonLoginResponse :: "LoginResponse \<Rightarrow> json" where
  "jsonLoginResponse r = JObj [(''access_token'', JStr (lrp_AccessToken r)), (''expires_at'', JTime (lrp_ExpiresAt r))]"

record RefreshTokenResponse =
  rtr_AccessToken :: string
  rtr_ExpiresAt :: time

definition jsonRefreshTokenResponse :: "RefreshTokenResponse \<Rightarrow> json" where
  "jsonRefreshTokenResponse r = JObj [(''access_token'', JStr (rtr_AccessToken r)), (''expires_at'', JTime (rtr_ExpiresAt r))]"

section \<open>request.go\<close>

text \<open>
  A request body is decoded into the struct and then validated; both errors answer 422. The rules
  are the binding tags, field by field.
\<close>

definition getBool :: "string \<Rightarrow> (string \<times> json) list \<Rightarrow> bool option" where
  "getBool k fs = (case jfield k fs of None \<Rightarrow> Some False | Some JNull \<Rightarrow> Some False
     | Some (JBool b) \<Rightarrow> Some b | Some _ \<Rightarrow> None)"

definition bindJSON :: "gin \<Rightarrow> string list \<Rightarrow> ((string \<times> json) list \<Rightarrow> 'a option)
    \<Rightarrow> ('a \<Rightarrow> (string \<times> string \<times> string) list) \<Rightarrow> ginCtx \<Rightarrow> ginCtx + 'a" where
  "bindJSON G names decode rules gc =
     (case gin_Bind G names (rq_Body (gc_Request gc)) of
        Inl err \<Rightarrow> Inl (httpx_Error G 422 ValidationErr (errorText err) gc)
      | Inr fs \<Rightarrow>
         (case decode fs of
            None \<Rightarrow> Inl (httpx_Error G 422 ValidationErr ''json: cannot unmarshal'' gc)
          | Some req \<Rightarrow>
             (case gin_Validate G (rules req) of
                Some err \<Rightarrow> Inl (httpx_Error G 422 ValidationErr (errorText err) gc)
              | None \<Rightarrow> Inr req)))"

record RegisterRequest =
  rr_Email :: string
  rr_Password :: string
  rr_FullName :: string
  rr_Phone :: "string option"

definition decodeRegister :: "(string \<times> json) list \<Rightarrow> RegisterRequest option" where
  "decodeRegister fs =
     Option.bind (getStr ''email'' fs) (\<lambda>email.
     Option.bind (getStr ''password'' fs) (\<lambda>password.
     Option.bind (getStr ''full_name'' fs) (\<lambda>fullName.
     Option.bind (getStrPtr ''phone'' fs) (\<lambda>phone.
       Some \<lparr>rr_Email = email, rr_Password = password, rr_FullName = fullName, rr_Phone = phone\<rparr>))))"

definition registerRules :: "RegisterRequest \<Rightarrow> (string \<times> string \<times> string) list" where
  "registerRules r =
     [(''Email'', ''required,email,max=255'', rr_Email r), (''Password'', ''required,min=8,max=72'', rr_Password r),
      (''FullName'', ''required'', rr_FullName r), (''Phone'', ''omitempty'', derefOrEmpty (rr_Phone r))]"

record LoginRequest =
  lr_Email :: string
  lr_Password :: string
  lr_DeviceFingerprint :: string
  lr_DeviceLabel :: string

definition decodeLogin :: "(string \<times> json) list \<Rightarrow> LoginRequest option" where
  "decodeLogin fs =
     Option.bind (getStr ''email'' fs) (\<lambda>email.
     Option.bind (getStr ''password'' fs) (\<lambda>password.
     Option.bind (getStr ''device_fingerprint'' fs) (\<lambda>fingerprint.
     Option.bind (getStr ''device_label'' fs) (\<lambda>label.
       Some \<lparr>lr_Email = email, lr_Password = password, lr_DeviceFingerprint = fingerprint, lr_DeviceLabel = label\<rparr>))))"

definition loginRules :: "LoginRequest \<Rightarrow> (string \<times> string \<times> string) list" where
  "loginRules r =
     [(''Email'', ''required,email'', lr_Email r), (''Password'', ''required'', lr_Password r),
      (''DeviceFingerprint'', ''required'', lr_DeviceFingerprint r), (''DeviceLabel'', ''required'', lr_DeviceLabel r)]"

record VerifyEmailRequest =
  vr_Token :: string

definition decodeVerifyEmail :: "(string \<times> json) list \<Rightarrow> VerifyEmailRequest option" where
  "decodeVerifyEmail fs = Option.bind (getStr ''token'' fs) (\<lambda>token. Some \<lparr>vr_Token = token\<rparr>)"

definition verifyEmailRules :: "VerifyEmailRequest \<Rightarrow> (string \<times> string \<times> string) list" where
  "verifyEmailRules r = [(''Token'', ''required'', vr_Token r)]"

record AddressRequest =
  arq_RecipientName :: string
  arq_RecipientPhone :: string
  arq_Line1 :: string
  arq_Line2 :: string
  arq_ProvinceCode :: string
  arq_DistrictCode :: string
  arq_WardCode :: string
  arq_PostalCode :: string
  arq_CountryCode :: string
  arq_IsDefault :: bool

definition decodeAddress :: "(string \<times> json) list \<Rightarrow> AddressRequest option" where
  "decodeAddress fs =
     Option.bind (getStr ''recipient_name'' fs) (\<lambda>name.
     Option.bind (getStr ''recipient_phone'' fs) (\<lambda>phone.
     Option.bind (getStr ''line1'' fs) (\<lambda>line1.
     Option.bind (getStr ''line2'' fs) (\<lambda>line2.
     Option.bind (getStr ''province_code'' fs) (\<lambda>province.
     Option.bind (getStr ''district_code'' fs) (\<lambda>district.
     Option.bind (getStr ''ward_code'' fs) (\<lambda>ward.
     Option.bind (getStr ''postal_code'' fs) (\<lambda>postal.
     Option.bind (getStr ''country_code'' fs) (\<lambda>country.
     Option.bind (getBool ''is_default'' fs) (\<lambda>isDefault.
       Some \<lparr>arq_RecipientName = name, arq_RecipientPhone = phone, arq_Line1 = line1, arq_Line2 = line2,
         arq_ProvinceCode = province, arq_DistrictCode = district, arq_WardCode = ward, arq_PostalCode = postal,
         arq_CountryCode = country, arq_IsDefault = isDefault\<rparr>))))))))))"

definition addressRules :: "AddressRequest \<Rightarrow> (string \<times> string \<times> string) list" where
  "addressRules r =
     [(''RecipientName'', ''required,max=255'', arq_RecipientName r), (''RecipientPhone'', ''required,max=20'', arq_RecipientPhone r),
      (''Line1'', ''required'', arq_Line1 r), (''ProvinceCode'', ''required'', arq_ProvinceCode r),
      (''DistrictCode'', ''required'', arq_DistrictCode r), (''WardCode'', ''required'', arq_WardCode r)]"

record ChangePasswordRequest =
  cpr_CurrentPassword :: string
  cpr_NewPassword :: string

definition decodeChangePassword :: "(string \<times> json) list \<Rightarrow> ChangePasswordRequest option" where
  "decodeChangePassword fs =
     Option.bind (getStr ''current_password'' fs) (\<lambda>old.
     Option.bind (getStr ''new_password'' fs) (\<lambda>new.
       Some \<lparr>cpr_CurrentPassword = old, cpr_NewPassword = new\<rparr>))"

definition changePasswordRules :: "ChangePasswordRequest \<Rightarrow> (string \<times> string \<times> string) list" where
  "changePasswordRules r =
     [(''CurrentPassword'', ''required'', cpr_CurrentPassword r), (''NewPassword'', ''required'', cpr_NewPassword r)]"

section \<open>auth\_handler.go\<close>

definition writeAuthError :: "gin \<Rightarrow> gerror \<Rightarrow> ginCtx \<Rightarrow> ginCtx" where
  "writeAuthError G err =
     (if errorsIs err (DomainErr ErrEmailAlreadyExist)
      then httpx_Error G 409 ''IDENTITY_EMAIL_ALREADY_EXIST'' ''email already exists''
      else if errorsIs err (DomainErr ErrInvalidCredentials)
      then httpx_Error G 401 ''IDENTITY_INVALID_CREDENTIALS'' ''invalid email or password''
      else if errorsIs err (DomainErr ErrEmailNotVerified)
      then httpx_Error G 403 ''IDENTITY_EMAIL_NOT_VERIFIED'' ''email is not verified''
      else if errorsIs err (DomainErr ErrSessionExpired)
      then httpx_Error G 401 ''IDENTITY_SESSION_EXPIRED'' ''session expired''
      else if errorsIs err (DomainErr ErrSessionRevoked)
      then httpx_Error G 401 ''IDENTITY_SESSION_REVOKED'' ''session revoked''
      else if errorsIs err (DomainErr ErrDeviceLimitReached)
      then httpx_Error G 422 ''IDENTITY_DEVICE_LIMIT_REACHED'' ''device limit reached''
      else httpx_Error G 500 ''INTERNAL_ERROR'' (errorText err))"

definition setCookie :: "gin \<Rightarrow> string \<Rightarrow> int \<Rightarrow> ginCtx \<Rightarrow> ginCtx" where
  "setCookie G refreshToken maxAge =
     SetCookie G \<lparr>ck_Name = ''refresh_token'', ck_Value = refreshToken, ck_MaxAge = maxAge,
       ck_Path = ''/api/v1/auth/refresh-token'', ck_Domain = '''', ck_Secure = False, ck_HttpOnly = True\<rparr>"

text \<open>\<^verbatim>\<open>int(d.Seconds())\<close>: whole seconds, towards zero.\<close>

definition wholeSeconds :: "duration \<Rightarrow> int" where
  "wholeSeconds d = (if d < 0 then - ((- d) div Second) else d div Second)"

definition AuthHandler_Register :: "env \<Rightarrow> gin \<Rightarrow> AuthService \<Rightarrow> handler" where
  "AuthHandler_Register E G s gc w =
     (case bindJSON G [''email'', ''password'', ''full_name'', ''phone''] decodeRegister registerRules gc of
        Inl gc1 \<Rightarrow> (gc1, w)
      | Inr req \<Rightarrow>
         (case Register E s (gc_ctx gc) \<lparr>rc_Email = rr_Email req, rc_Password = rr_Password req,
                 rc_FullName = rr_FullName req, rc_Phone = rr_Phone req\<rparr> w of
            (Inl err, w1) \<Rightarrow> (writeAuthError G err gc, w1)
          | (Inr out, w1) \<Rightarrow>
             (httpx_Success G 201 RegisterSuccess (Some (jsonRegisterResponse \<lparr>rrp_UserID = ro_UserID out,
                rrp_Email = ro_Email out, rrp_Message = RegisterSuccessMessage\<rparr>)) gc, w1)))"

definition AuthHandler_ChangePassword :: "env \<Rightarrow> gin \<Rightarrow> AuthService \<Rightarrow> handler" where
  "AuthHandler_ChangePassword E G s gc w =
     (case GetAuthContext gc of
        None \<Rightarrow> (httpx_Error G 401 NotAuthenticated ''missing auth context'' gc, w)
      | Some ac \<Rightarrow>
         (case bindJSON G [''current_password'', ''new_password''] decodeChangePassword changePasswordRules gc of
            Inl gc1 \<Rightarrow> (gc1, w)
          | Inr req \<Rightarrow>
             (case ChangePassword E s (gc_ctx gc) \<lparr>cp_UserID = acx_UserID ac, cp_CurrentPassword = cpr_CurrentPassword req,
                     cp_NewPassword = cpr_NewPassword req, cp_CurrentSessionID = acx_SessionID ac\<rparr> w of
                (Inl err, w1) \<Rightarrow> (writeAuthError G err gc, w1)
              | (Inr _, w1) \<Rightarrow> (httpx_Success G 200 ChangePasswordSuccess None gc, w1))))"

definition AuthHandler_Login :: "env \<Rightarrow> gin \<Rightarrow> AuthService \<Rightarrow> handler" where
  "AuthHandler_Login E G s gc w =
     (case bindJSON G [''email'', ''password'', ''device_fingerprint'', ''device_label''] decodeLogin loginRules gc of
        Inl gc1 \<Rightarrow> (gc1, w)
      | Inr req \<Rightarrow>
         (case Login E s (gc_ctx gc) \<lparr>lc_Email = lr_Email req, lc_Password = lr_Password req,
                 lc_DeviceFingerprint = lr_DeviceFingerprint req, lc_DeviceLabel = lr_DeviceLabel req,
                 lc_IPAddress = rq_ClientIP (gc_Request gc), lc_UserAgent = GetHeader ''User-Agent'' gc\<rparr> w of
            (Inl err, w1) \<Rightarrow> (writeAuthError G err gc, w1)
          | (Inr out, w1) \<Rightarrow>
             (let maxAge = wholeSeconds (lout_RefreshTokenExpiresAt out - env_now E (w_n w1))
              in (httpx_Success G 200 LoginSuccess (Some (jsonLoginResponse \<lparr>lrp_AccessToken = lout_AccessToken out,
                    lrp_ExpiresAt = lout_AccessTokenExpiresAt out\<rparr>))
                    (setCookie G (lout_RefreshToken out) maxAge gc), snd (Now E w1)))))"

definition AuthHandler_RefreshToken :: "env \<Rightarrow> gin \<Rightarrow> AuthService \<Rightarrow> handler" where
  "AuthHandler_RefreshToken E G s gc w =
     (case rq_Cookie (gc_Request gc) ''refresh_token'' of
        None \<Rightarrow> (httpx_Error G 401 NotAuthenticated MissingRefreshTokenMessage gc, w)
      | Some refreshToken \<Rightarrow>
         (case RefreshToken E s (gc_ctx gc) \<lparr>rt_RefreshToken = refreshToken\<rparr> w of
            (Inl err, w1) \<Rightarrow> (writeAuthError G err gc, w1)
          | (Inr out, w1) \<Rightarrow>
             (let maxAge = wholeSeconds (rto_RefreshTokenExpiresAt out - env_now E (w_n w1))
              in (httpx_Success G 200 RefreshTokenSuccess (Some (jsonRefreshTokenResponse \<lparr>rtr_AccessToken = rto_AccessToken out,
                    rtr_ExpiresAt = rto_AccessTokenExpiresAt out\<rparr>))
                    (setCookie G (rto_RefreshToken out) maxAge gc), snd (Now E w1)))))"

definition AuthHandler_Logout :: "env \<Rightarrow> gin \<Rightarrow> handler" where
  "AuthHandler_Logout E G gc w =
     (case GetAuthContext gc of
        None \<Rightarrow> (httpx_Error G 401 NotAuthenticated MissingAuthContextMessage gc, w)
      | Some ac \<Rightarrow>
         (case Logout E (gc_ctx gc) \<lparr>lo_DeviceID = acx_DeviceID ac, lo_UserID = acx_UserID ac\<rparr> w of
            (Inl err, w1) \<Rightarrow> (writeAuthError G err gc, w1)
          | (Inr _, w1) \<Rightarrow> (httpx_Success G 200 LogoutSuccess None gc, w1)))"

definition AuthHandler_VerifyEmail :: "env \<Rightarrow> gin \<Rightarrow> handler" where
  "AuthHandler_VerifyEmail E G gc w =
     (case bindJSON G [''token''] decodeVerifyEmail verifyEmailRules gc of
        Inl gc1 \<Rightarrow> (gc1, w)
      | Inr req \<Rightarrow>
         (case VerifyEmail E (gc_ctx gc) \<lparr>ve_Token = vr_Token req\<rparr> w of
            (Inl err, w1) \<Rightarrow> (writeAuthError G err gc, w1)
          | (Inr _, w1) \<Rightarrow> (httpx_Success G 200 VerifyEmailSuccess None gc, w1)))"

section \<open>profile\_handler.go\<close>

definition writeProfileError :: "gin \<Rightarrow> string \<Rightarrow> gerror \<Rightarrow> ginCtx \<Rightarrow> ginCtx" where
  "writeProfileError G operation err =
     (if errorsIs err (DomainErr ErrUserNotFound) then httpx_Error G 404 ''USER_NOT_FOUND'' ''user not found''
      else if errorsIs err (DomainErr ErrDeviceNotFound) then httpx_Error G 404 ''DEVICE_NOT_FOUND'' ''device not found''
      else httpx_Error G 500 operation ''internal server error'')"

text \<open>Every handler below starts with the user of the authentication context, or answers 401.\<close>

definition getAuthUser :: "gin \<Rightarrow> ginCtx \<Rightarrow> ginCtx + int" where
  "getAuthUser G gc = (case GetAuthContext gc of
     None \<Rightarrow> Inl (httpx_Error G 401 ''UNAUTHORIZED'' ''missing auth context'' gc)
   | Some ac \<Rightarrow> Inr (acx_UserID ac))"

text \<open>The read models have no JSON tags: their members carry the names of the Go fields. A nil slice is null.\<close>

definition jsonSlice :: "('a \<Rightarrow> json) \<Rightarrow> 'a list \<Rightarrow> json" where
  "jsonSlice f xs = (if xs = [] then JNull else JArr (map f xs))"

definition jsonMe :: "MeView \<Rightarrow> json" where
  "jsonMe v = JObj [(''UserID'', JNum (mv_UserID v)), (''Email'', JStr (mv_Email v)), (''FullName'', JStr (mv_FullName v)),
     (''Status'', JStr (mv_Status v)), (''EmailVerifiedAt'', ptrTime (mv_EmailVerifiedAt v)), (''CreatedAt'', JTime (mv_CreatedAt v))]"

definition jsonSession :: "SessionView \<Rightarrow> json" where
  "jsonSession v = JObj [(''ID'', JNum (sv_ID v)), (''DeviceID'', JNum (sv_DeviceID v)), (''IPAddress'', ptrStr (sv_IPAddress v)),
     (''UserAgent'', JStr (sv_UserAgent v)), (''ExpiredAt'', JTime (sv_ExpiredAt v)), (''RevokedAt'', ptrTime (sv_RevokedAt v)),
     (''CreatedAt'', JTime (sv_CreatedAt v))]"

definition jsonDevice :: "DeviceView \<Rightarrow> json" where
  "jsonDevice v = JObj [(''ID'', JNum (dv_ID v)), (''Fingerprint'', JStr (dv_Fingerprint v)), (''Label'', JStr (dv_Label v)),
     (''FirstSeenAt'', JTime (dv_FirstSeenAt v)), (''LastSeenAt'', JTime (dv_LastSeenAt v)), (''RevokedAt'', ptrTime (dv_RevokedAt v))]"

definition jsonAddress :: "AddressView \<Rightarrow> json" where
  "jsonAddress v = JObj [(''ID'', JNum (av_ID v)), (''RecipientName'', JStr (av_RecipientName v)),
     (''RecipientPhone'', JStr (av_RecipientPhone v)), (''Province'', JStr (av_Province v)), (''District'', JStr (av_District v)),
     (''Ward'', JStr (av_Ward v)), (''Line1'', JStr (av_Line1 v)), (''Line2'', JStr (av_Line2 v)), (''IsDefault'', JBool (av_IsDefault v))]"

definition ProfileHandler_GetMe :: "env \<Rightarrow> gin \<Rightarrow> handler" where
  "ProfileHandler_GetMe E G gc w =
     (case getAuthUser G gc of Inl gc1 \<Rightarrow> (gc1, w) | Inr userID \<Rightarrow>
      (case GetMe E (gc_ctx gc) userID w of
         (Inl err, w1) \<Rightarrow> (writeProfileError G ''GET_ME_FAILED'' err gc, w1)
       | (Inr out, w1) \<Rightarrow> (httpx_Success G 200 ''OK'' (Some (jsonMe out)) gc, w1)))"

definition ProfileHandler_ListSessions :: "env \<Rightarrow> gin \<Rightarrow> handler" where
  "ProfileHandler_ListSessions E G gc w =
     (case getAuthUser G gc of Inl gc1 \<Rightarrow> (gc1, w) | Inr userID \<Rightarrow>
      (case ListSessions E (gc_ctx gc) userID w of
         (Inl err, w1) \<Rightarrow> (writeProfileError G ''LIST_SESSIONS_FAILED'' err gc, w1)
       | (Inr out, w1) \<Rightarrow> (httpx_Success G 200 ''OK'' (Some (jsonSlice jsonSession out)) gc, w1)))"

definition ProfileHandler_RevokeAllSessions :: "env \<Rightarrow> gin \<Rightarrow> handler" where
  "ProfileHandler_RevokeAllSessions E G gc w =
     (case getAuthUser G gc of Inl gc1 \<Rightarrow> (gc1, w) | Inr userID \<Rightarrow>
      (case RevokeAllSessions E (gc_ctx gc) userID w of
         (Inl err, w1) \<Rightarrow> (writeProfileError G ''REVOKE_ALL_SESSIONS_FAILED'' err gc, w1)
       | (Inr _, w1) \<Rightarrow> (httpx_Success G 200 ''OK'' None gc, w1)))"

definition ProfileHandler_ListDevices :: "env \<Rightarrow> gin \<Rightarrow> handler" where
  "ProfileHandler_ListDevices E G gc w =
     (case getAuthUser G gc of Inl gc1 \<Rightarrow> (gc1, w) | Inr userID \<Rightarrow>
      (case ListDevices E (gc_ctx gc) userID w of
         (Inl err, w1) \<Rightarrow> (writeProfileError G ''LIST_DEVICES_FAILED'' err gc, w1)
       | (Inr out, w1) \<Rightarrow> (httpx_Success G 200 ''OK'' (Some (jsonSlice jsonDevice out)) gc, w1)))"

text \<open>A path parameter that must be a positive integer.\<close>

definition positiveParam :: "string \<Rightarrow> ginCtx \<Rightarrow> int option" where
  "positiveParam name gc =
     (case ParseInt (Param name gc) of (i, err) \<Rightarrow> if err \<noteq> None \<or> i \<le> 0 then None else Some i)"

definition ProfileHandler_RevokeDevice :: "env \<Rightarrow> gin \<Rightarrow> handler" where
  "ProfileHandler_RevokeDevice E G gc w =
     (case getAuthUser G gc of Inl gc1 \<Rightarrow> (gc1, w) | Inr userID \<Rightarrow>
      (case positiveParam ''device_id'' gc of
         None \<Rightarrow> (httpx_Error G 400 ''INVALID_DEVICE_ID'' ''device_id must be a valid integer'' gc, w)
       | Some deviceID \<Rightarrow>
          (case RevokeDevice E (gc_ctx gc) userID deviceID w of
             (Inl err, w1) \<Rightarrow> (writeProfileError G ''REVOKE_DEVICE_FAILED'' err gc, w1)
           | (Inr _, w1) \<Rightarrow> (httpx_Success G 200 ''OK'' None gc, w1))))"

section \<open>address\_handler.go\<close>

definition writeAddressError :: "gin \<Rightarrow> string \<Rightarrow> gerror \<Rightarrow> ginCtx \<Rightarrow> ginCtx" where
  "writeAddressError G operation err =
     (if errorsIs err (DomainErr ErrAddressNotFound) then httpx_Error G 404 ''ADDRESS_NOT_FOUND'' ''address not found''
      else httpx_Error G 500 operation ''internal server error'')"

definition addressFields :: "string list" where
  "addressFields = [''recipient_name'', ''recipient_phone'', ''line1'', ''line2'', ''province_code'', ''district_code'',
     ''ward_code'', ''postal_code'', ''country_code'', ''is_default'']"

definition AddressHandler_ListAddresses :: "env \<Rightarrow> gin \<Rightarrow> handler" where
  "AddressHandler_ListAddresses E G gc w =
     (case getAuthUser G gc of Inl gc1 \<Rightarrow> (gc1, w) | Inr userID \<Rightarrow>
      (case ListAddresses E (gc_ctx gc) userID w of
         (Inl err, w1) \<Rightarrow> (writeAddressError G ''LIST_ADDRESSES_FAILED'' err gc, w1)
       | (Inr out, w1) \<Rightarrow> (httpx_Success G 200 ''OK'' (Some (jsonSlice jsonAddress out)) gc, w1)))"

definition AddressHandler_AddAddress :: "env \<Rightarrow> gin \<Rightarrow> handler" where
  "AddressHandler_AddAddress E G gc w =
     (case getAuthUser G gc of Inl gc1 \<Rightarrow> (gc1, w) | Inr userID \<Rightarrow>
      (case bindJSON G addressFields decodeAddress addressRules gc of Inl gc1 \<Rightarrow> (gc1, w) | Inr req \<Rightarrow>
       (case AddAddress E (gc_ctx gc) \<lparr>aa_UserID = userID, aa_RecipientName = arq_RecipientName req,
               aa_RecipientPhone = arq_RecipientPhone req, aa_Line1 = arq_Line1 req, aa_Line2 = arq_Line2 req,
               aa_ProvinceCode = arq_ProvinceCode req, aa_DistrictCode = arq_DistrictCode req, aa_WardCode = arq_WardCode req,
               aa_PostalCode = arq_PostalCode req, aa_CountryCode = arq_CountryCode req, aa_IsDefault = arq_IsDefault req\<rparr> w of
          (Inl err, w1) \<Rightarrow> (writeAddressError G ''ADD_ADDRESS_FAILED'' err gc, w1)
        | (Inr i, w1) \<Rightarrow> (httpx_Success G 201 ''ADDRESS_CREATED'' (Some (JObj [(''id'', JNum i)])) gc, w1))))"

definition AddressHandler_UpdateAddress :: "env \<Rightarrow> gin \<Rightarrow> handler" where
  "AddressHandler_UpdateAddress E G gc w =
     (case getAuthUser G gc of Inl gc1 \<Rightarrow> (gc1, w) | Inr userID \<Rightarrow>
      (case positiveParam ''address_id'' gc of
         None \<Rightarrow> (httpx_Error G 400 ''INVALID_ADDRESS_ID'' ''address_id must be a valid integer'' gc, w)
       | Some addrID \<Rightarrow>
         (case bindJSON G addressFields decodeAddress addressRules gc of Inl gc1 \<Rightarrow> (gc1, w) | Inr req \<Rightarrow>
          (case UpdateAddress E (gc_ctx gc) \<lparr>ua_ID = addrID, ua_UserID = userID, ua_RecipientName = arq_RecipientName req,
                  ua_RecipientPhone = arq_RecipientPhone req, ua_Line1 = arq_Line1 req, ua_Line2 = arq_Line2 req,
                  ua_ProvinceCode = arq_ProvinceCode req, ua_DistrictCode = arq_DistrictCode req, ua_WardCode = arq_WardCode req,
                  ua_PostalCode = arq_PostalCode req, ua_CountryCode = arq_CountryCode req, ua_IsDefault = arq_IsDefault req\<rparr> w of
             (Inl err, w1) \<Rightarrow> (writeAddressError G ''UPDATE_ADDRESS_FAILED'' err gc, w1)
           | (Inr _, w1) \<Rightarrow> (httpx_Success G 200 ''ADDRESS_UPDATED'' None gc, w1)))))"

definition AddressHandler_DeleteAddress :: "env \<Rightarrow> gin \<Rightarrow> handler" where
  "AddressHandler_DeleteAddress E G gc w =
     (case getAuthUser G gc of Inl gc1 \<Rightarrow> (gc1, w) | Inr userID \<Rightarrow>
      (case positiveParam ''address_id'' gc of
         None \<Rightarrow> (httpx_Error G 400 ''INVALID_ADDRESS_ID'' ''address_id must be a valid integer'' gc, w)
       | Some addrID \<Rightarrow>
         (case DeleteAddress E (gc_ctx gc) \<lparr>da_ID = addrID, da_UserID = userID\<rparr> w of
            (Inl err, w1) \<Rightarrow> (writeAddressError G ''DELETE_ADDRESS_FAILED'' err gc, w1)
          | (Inr _, w1) \<Rightarrow> (httpx_Success G 200 ''ADDRESS_DELETED'' None gc, w1))))"

section \<open>router.go\<close>

record route =
  rt_Method :: string
  rt_Path :: string
  rt_Handler :: handler

definition RegisterRoutes ::
  "env \<Rightarrow> gin \<Rightarrow> AuthService \<Rightarrow> (handler \<Rightarrow> handler) \<Rightarrow> (handler \<Rightarrow> handler) \<Rightarrow> (handler \<Rightarrow> handler) \<Rightarrow> route list" where
  "RegisterRoutes E G s authMiddleware idempotencyMiddleware strictAuthMiddleware =
     (let api = ''/api/v1''; auth = api @ ''/auth''; me = api @ ''/me'';
          R = (\<lambda>m p h. \<lparr>rt_Method = m, rt_Path = p, rt_Handler = h\<rparr>)
      in [R ''POST'' (auth @ ''/register'') (idempotencyMiddleware (AuthHandler_Register E G s)),
          R ''POST'' (auth @ ''/login'') (idempotencyMiddleware (AuthHandler_Login E G s)),
          R ''POST'' (auth @ ''/refresh-token'') (authMiddleware (idempotencyMiddleware (AuthHandler_RefreshToken E G s))),
          R ''POST'' (auth @ ''/verify-email'') (idempotencyMiddleware (AuthHandler_VerifyEmail E G)),
          R ''POST'' (auth @ ''/logout'') (authMiddleware (idempotencyMiddleware (AuthHandler_Logout E G))),
          R ''GET'' me (authMiddleware (ProfileHandler_GetMe E G)),
          R ''GET'' (me @ ''/sessions'') (authMiddleware (ProfileHandler_ListSessions E G)),
          R ''DELETE'' (me @ ''/sessions'') (authMiddleware (ProfileHandler_RevokeAllSessions E G)),
          R ''POST'' (me @ ''/change-password'')
            (authMiddleware (strictAuthMiddleware (idempotencyMiddleware (AuthHandler_ChangePassword E G s)))),
          R ''GET'' (me @ ''/devices'') (authMiddleware (ProfileHandler_ListDevices E G)),
          R ''DELETE'' (me @ ''/devices/:deviceId'') (authMiddleware (ProfileHandler_RevokeDevice E G)),
          R ''GET'' (me @ ''/addresses'') (authMiddleware (AddressHandler_ListAddresses E G)),
          R ''POST'' (me @ ''/addresses'') (authMiddleware (AddressHandler_AddAddress E G)),
          R ''PATCH'' (me @ ''/addresses/:addressId'') (authMiddleware (AddressHandler_UpdateAddress E G)),
          R ''DELETE'' (me @ ''/addresses/:addressId'') (authMiddleware (AddressHandler_DeleteAddress E G))])"

section \<open>The engine\<close>

text \<open>
  \<^verbatim>\<open>httpx.NewRouter\<close> and \<^verbatim>\<open>ProvideGinEngine\<close>: the global middlewares around the matched route, or
  around gin's own answer when none matches. No handler of the model panics, so the recovery
  middleware between the first two has nothing to do.
\<close>

definition NewRouter :: "env \<Rightarrow> gin \<Rightarrow> Config \<Rightarrow> handler \<Rightarrow> handler" where
  "NewRouter E G cfg next =
     RequestIDMiddleware E (LoggerMiddleware E (CORSMiddleware (cfg_CORS cfg) (RateLimitMiddleware E G (cfg_RateLimit cfg) next)))"

definition identityScope :: "ginCtx \<Rightarrow> string" where
  "identityScope gc = ''identity:'' @ last (Split (CHR ''/'') (rq_FullPath (gc_Request gc)))"

record api =
  api_Config :: Config
  api_Auth :: AuthService
  api_Idempotency :: IdemService

definition InitializeAPI :: "env \<Rightarrow> Config \<Rightarrow> api" where
  "InitializeAPI E cfg =
     \<lparr>api_Config = cfg, api_Auth = NewAuthService (ProvideAuthManager cfg) ProvideRegisterPolicy ProvideDevicePolicy,
      api_Idempotency = NewIdemService (RedisStore E) NewDefaultConfig\<rparr>"

definition identityIdempotency :: "env \<Rightarrow> gin \<Rightarrow> api \<Rightarrow> handler \<Rightarrow> handler" where
  "identityIdempotency E G a =
     GinMiddleware E G (api_Idempotency a)
       \<lparr>mc_KeyHeader = ''Idempotency-Key'', mc_ScopeResolver = Some identityScope, mc_RequestHasher = None\<rparr>"

definition identityRoutes :: "env \<Rightarrow> gin \<Rightarrow> api \<Rightarrow> route list" where
  "identityRoutes E G a =
     RegisterRoutes E G (api_Auth a) (NewAuthMiddleware E G (ProvideAuthManager (api_Config a)))
       (identityIdempotency E G a) (NewStrictAuthMiddleware E G)"

definition ProvideGinEngine :: "env \<Rightarrow> gin \<Rightarrow> api \<Rightarrow> handler" where
  "ProvideGinEngine E G a gc =
     NewRouter E G (api_Config a)
       (case find (\<lambda>r. rt_Method r = rq_Method (gc_Request gc) \<and> rt_Path r = rq_FullPath (gc_Request gc)) (identityRoutes E G a) of
          Some r \<Rightarrow> rt_Handler r
        | None \<Rightarrow> (\<lambda>gc w. (gc\<lparr>gc_Writer := gin_NoRoute G (gc_Writer gc)\<rparr>, w))) gc"

text \<open>One exchange: a fresh context, the engine, and what it wrote.\<close>

definition newContext :: "httpRequest \<Rightarrow> ginCtx" where
  "newContext req = \<lparr>gc_Request = req, gc_ctx = Background, gc_Keys = Map.empty,
     gc_Writer = \<lparr>hr_Status = 200, hr_Header = [], hr_Body = ''''\<rparr>\<rparr>"

definition ServeHTTP :: "env \<Rightarrow> gin \<Rightarrow> api \<Rightarrow> httpRequest \<Rightarrow> world \<Rightarrow> httpResponse \<times> world" where
  "ServeHTTP E G a req w = (case ProvideGinEngine E G a (newContext req) w of (gc, w') \<Rightarrow> (gc_Writer gc, w'))"

end
