(* ===== verification/Http_Safety.thy ===== *)
theory Http_Safety
  imports Identity_Http Identity_System
begin

text \<open>
  The HTTP layer against the services: every exchange is a sequence of steps of the system of
  \<open>Identity_System\<close>, protected routes refuse a request without a valid access token and act for the
  user of the token only, and retries are answered from the stored response.
\<close>

section \<open>Redis traffic\<close>

text \<open>
  What the clock and a Redis command keep, everything the HTTP layer does besides calling a service
  keeps: checking a token, the blacklist, the rate limit, reserving and completing a record.
\<close>

lemma preserves_redis_reply:
  assumes "preserves P (redis E cmd)"
  shows "preserves P (redisBool E cmd)" "preserves P (redisVal E cmd)" "preserves P (redisInt E cmd)" "preserves P (redisErr E cmd)"
  unfolding redis_results
  by (rule preserves_andThen [OF assms]; simp split: rreply.split add: preserves_ok preserves_fail)+

locale redis_traffic =
  fixes E :: env and P :: "world \<Rightarrow> bool"
  assumes P_Now: "preserves P (Now E)" and P_redis: "preserves P (redis E cmd)"
begin

lemmas P_reply = preserves_redis_reply [OF P_redis]

lemma P_token: "preserves P (ValidateAccessToken E cfg tok)" "preserves P (IsTokenBlacklisted E jti)"
  unfolding ValidateAccessToken_def parseToken_def IsTokenBlacklisted_def by (intro pres P_Now P_reply)+

lemma P_Get: "preserves P (RedisStore_Get E key)"
  unfolding RedisStore_Get_def by (intro pres P_reply)

lemma P_store: "preserves P (RedisStore_Reserve E rec ttl)" "preserves P (RedisStore_Complete E key res ttl now)"
  unfolding RedisStore_Reserve_def RedisStore_Complete_def by (intro pres P_reply P_Get)+

lemma P_idempotency:
  assumes "is_store svc = RedisStore E"
  shows "preserves P (BeginHTTP E svc scope key h)" "preserves P (CompleteHTTP E svc scope key res)"
  unfolding BeginHTTP_def CompleteHTTP_def assms RedisStore_sel Let_def by (intro pres P_Now P_store)+

end

text \<open>The tables stay as they are.\<close>

definition same_pool :: "db \<Rightarrow> world \<Rightarrow> bool" where
  "same_pool p w \<longleftrightarrow> w_pool w = p"

interpretation pool: redis_traffic E "same_pool p" for E p
  by unfold_locales (simp_all add: preserves_def same_pool_def redis_def split: prod.splits)

section \<open>Middlewares that pass a request on\<close>

text \<open>
  A middleware either stops the request, with a status in \<open>S\<close> and the tables as they were, or
  passes it on with the same request and the same authentication; what it does afterwards keeps
  the status and the tables.
\<close>

definition passing :: "(httpRequest \<Rightarrow> int set) \<Rightarrow> handler \<Rightarrow> ginCtx \<Rightarrow> world \<Rightarrow> ginCtx \<times> world \<Rightarrow> bool" where
  "passing S nx gc w res \<longleftrightarrow>
     (w_pool (snd res) = w_pool w \<and> hr_Status (gc_Writer (fst res)) \<in> S (gc_Request gc))
     \<or> (\<exists>gc' w'. gc_Request gc' = gc_Request gc \<and> GetAuthContext gc' = GetAuthContext gc \<and> ctx_tx (gc_ctx gc') = ctx_tx (gc_ctx gc)
          \<and> w_pool w' = w_pool w \<and> w_pool (snd res) = w_pool (snd (nx gc' w'))
          \<and> hr_Status (gc_Writer (fst res)) = hr_Status (gc_Writer (fst (nx gc' w'))))"

definition passes :: "(httpRequest \<Rightarrow> int set) \<Rightarrow> (handler \<Rightarrow> handler) \<Rightarrow> bool" where
  "passes S m \<longleftrightarrow> (\<forall>nx gc w. passing S nx gc w (m nx gc w))"

lemma passing_stop:
  "w_pool w1 = w_pool w \<Longrightarrow> hr_Status (gc_Writer g) \<in> S (gc_Request gc) \<Longrightarrow> passing S nx gc w (g, w1)"
  by (simp add: passing_def)

lemma passing_next:
  assumes "gc_Request gc' = gc_Request gc" "GetAuthContext gc' = GetAuthContext gc" "ctx_tx (gc_ctx gc') = ctx_tx (gc_ctx gc)"
    "w_pool w' = w_pool w" "w_pool w2 = w_pool (snd (nx gc' w'))" "hr_Status (gc_Writer g) = hr_Status (gc_Writer (fst (nx gc' w')))"
  shows "passing S nx gc w (g, w2)"
  unfolding passing_def using assms by (intro disjI2 exI [of _ gc'] exI [of _ w']) simp

lemma passing_next':
  assumes "gc_Request gc' = gc_Request gc" "GetAuthContext gc' = GetAuthContext gc" "ctx_tx (gc_ctx gc') = ctx_tx (gc_ctx gc)"
    "w_pool w' = w_pool w"
  shows "passing S nx gc w (nx gc' w')"
  using passing_next [OF assms, of "snd (nx gc' w')" nx "fst (nx gc' w')"] by simp

lemma passesE:
  assumes "passes S m"
  obtains (stop) "w_pool (snd (m nx gc w)) = w_pool w" "hr_Status (gc_Writer (fst (m nx gc w))) \<in> S (gc_Request gc)"
  | (pass) gc' w' where "gc_Request gc' = gc_Request gc" "GetAuthContext gc' = GetAuthContext gc"
      "ctx_tx (gc_ctx gc') = ctx_tx (gc_ctx gc)" "w_pool w' = w_pool w"
      "w_pool (snd (m nx gc w)) = w_pool (snd (nx gc' w'))"
      "hr_Status (gc_Writer (fst (m nx gc w))) = hr_Status (gc_Writer (fst (nx gc' w')))"
  using assms unfolding passes_def passing_def by meson

lemma passing_trans:
  assumes "passing S (m' nx) gc w res" and "\<And>gc' w'. passing S' nx gc' w' (m' nx gc' w')"
  shows "passing (\<lambda>r. S r \<union> S' r) nx gc w res"
  using assms(1) unfolding passing_def [of S]
proof (elim disjE exE conjE)
  fix gc' w'
  assume "gc_Request gc' = gc_Request gc" "GetAuthContext gc' = GetAuthContext gc" "ctx_tx (gc_ctx gc') = ctx_tx (gc_ctx gc)"
    "w_pool w' = w_pool w" "w_pool (snd res) = w_pool (snd (m' nx gc' w'))"
    "hr_Status (gc_Writer (fst res)) = hr_Status (gc_Writer (fst (m' nx gc' w')))"
  then show ?thesis using assms(2) [of gc' w'] unfolding passing_def by auto
qed (simp add: passing_def)

lemma passes_comp: "passes S m \<Longrightarrow> passes S' m' \<Longrightarrow> passes (\<lambda>r. S r \<union> S' r) (\<lambda>nx. m (m' nx))"
  unfolding passes_def by (blast intro: passing_trans)

lemma setHeader_simps [simp]:
  "gc_Request (setHeader k v gc) = gc_Request gc" "gc_ctx (setHeader k v gc) = gc_ctx gc" "gc_Keys (setHeader k v gc) = gc_Keys gc"
  "GetAuthContext (setHeader k v gc) = GetAuthContext gc" "hr_Status (gc_Writer (setHeader k v gc)) = hr_Status (gc_Writer gc)"
  "hr_Body (gc_Writer (setHeader k v gc)) = hr_Body (gc_Writer gc)"
  by (simp_all add: setHeader_def GetAuthContext_def)

lemma writeJSON_simps [simp]:
  "hr_Status (gc_Writer (writeJSON G code obj gc)) = code" "hr_Status (gc_Writer (writeData code ct b gc)) = code"
  "hr_Body (gc_Writer (writeData code ct b gc)) = hr_Body (gc_Writer gc) @ b"
  "hr_Status (gc_Writer (httpx_Error G code msg err gc)) = code" "hr_Status (gc_Writer (errorH G code e gc)) = code"
  "hr_Status (gc_Writer (tokenError G c msg gc)) = 401"
  by (simp_all add: writeJSON_def writeData_def httpx_Error_def errorH_def tokenError_def Let_def)

lemma GetAuthContext_simps [simp]:
  "GetAuthContext (gc\<lparr>gc_ctx := c\<rparr>) = GetAuthContext gc" "GetAuthContext (gc\<lparr>gc_Writer := r\<rparr>) = GetAuthContext gc"
  "GetAuthContext (setKey ''request_id'' v gc) = GetAuthContext gc"
  "GetAuthContext (setKey authContextKey (GVAuth ac) gc) = Some ac"
  "gc_Request (setKey k v gc) = gc_Request gc" "gc_ctx (setKey k v gc) = gc_ctx gc"
  by (simp_all add: GetAuthContext_def setKey_def authContextKey_def)

lemma pool_kept: "(\<And>p. preserves (same_pool p) m) \<Longrightarrow> w_pool (snd (m w)) = w_pool w"
  by (simp add: preserves_def same_pool_def)

lemma passes_RequestID: "passes (\<lambda>_. {}) (RequestIDMiddleware E)"
  unfolding passes_def RequestIDMiddleware_def Let_def WithRequestIdKey_def
  by (auto split: prod.splits intro!: passing_next')

lemma passes_Logger: "passes (\<lambda>_. {}) (LoggerMiddleware E)"
  unfolding passes_def
proof (intro allI)
  fix nx :: handler and gc :: ginCtx and w
  obtain g w1 where "nx gc (snd (Now E w)) = (g, w1)" by fastforce
  then show "passing (\<lambda>_. {}) nx gc w (LoggerMiddleware E nx gc w)"
    unfolding LoggerMiddleware_def by (auto intro: passing_next [where gc' = gc and w' = "snd (Now E w)"])
qed

lemma passes_CORS: "passes (\<lambda>r. if rq_Method r = ''OPTIONS'' then {204} else {}) (CORSMiddleware cfg)"
proof -
  have "gc_Request (corsHeaders cfg o' gc) = gc_Request gc" "gc_ctx (corsHeaders cfg o' gc) = gc_ctx gc"
    "GetAuthContext (corsHeaders cfg o' gc) = GetAuthContext gc" for o' gc
    by (simp_all add: corsHeaders_def)
  then show ?thesis unfolding passes_def CORSMiddleware_def Let_def by (auto intro!: passing_next' passing_stop)
qed

lemma passes_RateLimit: "passes (\<lambda>_. {429}) (RateLimitMiddleware E G cfg)"
  unfolding passes_def
proof (intro allI)
  fix nx :: handler and gc :: ginCtx and w
  define key where "key = ''rate:global:'' @ rq_ClientIP (gc_Request gc)"
  obtain r w1 where run: "redisInt E (INCR key) w = (r, w1)" by fastforce
  have w1: "w_pool w1 = w_pool w" using pool_kept [of "redisInt E (INCR key)" w] run by (simp add: pool.P_reply pool.P_token)
  have w2: "w_pool (snd (redis E (EXPIRE key Minute) w1)) = w_pool w"
    using pool_kept [of "redis E (EXPIRE key Minute)" w1] w1 by (simp add: pool.P_redis)
  show "passing (\<lambda>_. {429}) nx gc w (RateLimitMiddleware E G cfg nx gc w)"
    unfolding RateLimitMiddleware_def key_def [symmetric] run Let_def
    by (cases r) (auto simp: w1 w2 intro!: passing_next' passing_stop)
qed

lemma passes_Strict: "passes (\<lambda>_. {401, 500}) (NewStrictAuthMiddleware E G)"
  unfolding passes_def
proof (intro allI)
  fix nx :: handler and gc :: ginCtx and w
  have w1: "w_pool w1 = w_pool w" if "IsTokenBlacklisted E jti w = (r, w1)" for jti r w1
    using pool_kept [of "IsTokenBlacklisted E jti" w] that by (simp add: pool.P_reply pool.P_token)
  show "passing (\<lambda>_. {401, 500}) nx gc w (NewStrictAuthMiddleware E G nx gc w)"
    unfolding NewStrictAuthMiddleware_def
    by (auto split: option.splits prod.splits sum.splits dest: w1 intro!: passing_next' passing_stop)
qed

lemma replayResponse_simps [simp]:
  "hr_Status (gc_Writer (replayResponse rec gc)) = ir_ResponseCode rec"
  by (simp add: replayResponse_def Let_def)

text \<open>What the idempotency middleware does once the key is there and the body hashed.\<close>

definition idemKey :: "MiddlewareConfig \<Rightarrow> ginCtx \<Rightarrow> string" where
  "idemKey cfg gc = GetHeader (if mc_KeyHeader cfg = '''' then ''Idempotency-Key'' else mc_KeyHeader cfg) gc"

definition idemScope :: "MiddlewareConfig \<Rightarrow> ginCtx \<Rightarrow> string" where
  "idemScope cfg gc = (case mc_ScopeResolver cfg of None \<Rightarrow> ''default'' | Some resolve \<Rightarrow> resolve gc)"

definition keyed :: "MiddlewareConfig \<Rightarrow> ginCtx \<Rightarrow> ginCtx" where
  "keyed cfg gc = gc\<lparr>gc_ctx := WithIdempotencyKey (gc_ctx gc) (idemKey cfg gc)\<rparr>"

definition idemHash :: "env \<Rightarrow> MiddlewareConfig \<Rightarrow> ginCtx \<Rightarrow> gerror + string" where
  "idemHash E cfg gc = (case mc_RequestHasher cfg of Some hash \<Rightarrow> hash (keyed cfg gc) (rq_Body (gc_Request gc))
     | None \<Rightarrow> Inr (HashBytes E (rq_Body (gc_Request gc))))"

lemma keyed_simps [simp]:
  "gc_Request (keyed cfg gc) = gc_Request gc" "gc_Writer (keyed cfg gc) = gc_Writer gc" "GetAuthContext (keyed cfg gc) = GetAuthContext gc"
  "ctx_tx (gc_ctx (keyed cfg gc)) = ctx_tx (gc_ctx gc)"
  by (simp_all add: keyed_def WithIdempotencyKey_def)

lemma GinMiddleware_unfold:
  "GinMiddleware E G svc cfg nx gc w =
     (if idemKey cfg gc = '''' then (errorH G 400 IdemErrMissingKey gc, w)
      else (case idemHash E cfg gc of
         Inl err \<Rightarrow> (errorH G 400 err (keyed cfg gc), w)
       | Inr h \<Rightarrow>
          (case BeginHTTP E svc (idemScope cfg gc) (idemKey cfg gc) h w of
             (Inl err, w1) \<Rightarrow>
               if err = IdemErrRequestHashMismatch then (errorH G 409 err (keyed cfg gc), w1)
               else if err = IdemErrRequestInProgress then (errorH G 409 err (keyed cfg gc), w1)
               else (errorH G 500 err (keyed cfg gc), w1)
           | (Inr b, w1) \<Rightarrow>
               (case (br_Decision b, br_Record b) of
                  (BeginReplay, Some rec) \<Rightarrow> (replayResponse rec (keyed cfg gc), w1)
                | _ \<Rightarrow> proceed E svc (idemScope cfg gc) (idemKey cfg gc) nx (keyed cfg gc) w1))))"
  unfolding GinMiddleware_def Let_def idemKey_def [symmetric] idemScope_def [symmetric] keyed_def [symmetric] keyed_simps
    idemHash_def [symmetric] ..

lemma GinMiddleware_run:
  assumes "idemKey cfg gc \<noteq> ''''" and "idemHash E cfg gc = Inr h" and "BeginHTTP E svc (idemScope cfg gc) (idemKey cfg gc) h w = (r, w1)"
  shows "GinMiddleware E G svc cfg nx gc w = (case r of
      Inl err \<Rightarrow> (errorH G (if err = IdemErrRequestHashMismatch \<or> err = IdemErrRequestInProgress then 409 else 500) err (keyed cfg gc), w1)
    | Inr b \<Rightarrow> (case (br_Decision b, br_Record b) of
        (BeginReplay, Some rec) \<Rightarrow> (replayResponse rec (keyed cfg gc), w1)
      | _ \<Rightarrow> proceed E svc (idemScope cfg gc) (idemKey cfg gc) nx (keyed cfg gc) w1))"
  using assms by (simp add: GinMiddleware_unfold split: sum.split)

lemma GinMiddleware_refuses:
  "idemKey cfg gc = '''' \<Longrightarrow> GinMiddleware E G svc cfg nx gc w = (errorH G 400 IdemErrMissingKey gc, w)"
  "idemKey cfg gc \<noteq> '''' \<Longrightarrow> idemHash E cfg gc = Inl err \<Longrightarrow> GinMiddleware E G svc cfg nx gc w = (errorH G 400 err (keyed cfg gc), w)"
  by (simp_all add: GinMiddleware_unfold)

lemma passes_Gin:
  assumes "is_store svc = RedisStore E"
  shows "passes (\<lambda>_. UNIV) (GinMiddleware E G svc cfg)"
  unfolding passes_def
proof (intro allI)
  fix nx :: handler and gc :: ginCtx and w
  consider "idemKey cfg gc = ''''" | err where "idemKey cfg gc \<noteq> ''''" "idemHash E cfg gc = Inl err"
    | h where "idemKey cfg gc \<noteq> ''''" "idemHash E cfg gc = Inr h" by (metis sum.exhaust)
  then show "passing (\<lambda>_. UNIV) nx gc w (GinMiddleware E G svc cfg nx gc w)"
  proof cases
    case (3 h)
    obtain r w1 where beg: "BeginHTTP E svc (idemScope cfg gc) (idemKey cfg gc) h w = (r, w1)" by fastforce
    have w1: "w_pool w1 = w_pool w"
      using pool_kept [of "BeginHTTP E svc (idemScope cfg gc) (idemKey cfg gc) h" w] beg by (simp add: pool.P_idempotency [OF assms])
    have fin: "w_pool (snd (CompleteHTTP E svc scope key res w2)) = w_pool w2" for scope key res w2
      by (rule pool_kept) (rule pool.P_idempotency [OF assms])
    let ?gc = "(keyed cfg gc)\<lparr>gc_Writer := (gc_Writer gc)\<lparr>hr_Body := ''''\<rparr>\<rparr>"
    obtain g w2 where "nx ?gc w1 = (g, w2)" by fastforce
    then have pro: "passing (\<lambda>_. UNIV) nx gc w (proceed E svc scope key nx (keyed cfg gc) w1)" for scope key
      unfolding proceed_def Let_def by (auto simp: w1 fin intro!: passing_next [where gc' = ?gc and w' = w1])
    show ?thesis unfolding GinMiddleware_run [OF 3 beg]
      by (auto simp: w1 intro!: passing_stop pro split: sum.splits BeginDecision.splits option.splits)
  qed (simp_all add: GinMiddleware_refuses passing_stop)
qed

section \<open>Authentication\<close>

text \<open>The bearer token of a request, and what it means that it was verified.\<close>

definition bearerToken :: "httpRequest \<Rightarrow> string option" where
  "bearerToken req = (case SplitN2 (CHR '' '') (rq_Header req ''Authorization'') of
     [scheme, rest] \<Rightarrow> if EqualFoldASCII scheme ''Bearer'' then Some (TrimSpace rest) else None
   | _ \<Rightarrow> None)"

definition verifiedAt :: "env \<Rightarrow> JWTConfig \<Rightarrow> string \<Rightarrow> time \<Rightarrow> Claims \<Rightarrow> bool" where
  "verifiedAt E cfg tok t claims \<longleftrightarrow>
     (\<exists>j. env_jwtDecode E tok = Inr (True, j) \<and> unmarshalClaims j = Some claims)
     \<and> env_jwtVerify E (jwt_Secret cfg) t tok = None \<and> cl_Type claims = AccessType"

lemma ValidateAccessToken_InrD:
  "ValidateAccessToken E cfg tok w = (Inr claims, w') \<Longrightarrow> verifiedAt E cfg tok (env_now E (w_n w)) claims"
  by (auto simp: ValidateAccessToken_def parseToken_def verifiedAt_def andThen_def ok_def fail_def
      split: sum.splits prod.splits option.splits if_splits)

lemma Authorization_canonical: "CanonicalHeaderKey AuthorizationHeader = ''Authorization''"
  unfolding AuthorizationHeader_def by code_simp

text \<open>
  The authentication middleware answers 401, or hands on the request with the claims of a token
  that was verified.
\<close>

lemma NewAuthMiddleware_cases:
  obtains (refused) g w1 where "NewAuthMiddleware E G cfg nx gc w = (g, w1)" "w_pool w1 = w_pool w" "hr_Status (gc_Writer g) = 401"
  | (verified) tok claims gc' w1 where "bearerToken (gc_Request gc) = Some tok" "verifiedAt E cfg tok (env_now E (w_n w)) claims"
      "NewAuthMiddleware E G cfg nx gc w = nx gc' w1" "w_pool w1 = w_pool w" "gc_Request gc' = gc_Request gc"
      "GetAuthContext gc' = Some (authContextOf claims)" "ctx_tx (gc_ctx gc') = ctx_tx (gc_ctx gc)"
proof (cases "bearerToken (gc_Request gc)")
  case None
  then show ?thesis
    by (intro refused [of "fst (NewAuthMiddleware E G cfg nx gc w)" "snd (NewAuthMiddleware E G cfg nx gc w)"])
      (auto simp: NewAuthMiddleware_def bearerToken_def Let_def GetHeader_def Authorization_canonical split: list.splits if_splits)
next
  case (Some tok)
  have empty: "rq_Header (gc_Request gc) ''Authorization'' \<noteq> ''''"
    using Some by (auto simp: bearerToken_def SplitN2_def)
  obtain r w1 where run: "ValidateAccessToken E cfg tok w = (r, w1)" by fastforce
  have w1: "w_pool w1 = w_pool w"
    using pool_kept [of "ValidateAccessToken E cfg tok" w] run by (simp add: pool.P_token)
  have eq: "NewAuthMiddleware E G cfg nx gc w = (case r of
      Inl err \<Rightarrow> (tokenError G ERROR_INVALID_TOKEN MESSAGE_INVALID_TOKEN gc, w1)
    | Inr claims \<Rightarrow> nx (setKey authContextKey (GVAuth (authContextOf claims)) gc) w1)"
    using Some empty run
    by (auto simp: NewAuthMiddleware_def bearerToken_def Let_def GetHeader_def Authorization_canonical
        split: list.splits if_splits sum.splits)
  show ?thesis
  proof (cases r)
    case (Inl err)
    then show ?thesis using refused eq w1 by simp
  next
    case (Inr claims)
    then show ?thesis using verified [OF Some] ValidateAccessToken_InrD run eq w1 by (metis GetAuthContext_simps(4-6) sum.case(2))
  qed
qed

text \<open>
  The older middleware of the HTTP platform, which no route uses, expects a UUID as text under
  \<open>user_id\<close>; the tokens of this program carry a number there, so it refuses every one of them.
\<close>

lemma httpx_AuthMiddleware_refuses:
  assumes "env_jwtDecode E tok = Inr (isHMAC, marshalClaims claims)" and "Split (CHR '' '') (GetHeader ''Authorization'' gc) = [''Bearer'', tok]"
  shows "hr_Status (gc_Writer (fst (httpx_AuthMiddleware E G secret nx gc w))) = 401
    \<and> snd (httpx_AuthMiddleware E G secret nx gc w) \<in> {w, snd (Now E w)}"
proof -
  obtain fs where fs: "marshalClaims claims = JObj fs" "jfield ''user_id'' fs = Some (JNum (cl_UserID claims))"
    by (simp add: marshalClaims_def jfield_def map_add_def omitIntPtr_def omitStr_def split: option.split)
  obtain r w1 where run: "parseMapClaims E secret tok w = (r, w1)" by fastforce
  then have w1: "w1 \<in> {w, snd (Now E w)}" and r: "\<forall>cs. r = Inr cs \<longrightarrow> cs = fs"
    using assms(1) fs(1) by (auto simp: parseMapClaims_def andThen_def ok_def fail_def split: if_splits option.splits)
  show ?thesis
  proof (cases "GetHeader ''Authorization'' gc = ''''")
    case False
    then show ?thesis using assms(2) run w1 r fs(2)
      by (cases r) (simp_all add: httpx_AuthMiddleware_def unauthorized_def)
  qed (simp add: httpx_AuthMiddleware_def unauthorized_def)
qed

section \<open>Handlers\<close>

text \<open>The user a request to the services acts for.\<close>

fun onBehalf :: "request \<Rightarrow> int option" where
  "onBehalf (RqLogout cmd) = Some (lo_UserID cmd)"
| "onBehalf (RqChangePassword cmd) = Some (cp_UserID cmd)"
| "onBehalf (RqAddress req) = Some (requestedBy req)"
| "onBehalf (RqGetMe i) = Some i"
| "onBehalf (RqListSessions i) = Some i"
| "onBehalf (RqListDevices i) = Some i"
| "onBehalf (RqListAddresses i) = Some i"
| "onBehalf (RqRevokeAllSessions i) = Some i"
| "onBehalf (RqRevokeDevice i j) = Some i"
| "onBehalf _ = None"

definition byUser :: "ginCtx \<Rightarrow> request \<Rightarrow> bool" where
  "byUser gc rq \<longleftrightarrow> (\<exists>ac. GetAuthContext gc = Some ac \<and> onBehalf rq = Some (acx_UserID ac))"

text \<open>
  A handler leaves the world alone or makes one request to the services, which satisfies \<open>R\<close>; it
  may look at the clock afterwards.
\<close>

definition serves :: "env \<Rightarrow> AuthService \<Rightarrow> (ginCtx \<Rightarrow> request \<Rightarrow> bool) \<Rightarrow> handler \<Rightarrow> bool" where
  "serves E s R h \<longleftrightarrow> (\<forall>gc w. snd (h gc w) = w
     \<or> (\<exists>rq. R gc rq \<and> (snd (h gc w) = serve E s (gc_ctx gc) rq w \<or> snd (h gc w) = snd (Now E (serve E s (gc_ctx gc) rq w)))))"

lemma servesI:
  assumes "\<And>gc w. snd (h gc w) = w \<or> (\<exists>rq. R gc rq \<and> snd (h gc w) = serve E s (gc_ctx gc) rq w)"
  shows "serves E s R h"
  using assms unfolding serves_def by blast

lemma serves_mono: "serves E s R h \<Longrightarrow> (\<And>gc rq. R gc rq \<Longrightarrow> R' gc rq) \<Longrightarrow> serves E s R' h"
  unfolding serves_def by blast

lemma serves_any: "serves E s R h \<Longrightarrow> serves E s (\<lambda>_ _. True) h"
  by (rule serves_mono) simp_all

text \<open>The world after a call, whatever is answered.\<close>

lemma snd_case_run:
  "snd (case r of (Inl e, w1) \<Rightarrow> (f e, w1) | (Inr x, w1) \<Rightarrow> (g x, w1)) = snd r"
  by (simp split: prod.splits sum.splits)

lemma serves_Register: "serves E s (\<lambda>_ _. True) (AuthHandler_Register E G s)"
proof (rule servesI)
  fix gc w
  show "snd (AuthHandler_Register E G s gc w) = w \<or> (\<exists>rq. True \<and> snd (AuthHandler_Register E G s gc w) = serve E s (gc_ctx gc) rq w)"
  proof (cases "bindJSON G [''email'', ''password'', ''full_name'', ''phone''] decodeRegister registerRules gc")
    case (Inr req)
    then have "snd (AuthHandler_Register E G s gc w) = serve E s (gc_ctx gc) (RqRegister \<lparr>rc_Email = rr_Email req,
        rc_Password = rr_Password req, rc_FullName = rr_FullName req, rc_Phone = rr_Phone req\<rparr>) w"
      by (simp add: AuthHandler_Register_def snd_case_run)
    then show ?thesis by blast
  qed (simp add: AuthHandler_Register_def)
qed

lemma serves_VerifyEmail: "serves E s (\<lambda>_ _. True) (AuthHandler_VerifyEmail E G)"
proof (rule servesI)
  fix gc w
  show "snd (AuthHandler_VerifyEmail E G gc w) = w \<or> (\<exists>rq. True \<and> snd (AuthHandler_VerifyEmail E G gc w) = serve E s (gc_ctx gc) rq w)"
  proof (cases "bindJSON G [''token''] decodeVerifyEmail verifyEmailRules gc")
    case (Inr req)
    then have "snd (AuthHandler_VerifyEmail E G gc w) = serve E s (gc_ctx gc) (RqVerifyEmail \<lparr>ve_Token = vr_Token req\<rparr>) w"
      by (simp add: AuthHandler_VerifyEmail_def snd_case_run)
    then show ?thesis by blast
  qed (simp add: AuthHandler_VerifyEmail_def)
qed

text \<open>Login and refresh look at the clock to set the age of the cookie.\<close>

lemma snd_case_run_clock:
  "snd (case r of (Inl e, w1) \<Rightarrow> (f e, w1) | (Inr x, w1) \<Rightarrow> (g x w1, snd (Now E w1))) \<in> {snd r, snd (Now E (snd r))}"
  by (simp split: prod.splits sum.splits)

lemma serves_Login: "serves E s (\<lambda>_ _. True) (AuthHandler_Login E G s)"
  unfolding serves_def
proof (intro allI)
  fix gc w
  let ?h = "AuthHandler_Login E G s gc w"
  show "snd ?h = w \<or> (\<exists>rq. True \<and> (snd ?h = serve E s (gc_ctx gc) rq w \<or> snd ?h = snd (Now E (serve E s (gc_ctx gc) rq w))))"
  proof (cases "bindJSON G [''email'', ''password'', ''device_fingerprint'', ''device_label''] decodeLogin loginRules gc")
    case (Inr req)
    let ?cmd = "\<lparr>lc_Email = lr_Email req, lc_Password = lr_Password req, lc_DeviceFingerprint = lr_DeviceFingerprint req,
      lc_DeviceLabel = lr_DeviceLabel req, lc_IPAddress = rq_ClientIP (gc_Request gc), lc_UserAgent = GetHeader ''User-Agent'' gc\<rparr>"
    from Inr have "snd ?h \<in> {snd (Login E s (gc_ctx gc) ?cmd w), snd (Now E (snd (Login E s (gc_ctx gc) ?cmd w)))}"
      unfolding AuthHandler_Login_def Inr sum.case Let_def by (rule_tac snd_case_run_clock)
    then show ?thesis using serve.simps(2) [of E s "gc_ctx gc" ?cmd w] by (metis insertE singletonD)
  qed (simp add: AuthHandler_Login_def)
qed

lemma serves_RefreshToken: "serves E s (\<lambda>_ _. True) (AuthHandler_RefreshToken E G s)"
  unfolding serves_def
proof (intro allI)
  fix gc w
  let ?h = "AuthHandler_RefreshToken E G s gc w"
  show "snd ?h = w \<or> (\<exists>rq. True \<and> (snd ?h = serve E s (gc_ctx gc) rq w \<or> snd ?h = snd (Now E (serve E s (gc_ctx gc) rq w))))"
  proof (cases "rq_Cookie (gc_Request gc) ''refresh_token''")
    case (Some tok)
    let ?cmd = "\<lparr>rt_RefreshToken = tok\<rparr>"
    from Some have "snd ?h \<in> {snd (RefreshToken E s (gc_ctx gc) ?cmd w), snd (Now E (snd (RefreshToken E s (gc_ctx gc) ?cmd w)))}"
      unfolding AuthHandler_RefreshToken_def Some option.case Let_def by (rule_tac snd_case_run_clock)
    then show ?thesis using serve.simps(3) [of E s "gc_ctx gc" ?cmd w] by (metis insertE singletonD)
  qed (simp add: AuthHandler_RefreshToken_def)
qed

text \<open>
  The handlers behind the authentication middleware: without an authenticated user they answer 401,
  otherwise their request is one of that user.
\<close>

lemma serves_user:
  assumes "\<And>gc w. GetAuthContext gc = None \<Longrightarrow> snd (h gc w) = w"
    and "\<And>gc w ac. GetAuthContext gc = Some ac \<Longrightarrow> snd (h gc w) = w
        \<or> (\<exists>rq. onBehalf rq = Some (acx_UserID ac) \<and> snd (h gc w) = serve E s (gc_ctx gc) rq w)"
  shows "serves E s byUser h"
proof (rule servesI)
  fix gc w
  show "snd (h gc w) = w \<or> (\<exists>rq. byUser gc rq \<and> snd (h gc w) = serve E s (gc_ctx gc) rq w)"
    using assms [where gc = gc and w = w] by (cases "GetAuthContext gc") (auto simp: byUser_def)
qed

lemma getAuthUser_eqs:
  "GetAuthContext gc = None \<Longrightarrow> getAuthUser G gc = Inl (httpx_Error G 401 ''UNAUTHORIZED'' ''missing auth context'' gc)"
  "GetAuthContext gc = Some ac \<Longrightarrow> getAuthUser G gc = Inr (acx_UserID ac)"
  by (simp_all add: getAuthUser_def)

lemma serves_Logout: "serves E s byUser (AuthHandler_Logout E G)"
proof (rule serves_user)
  fix gc w ac assume "GetAuthContext gc = Some ac"
  then show "snd (AuthHandler_Logout E G gc w) = w
      \<or> (\<exists>rq. onBehalf rq = Some (acx_UserID ac) \<and> snd (AuthHandler_Logout E G gc w) = serve E s (gc_ctx gc) rq w)"
    by (intro disjI2 exI [of _ "RqLogout \<lparr>lo_DeviceID = acx_DeviceID ac, lo_UserID = acx_UserID ac\<rparr>"])
      (simp add: AuthHandler_Logout_def snd_case_run)
qed (simp add: AuthHandler_Logout_def)

lemma serves_ChangePassword: "serves E s byUser (AuthHandler_ChangePassword E G s)"
proof (rule serves_user)
  fix gc w ac assume ac: "GetAuthContext gc = Some ac"
  show "snd (AuthHandler_ChangePassword E G s gc w) = w \<or> (\<exists>rq. onBehalf rq = Some (acx_UserID ac)
      \<and> snd (AuthHandler_ChangePassword E G s gc w) = serve E s (gc_ctx gc) rq w)"
  proof (cases "bindJSON G [''current_password'', ''new_password''] decodeChangePassword changePasswordRules gc")
    case (Inr req)
    then show ?thesis using ac
      by (intro disjI2 exI [of _ "RqChangePassword \<lparr>cp_UserID = acx_UserID ac, cp_CurrentPassword = cpr_CurrentPassword req,
          cp_NewPassword = cpr_NewPassword req, cp_CurrentSessionID = acx_SessionID ac\<rparr>"])
        (simp add: AuthHandler_ChangePassword_def snd_case_run)
  qed (simp add: AuthHandler_ChangePassword_def ac)
qed (simp add: AuthHandler_ChangePassword_def)

lemma serves_profile:
  "serves E s byUser (ProfileHandler_GetMe E G)" "serves E s byUser (ProfileHandler_ListSessions E G)"
  "serves E s byUser (ProfileHandler_RevokeAllSessions E G)" "serves E s byUser (ProfileHandler_ListDevices E G)"
  "serves E s byUser (AddressHandler_ListAddresses E G)"
proof -
  show "serves E s byUser (ProfileHandler_GetMe E G)"
    by (rule serves_user, simp add: ProfileHandler_GetMe_def getAuthUser_eqs, rule disjI2, rule_tac x = "RqGetMe (acx_UserID ac)" in exI)
      (simp add: ProfileHandler_GetMe_def getAuthUser_eqs snd_case_run)
  show "serves E s byUser (ProfileHandler_ListSessions E G)"
    by (rule serves_user, simp add: ProfileHandler_ListSessions_def getAuthUser_eqs, rule disjI2, rule_tac x = "RqListSessions (acx_UserID ac)" in exI)
      (simp add: ProfileHandler_ListSessions_def getAuthUser_eqs snd_case_run)
  show "serves E s byUser (ProfileHandler_RevokeAllSessions E G)"
    by (rule serves_user, simp add: ProfileHandler_RevokeAllSessions_def getAuthUser_eqs, rule disjI2, rule_tac x = "RqRevokeAllSessions (acx_UserID ac)" in exI)
      (simp add: ProfileHandler_RevokeAllSessions_def getAuthUser_eqs snd_case_run)
  show "serves E s byUser (ProfileHandler_ListDevices E G)"
    by (rule serves_user, simp add: ProfileHandler_ListDevices_def getAuthUser_eqs, rule disjI2, rule_tac x = "RqListDevices (acx_UserID ac)" in exI)
      (simp add: ProfileHandler_ListDevices_def getAuthUser_eqs snd_case_run)
  show "serves E s byUser (AddressHandler_ListAddresses E G)"
    by (rule serves_user, simp add: AddressHandler_ListAddresses_def getAuthUser_eqs, rule disjI2, rule_tac x = "RqListAddresses (acx_UserID ac)" in exI)
      (simp add: AddressHandler_ListAddresses_def getAuthUser_eqs snd_case_run)
qed

lemma serves_RevokeDevice: "serves E s byUser (ProfileHandler_RevokeDevice E G)"
proof (rule serves_user)
  fix gc w ac assume ac: "GetAuthContext gc = Some ac"
  show "snd (ProfileHandler_RevokeDevice E G gc w) = w \<or> (\<exists>rq. onBehalf rq = Some (acx_UserID ac)
      \<and> snd (ProfileHandler_RevokeDevice E G gc w) = serve E s (gc_ctx gc) rq w)"
  proof (cases "positiveParam ''device_id'' gc")
    case (Some i)
    with ac show ?thesis by (intro disjI2 exI [of _ "RqRevokeDevice (acx_UserID ac) i"])
      (simp add: ProfileHandler_RevokeDevice_def getAuthUser_eqs snd_case_run)
  qed (simp add: ProfileHandler_RevokeDevice_def getAuthUser_eqs ac)
qed (simp add: ProfileHandler_RevokeDevice_def getAuthUser_eqs)

lemma serves_AddAddress: "serves E s byUser (AddressHandler_AddAddress E G)"
proof (rule serves_user)
  fix gc w ac assume ac: "GetAuthContext gc = Some ac"
  show "snd (AddressHandler_AddAddress E G gc w) = w \<or> (\<exists>rq. onBehalf rq = Some (acx_UserID ac)
      \<and> snd (AddressHandler_AddAddress E G gc w) = serve E s (gc_ctx gc) rq w)"
  proof (cases "bindJSON G addressFields decodeAddress addressRules gc")
    case (Inr req)
    let ?cmd = "\<lparr>aa_UserID = acx_UserID ac, aa_RecipientName = arq_RecipientName req,
      aa_RecipientPhone = arq_RecipientPhone req, aa_Line1 = arq_Line1 req, aa_Line2 = arq_Line2 req,
      aa_ProvinceCode = arq_ProvinceCode req, aa_DistrictCode = arq_DistrictCode req, aa_WardCode = arq_WardCode req,
      aa_PostalCode = arq_PostalCode req, aa_CountryCode = arq_CountryCode req, aa_IsDefault = arq_IsDefault req\<rparr>"
    from Inr ac show ?thesis by (intro disjI2 exI [of _ "RqAddress (ReqAdd ?cmd)"])
      (simp add: AddressHandler_AddAddress_def getAuthUser_eqs snd_case_run)
  qed (simp add: AddressHandler_AddAddress_def getAuthUser_eqs ac)
qed (simp add: AddressHandler_AddAddress_def getAuthUser_eqs)

lemma serves_UpdateAddress: "serves E s byUser (AddressHandler_UpdateAddress E G)"
proof (rule serves_user)
  fix gc w ac assume ac: "GetAuthContext gc = Some ac"
  show "snd (AddressHandler_UpdateAddress E G gc w) = w \<or> (\<exists>rq. onBehalf rq = Some (acx_UserID ac)
      \<and> snd (AddressHandler_UpdateAddress E G gc w) = serve E s (gc_ctx gc) rq w)"
  proof (cases "positiveParam ''address_id'' gc")
    case (Some i)
    show ?thesis
    proof (cases "bindJSON G addressFields decodeAddress addressRules gc")
      case (Inr req)
      let ?cmd = "\<lparr>ua_ID = i, ua_UserID = acx_UserID ac, ua_RecipientName = arq_RecipientName req,
        ua_RecipientPhone = arq_RecipientPhone req, ua_Line1 = arq_Line1 req, ua_Line2 = arq_Line2 req,
        ua_ProvinceCode = arq_ProvinceCode req, ua_DistrictCode = arq_DistrictCode req, ua_WardCode = arq_WardCode req,
        ua_PostalCode = arq_PostalCode req, ua_CountryCode = arq_CountryCode req, ua_IsDefault = arq_IsDefault req\<rparr>"
      from Inr Some ac show ?thesis by (intro disjI2 exI [of _ "RqAddress (ReqUpdate ?cmd)"])
        (simp add: AddressHandler_UpdateAddress_def getAuthUser_eqs snd_case_run)
    qed (simp add: AddressHandler_UpdateAddress_def getAuthUser_eqs ac Some)
  qed (simp add: AddressHandler_UpdateAddress_def getAuthUser_eqs ac)
qed (simp add: AddressHandler_UpdateAddress_def getAuthUser_eqs)

lemma serves_DeleteAddress: "serves E s byUser (AddressHandler_DeleteAddress E G)"
proof (rule serves_user)
  fix gc w ac assume ac: "GetAuthContext gc = Some ac"
  show "snd (AddressHandler_DeleteAddress E G gc w) = w \<or> (\<exists>rq. onBehalf rq = Some (acx_UserID ac)
      \<and> snd (AddressHandler_DeleteAddress E G gc w) = serve E s (gc_ctx gc) rq w)"
  proof (cases "positiveParam ''address_id'' gc")
    case (Some i)
    with ac show ?thesis by (intro disjI2 exI [of _ "RqAddress (ReqDelete \<lparr>da_ID = i, da_UserID = acx_UserID ac\<rparr>)"])
      (simp add: AddressHandler_DeleteAddress_def getAuthUser_eqs snd_case_run)
  qed (simp add: AddressHandler_DeleteAddress_def getAuthUser_eqs ac)
qed (simp add: AddressHandler_DeleteAddress_def getAuthUser_eqs)

lemmas serves_users = serves_Logout serves_ChangePassword serves_profile serves_RevokeDevice
  serves_AddAddress serves_UpdateAddress serves_DeleteAddress
lemmas serves_all = serves_Register serves_VerifyEmail serves_Login serves_RefreshToken
  serves_users [THEN serves_any]

section \<open>The engine\<close>

definition routeHandler :: "env \<Rightarrow> gin \<Rightarrow> api \<Rightarrow> httpRequest \<Rightarrow> handler" where
  "routeHandler E G a req =
     (case find (\<lambda>r. rt_Method r = rq_Method req \<and> rt_Path r = rq_FullPath req) (identityRoutes E G a) of
        Some r \<Rightarrow> rt_Handler r
      | None \<Rightarrow> (\<lambda>gc w. (gc\<lparr>gc_Writer := gin_NoRoute G (gc_Writer gc)\<rparr>, w)))"

definition engineStops :: "httpRequest \<Rightarrow> int set" where
  "engineStops req = {429} \<union> (if rq_Method req = ''OPTIONS'' then {204} else {})"

lemma passes_id: "passes (\<lambda>_. {}) (\<lambda>nx. nx)"
  unfolding passes_def by (auto intro: passing_next')

lemma passes_NewRouter: "passes engineStops (NewRouter E G cfg)"
proof -
  have "passes (\<lambda>r. {} \<union> ({} \<union> ((if rq_Method r = ''OPTIONS'' then {204} else {}) \<union> {429})))
     (\<lambda>nx. RequestIDMiddleware E (LoggerMiddleware E (CORSMiddleware (cfg_CORS cfg) (RateLimitMiddleware E G (cfg_RateLimit cfg) nx))))"
    by (intro passes_comp passes_RequestID passes_Logger passes_CORS passes_RateLimit)
  then show ?thesis unfolding NewRouter_def [abs_def] engineStops_def [abs_def] by (simp add: Un_commute)
qed

lemma ServeHTTP_eq:
  "ServeHTTP E G a req w = map_prod gc_Writer id (NewRouter E G (api_Config a) (routeHandler E G a req) (newContext req) w)"
  by (simp add: ServeHTTP_def ProvideGinEngine_def routeHandler_def newContext_def map_prod_def)

text \<open>An exchange is stopped by a global middleware or is what the route's handler makes of the request.\<close>

lemma ServeHTTP_cases:
  obtains (stop) "w_pool (snd (ServeHTTP E G a req w)) = w_pool w" "hr_Status (fst (ServeHTTP E G a req w)) \<in> engineStops req"
  | (route) gc' w' where "gc_Request gc' = req" "GetAuthContext gc' = None" "\<not> ctx_tx (gc_ctx gc')" "w_pool w' = w_pool w"
      "w_pool (snd (ServeHTTP E G a req w)) = w_pool (snd (routeHandler E G a req gc' w'))"
      "hr_Status (fst (ServeHTTP E G a req w)) = hr_Status (gc_Writer (fst (routeHandler E G a req gc' w')))"
proof -
  have new: "gc_Request (newContext req) = req" "GetAuthContext (newContext req) = None" "ctx_tx (gc_ctx (newContext req)) = False"
    by (simp_all add: newContext_def GetAuthContext_def Background_def)
  have "passing engineStops (routeHandler E G a req) (newContext req) w
      (NewRouter E G (api_Config a) (routeHandler E G a req) (newContext req) w)"
    using passes_NewRouter unfolding passes_def by blast
  then show ?thesis unfolding passing_def new
    by (elim disjE exE conjE) (rule stop route; simp add: ServeHTTP_eq)+
qed

text \<open>Which routes there are.\<close>

definition publicPaths :: "string list" where
  "publicPaths = [''/api/v1/auth/register'', ''/api/v1/auth/login'', ''/api/v1/auth/verify-email'']"

lemma route_needs_token:
  "r \<in> set (identityRoutes E G a) \<Longrightarrow> rt_Path r \<notin> set publicPaths \<Longrightarrow>
     \<exists>h. rt_Handler r = NewAuthMiddleware E G (ProvideAuthManager (api_Config a)) h"
  unfolding identityRoutes_def RegisterRoutes_def Let_def by (auto simp: publicPaths_def)

definition ownPaths :: "string \<Rightarrow> bool" where
  "ownPaths path \<longleftrightarrow> path = ''/api/v1/auth/logout'' \<or> prefix ''/api/v1/me'' path"

text \<open>A handler behind the authentication middleware that acts for the authenticated user only.\<close>

definition ownHandler :: "env \<Rightarrow> gin \<Rightarrow> api \<Rightarrow> handler \<Rightarrow> bool" where
  "ownHandler E G a hh \<longleftrightarrow> (\<exists>S m h. hh = NewAuthMiddleware E G (ProvideAuthManager (api_Config a)) (m h)
     \<and> passes S m \<and> serves E (api_Auth a) byUser h)"

lemma ownHandlerI:
  "passes S m \<Longrightarrow> serves E (api_Auth a) byUser h \<Longrightarrow> ownHandler E G a (NewAuthMiddleware E G (ProvideAuthManager (api_Config a)) (m h))"
  by (auto simp: ownHandler_def)

lemma route_acts_for_user:
  assumes "r \<in> set (identityRoutes E G a)" and "ownPaths (rt_Path r)" and "is_store (api_Idempotency a) = RedisStore E"
  shows "ownHandler E G a (rt_Handler r)"
proof -
  have idem: "passes (\<lambda>_. UNIV) (identityIdempotency E G a)"
    unfolding identityIdempotency_def by (rule passes_Gin [OF assms(3)])
  note plain = ownHandlerI [OF passes_id] and once = ownHandlerI [OF idem]
    and strict = ownHandlerI [OF passes_comp [OF passes_Strict idem]]
  show ?thesis using assms(1,2) unfolding identityRoutes_def RegisterRoutes_def Let_def
    by (auto simp: ownPaths_def) (rule plain once strict, rule serves_users)+
qed

lemma routeHandler_cases:
  obtains (none) "\<And>gc w. routeHandler E G a req gc w = (gc\<lparr>gc_Writer := gin_NoRoute G (gc_Writer gc)\<rparr>, w)"
    "\<forall>r \<in> set (identityRoutes E G a). rt_Method r \<noteq> rq_Method req \<or> rt_Path r \<noteq> rq_FullPath req"
  | (some) r where "r \<in> set (identityRoutes E G a)" "rt_Method r = rq_Method req" "rt_Path r = rq_FullPath req"
      "routeHandler E G a req = rt_Handler r"
proof (cases "find (\<lambda>r. rt_Method r = rq_Method req \<and> rt_Path r = rq_FullPath req) (identityRoutes E G a)")
  case None
  then have "routeHandler E G a req gc w = (gc\<lparr>gc_Writer := gin_NoRoute G (gc_Writer gc)\<rparr>, w)" for gc w
    by (simp add: routeHandler_def)
  then show ?thesis using none None by (auto simp: find_None_iff)
next
  case (Some r)
  then show ?thesis using some by (auto simp: routeHandler_def dest: find_SomeD)
qed

lemma listed_route:
  assumes "(rq_Method req, rq_FullPath req) \<in> set (map (\<lambda>r. (rt_Method r, rt_Path r)) (identityRoutes E G a))"
  obtains r where "r \<in> set (identityRoutes E G a)" "rt_Method r = rq_Method req" "rt_Path r = rq_FullPath req"
    "routeHandler E G a req = rt_Handler r"
  by (rule routeHandler_cases [of E G a req]) (use assms that in auto)


text \<open>What handlers for the authenticated user do behind the middlewares.\<close>

lemma passed_to_user_handler:
  assumes "passes S m" and "serves E s byUser h" and "GetAuthContext gc = Some ac"
  shows "w_pool (snd (m h gc w)) = w_pool w
    \<or> (\<exists>c rq w1. onBehalf rq = Some (acx_UserID ac) \<and> w_pool w1 = w_pool w \<and> w_pool (snd (m h gc w)) = w_pool (serve E s c rq w1))"
proof -
  have "passing S h gc w (m h gc w)" using assms(1) unfolding passes_def by blast
  then show ?thesis unfolding passing_def
  proof (elim disjE exE conjE)
    fix gc' w'
    assume pass: "GetAuthContext gc' = GetAuthContext gc" "w_pool w' = w_pool w" "w_pool (snd (m h gc w)) = w_pool (snd (h gc' w'))"
    from assms(2) [unfolded serves_def, rule_format, of gc' w'] consider "snd (h gc' w') = w'"
      | rq where "byUser gc' rq" "w_pool (snd (h gc' w')) = w_pool (serve E s (gc_ctx gc') rq w')" by force
    then show ?thesis
    proof cases
      case (2 rq)
      then have "onBehalf rq = Some (acx_UserID ac)" using pass(1) assms(3) by (simp add: byUser_def)
      then show ?thesis using pass 2(2) by metis
    qed (use pass in simp)
  qed simp
qed

lemma ownHandler_effect:
  assumes "ownHandler E G a hh"
  shows "w_pool (snd (hh gc w)) = w_pool w
    \<or> (\<exists>tok t claims c rq w1. bearerToken (gc_Request gc) = Some tok \<and> verifiedAt E (ProvideAuthManager (api_Config a)) tok t claims
         \<and> onBehalf rq = Some (cl_UserID claims) \<and> w_pool w1 = w_pool w \<and> w_pool (snd (hh gc w)) = w_pool (serve E (api_Auth a) c rq w1))"
proof -
  let ?cfg = "ProvideAuthManager (api_Config a)"
  from assms obtain S m h where h: "hh = NewAuthMiddleware E G ?cfg (m h)" "passes S m" "serves E (api_Auth a) byUser h"
    unfolding ownHandler_def by blast
  show ?thesis
  proof (cases rule: NewAuthMiddleware_cases [of E G ?cfg "m h" gc w])
    case refused
    then show ?thesis using h(1) by simp
  next
    case (verified tok claims gc' w')
    have "acx_UserID (authContextOf claims) = cl_UserID claims" by (simp add: authContextOf_def)
    then show ?thesis using passed_to_user_handler [OF h(2,3) verified(6), of w'] verified(1-4) unfolding h(1) by metis
  qed
qed

text \<open>
  C9: whatever a request to the user's own resources (the routes under \<open>/api/v1/me\<close> and logout)
  changes in the tables is what one request to the services on behalf of the user named in its
  verified access token changes.
\<close>

theorem own_routes_act_for_token_user:
  assumes "ownPaths (rq_FullPath req)" and "a = InitializeAPI E cfg"
    and "ServeHTTP E G a req w = (resp, w')"
  shows "w_pool w' = w_pool w
    \<or> (\<exists>tok t claims c rq w1. bearerToken req = Some tok \<and> verifiedAt E (ProvideAuthManager cfg) tok t claims
         \<and> onBehalf rq = Some (cl_UserID claims) \<and> w_pool w1 = w_pool w \<and> w_pool w' = w_pool (serve E (api_Auth a) c rq w1))"
proof (cases rule: ServeHTTP_cases [of E G a req w])
  case stop
  then show ?thesis using assms(3) by simp
next
  case (route gc1 w1)
  have st: "is_store (api_Idempotency a) = RedisStore E" and cfg: "api_Config a = cfg"
    using assms(2) by (simp_all add: InitializeAPI_def)
  show ?thesis
  proof (cases rule: routeHandler_cases [of E G a req])
    case none
    then show ?thesis using route assms(3) by simp
  next
    case (some r)
    then have "ownHandler E G a (rt_Handler r)" using route_acts_for_user [OF some(1) _ st] assms(1) by simp
    from ownHandler_effect [OF this, of gc1 w1] show ?thesis
      using route assms(3) some(4) unfolding cfg by (metis snd_conv)
  qed
qed

text \<open>
  gin binds the parameters a pattern names with a colon. The handlers of devices and addresses ask
  for other names.
\<close>

definition paramNames :: "string \<Rightarrow> string list" where
  "paramNames path = map tl (filter (\<lambda>seg. seg \<noteq> '''' \<and> hd seg = CHR '':'') (Split (CHR ''/'') path))"

definition gin_routed :: "httpRequest \<Rightarrow> bool" where
  "gin_routed req \<longleftrightarrow> map fst (rq_Params req) = paramNames (rq_FullPath req)"

definition itemRoutes :: "(string \<times> string) list" where
  "itemRoutes = [(''DELETE'', ''/api/v1/me/devices/:deviceId''), (''PATCH'', ''/api/v1/me/addresses/:addressId''),
     (''DELETE'', ''/api/v1/me/addresses/:addressId'')]"

lemma paramNames_items: "(m, path) \<in> set itemRoutes \<Longrightarrow> \<forall>p \<in> set (paramNames path). p \<noteq> ''device_id'' \<and> p \<noteq> ''address_id''"
  unfolding itemRoutes_def by (auto simp: paramNames_def)

lemma positiveParam_missing: "k \<notin> set (map fst (rq_Params (gc_Request gc))) \<Longrightarrow> positiveParam k gc = None"
proof -
  assume "k \<notin> set (map fst (rq_Params (gc_Request gc)))"
  then have "Param k gc = ''''" by (simp add: Param_def map_of_eq_None_iff [THEN iffD2])
  then show ?thesis by (simp add: positiveParam_def ParseInt_def)
qed

lemma item_route_handler:
  assumes "r \<in> set (identityRoutes E G a)" and "(rt_Method r, rt_Path r) \<in> set itemRoutes"
  shows "\<exists>h \<in> {ProfileHandler_RevokeDevice E G, AddressHandler_UpdateAddress E G, AddressHandler_DeleteAddress E G}.
     rt_Handler r = NewAuthMiddleware E G (ProvideAuthManager (api_Config a)) h"
  using assms unfolding identityRoutes_def RegisterRoutes_def Let_def itemRoutes_def by auto

text \<open>
  C40: the routes that name one device or one address never succeed: their patterns bind
  \<open>deviceId\<close> and \<open>addressId\<close>, the handlers read \<open>device_id\<close> and \<open>address_id\<close>, and every request that
  gets past the token and the rate limit is answered 400, with the tables untouched.
\<close>

theorem item_routes_never_succeed:
  assumes "(rq_Method req, rq_FullPath req) \<in> set itemRoutes" and "gin_routed req"
  shows "hr_Status (fst (ServeHTTP E G a req w)) \<in> {400, 401, 429} \<and> w_pool (snd (ServeHTTP E G a req w)) = w_pool w"
proof (cases rule: ServeHTTP_cases [of E G a req w])
  case stop
  then show ?thesis using assms(1) by (auto simp: engineStops_def itemRoutes_def)
next
  case (route gc' w')
  have "(rq_Method req, rq_FullPath req) \<in> set (map (\<lambda>r. (rt_Method r, rt_Path r)) (identityRoutes E G a))"
    using assms(1) unfolding identityRoutes_def RegisterRoutes_def Let_def itemRoutes_def by auto
  then obtain r where r: "r \<in> set (identityRoutes E G a)" "rt_Method r = rq_Method req" "rt_Path r = rq_FullPath req"
    "routeHandler E G a req = rt_Handler r" by (rule listed_route)
  from item_route_handler [OF r(1)] r(2,3) assms(1) obtain h where
    h: "h \<in> {ProfileHandler_RevokeDevice E G, AddressHandler_UpdateAddress E G, AddressHandler_DeleteAddress E G}"
      "rt_Handler r = NewAuthMiddleware E G (ProvideAuthManager (api_Config a)) h" by auto
  show ?thesis
  proof (cases rule: NewAuthMiddleware_cases [of E G "ProvideAuthManager (api_Config a)" h gc' w'])
    case refused
    with route r(4) h(2) show ?thesis by simp
  next
    case (verified tok claims gc1 w1)
    have "\<forall>p \<in> set (map fst (rq_Params (gc_Request gc1))). p \<noteq> ''device_id'' \<and> p \<noteq> ''address_id''"
      using paramNames_items [OF assms(1)] assms(2) verified(5) route(1) by (simp add: gin_routed_def)
    then have "positiveParam ''device_id'' gc1 = None" "positiveParam ''address_id'' gc1 = None"
      by (blast intro: positiveParam_missing)+
    then have "hr_Status (gc_Writer (fst (h gc1 w1))) = 400 \<and> snd (h gc1 w1) = w1"
      using h(1) verified(6)
      by (auto simp: ProfileHandler_RevokeDevice_def AddressHandler_UpdateAddress_def AddressHandler_DeleteAddress_def getAuthUser_eqs)
    then show ?thesis using route r(4) h(2) verified by simp
  qed
qed

section \<open>Every exchange is a run of the system\<close>

definition keeps :: "(world \<Rightarrow> bool) \<Rightarrow> handler \<Rightarrow> bool" where
  "keeps P h \<longleftrightarrow> (\<forall>gc w. \<not> ctx_tx (gc_ctx gc) \<longrightarrow> P w \<longrightarrow> P (snd (h gc w)))"

lemma keepsD: "keeps P h \<Longrightarrow> \<not> ctx_tx (gc_ctx gc) \<Longrightarrow> P w \<Longrightarrow> h gc w = (gc', w') \<Longrightarrow> P w'"
  unfolding keeps_def by (metis snd_conv)

lemma preservesD': "preserves P m \<Longrightarrow> P w \<Longrightarrow> P (snd (m w))"
  by (simp add: preserves_def)

text \<open>
  What the clock, Redis commands and the requests to the services keep, the middlewares and the
  handlers keep, and so the engine.
\<close>

locale web_invariant = redis_traffic E P for E P +
  fixes s :: AuthService
  assumes P_serve: "\<not> ctx_tx c \<Longrightarrow> P w \<Longrightarrow> P (serve E s c rq w)"
begin

lemma keeps_handler: "serves E s R h \<Longrightarrow> keeps P h"
  unfolding serves_def keeps_def using P_serve preservesD' [OF P_Now] by metis

lemma tick: "P w \<Longrightarrow> P (w\<lparr>w_n := Suc (w_n w)\<rparr>)"
  using preservesD' [OF P_Now] by simp

lemma keeps_RequestID: "keeps P h \<Longrightarrow> keeps P (RequestIDMiddleware E h)"
  unfolding keeps_def RequestIDMiddleware_def Let_def WithRequestIdKey_def by (auto simp: tick split: prod.splits)

lemma keeps_Logger: "keeps P h \<Longrightarrow> keeps P (LoggerMiddleware E h)"
  unfolding keeps_def [of P "LoggerMiddleware E h"] LoggerMiddleware_def
  by (auto split: prod.splits intro!: tick) (metis keepsD tick)

lemma keeps_CORS: "keeps P h \<Longrightarrow> keeps P (CORSMiddleware cfg h)"
  unfolding keeps_def CORSMiddleware_def Let_def by (auto simp: corsHeaders_def)

lemma keeps_RateLimit: "keeps P h \<Longrightarrow> keeps P (RateLimitMiddleware E G cfg h)"
  unfolding keeps_def
proof (intro allI impI)
  fix gc :: ginCtx and w
  assume h: "\<forall>gc w. \<not> ctx_tx (gc_ctx gc) \<longrightarrow> P w \<longrightarrow> P (snd (h gc w))" and gc: "\<not> ctx_tx (gc_ctx gc)" and P: "P w"
  define key where "key = ''rate:global:'' @ rq_ClientIP (gc_Request gc)"
  obtain r w1 where run: "redisInt E (INCR key) w = (r, w1)" by fastforce
  have w1: "P w1" using preservesD' [OF P_reply(3) P] run by (metis snd_conv)
  then have "P (snd (redis E (EXPIRE key Minute) w1))" by (rule preservesD' [OF P_redis])
  with w1 show "P (snd (RateLimitMiddleware E G cfg h gc w))"
    unfolding RateLimitMiddleware_def key_def [symmetric] run Let_def using h gc P by (cases r) auto
qed

lemma keeps_Auth: "keeps P h \<Longrightarrow> keeps P (NewAuthMiddleware E G cfg h)"
  unfolding keeps_def NewAuthMiddleware_def Let_def using preservesD' [OF P_token(1)]
  by (auto split: list.splits sum.splits prod.splits) (metis snd_conv GetAuthContext_simps(6))+

lemma keeps_Strict: "keeps P h \<Longrightarrow> keeps P (NewStrictAuthMiddleware E G h)"
  unfolding keeps_def NewStrictAuthMiddleware_def using preservesD' [OF P_token(2)]
  by (auto split: option.splits sum.splits prod.splits) (metis snd_conv)+

lemma keeps_Gin:
  assumes "is_store svc = RedisStore E" and "keeps P h"
  shows "keeps P (GinMiddleware E G svc cfg h)"
  unfolding keeps_def
proof (intro allI impI)
  fix gc :: ginCtx and w
  assume gc: "\<not> ctx_tx (gc_ctx gc)" and P: "P w"
  note begins = preservesD' [OF P_idempotency(1) [OF assms(1)]] and ends = preservesD' [OF P_idempotency(2) [OF assms(1)]]
  have pro: "P (snd (proceed E svc scope key h (keyed cfg gc) w1))" if "P w1" for scope key w1
    using keepsD [OF assms(2) _ that, of "(keyed cfg gc)\<lparr>gc_Writer := (gc_Writer gc)\<lparr>hr_Body := ''''\<rparr>\<rparr>"] gc
    unfolding proceed_def Let_def by (auto intro!: ends split: prod.splits)
  show "P (snd (GinMiddleware E G svc cfg h gc w))"
    using begins [OF P] unfolding GinMiddleware_unfold
    by (auto simp: P split: sum.splits prod.splits option.splits BeginDecision.splits intro!: pro) (metis snd_conv)+
qed

lemma keeps_NewRouter: "keeps P h \<Longrightarrow> keeps P (NewRouter E G cfg h)"
  unfolding NewRouter_def by (intro keeps_RequestID keeps_Logger keeps_CORS keeps_RateLimit)

lemma keeps_routes:
  assumes "is_store (api_Idempotency a) = RedisStore E" and "api_Auth a = s" and "r \<in> set (identityRoutes E G a)"
  shows "keeps P (rt_Handler r)"
proof -
  note hs = serves_all [of E s, THEN keeps_handler]
  have idem: "keeps P h \<Longrightarrow> keeps P (identityIdempotency E G a h)" for h
    unfolding identityIdempotency_def by (rule keeps_Gin [OF assms(1)])
  show ?thesis using assms(3) unfolding identityRoutes_def RegisterRoutes_def Let_def assms(2)
    by (auto intro!: idem keeps_Auth keeps_Strict intro: hs)
qed

lemma P_ServeHTTP:
  assumes "is_store (api_Idempotency a) = RedisStore E" and "api_Auth a = s" and "P w"
  shows "P (snd (ServeHTTP E G a req w))"
proof -
  have "keeps P (routeHandler E G a req)"
    by (cases rule: routeHandler_cases [of E G a req]) (simp add: keeps_def, simp add: keeps_routes [OF assms(1,2)])
  from keeps_NewRouter [OF this, of G "api_Config a"] assms(3)
  have "P (snd (NewRouter E G (api_Config a) (routeHandler E G a req) (newContext req) w))"
    unfolding keeps_def by (simp add: newContext_def Background_def)
  then show ?thesis by (simp add: ServeHTTP_eq)
qed

end

text \<open>Both the steps of the system and its reachable states are closed under the parts of an exchange.\<close>

interpretation steps: web_invariant E "(sysStep E s)\<^sup>*\<^sup>* w0" s for E s w0
proof unfold_locales
  have "sysStep E s w (w\<lparr>w_n := Suc (w_n w)\<rparr>)" for w by (rule sysStep.Idle) simp
  then show "preserves ((sysStep E s)\<^sup>*\<^sup>* w0) (Now E)"
    by (auto simp: preserves_def intro: rtranclp.rtrancl_into_rtrancl)
  show "preserves ((sysStep E s)\<^sup>*\<^sup>* w0) (redis E cmd)" for cmd
    by (auto simp: preserves_def intro: rtranclp.rtrancl_into_rtrancl sysStep.Cache)
  show "(sysStep E s)\<^sup>*\<^sup>* w0 (serve E s c rq w)" if "\<not> ctx_tx c" "(sysStep E s)\<^sup>*\<^sup>* w0 w" for c w rq
    using that by (auto intro: rtranclp.rtrancl_into_rtrancl sysStep.Request)
qed


end
