(* ===== verification/Http_Replay.thy ===== *)
theory Http_Replay
  imports Http_Safety
begin

text \<open>
  Retries through the idempotency middleware: the response a client is given again, headers
  included.
\<close>

section \<open>Headers\<close>

text \<open>The headers of a response as net/http keeps them: canonical names, each once, with a value.\<close>

definition wfHeader :: "(string \<times> string list) list \<Rightarrow> bool" where
  "wfHeader h \<longleftrightarrow> distinct (map fst h) \<and> (\<forall>(k, vs) \<in> set h. CanonicalHeaderKey k = k \<and> vs \<noteq> [] \<and> hd vs \<noteq> '''')"

lemma map_of_headerDel: "map_of (headerDel k h) x = (if x = CanonicalHeaderKey k then None else map_of h x)"
  by (induction h) (auto simp: headerDel_def)

lemma headerValues_set [simp]:
  "headerValues k (headerSet k' v h) = (if CanonicalHeaderKey k = CanonicalHeaderKey k' then [v] else headerValues k h)"
  by (auto simp: headerValues_def headerSet_def map_add_def map_of_headerDel split: option.splits)

lemma setHeader_values:
  "v \<noteq> '''' \<Longrightarrow> headerValues k (hr_Header (gc_Writer (setHeader k' v gc))) =
     (if CanonicalHeaderKey k = CanonicalHeaderKey k' then [v] else headerValues k (hr_Header (gc_Writer gc)))"
  by (simp add: setHeader_def)

text \<open>Setting headers one after the other: the last value of a name counts.\<close>

lemma fold_setHeader_other:
  assumes "\<forall>p \<in> set hs. CanonicalHeaderKey (fst p) \<noteq> CanonicalHeaderKey k \<and> snd p \<noteq> ''''"
  shows "headerValues k (hr_Header (gc_Writer (fold (\<lambda>(k, v). setHeader k v) hs gc))) = headerValues k (hr_Header (gc_Writer gc))"
  using assms by (induction hs arbitrary: gc) (auto simp: setHeader_values)

lemma fold_setHeader:
  assumes "(k, v) \<in> set hs" and "distinct (map fst hs)" and "\<forall>p \<in> set hs. CanonicalHeaderKey (fst p) = fst p \<and> snd p \<noteq> ''''"
  shows "headerValues k (hr_Header (gc_Writer (fold (\<lambda>(k, v). setHeader k v) hs gc))) = [v]"
  using assms
proof (induction hs arbitrary: gc)
  case (Cons p hs)
  obtain k' v' where p: "p = (k', v')" by fastforce
  show ?case
  proof (cases "(k, v) \<in> set hs")
    case True
    with Cons p show ?thesis by simp
  next
    case False
    then have kv: "k' = k" "v' = v" using Cons.prems(1) p by auto
    have "headerValues k (hr_Header (gc_Writer (fold (\<lambda>(k, v). setHeader k v) hs (setHeader k v gc))))
        = headerValues k (hr_Header (gc_Writer (setHeader k v gc)))"
      by (rule fold_setHeader_other) (use Cons.prems p kv in force)
    moreover have "v \<noteq> ''''" using Cons.prems(1,3) by force
    ultimately show ?thesis using p kv by (simp add: setHeader_values)
  qed
qed simp

lemma fold_setHeader_writer:
  "hr_Body (gc_Writer (fold (\<lambda>(k, v). setHeader k v) hs gc)) = hr_Body (gc_Writer gc)"
  by (induction hs arbitrary: gc) auto

text \<open>What the recorder keeps of the headers: the first value of each.\<close>

lemma flattenHeaders_wf:
  assumes "wfHeader h"
  shows "flattenHeaders h = map (\<lambda>(k, vs). (k, hd vs)) h"
proof -
  have "flattenHeaders h = map (\<lambda>(k, vs). (k, hd vs)) h" if "\<forall>(k, vs) \<in> set h. vs \<noteq> []"
    using that by (induction h) (auto simp: flattenHeaders_def split: list.splits)
  then show ?thesis using assms by (auto simp: wfHeader_def)
qed

definition replayedHeader :: string where "replayedHeader = ''X-Idempotency-Replayed''"

text \<open>A replayed response: status, body and headers of the record.\<close>

lemma replayResponse_values:
  assumes "wfHeader h" and "ir_Headers rec = flattenHeaders h" and "(k, vs) \<in> set h" and "k \<noteq> replayedHeader"
  shows "headerValues k (hr_Header (gc_Writer (replayResponse rec gc))) = [hd vs]"
proof -
  let ?g = "fold (\<lambda>(k, v). setHeader k v) (ir_Headers rec) gc"
  have canon: "CanonicalHeaderKey k = k" using assms(1,3) by (auto simp: wfHeader_def)
  have g: "headerValues k (hr_Header (gc_Writer ?g)) = [hd vs]"
  proof (rule fold_setHeader)
    have hs: "ir_Headers rec = map (\<lambda>(k, vs). (k, hd vs)) h" using assms(1,2) by (simp add: flattenHeaders_wf)
    show "(k, hd vs) \<in> set (ir_Headers rec)" using assms(3) by (force simp: hs)
    show "distinct (map fst (ir_Headers rec))" "\<forall>p \<in> set (ir_Headers rec). CanonicalHeaderKey (fst p) = fst p \<and> snd p \<noteq> ''''"
      using assms(1) by (auto simp: hs wfHeader_def comp_def split_def)
  qed
  have rep: "CanonicalHeaderKey ''X-Idempotency-Replayed'' = replayedHeader" unfolding replayedHeader_def by code_simp
  have "headerValues k (hr_Header (gc_Writer (setHeader ''X-Idempotency-Replayed'' ''true'' ?g))) = [hd vs]"
    using g assms(4) by (simp add: setHeader_values canon rep)
  moreover have "headerValues ''Content-Type'' x = headerValues k x" if "CanonicalHeaderKey k = CanonicalHeaderKey ''Content-Type''" for x
    using that by (simp add: headerValues_def)
  ultimately show ?thesis unfolding replayResponse_def writeData_def Let_def by auto
qed

lemma replayResponse_body: "hr_Body (gc_Writer (replayResponse rec gc)) = hr_Body (gc_Writer gc) @ ir_ResponseBody rec"
  by (simp add: replayResponse_def Let_def fold_setHeader_writer)

section \<open>A request and its retry\<close>

lemma identityIdempotency_cfg:
  "idemKey \<lparr>mc_KeyHeader = ''Idempotency-Key'', mc_ScopeResolver = Some identityScope, mc_RequestHasher = None\<rparr> gc = GetHeader ''Idempotency-Key'' gc"
  "idemScope \<lparr>mc_KeyHeader = ''Idempotency-Key'', mc_ScopeResolver = Some identityScope, mc_RequestHasher = None\<rparr> gc = identityScope gc"
  "idemHash E \<lparr>mc_KeyHeader = ''Idempotency-Key'', mc_ScopeResolver = Some identityScope, mc_RequestHasher = None\<rparr> gc
     = Inr (HashBytes E (rq_Body (gc_Request gc)))"
  by (simp_all add: idemKey_def idemScope_def idemHash_def)

text \<open>The completion of a request counts three interactions.\<close>

lemma proceed_run:
  assumes "h (gc\<lparr>gc_Writer := (gc_Writer gc)\<lparr>hr_Body := ''''\<rparr>\<rparr>) w = (g, w2)"
  shows "proceed E svc scope key h gc w =
    (g\<lparr>gc_Writer := (gc_Writer g)\<lparr>hr_Body := hr_Body (gc_Writer gc) @ hr_Body (gc_Writer g)\<rparr>\<rparr>,
     snd (CompleteHTTP E svc scope key (recordedResult (gc_Writer g)) w2))"
  using assms by (simp add: proceed_def Let_def)

lemma BeginHTTP_fresh:
  assumes "redis_up E" and "isASCII scope" and "TrimSpace key \<noteq> ''''"
    and s: "s = NewIdemService (RedisStore E) cfg" and k: "k = BuildKey E scope key"
    and "live (env_now E (Suc (w_n w))) (w_redis w) k = None"
  shows "\<exists>r w1. BeginHTTP E s scope key h w = (Inr \<lparr>br_Decision = BeginProceed, br_Record = Some r\<rparr>, w1)
    \<and> w_redis w1 k = Some (RJson (marshalRecord (beginRecord k (NormalizeScope E scope) h (env_now E (w_n w)))),
        expiry (env_now E (Suc (w_n w))) (ic_InProgressTTL (is_config s)))"
proof -
  have nk: "BuildKey E (NormalizeScope E scope) key = k" using assms(2) k by (simp add: BuildKey_normalized)
  let ?r = "beginRecord k (NormalizeScope E scope) h (env_now E (w_n w))"
  have rk: "ir_Key ?r = k" by (simp add: beginRecord_def)
  show ?thesis
    using BeginHTTP_run [OF assms(3), of ?r E scope h w s]
      RedisStore_Reserve_up(1) [OF assms(1), of "w\<lparr>w_n := Suc (w_n w)\<rparr>" ?r] assms(6)
    by (simp add: rk nk s beginDecide_def)
qed

lemma CompleteHTTP_n:
  assumes "redis_up E" and "TrimSpace key \<noteq> ''''" and s: "s = NewIdemService (RedisStore E) cfg" and k: "k = BuildKey E scope key"
    and "storedRecord (env_now E (Suc (w_n w))) w k = Some r"
  shows "w_n (snd (CompleteHTTP E s scope key res w)) = Suc (Suc (Suc (w_n w)))"
proof -
  have "RedisStore_Complete E k res ttl now (w\<lparr>w_n := Suc (w_n w)\<rparr>) = (Inr (), w\<lparr>w_n := Suc (Suc (Suc (w_n w))),
      w_redis := (w_redis w)(k \<mapsto> (RJson (marshalRecord (completeRecord res now r)), expiry (env_now E (Suc (Suc (w_n w)))) ttl))\<rparr>)" for ttl now
    using RedisStore_Complete_up [OF assms(1), of "w\<lparr>w_n := Suc (w_n w)\<rparr>" k r] assms(5) by (simp add: storedRecord_n)
  then show ?thesis using assms(2) by (simp add: CompleteHTTP_def Let_def andThen_def s k)
qed

text \<open>Interactions are counted upwards.\<close>

interpretation count: redis_traffic E "\<lambda>w. n \<le> w_n w" for E n
  by unfold_locales (auto simp: preserves_def redis_def split: prod.splits)

lemma CompleteHTTP_later:
  assumes "TrimSpace key \<noteq> ''''" and "s = NewIdemService (RedisStore E) cfg"
  shows "Suc (w_n w) \<le> w_n (snd (CompleteHTTP E s scope key res w))"
  using preservesD' [OF count.P_store(2), of "Suc (w_n w)" "w\<lparr>w_n := Suc (w_n w)\<rparr>" E] assms
  by (simp add: CompleteHTTP_def Let_def andThen_def)

abbreviation (input) identityMC :: MiddlewareConfig where
  "identityMC \<equiv> \<lparr>mc_KeyHeader = ''Idempotency-Key'', mc_ScopeResolver = Some identityScope, mc_RequestHasher = None\<rparr>"

lemma HashBytes_nonempty: "env_sha256 E b \<noteq> '''' \<Longrightarrow> HashBytes E b \<noteq> ''''"
  by (cases "env_sha256 E b") (auto simp: HashBytes_def hexEncode_def Let_def)

text \<open>The first exchange leaves its response in the record, where the next request with the key finds it.\<close>

lemma first_response_recorded:
  assumes "redis_up E" and "clock_monotonic E" and "env_sha256 E (rq_Body (gc_Request gc)) \<noteq> ''''"
    and svc: "s = NewIdemService (RedisStore E) NewDefaultConfig" and key: "key = GetHeader ''Idempotency-Key'' gc" "TrimSpace key \<noteq> ''''"
    and scope: "isASCII (identityScope gc)" and k: "k = BuildKey E (identityScope gc) key"
    and fresh: "live (env_now E (Suc (w_n w))) (w_redis w) k = None"
    and first: "GinMiddleware E G s identityMC h gc w = (gc1, w3)"
    and handler: "\<forall>g v. w_redis (snd (h g v)) k = w_redis v k"
    and quick: "env_now E (w_n w3) < env_now E (w_n w) + 5 * Minute" and body: "hr_Body (gc_Writer gc) = ''''"
    and kept: "w_redis w4 k = w_redis w3 k" "env_now E (w_n w4 + 2) < env_now E (w_n w3 - 1) + 24 * Hour"
  shows "\<exists>r. ir_ResponseCode r = hr_Status (gc_Writer gc1) \<and> ir_ResponseBody r = hr_Body (gc_Writer gc1)
    \<and> ir_Headers r = flattenHeaders (hr_Header (gc_Writer gc1))
    \<and> BeginHTTP E s (identityScope gc) key (HashBytes E (rq_Body (gc_Request gc))) w4
        = (Inr \<lparr>br_Decision = BeginReplay, br_Record = Some r\<rparr>, w4\<lparr>w_n := Suc (Suc (Suc (w_n w4)))\<rparr>)"
proof -
  let ?h = "HashBytes E (rq_Body (gc_Request gc))" and ?sc = "identityScope gc"
  have ttl: "ic_InProgressTTL (is_config s) = 5 * Minute" "ic_CompletedTTL (is_config s) = 24 * Hour"
    by (simp_all add: svc NewIdemService_def NewDefaultConfig_def Let_def Minute_def Hour_def)
  obtain r0 w1 where beg: "BeginHTTP E s ?sc key ?h w = (Inr \<lparr>br_Decision = BeginProceed, br_Record = Some r0\<rparr>, w1)"
    and w1: "w_redis w1 k = Some (RJson (marshalRecord (beginRecord k (NormalizeScope E ?sc) ?h (env_now E (w_n w)))),
        expiry (env_now E (Suc (w_n w))) (5 * Minute))"
    using BeginHTTP_fresh [OF assms(1) scope key(2) svc k fresh, of ?h] ttl by auto
  obtain g w2 where g: "h ((keyed identityMC gc)\<lparr>gc_Writer := (gc_Writer gc)\<lparr>hr_Body := ''''\<rparr>\<rparr>) w1 = (g, w2)" by fastforce
  let ?res = "recordedResult (gc_Writer g)"
  obtain c w3' where fin: "CompleteHTTP E s ?sc key ?res w2 = (c, w3')" by fastforce
  have g': "h ((keyed identityMC gc)\<lparr>gc_Writer := (gc_Writer (keyed identityMC gc))\<lparr>hr_Body := ''''\<rparr>\<rparr>) w1 = (g, w2)" using g by simp
  have k': "key \<noteq> ''''" using key(2) by auto
  have "GinMiddleware E G s identityMC h gc w = (g\<lparr>gc_Writer := (gc_Writer g)\<lparr>hr_Body := hr_Body (gc_Writer gc) @ hr_Body (gc_Writer g)\<rparr>\<rparr>, w3')"
    using GinMiddleware_run [of identityMC gc E ?h s w] k' key(1) beg proceed_run [of h "keyed identityMC gc", OF g'] fin by (simp add: identityIdempotency_cfg)
  then have gc1: "gc_Writer gc1 = gc_Writer g" and w3: "w3' = w3" using first body by auto
  have mono: "env_now E m \<le> env_now E n" if "m \<le> n" for m n using assms(2) that by (simp add: clock_monotonic_def)
  have r2: "w_redis w2 k = w_redis w1 k" using handler g by (metis snd_conv)
  have "Suc (w_n w2) \<le> w_n w3" using CompleteHTTP_later [OF key(2) svc, of w2 ?sc ?res] fin w3 by simp
  from mono [OF this] have t2: "env_now E (Suc (w_n w2)) < env_now E (Suc (w_n w)) + 5 * Minute"
    using mono [of "w_n w" "Suc (w_n w)"] quick by simp
  then have "storedRecord (env_now E (Suc (w_n w2))) w2 k = Some (beginRecord k (NormalizeScope E ?sc) ?h (env_now E (w_n w)))"
    using w1 r2 by (simp add: storedRecord_def live_def redisKey_def expiry_def unmarshal_marshalRecord Minute_def)
  from CompleteHTTP_n [OF assms(1) key(2) svc k this, of ?res] fin w3 have n3: "w_n w3 - 1 = w_n w2 + 2" by simp
  have t4: "\<forall>i \<in> {1, 2}. env_now E (w_n w4 + i) < env_now E (w_n w2 + 2) + ic_CompletedTTL (is_config s)"
    using kept(2) mono [of "w_n w4 + 1" "w_n w4 + 2"] unfolding n3 ttl by auto
  from begin_complete_begin [OF assms(1) scope key(2) HashBytes_nonempty [OF assms(3)] svc k fresh beg r2 t2 [folded ttl(1)]
      fin [unfolded w3] kept(1) t4]
  show ?thesis unfolding gc1 recordedResult_def by auto
qed


end
