(* ===== verification/Row_Scan.thy ===== *)
theory Row_Scan
  imports Identity_Postgres
begin

text \<open>
  Rows as the driver delivers them: \<^verbatim>\<open>scan.go\<close> reads the columns of a result by position into the
  fields of a row struct. The select lists of the statements, the columns of the tables and the scans
  are modelled here one by one, and shown to fit: the theories on the repositories work with the row
  structs directly.
\<close>

section \<open>Values and scan targets\<close>

datatype pgValue = PgNull | PgInt int | PgText string | PgTime time | PgBool bool | PgJson json

text \<open>
  \<^verbatim>\<open>rows.Scan\<close> into a pointer field takes NULL as nil; into any other field NULL is an error, as is a
  value of another type. A column of type JSONB goes into a Go map: NULL and null give the nil map,
  a value that is not an object is an error.
\<close>

definition scanError :: gerror where "scanError = External ''cannot scan into dest''"

fun scanInt :: "pgValue \<Rightarrow> gerror + int" where
  "scanInt (PgInt i) = Inr i"
| "scanInt _ = Inl scanError"

fun scanText :: "pgValue \<Rightarrow> gerror + string" where
  "scanText (PgText s) = Inr s"
| "scanText _ = Inl scanError"

fun scanTextPtr :: "pgValue \<Rightarrow> gerror + string option" where
  "scanTextPtr PgNull = Inr None"
| "scanTextPtr (PgText s) = Inr (Some s)"
| "scanTextPtr _ = Inl scanError"

fun scanTime :: "pgValue \<Rightarrow> gerror + time" where
  "scanTime (PgTime t) = Inr t"
| "scanTime _ = Inl scanError"

fun scanTimePtr :: "pgValue \<Rightarrow> gerror + time option" where
  "scanTimePtr PgNull = Inr None"
| "scanTimePtr (PgTime t) = Inr (Some t)"
| "scanTimePtr _ = Inl scanError"

fun scanBool :: "pgValue \<Rightarrow> gerror + bool" where
  "scanBool (PgBool b) = Inr b"
| "scanBool _ = Inl scanError"

fun scanMap :: "pgValue \<Rightarrow> gerror + json" where
  "scanMap PgNull = Inr JNull"
| "scanMap (PgJson JNull) = Inr JNull"
| "scanMap (PgJson (JObj fs)) = Inr (JObj fs)"
| "scanMap _ = Inl scanError"

text \<open>A field after the other; the first error ends the scan.\<close>

definition scanned :: "'e + 'a \<Rightarrow> ('a \<Rightarrow> 'e + 'b) \<Rightarrow> 'e + 'b" where
  "scanned r f = (case r of Inl e \<Rightarrow> Inl e | Inr x \<Rightarrow> f x)"

lemma scanned_Inr [simp]: "scanned (Inr x) f = f x"
  by (simp add: scanned_def)

lemma scanned_Inl [simp]: "scanned (Inl e) f = Inl e"
  by (simp add: scanned_def)

section \<open>scan.go\<close>

definition scanUser :: "pgValue list \<Rightarrow> gerror + userRow" where
  "scanUser vs = (case vs of
     [v1, v2, v3, v4, v5, v6, v7, v8, v9, v10, v11, v12, v13] \<Rightarrow>
       scanned (scanInt v1) (\<lambda>x1.
       scanned (scanText v2) (\<lambda>x2.
       scanned (scanText v3) (\<lambda>x3.
       scanned (scanTextPtr v4) (\<lambda>x4.
       scanned (scanText v5) (\<lambda>x5.
       scanned (scanText v6) (\<lambda>x6.
       scanned (scanTimePtr v7) (\<lambda>x7.
       scanned (scanTimePtr v8) (\<lambda>x8.
       scanned (scanTextPtr v9) (\<lambda>x9.
       scanned (scanMap v10) (\<lambda>x10.
       scanned (scanInt v11) (\<lambda>x11.
       scanned (scanTime v12) (\<lambda>x12.
       scanned (scanTime v13) (\<lambda>x13.
       Inr \<lparr>ur_ID = x1, ur_Email = x2, ur_FullName = x3, ur_Phone = x4, ur_UserType = x5, ur_Status = x6,
       ur_EmailVerifiedAt = x7, ur_LastLoginAt = x8, ur_LockedReason = x9, ur_Metadata = x10, ur_Version = x11,
       ur_CreatedAt = x12, ur_UpdatedAt = x13\<rparr>)))))))))))))
   | _ \<Rightarrow> Inl (External ''number of field descriptions must equal number of destinations''))"

definition scanSession :: "pgValue list \<Rightarrow> gerror + sessionRow" where
  "scanSession vs = (case vs of
     [v1, v2, v3, v4, v5, v6, v7, v8, v9, v10, v11, v12, v13] \<Rightarrow>
       scanned (scanInt v1) (\<lambda>x1.
       scanned (scanInt v2) (\<lambda>x2.
       scanned (scanInt v3) (\<lambda>x3.
       scanned (scanText v4) (\<lambda>x4.
       scanned (scanText v5) (\<lambda>x5.
       scanned (scanTime v6) (\<lambda>x6.
       scanned (scanTextPtr v7) (\<lambda>x7.
       scanned (scanText v8) (\<lambda>x8.
       scanned (scanTime v9) (\<lambda>x9.
       scanned (scanTimePtr v10) (\<lambda>x10.
       scanned (scanTextPtr v11) (\<lambda>x11.
       scanned (scanTime v12) (\<lambda>x12.
       scanned (scanTime v13) (\<lambda>x13.
       Inr \<lparr>sr_ID = x1, sr_UserID = x2, sr_DeviceID = x3, sr_RefreshTokenHash = x4,
       sr_SessionStatus = x5, sr_ExpiredAt = x6, sr_IPAddress = x7, sr_UserAgent = x8, sr_LastSeenAt = x9,
       sr_RevokedAt = x10, sr_RevokedReason = x11, sr_CreatedAt = x12, sr_UpdatedAt = x13\<rparr>)))))))))))))
   | _ \<Rightarrow> Inl (External ''number of field descriptions must equal number of destinations''))"

definition scanDevice :: "pgValue list \<Rightarrow> gerror + deviceRow" where
  "scanDevice vs = (case vs of
     [v1, v2, v3, v4, v5, v6, v7, v8, v9, v10, v11] \<Rightarrow>
       scanned (scanInt v1) (\<lambda>x1.
       scanned (scanInt v2) (\<lambda>x2.
       scanned (scanText v3) (\<lambda>x3.
       scanned (scanText v4) (\<lambda>x4.
       scanned (scanTime v5) (\<lambda>x5.
       scanned (scanTime v6) (\<lambda>x6.
       scanned (scanTimePtr v7) (\<lambda>x7.
       scanned (scanTextPtr v8) (\<lambda>x8.
       scanned (scanMap v9) (\<lambda>x9.
       scanned (scanTime v10) (\<lambda>x10.
       scanned (scanTime v11) (\<lambda>x11.
       Inr \<lparr>dr_ID = x1, dr_UserID = x2, dr_Fingerprint = x3, dr_Label = x4, dr_FirstSeenAt = x5,
       dr_LastSeenAt = x6, dr_RevokedAt = x7, dr_RevokedReason = x8, dr_Metadata = x9, dr_CreatedAt = x10,
       dr_UpdatedAt = x11\<rparr>)))))))))))
   | _ \<Rightarrow> Inl (External ''number of field descriptions must equal number of destinations''))"

definition scanAddress :: "pgValue list \<Rightarrow> gerror + addressRow" where
  "scanAddress vs = (case vs of
     [v1, v2, v3, v4, v5, v6, v7, v8, v9, v10, v11, v12, v13, v14, v15] \<Rightarrow>
       scanned (scanInt v1) (\<lambda>x1.
       scanned (scanInt v2) (\<lambda>x2.
       scanned (scanText v3) (\<lambda>x3.
       scanned (scanText v4) (\<lambda>x4.
       scanned (scanText v5) (\<lambda>x5.
       scanned (scanText v6) (\<lambda>x6.
       scanned (scanText v7) (\<lambda>x7.
       scanned (scanText v8) (\<lambda>x8.
       scanned (scanText v9) (\<lambda>x9.
       scanned (scanText v10) (\<lambda>x10.
       scanned (scanText v11) (\<lambda>x11.
       scanned (scanBool v12) (\<lambda>x12.
       scanned (scanInt v13) (\<lambda>x13.
       scanned (scanTime v14) (\<lambda>x14.
       scanned (scanTime v15) (\<lambda>x15.
       Inr \<lparr>ar_ID = x1, ar_UserID = x2, ar_RecipientName = x3, ar_RecipientPhone = x4, ar_Line1 = x5,
       ar_Line2 = x6, ar_Province = x7, ar_District = x8, ar_Ward = x9, ar_PostalCode = x10,
       ar_CountryCode = x11, ar_IsDefault = x12, ar_Version = x13, ar_CreatedAt = x14,
       ar_UpdatedAt = x15\<rparr>)))))))))))))))
   | _ \<Rightarrow> Inl (External ''number of field descriptions must equal number of destinations''))"

definition scanCredential :: "pgValue list \<Rightarrow> gerror + credentialRow" where
  "scanCredential vs = (case vs of
     [v1, v2, v3, v4, v5, v6] \<Rightarrow>
       scanned (scanInt v1) (\<lambda>x1.
       scanned (scanText v2) (\<lambda>x2.
       scanned (scanText v3) (\<lambda>x3.
       scanned (scanTime v4) (\<lambda>x4.
       scanned (scanInt v5) (\<lambda>x5.
       scanned (scanTimePtr v6) (\<lambda>x6.
       Inr \<lparr>cr_UserID = x1, cr_PasswordHash = x2, cr_PasswordAlgo = x3, cr_PasswordChangedAt = x4,
       cr_FailedLoginCount = x5, cr_LastFailedLoginAt = x6\<rparr>))))))
   | _ \<Rightarrow> Inl (External ''number of field descriptions must equal number of destinations''))"

section \<open>Select lists\<close>

definition cols_queryGetUserByID :: "string list" where
  "cols_queryGetUserByID =
    [''id'', ''email'', ''full_name'', ''phone'', ''user_type'', ''account_status'', ''email_verified_at'',
     ''last_login_at'', ''locked_reason'', ''metadata'', ''version'', ''created_at'', ''updated_at'']"

definition cols_queryGetUserByEmail :: "string list" where
  "cols_queryGetUserByEmail =
    [''id'', ''email'', ''full_name'', ''phone'', ''user_type'', ''account_status'', ''email_verified_at'',
     ''last_login_at'', ''locked_reason'', ''metadata'', ''version'', ''created_at'', ''updated_at'']"

definition cols_queryMe :: "string list" where
  "cols_queryMe =
    [''id'', ''email'', ''full_name'', ''phone'', ''user_type'', ''account_status'', ''email_verified_at'',
     ''last_login_at'', ''locked_reason'', ''metadata'', ''version'', ''created_at'', ''updated_at'']"

definition cols_queryGetByRefreshTokenHash :: "string list" where
  "cols_queryGetByRefreshTokenHash =
    [''id'', ''user_id'', ''device_id'', ''refresh_token_hash'', ''session_status'', ''expires_at'',
     ''ip_address'', ''user_agent'', ''last_seen_at'', ''revoked_at'', ''revoked_reason'', ''created_at'',
     ''updated_at'']"

definition cols_queryListActiveByUserID :: "string list" where
  "cols_queryListActiveByUserID =
    [''id'', ''user_id'', ''device_id'', ''refresh_token_hash'', ''session_status'', ''expires_at'',
     ''ip_address'', ''user_agent'', ''last_seen_at'', ''revoked_at'', ''revoked_reason'', ''created_at'',
     ''updated_at'']"

definition cols_queryListSession :: "string list" where
  "cols_queryListSession =
    [''id'', ''user_id'', ''device_id'', ''refresh_token_hash'', ''session_status'', ''expires_at'',
     ''ip_address'', ''user_agent'', ''last_seen_at'', ''revoked_at'', ''revoked_reason'', ''created_at'',
     ''updated_at'']"

definition cols_queryGetDeviceByID :: "string list" where
  "cols_queryGetDeviceByID =
    [''id'', ''user_id'', ''fingerprint_hash'', ''device_label'', ''first_seen_at'', ''last_seen_at'',
     ''revoked_at'', ''revoked_reason'', ''metadata'', ''created_at'', ''updated_at'']"

definition cols_queryGetDeviceByFingerprint :: "string list" where
  "cols_queryGetDeviceByFingerprint =
    [''id'', ''user_id'', ''fingerprint_hash'', ''device_label'', ''first_seen_at'', ''last_seen_at'',
     ''revoked_at'', ''revoked_reason'', ''metadata'', ''created_at'', ''updated_at'']"

definition cols_queryListActiveDeviceByUserID :: "string list" where
  "cols_queryListActiveDeviceByUserID =
    [''id'', ''user_id'', ''fingerprint_hash'', ''device_label'', ''first_seen_at'', ''last_seen_at'',
     ''revoked_at'', ''revoked_reason'', ''metadata'', ''created_at'', ''updated_at'']"

definition cols_queryListDevice :: "string list" where
  "cols_queryListDevice =
    [''id'', ''user_id'', ''fingerprint_hash'', ''device_label'', ''first_seen_at'', ''last_seen_at'',
     ''revoked_at'', ''revoked_reason'', ''metadata'', ''created_at'', ''updated_at'']"

definition cols_queryGetAddressByID :: "string list" where
  "cols_queryGetAddressByID =
    [''id'', ''user_id'', ''recipient_name'', ''recipient_phone'', ''address_line1'', ''address_line2'',
     ''province_code'', ''district_code'', ''ward_code'', ''postal_code'', ''country_code'', ''is_default'',
     ''version'', ''created_at'', ''updated_at'']"

definition cols_queryListAddressByUserID :: "string list" where
  "cols_queryListAddressByUserID =
    [''id'', ''user_id'', ''recipient_name'', ''recipient_phone'', ''address_line1'', ''address_line2'',
     ''province_code'', ''district_code'', ''ward_code'', ''postal_code'', ''country_code'', ''is_default'',
     ''version'', ''created_at'', ''updated_at'']"

definition cols_queryListAddress :: "string list" where
  "cols_queryListAddress =
    [''id'', ''user_id'', ''recipient_name'', ''recipient_phone'', ''address_line1'', ''address_line2'',
     ''province_code'', ''district_code'', ''ward_code'', ''postal_code'', ''country_code'', ''is_default'',
     ''version'', ''created_at'', ''updated_at'']"

definition cols_queryCredentialGetByUserID :: "string list" where
  "cols_queryCredentialGetByUserID =
    [''user_id'', ''password_hash'', ''password_algo'', ''password_changed_at'', ''failed_login_count'',
     ''last_failed_login_at'']"

section \<open>Columns\<close>

text \<open>The columns of the tables (\<^verbatim>\<open>migrations\<close>), as values of a stored row. An unknown column has no value.\<close>

definition ptrText :: "string option \<Rightarrow> pgValue" where
  "ptrText p = (case p of None \<Rightarrow> PgNull | Some s \<Rightarrow> PgText s)"

definition ptrTimestamp :: "time option \<Rightarrow> pgValue" where
  "ptrTimestamp p = (case p of None \<Rightarrow> PgNull | Some t \<Rightarrow> PgTime t)"

definition mapValue :: "json \<Rightarrow> pgValue" where
  "mapValue j = (if j = JNull then PgNull else PgJson j)"

definition isMap :: "json \<Rightarrow> bool" where
  "isMap j \<longleftrightarrow> (case j of JNull \<Rightarrow> True | JObj _ \<Rightarrow> True | _ \<Rightarrow> False)"

definition userColumns :: "userRow \<Rightarrow> (string \<times> pgValue) list" where
  "userColumns r =
     [(''id'', PgInt (ur_ID r)), (''email'', PgText (ur_Email r)), (''full_name'', PgText (ur_FullName r)),
     (''phone'', ptrText (ur_Phone r)), (''user_type'', PgText (ur_UserType r)),
     (''account_status'', PgText (ur_Status r)), (''email_verified_at'', ptrTimestamp (ur_EmailVerifiedAt r)),
     (''last_login_at'', ptrTimestamp (ur_LastLoginAt r)), (''locked_reason'', ptrText (ur_LockedReason r)),
     (''metadata'', mapValue (ur_Metadata r)), (''version'', PgInt (ur_Version r)),
     (''created_at'', PgTime (ur_CreatedAt r)), (''updated_at'', PgTime (ur_UpdatedAt r))]"

definition sessionColumns :: "sessionRow \<Rightarrow> (string \<times> pgValue) list" where
  "sessionColumns r =
     [(''id'', PgInt (sr_ID r)), (''user_id'', PgInt (sr_UserID r)), (''device_id'', PgInt (sr_DeviceID r)),
     (''refresh_token_hash'', PgText (sr_RefreshTokenHash r)),
     (''session_status'', PgText (sr_SessionStatus r)), (''expires_at'', PgTime (sr_ExpiredAt r)),
     (''ip_address'', ptrText (sr_IPAddress r)), (''user_agent'', PgText (sr_UserAgent r)),
     (''last_seen_at'', PgTime (sr_LastSeenAt r)), (''revoked_at'', ptrTimestamp (sr_RevokedAt r)),
     (''revoked_reason'', ptrText (sr_RevokedReason r)), (''created_at'', PgTime (sr_CreatedAt r)),
     (''updated_at'', PgTime (sr_UpdatedAt r))]"

definition deviceColumns :: "deviceRow \<Rightarrow> (string \<times> pgValue) list" where
  "deviceColumns r =
     [(''id'', PgInt (dr_ID r)), (''user_id'', PgInt (dr_UserID r)),
     (''fingerprint_hash'', PgText (dr_Fingerprint r)), (''device_label'', PgText (dr_Label r)),
     (''first_seen_at'', PgTime (dr_FirstSeenAt r)), (''last_seen_at'', PgTime (dr_LastSeenAt r)),
     (''revoked_at'', ptrTimestamp (dr_RevokedAt r)), (''revoked_reason'', ptrText (dr_RevokedReason r)),
     (''metadata'', mapValue (dr_Metadata r)), (''created_at'', PgTime (dr_CreatedAt r)),
     (''updated_at'', PgTime (dr_UpdatedAt r))]"

definition addressColumns :: "addressRow \<Rightarrow> (string \<times> pgValue) list" where
  "addressColumns r =
     [(''id'', PgInt (ar_ID r)), (''user_id'', PgInt (ar_UserID r)),
     (''recipient_name'', PgText (ar_RecipientName r)), (''recipient_phone'', PgText (ar_RecipientPhone r)),
     (''address_line1'', PgText (ar_Line1 r)), (''address_line2'', PgText (ar_Line2 r)),
     (''province_code'', PgText (ar_Province r)), (''district_code'', PgText (ar_District r)),
     (''ward_code'', PgText (ar_Ward r)), (''postal_code'', PgText (ar_PostalCode r)),
     (''country_code'', PgText (ar_CountryCode r)), (''is_default'', PgBool (ar_IsDefault r)),
     (''version'', PgInt (ar_Version r)), (''created_at'', PgTime (ar_CreatedAt r)),
     (''updated_at'', PgTime (ar_UpdatedAt r))]"

definition credentialColumns :: "credentialRow \<Rightarrow> (string \<times> pgValue) list" where
  "credentialColumns r =
     [(''user_id'', PgInt (cr_UserID r)), (''password_hash'', PgText (cr_PasswordHash r)),
     (''password_algo'', PgText (cr_PasswordAlgo r)),
     (''password_changed_at'', PgTime (cr_PasswordChangedAt r)),
     (''failed_login_count'', PgInt (cr_FailedLoginCount r)),
     (''last_failed_login_at'', ptrTimestamp (cr_LastFailedLoginAt r))]"

definition delivered :: "(string \<times> pgValue) list \<Rightarrow> string list \<Rightarrow> pgValue list" where
  "delivered row cols = map (\<lambda>c. case map_of row c of None \<Rightarrow> PgNull | Some v \<Rightarrow> v) cols"

section \<open>The scans fit the select lists\<close>

lemma scan_columns [simp]:
  "scanTextPtr (ptrText p) = Inr p" "scanTimePtr (ptrTimestamp q) = Inr q"
  by (simp_all add: ptrText_def ptrTimestamp_def split: option.split)

lemma scan_map: "isMap j \<Longrightarrow> scanMap (mapValue j) = Inr j"
  by (auto simp: isMap_def mapValue_def split: json.splits)

lemmas user_selects = cols_queryGetUserByID_def cols_queryGetUserByEmail_def cols_queryMe_def
lemmas session_selects = cols_queryGetByRefreshTokenHash_def cols_queryListActiveByUserID_def cols_queryListSession_def
lemmas device_selects = cols_queryGetDeviceByID_def cols_queryGetDeviceByFingerprint_def cols_queryListActiveDeviceByUserID_def
  cols_queryListDevice_def
lemmas address_selects = cols_queryGetAddressByID_def cols_queryListAddressByUserID_def cols_queryListAddress_def

lemma scanUser_selects:
  "isMap (ur_Metadata u) \<Longrightarrow> list_all (\<lambda>cols. scanUser (delivered (userColumns u) cols) = Inr u)
     [cols_queryGetUserByID, cols_queryGetUserByEmail, cols_queryMe]"
  by (simp add: user_selects delivered_def userColumns_def scanUser_def scan_map)

lemma scanSession_selects:
  "list_all (\<lambda>cols. scanSession (delivered (sessionColumns s) cols) = Inr s)
     [cols_queryGetByRefreshTokenHash, cols_queryListActiveByUserID, cols_queryListSession]"
  by (simp add: session_selects delivered_def sessionColumns_def scanSession_def)

lemma scanDevice_selects:
  "isMap (dr_Metadata d) \<Longrightarrow> list_all (\<lambda>cols. scanDevice (delivered (deviceColumns d) cols) = Inr d)
     [cols_queryGetDeviceByID, cols_queryGetDeviceByFingerprint, cols_queryListActiveDeviceByUserID, cols_queryListDevice]"
  by (simp add: device_selects delivered_def deviceColumns_def scanDevice_def scan_map)

lemma scanAddress_selects:
  "list_all (\<lambda>cols. scanAddress (delivered (addressColumns a) cols) = Inr a)
     [cols_queryGetAddressByID, cols_queryListAddressByUserID, cols_queryListAddress]"
  by (simp add: address_selects delivered_def addressColumns_def scanAddress_def)

lemma scanCredential_selects:
  "scanCredential (delivered (credentialColumns c) cols_queryCredentialGetByUserID) = Inr c"
  by (simp add: cols_queryCredentialGetByUserID_def delivered_def credentialColumns_def scanCredential_def)


text \<open>
  Four text columns may be NULL in the tables and are scanned into plain strings: a row in which one of
  them is NULL cannot be read.
\<close>

lemma null_text_unreadable:
  "vs ! 3 = PgNull \<Longrightarrow> \<exists>e. scanDevice vs = Inl e" "vs ! 7 = PgNull \<Longrightarrow> \<exists>e. scanSession vs = Inl e"
  "vs ! 5 = PgNull \<or> vs ! 9 = PgNull \<Longrightarrow> \<exists>e. scanAddress vs = Inl e"
  by (auto simp: scanDevice_def scanSession_def scanAddress_def scanned_def numeral_eq_Suc split: list.splits sum.splits)

end
