(* ===== verification/Refresh_Concurrency.thy ===== *)
theory Refresh_Concurrency
  imports Auth_Sessions
begin

text \<open>
  Refresh requests that run at the same time. A request reads, prepares its tokens and then runs the
  transaction of \<^verbatim>\<open>RefreshToken\<close>, which locks the row of the session with \<^verbatim>\<open>SELECT ... FOR UPDATE\<close> before
  it writes. Here any number of requests are interleaved statement by statement, with each other and
  with the other statements of the program on the table of sessions.
\<close>

section \<open>Requests, locks and steps\<close>

text \<open>
  Where a request with a refresh token is: before its transaction; with its time and the new token
  prepared; holding the lock of the row it selected; ended, with or without success.
\<close>

datatype refresher =
    Reading string
  | Prepared string time string
  | Locking string time string sessionRow
  | Ended string bool

fun refresherToken :: "refresher \<Rightarrow> string" where
  "refresherToken (Reading tok) = tok"
| "refresherToken (Prepared tok now new) = tok"
| "refresherToken (Locking tok now new r) = tok"
| "refresherToken (Ended tok success) = tok"

fun hasEnded :: "refresher \<Rightarrow> bool" where
  "hasEnded (Ended tok success) = True"
| "hasEnded _ = False"

text \<open>The committed tables, the counter of interactions, the holders of row locks on sessions, the requests.\<close>

record refreshConf =
  rf_db :: db
  rf_n :: nat
  rf_locks :: "int \<Rightarrow> nat option"
  rf_clients :: "nat \<Rightarrow> refresher"

definition release :: "nat \<Rightarrow> (int \<Rightarrow> nat option) \<Rightarrow> int \<Rightarrow> nat option" where
  "release i locks = (\<lambda>x. if locks x = Some i then None else locks x)"

lemma release_simps [simp]: "release i Map.empty = Map.empty" "release i [x \<mapsto> i] = Map.empty"
  by (auto simp: release_def)

text \<open>
  What the rest of the program writes: a login stores the hash of a token it signs, logouts and
  revocations mark rows, and no other statement touches sessions.
\<close>

inductive otherWrite :: "env \<Rightarrow> AuthService \<Rightarrow> nat \<Rightarrow> db \<Rightarrow> db \<Rightarrow> bool" for E s n where
  Upsert: "issuedFrom E s n tok \<Longrightarrow> queryUpsertSession u dv (HashToken E tok) st ex ip ag ls t d = Inr (x, d')
    \<Longrightarrow> otherWrite E s n d d'"
| Revoke: "queryRevokeSession dv at u t d = Inr (m, d') \<Longrightarrow> otherWrite E s n d d'"
| RevokeAll: "queryRevokeAllByUserID u at now t d = Inr (m, d') \<Longrightarrow> otherWrite E s n d d'"
| RevokeExcept: "queryRevokeAllExcept u i at t d = Inr (m, d') \<Longrightarrow> otherWrite E s n d d'"
| Elsewhere: "t_sessions d' = t_sessions d \<Longrightarrow> db_ok d' \<Longrightarrow> otherWrite E s n d d'"

text \<open>
  A request waits while another holds the row it selects, and after that finds the row only if it
  still has the hash. The update and the commit are one step: the row is locked from the select on,
  and the update is not visible before the commit. A commit whose answer is lost has happened
  (\<open>success\<close> is what the request reports). A request may fail at any moment; its transaction is rolled
  back and its locks are released. A statement that would write a locked row waits.
\<close>

inductive refreshStep :: "env \<Rightarrow> AuthService \<Rightarrow> refreshConf \<Rightarrow> refreshConf \<Rightarrow> bool" for E s where
  Prepare: "rf_clients k i = Reading tok \<Longrightarrow> issuedFrom E s (rf_n k) new \<Longrightarrow> rf_n k \<le> n
    \<Longrightarrow> refreshStep E s k (k\<lparr>rf_n := n, rf_clients := (rf_clients k)(i := Prepared tok now new)\<rparr>)"
| Lock: "rf_clients k i = Prepared tok now new \<Longrightarrow> queryGetByRefreshTokenHash (HashToken E tok) t (rf_db k) = Inr (r, d)
    \<Longrightarrow> rf_locks k (sr_ID r) = None
    \<Longrightarrow> refreshStep E s k (k\<lparr>rf_locks := (rf_locks k)(sr_ID r \<mapsto> i), rf_clients := (rf_clients k)(i := Locking tok now new r)\<rparr>)"
| Commit: "rf_clients k i = Locking tok now new r
    \<Longrightarrow> queryUpdateSession (sr_ID r) (HashToken E new) (now + sessionTTL (as_devicePolicy s)) now t (rf_db k) = Inr (m, d)
    \<Longrightarrow> refreshStep E s k (k\<lparr>rf_db := d, rf_locks := release i (rf_locks k), rf_clients := (rf_clients k)(i := Ended tok success)\<rparr>)"
| Fail: "\<not> hasEnded (rf_clients k i)
    \<Longrightarrow> refreshStep E s k (k\<lparr>rf_locks := release i (rf_locks k),
          rf_clients := (rf_clients k)(i := Ended (refresherToken (rf_clients k i)) False)\<rparr>)"
| Other: "otherWrite E s (rf_n k) (rf_db k) d \<Longrightarrow> \<forall>r \<in> set (t_sessions (rf_db k)). rf_locks k (sr_ID r) \<noteq> None \<longrightarrow> r \<in> set (t_sessions d)
    \<Longrightarrow> rf_n k \<le> n \<Longrightarrow> refreshStep E s k (k\<lparr>rf_db := d, rf_n := n\<rparr>)"

section \<open>What the other statements keep\<close>

lemma otherWrite_db_ok: "otherWrite E s n d d' \<Longrightarrow> db_ok d \<Longrightarrow> db_ok d'"
  by (induction rule: otherWrite.induct)
    (auto intro: stmt_preservesD [OF queryUpsertSession_ok] stmt_preservesD [OF queryRevokeSession_ok]
      stmt_preservesD [OF queryRevokeAllByUserID_ok] stmt_preservesD [OF queryRevokeAllExcept_ok])

lemma queryUpsertSession_hashes:
  assumes "queryUpsertSession u dv h st ex ip ag ls t d = Inr (x, d')" and "r \<in> set (t_sessions d')"
  shows "sr_RefreshTokenHash r = h \<or> sr_RefreshTokenHash r \<in> sr_RefreshTokenHash ` set (t_sessions d)"
  using assms
  by (auto simp: queryUpsertSession_def queryInsertSession_def Let_def set_update_where split: if_splits option.splits)

lemma otherWrite_hashes:
  assumes "otherWrite E s n d d'" and "r \<in> set (t_sessions d')"
  shows "sr_RefreshTokenHash r \<in> sr_RefreshTokenHash ` set (t_sessions d)
    \<or> (\<exists>tok. issuedFrom E s n tok \<and> sr_RefreshTokenHash r = HashToken E tok)"
  using assms
proof (induction rule: otherWrite.induct)
  case Upsert
  then show ?case by (auto dest: queryUpsertSession_hashes)
qed (auto simp: queryRevokeSession_def queryRevokeAllByUserID_def queryRevokeAllExcept_def Let_def set_update_where)

section \<open>The invariant\<close>

text \<open>
  A request that holds a lock holds it on a row of the table that has the hash of its token; every
  prepared token was signed after the start; and once a request with \<open>tok\<close> has succeeded, it is the
  only one and no row has the hash of \<open>tok\<close> any more.
\<close>

definition prepares :: "refresher \<Rightarrow> string \<Rightarrow> bool" where
  "prepares c new \<longleftrightarrow> (\<exists>tok now. c = Prepared tok now new) \<or> (\<exists>tok now r. c = Locking tok now new r)"

definition lockHeld :: "env \<Rightarrow> refreshConf \<Rightarrow> nat \<Rightarrow> bool" where
  "lockHeld E k i \<longleftrightarrow> (\<forall>tok now new r. rf_clients k i = Locking tok now new r \<longrightarrow>
     rf_locks k (sr_ID r) = Some i \<and> r \<in> set (t_sessions (rf_db k)) \<and> sr_RefreshTokenHash r = HashToken E tok)"

definition spent :: "env \<Rightarrow> refreshConf \<Rightarrow> string \<Rightarrow> bool" where
  "spent E k tok \<longleftrightarrow> \<not> taken sr_RefreshTokenHash (HashToken E tok) (t_sessions (rf_db k))"

definition succeeded :: "refreshConf \<Rightarrow> string \<Rightarrow> nat set" where
  "succeeded k tok = {i. rf_clients k i = Ended tok True}"

definition refreshInv :: "env \<Rightarrow> AuthService \<Rightarrow> nat \<Rightarrow> string \<Rightarrow> refreshConf \<Rightarrow> bool" where
  "refreshInv E s n tok k \<longleftrightarrow> db_ok (rf_db k) \<and> n \<le> rf_n k \<and> (\<forall>i new. prepares (rf_clients k i) new \<longrightarrow> issuedFrom E s n new)
     \<and> (\<forall>i. lockHeld E k i)
     \<and> (succeeded k tok = {} \<or> (\<exists>i. succeeded k tok = {i}) \<and> spent E k tok)"

lemma issuedFrom_mono: "issuedFrom E s m tok \<Longrightarrow> n \<le> m \<Longrightarrow> issuedFrom E s n tok"
  unfolding issuedFrom_def by (meson order_trans)

lemma prepares_simps [simp]:
  "prepares (Reading tok) x \<longleftrightarrow> False" "prepares (Prepared tok now new) x \<longleftrightarrow> x = new"
  "prepares (Locking tok now new r) x \<longleftrightarrow> x = new" "prepares (Ended tok success) x \<longleftrightarrow> False"
  by (auto simp: prepares_def)

lemma refreshInvI:
  assumes "db_ok (rf_db k)" "n \<le> rf_n k" "\<And>i new. prepares (rf_clients k i) new \<Longrightarrow> issuedFrom E s n new"
    "\<And>i. lockHeld E k i" "succeeded k tok = {} \<or> (\<exists>i. succeeded k tok = {i}) \<and> spent E k tok"
  shows "refreshInv E s n tok k"
  using assms by (simp add: refreshInv_def)

lemma refreshInvD:
  assumes "refreshInv E s n tok k"
  shows "db_ok (rf_db k)" "n \<le> rf_n k" "prepares (rf_clients k i) new \<Longrightarrow> issuedFrom E s n new" "lockHeld E k i"
    "succeeded k tok = {} \<or> (\<exists>i. succeeded k tok = {i}) \<and> spent E k tok"
  using assms by (auto simp: refreshInv_def)

text \<open>The selected row has the hash.\<close>

lemma selected_row:
  "queryGetByRefreshTokenHash h t d = Inr (r, d') \<Longrightarrow> r \<in> set (t_sessions d) \<and> sr_RefreshTokenHash r = h"
  by (auto simp: queryGetByRefreshTokenHash_def selectOne_def query_def dest: find_SomeD split: option.splits)

text \<open>After the update of a row only the new hash is new, and the old one is gone.\<close>

lemma updated_hashes:
  assumes "queryUpdateSession (sr_ID r) h ex now t d = Inr (m, d')" and "db_ok d" and "r \<in> set (t_sessions d)" and "x \<in> set (t_sessions d')"
  shows "sr_RefreshTokenHash x = h \<or> x \<in> set (t_sessions d) \<and> sr_ID x \<noteq> sr_ID r \<and> sr_RefreshTokenHash x \<noteq> sr_RefreshTokenHash r"
proof -
  have uniq: "unique_on sr_RefreshTokenHash (t_sessions d)" using assms(2) by (simp add: db_ok_def sessions_ok_def)
  from queryUpdateSession_InrD [OF assms(1)] assms(4)
  consider "sr_RefreshTokenHash x = h" | "x \<in> set (t_sessions d)" "sr_ID x \<noteq> sr_ID r"
    by (auto simp: set_update_where rotatedRow_def)
  then show ?thesis using unique_onD [OF uniq _ assms(3)] by cases auto
qed

lemma updated_other_rows:
  "queryUpdateSession i h ex now t d = Inr (m, d') \<Longrightarrow> x \<in> set (t_sessions d) \<Longrightarrow> sr_ID x \<noteq> i \<Longrightarrow> x \<in> set (t_sessions d')"
  by (auto dest!: queryUpdateSession_InrD simp: set_update_where)

section \<open>Every step keeps it\<close>

lemma prepare_inv:
  assumes "refreshInv E s n tok k" and "rf_clients k i = Reading tok'" and "issuedFrom E s (rf_n k) new" and "rf_n k \<le> m"
  shows "refreshInv E s n tok (k\<lparr>rf_n := m, rf_clients := (rf_clients k)(i := Prepared tok' now new)\<rparr>)"
    (is "refreshInv E s n tok ?k")
proof (rule refreshInvI)
  note I = refreshInvD [OF assms(1)]
  show "db_ok (rf_db ?k)" "n \<le> rf_n ?k" using I assms(4) by simp_all
  show "lockHeld E ?k j" for j using I(4) [of j] by (simp add: lockHeld_def)
  show "issuedFrom E s n new'" if "prepares (rf_clients ?k j) new'" for j new'
    using that I(3) [of j new'] issuedFrom_mono [OF assms(3) I(2)] by (simp split: if_splits)
  have "succeeded ?k tok = succeeded k tok" "spent E ?k tok = spent E k tok"
    using assms(2) by (auto simp: succeeded_def spent_def)
  then show "succeeded ?k tok = {} \<or> (\<exists>i. succeeded ?k tok = {i}) \<and> spent E ?k tok" using I(5) by simp
qed

lemma lock_inv:
  assumes "refreshInv E s n tok k" and "rf_clients k i = Prepared tok' now new"
    and "queryGetByRefreshTokenHash (HashToken E tok') t (rf_db k) = Inr (r, d)" and "rf_locks k (sr_ID r) = None"
  shows "refreshInv E s n tok (k\<lparr>rf_locks := (rf_locks k)(sr_ID r \<mapsto> i), rf_clients := (rf_clients k)(i := Locking tok' now new r)\<rparr>)"
    (is "refreshInv E s n tok ?k")
proof (rule refreshInvI)
  note I = refreshInvD [OF assms(1)]
  show "db_ok (rf_db ?k)" "n \<le> rf_n ?k" using I by simp_all
  show "lockHeld E ?k j" for j
    using I(4) [of j] assms(4) selected_row [OF assms(3)] by (cases "j = i") (auto simp: lockHeld_def)
  show "issuedFrom E s n new'" if "prepares (rf_clients ?k j) new'" for j new'
    using that I(3) [of j new'] I(3) [of i new] assms(2) by (simp split: if_splits)
  have "succeeded ?k tok = succeeded k tok" "spent E ?k tok = spent E k tok"
    using assms(2) by (auto simp: succeeded_def spent_def)
  then show "succeeded ?k tok = {} \<or> (\<exists>i. succeeded ?k tok = {i}) \<and> spent E ?k tok" using I(5) by simp
qed

lemma lockHeld_others:
  assumes "lockHeld E k j" and "j \<noteq> i" and "rf_clients k' j = rf_clients k j" and "rf_locks k' = release i (rf_locks k)"
    and "\<And>r. r \<in> set (t_sessions (rf_db k)) \<Longrightarrow> rf_locks k (sr_ID r) = Some j \<Longrightarrow> r \<in> set (t_sessions (rf_db k'))"
  shows "lockHeld E k' j"
  using assms by (auto simp: lockHeld_def release_def)

lemma fail_inv:
  assumes "refreshInv E s n tok k" and "\<not> hasEnded (rf_clients k i)"
  shows "refreshInv E s n tok (k\<lparr>rf_locks := release i (rf_locks k), rf_clients := (rf_clients k)(i := Ended tok' False)\<rparr>)"
    (is "refreshInv E s n tok ?k")
proof (rule refreshInvI)
  note I = refreshInvD [OF assms(1)]
  show "db_ok (rf_db ?k)" "n \<le> rf_n ?k" using I by simp_all
  show "lockHeld E ?k j" for j
  proof (cases "j = i")
    case False
    show ?thesis by (rule lockHeld_others [OF I(4) [of j] False]) (use False in simp_all)
  qed (simp add: lockHeld_def)
  show "issuedFrom E s n new'" if "prepares (rf_clients ?k j) new'" for j new'
    using that I(3) [of j new'] by (simp split: if_splits)
  have "succeeded ?k tok = succeeded k tok" "spent E ?k tok = spent E k tok"
    using assms(2) by (auto simp: succeeded_def spent_def)
  then show "succeeded ?k tok = {} \<or> (\<exists>i. succeeded ?k tok = {i}) \<and> spent E ?k tok" using I(5) by simp
qed

lemma commit_inv:
  assumes "refreshInv E s n tok k" and "notReissued E s n tok" and "rf_clients k i = Locking tok' now new r"
    and "queryUpdateSession (sr_ID r) (HashToken E new) ex now t (rf_db k) = Inr (m, d)"
  shows "refreshInv E s n tok (k\<lparr>rf_db := d, rf_locks := release i (rf_locks k), rf_clients := (rf_clients k)(i := Ended tok' success)\<rparr>)"
    (is "refreshInv E s n tok ?k")
proof (rule refreshInvI)
  note I = refreshInvD [OF assms(1)]
  have held: "rf_locks k (sr_ID r) = Some i" "r \<in> set (t_sessions (rf_db k))" "sr_RefreshTokenHash r = HashToken E tok'"
    using I(4) [of i] assms(3) by (simp_all add: lockHeld_def)
  show "db_ok (rf_db ?k)" "n \<le> rf_n ?k" using I stmt_preservesD [OF queryUpdateSession_ok I(1) assms(4)] by simp_all
  show "lockHeld E ?k j" for j
  proof (cases "j = i")
    case False
    have "x \<in> set (t_sessions d)" if "x \<in> set (t_sessions (rf_db k))" "rf_locks k (sr_ID x) = Some j" for x
      by (rule updated_other_rows [OF assms(4) that(1)]) (use that(2) held(1) False in auto)
    then show ?thesis by (intro lockHeld_others [OF I(4) [of j] False]) (use False in simp_all)
  qed (simp add: lockHeld_def)
  show "issuedFrom E s n new'" if "prepares (rf_clients ?k j) new'" for j new'
    using that I(3) [of j new'] by (simp split: if_splits)
  have "HashToken E new \<noteq> HashToken E tok" using I(3) [of i new] assms(2,3) by (simp add: notReissued_def)
  then have gone: "spent E ?k tok" if "tok' = tok \<or> spent E k tok"
    using updated_hashes [OF assms(4) I(1) held(2)] held(3) that unfolding spent_def taken_def by simp metis
  have new: "succeeded ?k tok = (if tok' = tok \<and> success then insert i (succeeded k tok) else succeeded k tok)"
    using assms(3) by (auto simp: succeeded_def)
  have none: "succeeded k tok = {}" if "tok' = tok"
    using I(5) held(2,3) that by (auto simp: spent_def taken_def)
  show "succeeded ?k tok = {} \<or> (\<exists>i. succeeded ?k tok = {i}) \<and> spent E ?k tok"
    unfolding new using none gone I(5) by auto
qed

lemma other_inv:
  assumes "refreshInv E s n tok k" and "notReissued E s n tok" and "otherWrite E s (rf_n k) (rf_db k) d" and "rf_n k \<le> m"
    and "\<forall>r \<in> set (t_sessions (rf_db k)). rf_locks k (sr_ID r) \<noteq> None \<longrightarrow> r \<in> set (t_sessions d)"
  shows "refreshInv E s n tok (k\<lparr>rf_db := d, rf_n := m\<rparr>)" (is "refreshInv E s n tok ?k")
proof (rule refreshInvI)
  note I = refreshInvD [OF assms(1)]
  show "db_ok (rf_db ?k)" "n \<le> rf_n ?k" using I otherWrite_db_ok [OF assms(3)] assms(4) by simp_all
  show "lockHeld E ?k j" for j using I(4) [of j] assms(5) by (auto simp: lockHeld_def)
  show "issuedFrom E s n new'" if "prepares (rf_clients ?k j) new'" for j new' using that I(3) [of j new'] by simp
  have "spent E ?k tok" if "spent E k tok"
    using that otherWrite_hashes [OF assms(3)] issuedFrom_mono [OF _ I(2)] assms(2)
    unfolding spent_def taken_def notReissued_def by fastforce
  moreover have "succeeded ?k tok = succeeded k tok" by (simp add: succeeded_def)
  ultimately show "succeeded ?k tok = {} \<or> (\<exists>i. succeeded ?k tok = {i}) \<and> spent E ?k tok" using I(5) by auto
qed

lemma refreshStep_inv:
  "refreshStep E s k k' \<Longrightarrow> notReissued E s n tok \<Longrightarrow> refreshInv E s n tok k \<Longrightarrow> refreshInv E s n tok k'"
proof (induction rule: refreshStep.induct)
  case Prepare
  then show ?case by (blast intro: prepare_inv)
next
  case Lock
  then show ?case by (blast intro: lock_inv)
next
  case Commit
  then show ?case by (blast intro: commit_inv)
next
  case Fail
  then show ?case by (blast intro: fail_inv)
next
  case Other
  then show ?case by (blast intro: other_inv)
qed

lemma refreshRun_inv:
  assumes "(refreshStep E s)\<^sup>*\<^sup>* k k'" and "notReissued E s n tok" and "refreshInv E s n tok k"
  shows "refreshInv E s n tok k'"
  using assms by (induction rule: rtranclp_induct) (auto intro: refreshStep_inv)

text \<open>At the start nobody has prepared anything and no row is locked.\<close>

definition refreshStart :: "refreshConf \<Rightarrow> bool" where
  "refreshStart k \<longleftrightarrow> db_ok (rf_db k) \<and> rf_locks k = Map.empty \<and> (\<forall>i. \<exists>tok. rf_clients k i = Reading tok)"

lemma refreshStart_inv: "refreshStart k \<Longrightarrow> refreshInv E s (rf_n k) tok k"
proof (rule refreshInvI)
  assume start: "refreshStart k"
  then show "db_ok (rf_db k)" "rf_n k \<le> rf_n k" by (simp_all add: refreshStart_def)
  have reading: "\<exists>tok. rf_clients k i = Reading tok" for i using start by (simp add: refreshStart_def)
  show "lockHeld E k i" for i using reading [of i] by (auto simp: lockHeld_def)
  show "issuedFrom E s (rf_n k) new" if "prepares (rf_clients k i) new" for i new using reading [of i] that by auto
  have "rf_clients k i \<noteq> Ended tok True" for i using reading [of i] by auto
  then have "succeeded k tok = {}" by (simp add: succeeded_def)
  then show "succeeded k tok = {} \<or> (\<exists>i. succeeded k tok = {i}) \<and> spent E k tok" ..
qed

text \<open>
  C3: of any number of refresh requests that run at the same time, interleaved statement by statement
  with each other and with the logins, logouts and revocations of the program, at most one with the
  same refresh token succeeds: the second of a double click finds the row locked, and when the lock
  is free no row has the hash any more. Requests may fail, and commits may happen whose answer is lost.
\<close>

theorem concurrent_refresh_at_most_once:
  assumes "refreshStart k0" and "(refreshStep E s)\<^sup>*\<^sup>* k0 k" and "notReissued E s (rf_n k0) tok"
    and "rf_clients k i = Ended tok True" and "rf_clients k j = Ended tok True"
  shows "i = j"
proof -
  have "i \<in> succeeded k tok" "j \<in> succeeded k tok" using assms(4,5) by (simp_all add: succeeded_def)
  with refreshInvD(5) [OF refreshRun_inv [OF assms(2,3) refreshStart_inv [OF assms(1)]]]
  show ?thesis by auto
qed

section \<open>The method is such a request\<close>

text \<open>A rotation of the table is the select and the update of the two statements.\<close>

lemma rotatedSessions_update:
  assumes "rotatedSessions E s old new now d d'" and "db_ok d'"
  shows "\<exists>r t m. queryGetByRefreshTokenHash (HashToken E old) t d = Inr (r, d)
     \<and> queryUpdateSession (sr_ID r) (HashToken E new) (now + sessionTTL (as_devicePolicy s)) now t d = Inr (m, d')"
proof -
  from assms(1) obtain r t where r: "find (\<lambda>x. sr_RefreshTokenHash x = HashToken E old) (t_sessions d) = Some r"
    and d': "d' = d\<lparr>t_sessions := update_where (\<lambda>x. sr_ID x = sr_ID r)
         (rotatedRow (HashToken E new) (now + sessionTTL (as_devicePolicy s)) now t) (t_sessions d)\<rparr>" (is "_ = d\<lparr>t_sessions := ?ss\<rparr>")
    unfolding rotatedSessions_def by blast
  have uniq: "unique_on sr_RefreshTokenHash ?ss" using assms(2) d' by (simp add: db_ok_def sessions_ok_def)
  let ?new = "rotatedRow (HashToken E new) (now + sessionTTL (as_devicePolicy s)) now t r"
  have "?new \<in> set ?ss" using find_SomeD [OF r] by (force simp: set_update_where)
  then have "sr_RefreshTokenHash x \<noteq> HashToken E new" if "x \<in> set ?ss" "sr_ID x \<noteq> sr_ID r" for x
    using unique_onD [OF uniq that(1), of ?new] that(2) by (auto simp: rotatedRow_def)
  then have free: "\<not> taken sr_RefreshTokenHash (HashToken E new) (filter (\<lambda>x. sr_ID x \<noteq> sr_ID r) (t_sessions d))"
    by (auto simp: taken_def set_update_where)
  have "queryGetByRefreshTokenHash (HashToken E old) t d = Inr (r, d)"
    using r by (simp add: queryGetByRefreshTokenHash_def selectOne_def query_def)
  moreover have "\<exists>m. queryUpdateSession (sr_ID r) (HashToken E new) (now + sessionTTL (as_devicePolicy s)) now t d = Inr (m, d')"
    using free by (simp add: queryUpdateSession_def Let_def d' rotatedRow_def [abs_def])
  ultimately show ?thesis by blast
qed

text \<open>
  A call of \<^verbatim>\<open>RefreshToken\<close> that runs alone is a run of the steps: from a world and its configuration to
  the world after the call, with the success that the call reports.
\<close>

lemma RefreshToken_run_steps:
  assumes E: "redis_documented E" and c: "\<not> ctx_tx c" and w: "w_tx w = None" and ok: "db_ok (w_pool w)"
    and run: "RefreshToken E s c \<lparr>rt_RefreshToken = tok\<rparr> w = (r, w')"
    and k: "rf_db k = w_pool w" "rf_n k = w_n w" "rf_locks k = Map.empty" "rf_clients k i = Reading tok"
  shows "(refreshStep E s)\<^sup>*\<^sup>* k (k\<lparr>rf_db := w_pool w', rf_n := w_n w', rf_clients := (rf_clients k)(i := Ended tok (\<not> isl r))\<rparr>)"
    (is "(refreshStep E s)\<^sup>*\<^sup>* k ?k'")
proof -
  note out = RefreshToken_outcome [OF E c w run]
  have ok': "db_ok (w_pool w')" using preservesD [OF auth_service_db_ok(3) _ run] ok w out by (simp add: on_dbs_def)
  from out consider (failed) "same_tables (w_pool w) (w_pool w')" "isl r"
    | (rotated) new where "issuedFrom E s (w_n w) new" "rotatedSessions E s tok new (env_now E (w_n w)) (w_pool w) (w_pool w')"
    by auto
  then show ?thesis
  proof cases
    case failed
    have "otherWrite E s (rf_n k) (rf_db k) (w_pool w')"
      by (rule otherWrite.Elsewhere) (use failed(1) ok' k(1) in \<open>auto simp: same_tables_iff\<close>)
    then have "(refreshStep E s)\<^sup>*\<^sup>* k (k\<lparr>rf_db := w_pool w', rf_n := w_n w'\<rparr>)"
      by (intro r_into_rtranclp refreshStep.Other) (use k out in auto)
    moreover have "refreshStep E s (k\<lparr>rf_db := w_pool w', rf_n := w_n w'\<rparr>) ?k'"
      using refreshStep.Fail [of "k\<lparr>rf_db := w_pool w', rf_n := w_n w'\<rparr>" i E s] k failed(2)
      by (cases k) simp
    ultimately show ?thesis by (rule rtranclp.rtrancl_into_rtrancl)
  next
    case rotated
    from rotatedSessions_update [OF rotated(2) ok'] obtain row t m
      where get: "queryGetByRefreshTokenHash (HashToken E tok) t (w_pool w) = Inr (row, w_pool w)"
        and upd: "queryUpdateSession (sr_ID row) (HashToken E new) (env_now E (w_n w) + sessionTTL (as_devicePolicy s))
          (env_now E (w_n w)) t (w_pool w) = Inr (m, w_pool w')" by blast
    define k1 where "k1 = k\<lparr>rf_n := w_n w', rf_clients := (rf_clients k)(i := Prepared tok (env_now E (w_n w)) new)\<rparr>"
    define k2 where "k2 = k1\<lparr>rf_locks := [sr_ID row \<mapsto> i], rf_clients := (rf_clients k)(i := Locking tok (env_now E (w_n w)) new row)\<rparr>"
    have "refreshStep E s k k1" unfolding k1_def by (rule refreshStep.Prepare) (use k rotated out in auto)
    moreover have "refreshStep E s k1 k2"
      using refreshStep.Lock [of k1 i tok "env_now E (w_n w)" new E t row "w_pool w" s] get k by (simp add: k1_def k2_def)
    moreover have "refreshStep E s k2 ?k'"
      using refreshStep.Commit [of k2 i tok "env_now E (w_n w)" new row E s t m "w_pool w'" "\<not> isl r"] upd k
      by (cases k) (simp add: k1_def k2_def)
    ultimately show ?thesis by (meson converse_rtranclp_into_rtranclp r_into_rtranclp)
  qed
qed

end
