(* ===== verification/Login_Journey.thy ===== *)
theory Login_Journey
  imports Http_Safety
begin

text \<open>
  From a login to the requests made with its access token: the token is accepted by the middleware as
  the user and the device that logged in, and a logout with it ends the session of that login.
\<close>

section \<open>What the access token of a login says\<close>

lemma Login_session:
  assumes "\<not> ctx_tx c" and "Login E s c cmd w = (Inr out, w')"
  obtains em ro r wa wb where "r \<in> set (t_sessions (w_pool w'))"
    "sr_RefreshTokenHash r = HashToken E (lout_RefreshToken out)" "sr_SessionStatus r = ''active''" "sr_RevokedAt r = None"
    "GenerateAccessToken E (as_authManager s) (sr_UserID r) em ro (FormatInt (sr_ID r)) (FormatInt (sr_DeviceID r)) wa =
       (Inr (lout_AccessToken out, lout_AccessTokenExpiresAt out), wb)"
  using assms(2)
proof (rule Login_steps)
  fix user w1 dev w2 w3 w4 ses w5 w6 ac ex
  assume up: "SessionRepository_Upsert E c (loginSession E user (dev_ID dev) cmd (env_now E (w_n w1))
        (sessionTTL (as_devicePolicy s)) (lout_RefreshToken out)) w4 = (Inr ses, w5)"
    and at: "GenerateAccessToken E (as_authManager s) (user_ID user) (Email_String (user_Email user)) (user_UserType user)
        (FormatInt (sess_ID ses)) (FormatInt (dev_ID dev)) w5 = (Inr (ac, ex), w6)"
    and w': "w_pool w' = w_pool w6" and out: "lout_AccessToken out = ac" "lout_AccessTokenExpiresAt out = ex"
  have "w_pool w' = w_pool w5" using w' still_fields [OF still_preserves [OF auth_still(4) at]] by simp
  with loginSession_upsert [OF assms(1) up] obtain r where "r \<in> set (t_sessions (w_pool w'))"
    "sr_ID r = sess_ID ses" "sr_UserID r = user_ID user" "sr_DeviceID r = dev_ID dev"
    "sr_RefreshTokenHash r = HashToken E (lout_RefreshToken out)" "sr_SessionStatus r = ''active''" "sr_RevokedAt r = None"
    by auto
  with at out that show thesis by metis
qed

text \<open>The columns are \<^verbatim>\<open>BIGINT\<close>, so that an identifier survives being printed and parsed.\<close>

definition bigint :: "int \<Rightarrow> bool" where
  "bigint i \<longleftrightarrow> - int64_max - 1 \<le> i \<and> i \<le> int64_max"

lemma session_device_bigint:
  assumes "db_ok d" and "\<forall>x \<in> set (t_devices d). bigint (dr_ID x)" and "r \<in> set (t_sessions d)"
  shows "ParseInt (FormatInt (sr_DeviceID r)) = (sr_DeviceID r, None)"
proof (rule ParseInt_FormatInt)
  obtain x where "x \<in> set (t_devices d)" "dr_ID x = sr_DeviceID r"
    using assms(1,3) by (auto simp: db_ok_def sessions_ok_def fk_def references_def)
  with assms(2) show "- int64_max - 1 \<le> sr_DeviceID r" "sr_DeviceID r \<le> int64_max" by (auto simp: bigint_def)
qed

lemma SplitN2_Bearer: "SplitN2 (CHR '' '') (''Bearer '' @ tok) = [''Bearer'', tok]"
  by (simp add: SplitN2_def)

text \<open>Before its expiry an issued access token is let through, with what it says in the context.\<close>

lemma NewAuthMiddleware_issued:
  assumes "jwt_documented E" and "GenerateAccessToken E cfg uid em ro sid did w = (Inr (tok, expiresAt), w1)"
    and "env_now E (w_n w2) < unixEpoch + NewNumericDate expiresAt * Second"
    and "GetHeader AuthorizationHeader gc = ''Bearer '' @ tok" and "TrimSpace tok = tok"
  obtains ac where "NewAuthMiddleware E G cfg h gc w2 = h (setKey authContextKey (GVAuth ac) gc) (w2\<lparr>w_n := Suc (w_n w2)\<rparr>)"
    "acx_UserID ac = uid" "acx_DeviceID ac = fst (ParseInt did)" "acx_SessionID ac = fst (ParseInt sid)"
proof -
  from assms(1,2) obtain cl where cl: "cl_UserID cl = uid" "cl_SessionID cl = sid" "cl_DeviceID cl = did" "cl_Type cl = AccessType"
    and parse: "parseToken E cfg tok w2 = (Inr cl, w2\<lparr>w_n := Suc (w_n w2)\<rparr>)"
    by (rule issued_access_token) (use assms(3) in blast)
  have "ValidateAccessToken E cfg tok w2 = (Inr cl, w2\<lparr>w_n := Suc (w_n w2)\<rparr>)"
    by (simp add: ValidateAccessToken_def andThen_def parse cl ok_def)
  then have "NewAuthMiddleware E G cfg h gc w2 = h (setKey authContextKey (GVAuth (authContextOf cl)) gc) (w2\<lparr>w_n := Suc (w_n w2)\<rparr>)"
    using assms(4,5) by (simp add: NewAuthMiddleware_def Let_def SplitN2_Bearer [simplified] EqualFoldASCII_def)
  then show thesis by (rule that) (simp_all add: authContextOf_def cl)
qed

section \<open>Login, then logout\<close>

lemma Logout_active:
  assumes "pg_up E" and "\<not> ctx_tx c" and "r \<in> set (t_sessions (w_pool w))" and "sr_RevokedAt r = None" and "sr_SessionStatus r = ''active''"
  shows "\<exists>w'. Logout E c \<lparr>lo_DeviceID = sr_DeviceID r, lo_UserID = sr_UserID r\<rparr> w = (Inr (), w')"
  using assms
  by (auto simp: Logout_def SessionRepository_Revoke_def andThen_def ok_def fail_def pg_pool pg_up_def queryRevokeSession_def
      Let_def rows_affected_def filter_empty_conv)


end
