(* ===== verification/Account_Lifecycle.thy ===== *)
theory Account_Lifecycle
  imports Identity_System
begin

text \<open>
  The life of an account: what the program does to the rows of users, against the state machine of
  \<^verbatim>\<open>domain/value_object/user_status.go\<close>.
\<close>

section \<open>The only change of an account\<close>

text \<open>The one statement that updates a user verifies the e-mail of an account that is not verified.\<close>

inductive accountStep :: "userRow \<Rightarrow> userRow \<Rightarrow> bool" where
  Verified: "ur_EmailVerifiedAt u = None \<Longrightarrow>
    accountStep u (u\<lparr>ur_EmailVerifiedAt := Some at, ur_Status := ''active'', ur_Version := ur_Version u + 1, ur_UpdatedAt := t\<rparr>)"

inductive_cases accountStepE: "accountStep u u'"

lemma accountStep_keeps:
  "accountStep u u' \<Longrightarrow> ur_ID u' = ur_ID u \<and> ur_Email u' = ur_Email u \<and> ur_EmailVerifiedAt u' \<noteq> None \<and> ur_Status u' = ''active''"
  by (erule accountStepE) simp

text \<open>A verified account changes no more.\<close>

lemma account_path:
  assumes "accountStep\<^sup>*\<^sup>* u u'"
  shows "u' = u \<or> accountStep u u'"
  using assms
proof (induction rule: rtranclp_induct)
  case (step v v')
  from step.IH show ?case
  proof
    assume "accountStep u v"
    with step.hyps(2) show ?thesis by (auto elim!: accountStepE)
  qed (use step.hyps(2) in simp)
qed simp

text \<open>The accounts of \<open>d\<close> are those of \<open>d0\<close>, in the same order, each as it was or verified since.\<close>

definition accounts_live :: "db \<Rightarrow> db \<Rightarrow> bool" where
  "accounts_live d0 d \<longleftrightarrow> list_all2 accountStep\<^sup>*\<^sup>* (t_users d0) (t_users d)"

lemma accounts_live_refl: "accounts_live d d"
  by (simp add: accounts_live_def list_all2_same)

lemma accounts_live_frame:
  assumes "\<And>t d x d'. s t d = Inr (x, d') \<Longrightarrow> t_users d' = t_users d"
  shows "stmt_preserves (accounts_live d0) s"
  using assms unfolding stmt_preserves_def accounts_live_def by metis

lemma verify_accounts: "stmt_preserves (accounts_live d0) (queryMarkEmailVerified at i)"
proof (rule stmt_preservesI)
  fix t d x d'
  assume live: "accounts_live d0 d" and run: "queryMarkEmailVerified at i t d = Inr (x, d')"
  let ?p = "\<lambda>u. ur_ID u = i \<and> ur_EmailVerifiedAt u = None"
  let ?g = "\<lambda>u. u\<lparr>ur_EmailVerifiedAt := Some at, ur_Status := ''active'', ur_Version := ur_Version u + 1, ur_UpdatedAt := t\<rparr>"
  have users: "t_users d' = update_where ?p ?g (t_users d)" using run by (auto simp: queryMarkEmailVerified_def Let_def)
  have "accountStep\<^sup>*\<^sup>* u0 (if ?p u then ?g u else u)" if "accountStep\<^sup>*\<^sup>* u0 u" for u0 u
    using that by (auto intro: rtranclp.rtrancl_into_rtrancl Verified)
  then show "accounts_live d0 d'"
    using live unfolding accounts_live_def users update_where_def list_all2_conv_all_nth by simp
qed

lemma user_free_statements:
  "stmt_preserves (accounts_live d0) (queryUpdatePasswordHash i h t)"
  "stmt_preserves (accounts_live d0) (queryRevokeSession j t i)" "stmt_preserves (accounts_live d0) (queryRevokeAllByUserID i t t')"
  "stmt_preserves (accounts_live d0) (queryRevokeAllExcept i j t)" "stmt_preserves (accounts_live d0) (queryUpdateSession i h t t')"
  "stmt_preserves (accounts_live d0) (queryUpsertDevice i h l t t' r)" "stmt_preserves (accounts_live d0) (queryRevokeDevice i t)"
  "stmt_preserves (accounts_live d0) (queryInsertAddress a)" "stmt_preserves (accounts_live d0) (queryUpdateAddress a)"
  "stmt_preserves (accounts_live d0) (queryDeleteAddress i)" "stmt_preserves (accounts_live d0) (queryUnsetDefaultByUserID i)"
  "stmt_preserves (accounts_live d0) (insertOutboxEvent e)" "stmt_preserves (accounts_live d0) (insertProcessedEvent cn ev t md)"
  "stmt_preserves (accounts_live d0) (markPublishedEvent i t)" "stmt_preserves (accounts_live d0) (markFailedEvent i m)"
  "stmt_preserves (accounts_live d0) (queryUpsertSession i j h st t ip ag t')"
  by (rule accounts_live_frame; auto simp: queryUpdatePasswordHash_def queryRevokeSession_def queryRevokeAllByUserID_def
      queryRevokeAllExcept_def queryUpdateSession_def queryRevokeDevice_def queryInsertAddress_def queryUpdateAddress_def
      queryDeleteAddress_def queryUnsetDefaultByUserID_def insertOutboxEvent_def insertProcessedEvent_def markPublishedEvent_def
      markFailedEvent_def Let_def dest!: queryUpsertDevice_frame queryUpsertSession_frame split: if_split_asm)+

interpretation account_life: session_invariant "accounts_live d0" for d0
  by unfold_locales (rule verify_accounts user_free_statements | simp add: accounts_live_def)+

section \<open>Reachable accounts\<close>

definition verifiedIffActive :: "userRow \<Rightarrow> bool" where
  "verifiedIffActive u \<longleftrightarrow> (if ur_EmailVerifiedAt u = None then ur_Status u = ''pending_verification'' else ur_Status u = ''active'')"

text \<open>A step verifies accounts, or adds one that is waiting for its verification.\<close>

lemma users_step:
  assumes "redis_documented E" and step: "sysStep E s w w'" and w: "no_tx w"
  shows "\<exists>us new. t_users (w_pool w') = us @ new \<and> list_all2 accountStep\<^sup>*\<^sup>* (t_users (w_pool w)) us
     \<and> (\<forall>u \<in> set new. ur_EmailVerifiedAt u = None \<and> ur_Status u = ''pending_verification'')"
proof (cases "\<exists>c cmd. \<not> ctx_tx c \<and> w' = snd (Register E s c cmd w)")
  case True
  then obtain c cmd where c: "\<not> ctx_tx c" and w': "w' = snd (Register E s c cmd w)" by blast
  have "\<exists>new. t_users (w_pool w') = t_users (w_pool w) @ new \<and> (\<forall>u \<in> set new. ur_EmailVerifiedAt u = None \<and> ur_Status u = ''pending_verification'')"
    using assms(1) c w unfolding w'
    by (rule Register_tables [where s = s and cmd = cmd]) (auto simp: same_tables_iff registered_def registeredUser_def)
  moreover have "list_all2 accountStep\<^sup>*\<^sup>* (t_users (w_pool w)) (t_users (w_pool w))" by (simp add: list_all2_same)
  ultimately show ?thesis by blast
next
  case False
  have start: "on_dbs (accounts_live (w_pool w)) w" using w by (simp add: on_dbs_def no_tx_def accounts_live_refl)
  have "on_dbs (accounts_live (w_pool w)) w'"
    by (rule account_life.P_sysStep [OF step start]) (use False start account_life.P_Login in \<open>auto simp: preserves_def\<close>)
  then show ?thesis by (intro exI [of _ "t_users (w_pool w')"] exI [of _ "[]"]) (simp add: on_dbs_def accounts_live_def)
qed

lemma verifiedIffActive_step: "accountStep\<^sup>*\<^sup>* u u' \<Longrightarrow> verifiedIffActive u \<Longrightarrow> verifiedIffActive u'"
  by (auto dest!: account_path accountStep_keeps simp: verifiedIffActive_def)

lemma reachable_verified:
  assumes "redis_documented E" and "reachable E s w" and "u \<in> set (t_users (w_pool w))"
  shows "verifiedIffActive u"
  using assms(2,3)
proof (induction arbitrary: u rule: reachable.induct)
  case (step w w')
  from users_step [OF assms(1) step.hyps(2)] reachable_base [OF step.hyps(1)] obtain us new
    where us: "t_users (w_pool w') = us @ new" "list_all2 accountStep\<^sup>*\<^sup>* (t_users (w_pool w)) us"
      and new: "\<forall>u \<in> set new. ur_EmailVerifiedAt u = None \<and> ur_Status u = ''pending_verification''" by blast
  show ?case
  proof (cases "u \<in> set new")
    case True
    then show ?thesis using new by (simp add: verifiedIffActive_def)
  next
    case False
    then have "u \<in> set us" using step.prems us(1) by simp
    then obtain u0 where "u0 \<in> set (t_users (w_pool w))" "accountStep\<^sup>*\<^sup>* u0 u"
      using us(2) by (metis in_set_conv_nth list_all2_conv_all_nth)
    then show ?thesis using step.IH verifiedIffActive_step by blast
  qed
qed (simp add: emptyDB_def)

section \<open>Properties\<close>

text \<open>
  C7: the accounts of the running program follow the state machine of the domain. In every reachable
  state an account is active exactly when its e-mail is verified and waits for verification
  otherwise; no step removes an account or changes its address, and a step that changes its status
  makes a transition that \<open>CanTransitionTo\<close> allows.
\<close>

theorem account_lifecycle:
  assumes "redis_documented E" and "reachable E s w" and "sysStep E s w w'" and "u \<in> set (t_users (w_pool w))"
  shows "(ur_EmailVerifiedAt u \<noteq> None \<longleftrightarrow> ur_Status u = UserStatusActive)
     \<and> ur_Status u \<in> {UserStatusPendingVerification, UserStatusActive}
     \<and> (\<exists>u' \<in> set (t_users (w_pool w')). ur_ID u' = ur_ID u \<and> ur_Email u' = ur_Email u
          \<and> (ur_Status u' = ur_Status u \<or> UserStatus_CanTransitionTo (ur_Status u) (ur_Status u') = Inr ()))"
proof -
  have u: "verifiedIffActive u" using reachable_verified [OF assms(1,2,4)] .
  obtain us new where us: "t_users (w_pool w') = us @ new" "list_all2 accountStep\<^sup>*\<^sup>* (t_users (w_pool w)) us"
    using users_step [OF assms(1,3)] reachable_base [OF assms(2)] by blast
  then obtain u' where u': "u' \<in> set (t_users (w_pool w'))" "accountStep\<^sup>*\<^sup>* u u'"
    using assms(4) by (metis Un_iff in_set_conv_nth list_all2_conv_all_nth set_append)
  have "ur_ID u' = ur_ID u \<and> ur_Email u' = ur_Email u
      \<and> (ur_Status u' = ur_Status u \<or> UserStatus_CanTransitionTo (ur_Status u) (ur_Status u') = Inr ())"
    using account_path [OF u'(2)]
  proof
    assume step: "accountStep u u'"
    then have "ur_Status u = ''pending_verification''" using u by (auto elim!: accountStepE simp: verifiedIffActive_def)
    then show ?thesis using accountStep_keeps [OF step] by (simp add: CanTransitionTo_iff status_defs)
  qed simp
  then show ?thesis using u u'(1) by (auto simp: verifiedIffActive_def status_defs split: if_splits)
qed

text \<open>Who logs in to the running program has verified the e-mail address.\<close>

theorem logins_are_verified:
  assumes "redis_documented E" and "reachable E s w" and "\<not> ctx_tx c" and "Login E s c cmd w = (Inr out, w')"
  shows "\<exists>email u. NewEmail E (lc_Email cmd) = Inr email \<and> u \<in> set (t_users (w_pool w))
     \<and> ur_Email u = Email_String email \<and> ur_EmailVerifiedAt u \<noteq> None"
  using assms(4)
proof (rule Login_steps)
  fix user w1
  assume "loginUser E s c cmd w = (Inr user, w1)"
  from loginUser_InrD [OF assms(3) this] obtain email u where "NewEmail E (lc_Email cmd) = Inr email"
    and u: "u \<in> set (t_users (w_pool w))" "ur_Email u = Email_String email" "ur_Status u = ''active''" by blast
  moreover have "ur_EmailVerifiedAt u \<noteq> None"
    using reachable_verified [OF assms(1,2) u(1)] u(3) by (auto simp: verifiedIffActive_def split: if_splits)
  ultimately show ?thesis by blast
qed

end
