(* ===== verification/Witnesses.thy ===== *)
theory Witnesses
  imports Samples Identity_System Redis_Platform Http_Replay Row_Scan Refresh_Concurrency Login_Journey Account_Lifecycle
begin

text \<open>
  Witnesses of the properties that have hypotheses: each applies one theorem to the sample
  environment and a concrete state, with its hypotheses evaluated there.
\<close>

section \<open>Platform\<close>

theorem tokens_single_use_witness:
  "length (filter (redeemed ''v'') (redeemAll (ParseVerifyToken sampleEnv) [''v'', ''v''] sampleWorld)) \<le> 1
     \<and> length (filter (redeemed ''v'') (redeemAll (ParsePasswordResetToken sampleEnv) [''v'', ''v''] sampleWorld)) \<le> 1"
  by (rule tokens_single_use) simp

definition sampleIdem :: IdemService where
  "sampleIdem = NewIdemService (RedisStore sampleEnv) NewDefaultConfig"

definition begunWorld :: world where
  "begunWorld = snd (BeginHTTP sampleEnv sampleIdem ''pay'' ''k1'' ''h'' emptyWorld)"

lemma sampleIdem_TTL:
  "ic_InProgressTTL (is_config sampleIdem) = 5 * Minute" "ic_CompletedTTL (is_config sampleIdem) = 24 * Hour"
  by (simp_all add: sampleIdem_def NewIdemService_def NewDefaultConfig_def duration_units)

lemma begun: "\<exists>b. BeginHTTP sampleEnv sampleIdem ''pay'' ''k1'' ''h'' emptyWorld = (Inr b, begunWorld) \<and> br_Decision b = BeginProceed"
proof -
  have "(case fst (BeginHTTP sampleEnv sampleIdem ''pay'' ''k1'' ''h'' emptyWorld) of
      Inl _ \<Rightarrow> False | Inr b \<Rightarrow> br_Decision b = BeginProceed)"
    by code_simp
  then show ?thesis unfolding begunWorld_def by (auto split: sum.splits simp: prod_eq_iff)
qed

theorem BeginHTTP_at_most_once_witness:
  "isl (fst (BeginHTTP sampleEnv sampleIdem ''pay'' ''k1'' ''other'' begunWorld))"
proof -
  obtain b where b: "BeginHTTP sampleEnv sampleIdem ''pay'' ''k1'' ''h'' emptyWorld = (Inr b, begunWorld)" "br_Decision b = BeginProceed"
    using begun by blast
  have "w_n begunWorld = 2" by code_simp
  then show ?thesis
    by (intro BeginHTTP_at_most_once [OF _ sampleIdem_def b]) (simp_all add: sampleIdem_TTL duration_units)
qed

definition sampleResult :: IdemResult where
  "sampleResult = \<lparr>res_StatusCode = 201, res_Body = ''ok'', res_Headers = []\<rparr>"

definition completedWorld :: world where
  "completedWorld = snd (CompleteHTTP sampleEnv sampleIdem ''pay'' ''k1'' sampleResult begunWorld)"

theorem request_complete_retry_witness:
  "(\<exists>r. fst (BeginHTTP sampleEnv sampleIdem ''pay'' ''k1'' ''h'' completedWorld) =
        Inr \<lparr>br_Decision = BeginReplay, br_Record = Some r\<rparr>
      \<and> ir_ResponseCode r = 201 \<and> ir_ResponseBody r = ''ok'')
   \<and> fst (BeginHTTP sampleEnv sampleIdem ''pay'' ''k1'' ''other'' completedWorld) = Inl IdemErrRequestHashMismatch"
proof -
  obtain b where b: "BeginHTTP sampleEnv sampleIdem ''pay'' ''k1'' ''h'' emptyWorld = (b, begunWorld)"
    using begun by blast
  have n: "w_n begunWorld = 2" "w_n completedWorld = 5" "TrimSpace ''k1'' \<noteq> ''''" "isASCII ''pay''"
    "live (int 1) (w_redis emptyWorld) (BuildKey sampleEnv ''pay'' ''k1'') = None"
    by code_simp+
  have c: "CompleteHTTP sampleEnv sampleIdem ''pay'' ''k1'' sampleResult begunWorld =
      (fst (CompleteHTTP sampleEnv sampleIdem ''pay'' ''k1'' sampleResult begunWorld), completedWorld)"
    by (simp add: completedWorld_def)
  from request_complete_retry [OF _ n(4,3) _ sampleIdem_def refl _ b refl _ c refl] n
  show ?thesis by (auto simp: sampleIdem_TTL duration_units sampleResult_def)
qed

definition lockedWorld :: world where
  "lockedWorld = snd (Acquire sampleEnv ''k'' 100 emptyWorld)"

theorem lock_exclusive_witness:
  "(\<forall>l' w3. Acquire sampleEnv ''k'' 100 lockedWorld \<noteq> (Inr l', w3))
     \<and> fst (Release sampleEnv (Some \<lparr>lock_Key = ''k'', lock_Token = ''z'', lock_TTL = 100\<rparr>) lockedWorld) \<noteq> Inr ()"
proof -
  have f: "fst (Acquire sampleEnv ''k'' 100 emptyWorld) = Inr \<lparr>lock_Key = ''k'', lock_Token = ''u0'', lock_TTL = 100\<rparr>"
    "w_n lockedWorld = 2" by code_simp+
  from lock_exclusive [OF _ run_of [OF f(1), folded lockedWorld_def], of lockedWorld] f(2) show ?thesis by simp
qed


text \<open>A signer that knows one set of claims.\<close>

definition sampleClaims :: json where
  "sampleClaims = marshalClaims \<lparr>cl_UserID = 1, cl_Email = ''a@b'', cl_Role = ''customer'', cl_Type = AccessType,
     cl_SessionID = ''7'', cl_DeviceID = ''8'', cl_ID = ''u1'', cl_ExpiresAt = Some (NewNumericDate (15 * Minute)),
     cl_IssuedAt = Some (NewNumericDate 2)\<rparr>"

definition jwtEnv :: env where
  "jwtEnv = sampleEnv\<lparr>env_jwtSign := (\<lambda>_ claims. if claims = sampleClaims then Inr ''jwt'' else Inl (External ''refused'')),
     env_jwtDecode := (\<lambda>_. Inr (True, sampleClaims)),
     env_jwtVerify := (\<lambda>_ t _. if t < jwtExpiry sampleClaims then None else Some (External ''token is expired''))\<rparr>"

lemma jwtEnv_documented: "jwt_documented jwtEnv"
  by (simp add: jwt_documented_def jwtEnv_def)

theorem access_token_roundtrip_witness:
  "(\<forall>claims. fst (ValidateRefreshToken jwtEnv (as_authManager sampleService) ''jwt'' emptyWorld) \<noteq> Inr claims)
   \<and> (\<exists>claims. fst (ValidateAccessToken jwtEnv (as_authManager sampleService) ''jwt'' emptyWorld) = Inr claims
        \<and> cl_UserID claims = 1 \<and> cl_SessionID claims = ''7'')"
proof -
  let ?run = "GenerateAccessToken jwtEnv (as_authManager sampleService) 1 ''a@b'' ''customer'' ''7'' ''8'' emptyWorld"
  have run: "fst ?run = Inr (''jwt'', 15 * Minute)" by code_simp
  have early: "env_now jwtEnv (w_n emptyWorld) < unixEpoch + NewNumericDate (15 * Minute) * Second" by code_simp
  from access_token_roundtrip [OF jwtEnv_documented run_of [OF run], of emptyWorld] early show ?thesis by blast
qed

definition auditEvent :: RecordParams where
  "auditEvent = userRegisteredEvent Background \<lparr>urp_UserID = 1, urp_Email = ''a@b'', urp_Token = ''t''\<rparr> 0"

definition auditedChange :: "(gerror + unit) \<times> world" where
  "auditedChange = txManager sampleEnv Background (\<lambda>c. andThen (UserRepository_UpdateStatus sampleEnv c 1 ''disabled'')
     (\<lambda>_. Record sampleEnv c auditEvent)) sampleWorld"

theorem outbox_event_with_change_witness:
  "same_tables (w_pool sampleWorld) (w_pool (snd auditedChange)) \<and> isl (fst auditedChange) \<or>
     (\<exists>x w2 d e s. UserRepository_UpdateStatus sampleEnv (WithTx Background) 1 ''disabled'' (in_tx sampleWorld) = (Inr x, w2)
        \<and> w_tx w2 = Some d \<and> w_pool (snd auditedChange) = d\<lparr>t_outbox := t_outbox d @ [e], db_seq := s\<rparr> \<and> recordsEvent auditEvent e)"
proof (rule outbox_event_with_change [where c = Background and E = sampleEnv])
  show "tx_local (UserRepository_UpdateStatus sampleEnv (WithTx Background) 1 ''disabled'')"
    by (intro tx_localI repo_tx_open) simp
qed (simp_all add: auditedChange_def)

definition pendingWorld :: world where
  "pendingWorld = emptyWorld\<lparr>w_pool := emptyDB\<lparr>t_outbox := [recordRow ''u1'' 0 auditEvent]\<rparr>\<rparr>"

theorem DispatchOnce_check_violation_witness:
  "DispatchOnce sampleEnv Background 10 pendingWorld =
     (Inl (Wrapf ''outbox dispatcher: claim: '' (PgError ''23514'') ''''), pendingWorld\<lparr>w_n := Suc (w_n pendingWorld)\<rparr>)"
  by (rule DispatchOnce_check_violation [where e = "recordRow ''u1'' 0 auditEvent"])
    (simp_all add: sampleEnv_def pendingWorld_def recordRow_def)

section \<open>Accounts\<close>

definition registeredWorld :: world where
  "registeredWorld = snd (Register sampleEnv sampleService Background registerCmd emptyWorld)"

lemma registered_run:
  "Register sampleEnv sampleService Background registerCmd emptyWorld =
     (Inr \<lparr>ro_UserID = 1, ro_Email = ''a@b'', ro_Message = registerMessage\<rparr>, registeredWorld)"
  unfolding registeredWorld_def by (rule run_of) code_simp

theorem Register_all_or_nothing_witness:
  "\<exists>email hash uid tok. registered (WithTx Background) email registerCmd hash uid tok emptyDB (w_pool registeredWorld)"
  using Register_all_or_nothing [OF _ _ _ registered_run] by auto

theorem Register_duplicate_email_witness:
  "Register sampleEnv sampleService Background registerCmd sampleWorld =
     (Inl (DomainErr ErrEmailAlreadyExist), sampleWorld\<lparr>w_n := Suc (w_n sampleWorld)\<rparr>)"
proof (rule Register_duplicate_email [where email = "Email ''a@b''"])
  show "NewEmail sampleEnv (rc_Email registerCmd) = Inr (Email ''a@b'')" by code_simp
  show "ValidateRegistration sampleEnv (as_registerPolicy sampleService) (Email ''a@b'') (rc_Password registerCmd) = Inr ()"
    by code_simp
  show "taken ur_Email (Email_String (Email ''a@b'')) (t_users (w_pool sampleWorld))" by code_simp
qed simp_all

theorem Register_then_VerifyEmail_witness:
  "\<exists>tok w2. VerifyEmail sampleEnv Background \<lparr>ve_Token = tok\<rparr> (registeredWorld\<lparr>w_n := 100\<rparr>) = (Inr (), w2)
     \<and> (\<exists>u \<in> set (t_users (w_pool w2)). ur_ID u = 1 \<and> UserStatus_CanLogin (ur_Status u))"
proof -
  have "0 \<le> seq_users (db_seq emptyDB)" "seq_users (db_seq emptyDB) < int64_max"
    "env_now sampleEnv 100 < env_now sampleEnv (w_n emptyWorld) + emailVerifyTTL" by code_simp+
  with Register_then_VerifyEmail [OF _ _ _ _ _ _ _ registered_run, of 100] show ?thesis by fastforce
qed

theorem VerifyEmail_reactivates_locked_witness:
  "(\<exists>w'. VerifyEmail sampleEnv Background \<lparr>ve_Token = ''v''\<rparr> sampleWorld = (Inr (), w') \<and>
       (\<exists>u' \<in> set (t_users (w_pool w')). ur_ID u' = 2 \<and> ur_Email u' = ur_Email (sampleUser 2 ''c@d'' ''locked'')
          \<and> ur_Status u' = UserStatusActive))
     \<and> isl (UserStatus_CanTransitionTo (ur_Status (sampleUser 2 ''c@d'' ''locked'')) UserStatusActive)"
proof (rule VerifyEmail_reactivates_locked [where e = 1000])
  show "w_redis sampleWorld (emailVerifyPrefix @ ''v'') = Some (RText (FormatInt 2), Some 1000)"
    by (simp add: sampleRedis_def)
  show "ur_Status (sampleUser 2 ''c@d'' ''locked'') = UserStatusBanned" by code_simp
qed (simp_all add: sampleDB_def sampleUser_def int64_max_def)

section \<open>Sessions\<close>

definition loginCmd :: "string \<Rightarrow> LoginCommand" where
  "loginCmd pw = \<lparr>lc_Email = ''a@b'', lc_Password = pw, lc_DeviceFingerprint = ''f'', lc_DeviceLabel = ''l'',
     lc_IPAddress = ''i'', lc_UserAgent = ''u''\<rparr>"

definition loggedIn :: "(gerror + LoginOutput) \<times> world" where
  "loggedIn = Login sampleEnv sampleService Background (loginCmd ''Secret12'') sampleWorld"


definition activeUser :: User where
  "activeUser = projr (mapUserRowToEntity sampleEnv (sampleUser 1 ''a@b'' ''active''))"

lemma activeUser_row: "mapUserRowToEntity sampleEnv (sampleUser 1 ''a@b'' ''active'') = Inr activeUser"
proof -
  have "\<not> isl (mapUserRowToEntity sampleEnv (sampleUser 1 ''a@b'' ''active''))" by code_simp
  then show ?thesis by (simp add: activeUser_def)
qed


definition newDeviceCmd :: LoginCommand where
  "newDeviceCmd = (loginCmd ''Secret12'')\<lparr>lc_DeviceFingerprint := ''h''\<rparr>"

definition strictService :: AuthService where
  "strictService = sampleService\<lparr>as_devicePolicy := \<lparr>dp_MaxDevicesPerUser = 2, dp_MaxSessionTTL = 30\<rparr>\<rparr>"

theorem device_limit_not_enforced_witness:
  "\<exists>dev w' r. registerDevice sampleEnv strictService Background newDeviceCmd activeUser 0 sampleWorld = (Inr dev, w')
     \<and> t_devices (w_pool w') = t_devices (w_pool sampleWorld) @ [r] \<and> dr_UserID r = user_ID activeUser
     \<and> dr_Fingerprint r = TrimSpace (lc_DeviceFingerprint newDeviceCmd) \<and> dr_RevokedAt r = None \<and> dr_FirstSeenAt r = zeroTime"
proof (rule device_limit_not_enforced)
  show "references (user_ID activeUser) ur_ID (t_users (w_pool sampleWorld))" by code_simp
  show "varchar 255 (lc_DeviceLabel newDeviceCmd)" by code_simp
  show "\<forall>r\<in>set (t_devices (w_pool sampleWorld)).
      \<not> (dr_UserID r = user_ID activeUser \<and> dr_Fingerprint r = TrimSpace (lc_DeviceFingerprint newDeviceCmd))"
    by code_simp
  show "CanRegisterNewDevice (as_devicePolicy strictService)
     (map mapDeviceRowToEntity (filter (\<lambda>r. dr_UserID r = user_ID activeUser \<and> dr_RevokedAt r = None) (t_devices (w_pool sampleWorld))))
     = Inl (DomainErr ErrDeviceLimitReached)"
    by code_simp
qed simp_all

lemma not_issued: "tok = [] \<or> hd tok \<noteq> CHR ''u'' \<Longrightarrow> \<not> issuedFrom sampleEnv s n tok"
  using sampleEnv_issued by fastforce

lemma x_notReissued: "notReissued sampleEnv sampleService n ''x''"
proof -
  have "HashToken sampleEnv tok \<noteq> HashToken sampleEnv ''x''" if "issuedFrom sampleEnv sampleService n tok" for tok
    using sampleEnv_issued [OF that] by (auto simp: HashToken_def sampleEnv_def hexEncode_def hexChar_def)
  then show ?thesis by (simp add: notReissued_def)
qed

theorem refresh_token_at_most_once_witness:
  "length (filter (redeemed ''x'') (redeemAll (\<lambda>tok. RefreshToken sampleEnv sampleService Background \<lparr>rt_RefreshToken = tok\<rparr>)
     [''x'', ''x''] sampleWorld)) \<le> 1"
  by (rule refresh_token_at_most_once) (simp_all add: x_notReissued)

text \<open>A double click: two requests prepare, the first locks and commits, the second finds no row.\<close>

definition doubleClick :: refreshConf where
  "doubleClick = \<lparr>rf_db = sampleDB, rf_n = 0, rf_locks = Map.empty, rf_clients = (\<lambda>_. Reading ''x'')\<rparr>"

lemma sampleEnv_issues: "issuedFrom sampleEnv s n (CHR ''u'' # showNat n)"
  by (auto simp: issuedFrom_def sampleEnv_def sampleSign_def marshalClaims_def jfield_def omitStr_def omitIntPtr_def
      intro!: exI [of _ n] exI [of _ "\<lparr>cl_UserID = 1, cl_Email = '''', cl_Role = '''', cl_Type = RefreshType, cl_SessionID = '''',
        cl_DeviceID = '''', cl_ID = CHR ''u'' # showNat n, cl_ExpiresAt = None, cl_IssuedAt = None\<rparr>"])

lemma doubleClick_run: "\<exists>k. (refreshStep sampleEnv sampleService)\<^sup>*\<^sup>* doubleClick k \<and> rf_clients k 0 = Ended ''x'' True \<and> rf_clients k 1 = Ended ''x'' False"
proof -
  let ?S = "refreshStep sampleEnv sampleService" and ?r = "sampleSession 1 1 ''x''"
  let ?new = "CHR ''u'' # showNat 0"
  define k1 where "k1 = doubleClick\<lparr>rf_n := 1, rf_clients := (\<lambda>_. Reading ''x'')(0 := Prepared ''x'' 0 ?new)\<rparr>"
  define k2 where "k2 = k1\<lparr>rf_n := 2, rf_clients := (rf_clients k1)(1 := Prepared ''x'' 0 (CHR ''u'' # showNat 1))\<rparr>"
  define k3 where "k3 = k2\<lparr>rf_locks := (rf_locks k2)(1 \<mapsto> 0), rf_clients := (rf_clients k2)(0 := Locking ''x'' 0 ?new ?r)\<rparr>"
  obtain m d where upd: "queryUpdateSession 1 (HashToken sampleEnv ?new) (0 + sessionTTL (as_devicePolicy sampleService)) 0 0 sampleDB = Inr (m, d)"
    by (simp add: queryUpdateSession_def Let_def taken_def sampleDB_tables sampleSession_def HashToken_def sampleEnv_def hexEncode_def hexChar_def)
  define k4 where "k4 = k3\<lparr>rf_db := d, rf_locks := release 0 (rf_locks k3), rf_clients := (rf_clients k3)(0 := Ended ''x'' True)\<rparr>"
  define k5 where "k5 = k4\<lparr>rf_locks := release 1 (rf_locks k4), rf_clients := (rf_clients k4)(1 := Ended ''x'' False)\<rparr>"
  have "?S doubleClick k1" using refreshStep.Prepare [of doubleClick 0 "''x''" sampleEnv sampleService ?new 1 0] sampleEnv_issues [of sampleService 0]
    by (simp add: k1_def doubleClick_def)
  moreover have "?S k1 k2" using refreshStep.Prepare [of k1 1 "''x''" sampleEnv sampleService "CHR ''u'' # showNat 1" 2 0] sampleEnv_issues [of sampleService 1]
    by (simp add: k2_def k1_def doubleClick_def)
  moreover have "queryGetByRefreshTokenHash (HashToken sampleEnv ''x'') 0 sampleDB = Inr (?r, sampleDB)"
    by (simp add: queryGetByRefreshTokenHash_def selectOne_def query_def sampleDB_tables sampleSession_def)
  then have "?S k2 k3" using refreshStep.Lock [of k2 0 "''x''" 0 ?new sampleEnv 0 ?r sampleDB sampleService]
    by (simp add: k3_def k2_def k1_def doubleClick_def sampleSession_def)
  moreover have "?S k3 k4" using refreshStep.Commit [of k3 0 "''x''" 0 ?new ?r sampleEnv sampleService 0 m d True] upd
    by (simp add: k4_def k3_def k2_def k1_def doubleClick_def sampleSession_def)
  moreover have "?S k4 k5" using refreshStep.Fail [of k4 1 sampleEnv sampleService]
    by (simp add: k5_def k4_def k3_def k2_def k1_def doubleClick_def)
  ultimately have "?S\<^sup>*\<^sup>* doubleClick k5" by (meson converse_rtranclp_into_rtranclp r_into_rtranclp)
  moreover have "rf_clients k5 0 = Ended ''x'' True" "rf_clients k5 1 = Ended ''x'' False" by (simp_all add: k5_def k4_def)
  ultimately show ?thesis by blast
qed

theorem concurrent_refresh_at_most_once_witness:
  "\<exists>k. (refreshStep sampleEnv sampleService)\<^sup>*\<^sup>* doubleClick k \<and> succeeded k ''x'' = {0}"
proof -
  obtain k where run: "(refreshStep sampleEnv sampleService)\<^sup>*\<^sup>* doubleClick k" and k: "rf_clients k 0 = Ended ''x'' True"
    using doubleClick_run by blast
  have "refreshStart doubleClick" by (simp add: refreshStart_def doubleClick_def)
  from concurrent_refresh_at_most_once [OF this run x_notReissued _ k] k have "succeeded k ''x'' = {0}"
    by (auto simp: succeeded_def)
  with run show ?thesis by blast
qed

theorem RefreshToken_refuses_witness:
  "RefreshToken sampleEnv sampleService Background \<lparr>rt_RefreshToken = ''q''\<rparr> sampleWorld =
     (Inl (DomainErr ErrInvalidCredentials), sampleWorld\<lparr>w_n := w_n sampleWorld + 3\<rparr>)"
proof -
  have "live (env_now sampleEnv (w_n sampleWorld + 1)) (w_redis sampleWorld) (sessionPrefix @ HashToken sampleEnv ''q'') = None"
    "find (\<lambda>x. sr_RefreshTokenHash x = HashToken sampleEnv ''q'') (t_sessions (w_pool sampleWorld)) = None"
    by code_simp+
  from RefreshToken_refuses [OF _ _ _ this] show ?thesis by simp
qed

definition loggedOut :: world where
  "loggedOut = snd (Logout sampleEnv Background \<lparr>lo_DeviceID = 2, lo_UserID = 1\<rparr> sampleWorld)"

theorem refresh_after_logout_witness:
  "(\<exists>r' \<in> set (t_sessions (w_pool loggedOut)). sr_RefreshTokenHash r' = HashToken sampleEnv ''y'' \<and> sr_RevokedAt r' \<noteq> None)
     \<and> \<not> isl (fst (RefreshToken sampleEnv sampleService Background \<lparr>rt_RefreshToken = ''y''\<rparr> (loggedOut\<lparr>w_n := 10\<rparr>)))"
proof (rule refresh_after_logout [where r = "sampleSession 2 2 ''y''" and e = 1000, OF _ _ _ _ _ _ _ _ _ _ _ _ _ _ activeUser_row])
  have "fst (Logout sampleEnv Background \<lparr>lo_DeviceID = 2, lo_UserID = 1\<rparr> sampleWorld) = Inr ()" by code_simp
  from run_of [OF this] show "Logout sampleEnv Background
      \<lparr>lo_DeviceID = sr_DeviceID (sampleSession 2 2 ''y''), lo_UserID = sr_UserID (sampleSession 2 2 ''y'')\<rparr> sampleWorld = (Inr (), loggedOut)"
    by (simp add: sampleSession_def loggedOut_def)
  show "w_redis sampleWorld (sessionPrefix @ HashToken sampleEnv ''y'') =
      Some (RJson (marshalSession (mapSessionRowToEntity (sampleSession 2 2 ''y''))), Some 1000)"
    by (simp add: sampleRedis_def sessionPrefix_def emailVerifyPrefix_def)
  show "\<forall>t. issuedFrom sampleEnv sampleService 10 t \<longrightarrow>
      \<not> taken sr_RefreshTokenHash (HashToken sampleEnv t) (t_sessions (w_pool sampleWorld))"
    by (auto simp: taken_def sampleDB_def sampleSession_def HashToken_def sampleEnv_def hexEncode_def hexChar_def
        dest!: sampleEnv_issued [unfolded sampleEnv_def])
qed (simp_all add: sampleSession_def sampleDB_tables sampleUser_def sampleEnv_canSign)

section \<open>Passwords\<close>

definition changeCmd :: ChangePasswordCommand where
  "changeCmd = \<lparr>cp_UserID = 1, cp_CurrentPassword = ''Secret12'', cp_NewPassword = ''Secret34'', cp_CurrentSessionID = 1\<rparr>"

definition passwordChange :: "(gerror + unit) \<times> world" where
  "passwordChange = ChangePassword sampleEnv sampleService Background changeCmd sampleWorld"

lemma passwordChange_run:
  "ChangePassword sampleEnv sampleService Background changeCmd sampleWorld = (Inr (), snd passwordChange)"
  unfolding passwordChange_def by (rule run_of) code_simp

theorem ChangePassword_all_or_nothing_witness:
  "\<exists>hash now t. passwordChanged 1 hash 1 now t sampleDB (w_pool (snd passwordChange))"
proof -
  have "cp_UserID changeCmd = 1" "cp_CurrentSessionID changeCmd = 1" by (simp_all add: changeCmd_def)
  with ChangePassword_all_or_nothing [OF _ _ passwordChange_run] show ?thesis by auto
qed


definition resetWorld :: world where
  "resetWorld = sampleWorld\<lparr>w_redis := (\<lambda>_. None)(resetPasswordPrefix @ HashToken sampleEnv ''r'' \<mapsto> (RText ''1'', Some 1000))\<rparr>"

definition passwordResetRun :: "(gerror + unit) \<times> world" where
  "passwordResetRun = ResetPassword sampleEnv sampleService Background \<lparr>rs_Token = ''r'', rs_NewPassword = ''Secret34''\<rparr> resetWorld"

theorem ResetPassword_all_or_nothing_witness:
  "\<exists>uid email hash. passwordReset (WithTx Background) uid email hash sampleDB (w_pool (snd passwordResetRun))"
proof -
  have "fst passwordResetRun = Inr ()" by code_simp
  then have run: "ResetPassword sampleEnv sampleService Background \<lparr>rs_Token = ''r'', rs_NewPassword = ''Secret34''\<rparr> resetWorld
      = (Inr (), snd passwordResetRun)" using run_of passwordResetRun_def by metis
  have "w_tx resetWorld = None" "w_pool resetWorld = sampleDB" by (simp_all add: resetWorld_def)
  with ResetPassword_all_or_nothing [OF _ _ run] show ?thesis by auto
qed

theorem ForgotPassword_unknown_address_witness:
  "ForgotPassword sampleEnv Background \<lparr>fp_Email = ''z@z''\<rparr> sampleWorld = (Inr (), sampleWorld\<lparr>w_n := Suc (w_n sampleWorld)\<rparr>)"
proof (rule ForgotPassword_unknown_address [where email = "Email ''z@z''"])
  show "NewEmail sampleEnv (fp_Email \<lparr>fp_Email = ''z@z''\<rparr>) = Inr (Email ''z@z'')" by code_simp
  show "\<not> taken ur_Email (Email_String (Email ''z@z'')) (t_users (w_pool sampleWorld))" by code_simp
qed simp_all

section \<open>Addresses and devices\<close>

definition addCmd :: AddAddressCommand where
  "addCmd = \<lparr>aa_UserID = 1, aa_RecipientName = ''A'', aa_RecipientPhone = ''1'', aa_Line1 = ''l'', aa_Line2 = '''',
     aa_ProvinceCode = ''p'', aa_DistrictCode = ''d'', aa_WardCode = ''w'', aa_PostalCode = ''1'', aa_CountryCode = ''VN'',
     aa_IsDefault = True\<rparr>"

definition addressAdded :: "(gerror + int) \<times> world" where
  "addressAdded = AddAddress sampleEnv Background addCmd sampleWorld"

theorem AddAddress_only_default_witness:
  "\<exists>r \<in> set (t_addresses (w_pool (snd addressAdded))). ar_ID r = 2 \<and> ar_UserID r = 1 \<and> ar_IsDefault r
     \<and> (\<forall>b \<in> set (t_addresses (w_pool (snd addressAdded))). ar_UserID b = 1 \<and> ar_IsDefault b \<longrightarrow> b = r)"
proof -
  have "fst addressAdded = Inr 2" by code_simp
  then have run: "AddAddress sampleEnv Background addCmd sampleWorld = (Inr 2, snd addressAdded)"
    using run_of addressAdded_def by metis
  have "aa_IsDefault addCmd" "aa_UserID addCmd = 1" by (simp_all add: addCmd_def)
  with AddAddress_only_default [OF _ _ _ run] show ?thesis by simp
qed

definition updateCmd :: UpdateAddressCommand where
  "updateCmd = \<lparr>ua_ID = 1, ua_UserID = 1, ua_RecipientName = ''A'', ua_RecipientPhone = ''1'', ua_Line1 = ''l'', ua_Line2 = '''',
     ua_ProvinceCode = ''p'', ua_DistrictCode = ''d'', ua_WardCode = ''w'', ua_PostalCode = ''1'', ua_CountryCode = ''VN'',
     ua_IsDefault = True\<rparr>"

theorem address_not_owned_witness:
  "UpdateAddress sampleEnv Background updateCmd sampleWorld =
       (Inl (DomainErr ErrAddressNotOwned), sampleWorld\<lparr>w_n := Suc (w_n sampleWorld)\<rparr>)
   \<and> DeleteAddress sampleEnv Background \<lparr>da_ID = 1, da_UserID = 1\<rparr> sampleWorld =
       (Inl (DomainErr ErrAddressNotOwned), sampleWorld\<lparr>w_n := Suc (w_n sampleWorld)\<rparr>)"
  using address_not_owned [where i = 1 and uid = 1 and r = sampleAddress and w = sampleWorld and c = Background
      and E = sampleEnv and ucmd = updateCmd]
  by (simp add: sampleDB_tables sampleAddress_def updateCmd_def)

theorem address_books_isolated_witness:
  "addressBook 2 (w_pool (fold (serveAddress sampleEnv Background)
     [ReqAdd addCmd, ReqUpdate updateCmd, ReqDelete \<lparr>da_ID = 1, da_UserID = 1\<rparr>] sampleWorld)) = [sampleAddress]"
proof -
  have book: "addressBook 2 (w_pool sampleWorld) = [sampleAddress]" by (simp add: addressBook_def sampleDB_tables sampleAddress_def)
  have "\<forall>req \<in> set [ReqAdd addCmd, ReqUpdate updateCmd, ReqDelete \<lparr>da_ID = 1, da_UserID = 1\<rparr>]. requestedBy req \<noteq> 2"
    by (simp add: addCmd_def updateCmd_def)
  from address_books_isolated [OF _ _ _ this, of Background sampleWorld sampleEnv] book show ?thesis
    by (simp del: fold.simps)
qed

definition deviceRun :: "(gerror + unit) \<times> world" where
  "deviceRun = RevokeDevice sampleEnv Background 1 2 sampleWorld"

theorem RevokeDevice_all_or_nothing_witness:
  "\<exists>at now t t'. deviceRevoked 1 2 at now t t' sampleDB (w_pool (snd deviceRun))"
proof -
  have "fst deviceRun = Inr ()" by code_simp
  then have "RevokeDevice sampleEnv Background 1 2 sampleWorld = (Inr (), snd deviceRun)"
    using run_of deviceRun_def by metis
  from RevokeDevice_all_or_nothing [OF _ _ this] show ?thesis by auto
qed

section \<open>Reachable states\<close>

text \<open>A user registers, verifies the address and logs in.\<close>

definition verifiedWorld :: world where
  "verifiedWorld = serve sampleEnv sampleService Background (RqVerifyEmail \<lparr>ve_Token = hexEncode ''6''\<rparr>) registeredWorld"

definition systemWorld :: world where
  "systemWorld = serve sampleEnv sampleService Background (RqLogin (loginCmd ''Secret12'')) verifiedWorld"

lemma registeredWorld_reachable: "reachable sampleEnv sampleService registeredWorld"
proof -
  have "reachable sampleEnv sampleService emptyWorld" by (rule reachable.start) simp_all
  then have "reachable sampleEnv sampleService (serve sampleEnv sampleService Background (RqRegister registerCmd) emptyWorld)"
    by (rule reachable.step) (rule sysStep.Request, simp)
  then show ?thesis by (simp add: registeredWorld_def)
qed

lemma systemWorld_reachable: "reachable sampleEnv sampleService systemWorld"
proof -
  from registeredWorld_reachable have "reachable sampleEnv sampleService verifiedWorld"
    unfolding verifiedWorld_def by (rule reachable.step) (rule sysStep.Request, simp)
  then show ?thesis unfolding systemWorld_def by (rule reachable.step) (rule sysStep.Request, simp)
qed


lemma systemWorld_tables: "length (t_users (w_pool systemWorld)) = 1" "length (t_sessions (w_pool systemWorld)) = 1"
  by code_simp+

theorem reachable_accounts_witness:
  "\<exists>u \<in> set (t_users (w_pool systemWorld)). \<exists>cr \<in> set (t_credentials (w_pool systemWorld)). cr_UserID cr = ur_ID u"
proof -
  obtain u where u: "u \<in> set (t_users (w_pool systemWorld))" using systemWorld_tables(1) by (cases "t_users (w_pool systemWorld)") auto
  from reachable_accounts [OF systemWorld_reachable _ this] u show ?thesis by simp blast
qed

theorem account_lifecycle_witness:
  "\<exists>u \<in> set (t_users (w_pool registeredWorld)). \<exists>u' \<in> set (t_users (w_pool verifiedWorld)).
     ur_ID u' = ur_ID u \<and> ur_Status u = UserStatusPendingVerification \<and> ur_EmailVerifiedAt u = None
     \<and> ur_Status u' = UserStatusActive \<and> UserStatus_CanTransitionTo (ur_Status u) (ur_Status u') = Inr ()"
proof -
  have f: "\<forall>u \<in> set (t_users (w_pool registeredWorld)). ur_Status u \<noteq> UserStatusActive"
    "\<forall>u \<in> set (t_users (w_pool verifiedWorld)). ur_Status u = UserStatusActive"
    "length (t_users (w_pool registeredWorld)) = 1" by code_simp+
  then obtain u where u: "u \<in> set (t_users (w_pool registeredWorld))" by (cases "t_users (w_pool registeredWorld)") auto
  have "sysStep sampleEnv sampleService registeredWorld verifiedWorld"
    unfolding verifiedWorld_def by (rule sysStep.Request) simp
  from account_lifecycle [OF _ registeredWorld_reachable this u] u f show ?thesis by simp metis
qed

theorem reachable_own_devices_witness:
  "\<exists>x \<in> set (t_sessions (w_pool systemWorld)). \<exists>dv \<in> set (t_devices (w_pool systemWorld)).
     dr_ID dv = sr_DeviceID x \<and> dr_UserID dv = sr_UserID x"
proof -
  obtain x where x: "x \<in> set (t_sessions (w_pool systemWorld))" using systemWorld_tables(2) by (cases "t_sessions (w_pool systemWorld)") auto
  from reachable_own_devices [OF systemWorld_reachable this] x show ?thesis by blast
qed

section \<open>Exchanges\<close>

text \<open>Start-up with every variable set to 1, and a gin whose texts are simple.\<close>

definition sampleConfig :: Config where
  "sampleConfig = projr (fst (MustLoad id (\<lambda>_. ''1'')))"

theorem access_token_ttl_in_hours_witness: "jwt_AccessTokenTTL (ProvideAuthManager sampleConfig) = 60 * Minute"
proof -
  have "isl (fst (MustLoad id (\<lambda>_. ''1''))) = False" by code_simp
  then have "fst (MustLoad id (\<lambda>_. ''1'')) = Inr sampleConfig" by (simp add: sampleConfig_def isl_def)
  moreover have "id (\<lambda>_. ''1'') ''JWT_ACCESS_TOKEN_TTL_MINUTES'' = FormatInt 1" by code_simp
  ultimately show ?thesis using access_token_ttl_in_hours [where n = 1] by simp
qed

definition sampleGin :: gin where
  "sampleGin = \<lparr>gin_JSON = (\<lambda>_. ''{}''), gin_Bind = (\<lambda>_ _. Inr []), gin_Validate = (\<lambda>_. None), gin_Cookie = ck_Value,
     gin_NoRoute = (\<lambda>r. r\<lparr>hr_Status := 404\<rparr>), gin_ParseUUID = Inr\<rparr>"

definition sampleRequest :: "string \<Rightarrow> string \<Rightarrow> string \<Rightarrow> (string \<times> string) list \<Rightarrow> httpRequest" where
  "sampleRequest method path authorization params =
     \<lparr>rq_Method = method, rq_FullPath = path, rq_Params = params,
      rq_Header = (\<lambda>k. if k = ''Authorization'' then authorization else if k = ''Idempotency-Key'' then ''k1'' else ''''),
      rq_Cookie = (\<lambda>_. None), rq_Body = ''b'', rq_ClientIP = ''ip''\<rparr>"

definition sampleAPI :: api where
  "sampleAPI = InitializeAPI jwtEnv sampleConfig"

definition logoutRequest :: httpRequest where "logoutRequest = sampleRequest ''POST'' ''/api/v1/auth/logout'' '''' []"


definition revokeRequest :: httpRequest where
  "revokeRequest = sampleRequest ''DELETE'' ''/api/v1/me/sessions'' ''Bearer jwt'' []"

definition revokedRun :: "httpResponse \<times> world" where
  "revokedRun = ServeHTTP jwtEnv sampleGin sampleAPI revokeRequest sampleWorld"

theorem own_routes_act_for_token_user_witness:
  "\<exists>tok t claims c rq w1. bearerToken revokeRequest = Some tok \<and> verifiedAt jwtEnv (ProvideAuthManager sampleConfig) tok t claims
     \<and> onBehalf rq = Some (cl_UserID claims) \<and> w_pool (snd revokedRun) = w_pool (serve jwtEnv (api_Auth sampleAPI) c rq w1)"
proof -
  have "map sr_RevokedAt (t_sessions (w_pool (snd revokedRun))) \<noteq> map sr_RevokedAt (t_sessions (w_pool sampleWorld))"
    by code_simp
  then have "w_pool (snd revokedRun) \<noteq> w_pool sampleWorld" by metis
  moreover have "ownPaths (rq_FullPath revokeRequest)" by code_simp
  moreover have "ServeHTTP jwtEnv sampleGin sampleAPI revokeRequest sampleWorld = (fst revokedRun, snd revokedRun)"
    by (simp add: revokedRun_def)
  ultimately show ?thesis using own_routes_act_for_token_user [OF _ sampleAPI_def] by metis
qed

definition deviceRequest :: httpRequest where
  "deviceRequest = sampleRequest ''DELETE'' ''/api/v1/me/devices/:deviceId'' ''Bearer jwt'' [(''deviceId'', ''2'')]"

theorem item_routes_never_succeed_witness:
  "hr_Status (fst (ServeHTTP jwtEnv sampleGin sampleAPI deviceRequest sampleWorld)) \<in> {400, 401, 429}
     \<and> w_pool (snd (ServeHTTP jwtEnv sampleGin sampleAPI deviceRequest sampleWorld)) = sampleDB"
proof -
  have "(rq_Method deviceRequest, rq_FullPath deviceRequest) \<in> set itemRoutes" "gin_routed deviceRequest" by code_simp+
  from item_routes_never_succeed [OF this, of jwtEnv sampleGin sampleAPI sampleWorld] show ?thesis by simp
qed

text \<open>A logout leaves Redis alone.\<close>

lemma Logout_redis: "w_redis (snd (Logout E c cmd w)) = w_redis w"
proof -
  have "preserves (\<lambda>v. w_redis v = w_redis w) (pg E c s)" for s :: "nat stmt" by (simp add: preserves_def pg_frame)
  moreover have "preserves (\<lambda>v. w_redis v = w_redis w) (Now E)" by (simp add: preserves_def)
  ultimately have "preserves (\<lambda>v. w_redis v = w_redis w) (Logout E c cmd)"
    unfolding Logout_def SessionRepository_Revoke_def by (intro pres)
  then show ?thesis by (simp add: preserves_def)
qed

lemma AuthHandler_Logout_redis: "w_redis (snd (AuthHandler_Logout E G gc w)) = w_redis w"
  by (cases "GetAuthContext gc") (simp_all add: AuthHandler_Logout_def snd_case_run Logout_redis)

definition logoutCtx :: ginCtx where
  "logoutCtx = setKey authContextKey (GVAuth \<lparr>acx_UserID = 1, acx_Email = ''a@b'', acx_Role = '''', acx_DeviceID = 1, acx_SessionID = 1,
     acx_JTI = ''j''\<rparr>) (newContext logoutRequest)"

definition firstRun :: "ginCtx \<times> world" where
  "firstRun = identityIdempotency jwtEnv sampleGin sampleAPI (AuthHandler_Logout jwtEnv sampleGin) logoutCtx sampleWorld"

definition secondRun :: "ginCtx \<times> world" where
  "secondRun = identityIdempotency jwtEnv sampleGin sampleAPI (AuthHandler_Logout jwtEnv sampleGin) (newContext logoutRequest) (snd firstRun)"

lemma jwtEnv_simps: "redis_up jwtEnv" "clock_monotonic jwtEnv" "env_sha256 jwtEnv s = s" "env_now jwtEnv n = int n"
  using sampleEnv_documented by (simp_all add: env_hyps jwtEnv_def) (simp_all add: sampleEnv_def)


section \<open>Rows\<close>


section \<open>From a login to its logout\<close>

text \<open>A signer that knows the two sets of claims a login signs.\<close>

definition loginClaims :: "string \<Rightarrow> json" where
  "loginClaims tok = marshalClaims (if tok = ''a''
     then \<lparr>cl_UserID = 1, cl_Email = ''a@b'', cl_Role = ''customer'', cl_Type = AccessType, cl_SessionID = ''1'', cl_DeviceID = ''1'',
       cl_ID = ''u13'', cl_ExpiresAt = Some (NewNumericDate (12 + 15 * Minute)), cl_IssuedAt = Some (NewNumericDate 14)\<rparr>
     else \<lparr>cl_UserID = 1, cl_Email = ''a@b'', cl_Role = ''customer'', cl_Type = RefreshType, cl_SessionID = '''', cl_DeviceID = ''1'',
       cl_ID = ''u9'', cl_ExpiresAt = Some (NewNumericDate (8 + 24 * Hour)), cl_IssuedAt = Some (NewNumericDate 10)\<rparr>)"

definition loginEnv :: env where
  "loginEnv = sampleEnv\<lparr>env_jwtSign := (\<lambda>_ claims. if claims = loginClaims ''a'' then Inr ''a''
       else if claims = loginClaims ''r'' then Inr ''r'' else Inl (External ''refused'')),
     env_jwtDecode := (\<lambda>tok. Inr (True, loginClaims tok)),
     env_jwtVerify := (\<lambda>_ t tok. if t < jwtExpiry (loginClaims tok) then None else Some (External ''token is expired''))\<rparr>"

lemma loginEnv_documented: "jwt_documented loginEnv" "pg_up loginEnv"
  by (auto simp: jwt_documented_def loginEnv_def pg_up_def sampleEnv_def split: if_splits)

definition journeyLogin :: "(gerror + LoginOutput) \<times> world" where
  "journeyLogin = Login loginEnv sampleService Background (loginCmd ''Secret12'') sampleWorld"

definition bearerCtx :: ginCtx where
  "bearerCtx = newContext \<lparr>rq_Method = ''POST'', rq_FullPath = ''/api/v1/auth/logout'', rq_Params = [],
     rq_Header = (\<lambda>k. if k = ''Authorization'' then ''Bearer a'' else ''''), rq_Cookie = (\<lambda>_. None), rq_Body = '''', rq_ClientIP = ''i''\<rparr>"


end
