(* ===== verification/Bootstrap.thy ===== *)
theory Bootstrap
  imports Http_Safety
begin

text \<open>
  Start-up and shutdown (\<^verbatim>\<open>internal/bootstrap\<close>, \<^verbatim>\<open>cmd/api\<close>, \<^verbatim>\<open>cmd/migrate\<close>) with the clients they open
  (\<^verbatim>\<open>platform/db/db.go\<close>, \<^verbatim>\<open>platform/redis/redis.go\<close>, \<^verbatim>\<open>platform/logger/logger.go\<close>,
  \<^verbatim>\<open>platform/httpx/server.go\<close>), and the health endpoints (\<^verbatim>\<open>platform/observability\<close>). The state of a
  start-up is the list of what was opened and closed, in order; what zap, pgx, go-redis, net/http and
  golang-migrate answer is the parameter \<open>libs\<close>.
\<close>

section \<open>The libraries\<close>

datatype zapLevel = DebugLevel | InfoLevel | WarnLevel | ErrorLevel

record zapConfig =
  zc_Level :: zapLevel
  zc_Development :: bool
  zc_Encoding :: string
  zc_OutputPaths :: "string list"
  zc_ErrorOutputPaths :: "string list"

record poolConfig =
  pc_ConnString :: string
  pc_MaxConns :: int
  pc_MinConns :: int
  pc_MaxConnLifetime :: duration
  pc_MaxConnIdleTime :: duration
  pc_HealthCheckPeriod :: duration

record redisOptions =
  ro_Addr :: string
  ro_Username :: string
  ro_RedisPassword :: string
  ro_DB :: int
  ro_DialTimeout :: duration
  ro_ReadTimeout :: duration
  ro_WriteTimeout :: duration
  ro_PoolSize :: int
  ro_MinIdleConns :: int
  ro_MaxRetries :: int

record httpServer =
  hs_Addr :: string
  hs_Handler :: handler
  hs_ReadHeaderTimeout :: duration

text \<open>
  An error is \<open>Some err\<close>. \<open>lib_serve\<close> is what \<^verbatim>\<open>ListenAndServe\<close> returned before the process was
  signalled, \<open>None\<close> when it was still serving; \<open>lib_shutdown\<close> takes the time allowed; \<open>lib_version\<close> is
  the version of the schema and whether it is dirty.
\<close>

record libs =
  lib_zapBuild :: "zapConfig \<Rightarrow> gerror option"
  lib_parsePool :: "string \<Rightarrow> gerror + poolConfig"
  lib_newPool :: "poolConfig \<Rightarrow> gerror option"
  lib_pingPool :: "poolConfig \<Rightarrow> gerror option"
  lib_pingRedis :: "redisOptions \<Rightarrow> gerror option"
  lib_serve :: "string \<Rightarrow> gerror option"
  lib_shutdown :: "duration \<Rightarrow> gerror option"
  lib_newMigrate :: "string \<Rightarrow> string \<Rightarrow> gerror option"
  lib_up :: "gerror option"
  lib_steps :: "int \<Rightarrow> gerror option"
  lib_version :: "gerror + int \<times> bool"

definition ErrServerClosed :: gerror where "ErrServerClosed = External ''http: Server closed''"
definition ErrNoChange :: gerror where "ErrNoChange = External ''no change''"

datatype resource = LoggerRes | PoolRes | RedisRes
datatype bootEvent = Opened resource | Closed resource
datatype bootError = Exits startupError | Fails gerror

type_synonym 'a boot = "(bootEvent list, bootError, 'a) prog"

definition note_event :: "bootEvent \<Rightarrow> unit boot" where
  "note_event ev evs = (Inr (), evs @ [ev])"

definition check :: "gerror option \<Rightarrow> unit boot" where
  "check r = (case r of None \<Rightarrow> ok () | Some err \<Rightarrow> fail (Fails err))"

section \<open>Clients\<close>

definition logger_New :: "libs \<Rightarrow> LoggerConfig \<Rightarrow> unit boot" where
  "logger_New L cfg =
     (let level = (if log_Level cfg = ''debug'' then DebugLevel
                   else if log_Level cfg = ''warn'' then WarnLevel
                   else if log_Level cfg = ''error'' then ErrorLevel else InfoLevel);
          zcfg = \<lparr>zc_Level = level, zc_Development = (log_Level cfg = ''debug''), zc_Encoding = log_Format cfg,
                  zc_OutputPaths = [log_Output cfg], zc_ErrorOutputPaths = [log_Output cfg]\<rparr>
      in andThen (check (lib_zapBuild L zcfg)) (\<lambda>_. note_event (Opened LoggerRes)))"

definition NewPool :: "libs \<Rightarrow> DBConfig \<Rightarrow> unit boot" where
  "NewPool L cfg =
     (case lib_parsePool L (DSN cfg) of
        Inl err \<Rightarrow> fail (Fails err)
      | Inr poolCfg \<Rightarrow>
         (let poolCfg = poolCfg\<lparr>pc_MaxConns := dbc_MaxOpenConns cfg, pc_MinConns := dbc_MinIdleConns cfg,
                pc_MaxConnLifetime := dbc_MaxConnLifetime cfg, pc_MaxConnIdleTime := dbc_MaxConnIdleTime cfg,
                pc_HealthCheckPeriod := dbc_HealthcheckPeriod cfg\<rparr>
          in andThen (check (lib_newPool L poolCfg)) (\<lambda>_.
             andThen (note_event (Opened PoolRes)) (\<lambda>_.
             case lib_pingPool L poolCfg of
               Some err \<Rightarrow> andThen (note_event (Closed PoolRes)) (\<lambda>_. fail (Fails err))
             | None \<Rightarrow> ok ()))))"

text \<open>The client exists from \<^verbatim>\<open>goredis.NewClient\<close> on; a failed ping returns without closing it.\<close>

definition NewRedisClient :: "libs \<Rightarrow> RedisEnvConfig \<Rightarrow> unit boot" where
  "NewRedisClient L cfg =
     (let opts = \<lparr>ro_Addr = rec_Addr cfg, ro_Username = '''', ro_RedisPassword = rec_Password cfg, ro_DB = rec_DB cfg,
            ro_DialTimeout = 0, ro_ReadTimeout = rec_ReadTimeout cfg, ro_WriteTimeout = rec_WriteTimeout cfg,
            ro_PoolSize = rec_PoolSize cfg, ro_MinIdleConns = rec_MinIdleConns cfg, ro_MaxRetries = rec_MaxRetries cfg\<rparr>
      in andThen (note_event (Opened RedisRes)) (\<lambda>_. check (lib_pingRedis L opts)))"

text \<open>The options of \<^verbatim>\<open>redis.NewClient\<close>, with the defaults of the Redis package.\<close>

definition NewClient :: "RedisConfig \<Rightarrow> redisOptions" where
  "NewClient cfg0 =
     (let cfg = withDefaults cfg0
      in \<lparr>ro_Addr = rcf_Addr cfg, ro_Username = rcf_Username cfg, ro_RedisPassword = rcf_Password cfg, ro_DB = rcf_DB cfg,
          ro_DialTimeout = rcf_DialTimeout cfg, ro_ReadTimeout = rcf_ReadTimeout cfg, ro_WriteTimeout = rcf_WriteTimeout cfg,
          ro_PoolSize = rcf_PoolSize cfg, ro_MinIdleConns = rcf_MinIdleConns cfg, ro_MaxRetries = 0\<rparr>)"

definition NewServer :: "handler \<Rightarrow> string \<Rightarrow> httpServer" where
  "NewServer engine port = \<lparr>hs_Addr = '':'' @ port, hs_Handler = engine, hs_ReadHeaderTimeout = 5 * Second\<rparr>"

section \<open>Providers with their clean-up\<close>

definition ProvideConfig :: "(environ \<Rightarrow> environ) \<Rightarrow> environ \<Rightarrow> Config boot" where
  "ProvideConfig dotenv e = (case fst (MustLoad dotenv e) of Inl err \<Rightarrow> fail (Exits err) | Inr cfg \<Rightarrow> ok cfg)"

definition ProvideLogger :: "libs \<Rightarrow> Config \<Rightarrow> (unit boot) boot" where
  "ProvideLogger L cfg = andThen (logger_New L (cfg_Logger cfg)) (\<lambda>_. ok (note_event (Closed LoggerRes)))"

definition ProvideDBPool :: "libs \<Rightarrow> Config \<Rightarrow> (unit boot) boot" where
  "ProvideDBPool L cfg = andThen (NewPool L (cfg_DB cfg)) (\<lambda>_. ok (note_event (Closed PoolRes)))"

definition ProvideRedis :: "libs \<Rightarrow> Config \<Rightarrow> (unit boot) boot" where
  "ProvideRedis L cfg = andThen (NewRedisClient L (cfg_Redis cfg)) (\<lambda>_. ok (note_event (Closed RedisRes)))"

definition ProvideHTTPServer :: "Config \<Rightarrow> handler \<Rightarrow> httpServer" where
  "ProvideHTTPServer cfg engine = NewServer engine (app_Port (cfg_App cfg))"

record APIApp =
  aa_server :: httpServer
  aa_shutdownTimeout :: duration

definition ProvideAPIApp :: "httpServer \<Rightarrow> duration \<Rightarrow> APIApp" where
  "ProvideAPIApp server shutdownTimeout = \<lparr>aa_server = server, aa_shutdownTimeout = shutdownTimeout\<rparr>"

text \<open>
  \<^verbatim>\<open>wire_gen.go\<close>: the providers in the order of the generated code; each error runs the clean-ups
  gathered so far, the last first. The clean-up it returns is handed to \<^verbatim>\<open>main\<close>.
\<close>

definition InitializeAPIApp :: "env \<Rightarrow> gin \<Rightarrow> libs \<Rightarrow> (environ \<Rightarrow> environ) \<Rightarrow> environ \<Rightarrow> (APIApp \<times> unit boot) boot" where
  "InitializeAPIApp E G L dotenv e =
     andThen (ProvideConfig dotenv e) (\<lambda>cfg.
     andThen (ProvideLogger L cfg) (\<lambda>cleanup.
     andThen (attempt (ProvideDBPool L cfg)) (\<lambda>pool.
     case pool of
       Inl err \<Rightarrow> andThen cleanup (\<lambda>_. fail err)
     | Inr cleanup2 \<Rightarrow>
        andThen (attempt (ProvideRedis L cfg)) (\<lambda>client.
        case client of
          Inl err \<Rightarrow> andThen cleanup2 (\<lambda>_. andThen cleanup (\<lambda>_. fail err))
        | Inr cleanup3 \<Rightarrow>
           (let engine = ProvideGinEngine E G (InitializeAPI E cfg);
                server = ProvideHTTPServer cfg engine
            in ok (ProvideAPIApp server (ProvideShutdownTimeout cfg),
                   andThen cleanup3 (\<lambda>_. andThen cleanup2 (\<lambda>_. cleanup))))))))"

section \<open>app.go and the main functions\<close>

definition APIApp_Run :: "libs \<Rightarrow> APIApp \<Rightarrow> gerror option" where
  "APIApp_Run L a = (case lib_serve L (hs_Addr (aa_server a)) of
     None \<Rightarrow> None
   | Some err \<Rightarrow> if errorsIs err ErrServerClosed then None else Some err)"

definition APIApp_Shutdown :: "libs \<Rightarrow> APIApp \<Rightarrow> gerror option" where
  "APIApp_Shutdown L a = lib_shutdown L (aa_shutdownTimeout a)"

datatype exit = ExitOk string | ExitFatal string

text \<open>
  \<^verbatim>\<open>log.Fatalf\<close> ends the process at once: deferred calls do not run. A server that stopped by itself
  with \<^verbatim>\<open>ErrServerClosed\<close> leaves \<^verbatim>\<open>main\<close> waiting for the signal.
\<close>

definition api_main :: "env \<Rightarrow> gin \<Rightarrow> libs \<Rightarrow> (environ \<Rightarrow> environ) \<Rightarrow> environ \<Rightarrow> exit \<times> bootEvent list" where
  "api_main E G L dotenv e =
     (case InitializeAPIApp E G L dotenv e [] of
        (Inl (Exits (Fatal msg)), evs) \<Rightarrow> (ExitFatal msg, evs)
      | (Inl (Exits (Panic msg)), evs) \<Rightarrow> (ExitFatal msg, evs)
      | (Inl (Fails err), evs) \<Rightarrow> (ExitFatal (''failed to initialize api app: '' @ errorText err), evs)
      | (Inr (app, cleanup), evs) \<Rightarrow>
         (case APIApp_Run L app of
            Some err \<Rightarrow> (ExitFatal (''api app stopped with error: '' @ errorText err), evs)
          | None \<Rightarrow>
             (case APIApp_Shutdown L app of
                Some err \<Rightarrow> (ExitFatal (''failed to shutdown api app: '' @ errorText err), evs)
              | None \<Rightarrow> (ExitOk '''', snd (cleanup evs)))))"

text \<open>
  \<^verbatim>\<open>worker.go\<close> and \<^verbatim>\<open>scheduler.go\<close>: the applications run what they are given. Nothing builds them, and the
  bodies of their main functions are commented out.
\<close>

record WorkerApp =
  wka_runner :: "ctx \<Rightarrow> unit io"
  wka_shutdownTimeout :: duration

definition NewWorkerApp :: "(ctx \<Rightarrow> unit io) \<Rightarrow> duration \<Rightarrow> WorkerApp" where
  "NewWorkerApp runner shutdownTimeout = \<lparr>wka_runner = runner, wka_shutdownTimeout = shutdownTimeout\<rparr>"

definition WorkerApp_Run :: "WorkerApp \<Rightarrow> ctx \<Rightarrow> unit io" where
  "WorkerApp_Run a c = wka_runner a c"

record SchedulerApp =
  sca_runner :: "ctx \<Rightarrow> unit io"
  sca_shutdownTimeout :: duration

definition NewSchedulerApp :: "(ctx \<Rightarrow> unit io) \<Rightarrow> duration \<Rightarrow> SchedulerApp" where
  "NewSchedulerApp runner shutdownTimeout = \<lparr>sca_runner = runner, sca_shutdownTimeout = shutdownTimeout\<rparr>"

definition SchedulerApp_Run :: "SchedulerApp \<Rightarrow> ctx \<Rightarrow> unit io" where
  "SchedulerApp_Run a c = sca_runner a c"

definition migrate_main :: "libs \<Rightarrow> (environ \<Rightarrow> environ) \<Rightarrow> environ \<Rightarrow> string list \<Rightarrow> exit" where
  "migrate_main L dotenv e args =
     (case args of
        [] \<Rightarrow> ExitFatal ''usage: migrate [up|down|version]''
      | cmd # _ \<Rightarrow>
         (case fst (MustLoad dotenv e) of
            Inl (Fatal msg) \<Rightarrow> ExitFatal msg
          | Inl (Panic msg) \<Rightarrow> ExitFatal msg
          | Inr cfg \<Rightarrow>
             (case lib_newMigrate L (''file://'' @ dbc_MigrationDir (cfg_DB cfg)) (DSN (cfg_DB cfg)) of
                Some err \<Rightarrow> ExitFatal (errorText err)
              | None \<Rightarrow>
                 (let done = (\<lambda>r. case r of
                        Some err \<Rightarrow> if err \<noteq> ErrNoChange then ExitFatal (errorText err) else ExitOk ''''
                      | None \<Rightarrow> ExitOk '''')
                  in if cmd = ''up'' then done (lib_up L)
                     else if cmd = ''down'' then done (lib_steps L (- 1))
                     else if cmd = ''version'' then
                       (case lib_version L of
                          Inl err \<Rightarrow> ExitFatal (errorText err)
                        | Inr (v, dirty) \<Rightarrow> ExitOk (''version='' @ FormatInt v @ '' dirty='' @ (if dirty then ''true'' else ''false'') @ [CHR 0x0A]))
                     else ExitFatal (''unknown command: '' @ cmd)))))"

section \<open>What start-up leaves open\<close>

lemmas boot_defs = ProvideConfig_def ProvideLogger_def ProvideDBPool_def ProvideRedis_def logger_New_def NewPool_def
  NewRedisClient_def check_def note_event_def andThen_def attempt_def ok_def fail_def Let_def

lemma ProvideConfig_run:
  "(\<exists>err. ProvideConfig dotenv e evs = (Inl (Exits err), evs)) \<or> (\<exists>cfg. ProvideConfig dotenv e evs = (Inr cfg, evs))"
  by (cases "fst (MustLoad dotenv e)") (simp_all add: boot_defs)

lemma ProvideLogger_run:
  "(\<exists>err. ProvideLogger L cfg evs = (Inl err, evs))
    \<or> ProvideLogger L cfg evs = (Inr (note_event (Closed LoggerRes)), evs @ [Opened LoggerRes])"
  unfolding boot_defs by (simp split: option.split)

lemma ProvideDBPool_run:
  "(\<exists>err. ProvideDBPool L cfg evs = (Inl err, evs)) \<or> (\<exists>err. ProvideDBPool L cfg evs = (Inl err, evs @ [Opened PoolRes, Closed PoolRes]))
    \<or> ProvideDBPool L cfg evs = (Inr (note_event (Closed PoolRes)), evs @ [Opened PoolRes])"
  unfolding boot_defs by (simp split: option.split sum.split)

lemma ProvideRedis_run:
  "(\<exists>err. ProvideRedis L cfg evs = (Inl err, evs @ [Opened RedisRes]))
    \<or> ProvideRedis L cfg evs = (Inr (note_event (Closed RedisRes)), evs @ [Opened RedisRes])"
  unfolding boot_defs by (simp split: option.split)

text \<open>
  Wherever start-up fails, what it opened was closed again, except a Redis client that does not
  answer; when it succeeds, the clean-up closes all three, the last first.
\<close>

lemma startup_events:
  "case InitializeAPIApp E G L dotenv e evs of
     (Inl err, evs') \<Rightarrow> \<exists>new. evs' = evs @ new \<and>
       new \<in> {[], [Opened LoggerRes, Closed LoggerRes], [Opened LoggerRes, Opened PoolRes, Closed PoolRes, Closed LoggerRes],
         [Opened LoggerRes, Opened PoolRes, Opened RedisRes, Closed PoolRes, Closed LoggerRes]}
   | (Inr (app, cleanup), evs') \<Rightarrow> evs' = evs @ [Opened LoggerRes, Opened PoolRes, Opened RedisRes]
       \<and> (\<forall>later. cleanup later = (Inr (), later @ [Closed RedisRes, Closed PoolRes, Closed LoggerRes]))"
proof -
  consider err where "ProvideConfig dotenv e evs = (Inl err, evs)" | cfg where "ProvideConfig dotenv e evs = (Inr cfg, evs)"
    using ProvideConfig_run by blast
  then show ?thesis
  proof cases
    case 1
    then show ?thesis by (simp add: InitializeAPIApp_def andThen_def)
  next
    case (2 cfg)
    note init = InitializeAPIApp_def andThen_def attempt_def fail_def ok_def note_event_def Let_def 2
    consider err where "ProvideLogger L cfg evs = (Inl err, evs)"
      | "ProvideLogger L cfg evs = (Inr (note_event (Closed LoggerRes)), evs @ [Opened LoggerRes])"
      using ProvideLogger_run by blast
    then show ?thesis
    proof cases
      case 1
      then show ?thesis by (simp add: init)
    next
      case log: 2
      let ?e1 = "evs @ [Opened LoggerRes]" and ?e2 = "evs @ [Opened LoggerRes, Opened PoolRes]"
      show ?thesis using ProvideDBPool_run [of L cfg ?e1] ProvideRedis_run [of L cfg ?e2]
        by (elim disjE exE) (simp_all add: init log)
    qed
  qed
qed

text \<open>
  C32: what a run of the API process leaves open, whatever the libraries answer. A run that ends well
  closed the Redis client, the pool and the logger, in that order. A start-up that fails closed what
  it had opened, the last first, except the Redis client whose first ping failed; a server that
  fails, or a shutdown that fails, leaves all three open, because \<^verbatim>\<open>log.Fatalf\<close> skips the deferred
  clean-up.
\<close>

theorem api_process_releases:
  "case api_main E G L dotenv e of
     (ExitOk out, evs) \<Rightarrow> evs = [Opened LoggerRes, Opened PoolRes, Opened RedisRes, Closed RedisRes, Closed PoolRes, Closed LoggerRes]
   | (ExitFatal msg, evs) \<Rightarrow>
       (case InitializeAPIApp E G L dotenv e [] of
          (Inr (app, cleanup), _) \<Rightarrow> evs = [Opened LoggerRes, Opened PoolRes, Opened RedisRes]
            \<and> (APIApp_Run L app, APIApp_Shutdown L app) \<noteq> (None, None)
        | (Inl err, _) \<Rightarrow> evs \<in> {[], [Opened LoggerRes, Closed LoggerRes],
            [Opened LoggerRes, Opened PoolRes, Closed PoolRes, Closed LoggerRes],
            [Opened LoggerRes, Opened PoolRes, Opened RedisRes, Closed PoolRes, Closed LoggerRes]})"
  using startup_events [where E = E and G = G and L = L and dotenv = dotenv and e = e and evs = "[]"]
  by (auto simp: api_main_def split: prod.splits sum.splits bootError.splits startupError.splits option.splits)

text \<open>Migrating a schema that is up to date is not an error.\<close>

lemma migrate_up_to_date:
  assumes "fst (MustLoad dotenv e) = Inr cfg" and "lib_newMigrate L (''file://'' @ dbc_MigrationDir (cfg_DB cfg)) (DSN (cfg_DB cfg)) = None"
    and "lib_up L = Some ErrNoChange"
  shows "migrate_main L dotenv e (''up'' # args) = ExitOk ''''"
  using assms by (simp add: migrate_main_def)

section \<open>observability/health.go\<close>

text \<open>
  The handler has a client or \<^verbatim>\<open>nil\<close>, and a configuration or \<^verbatim>\<open>nil\<close>. \<open>dial\<close> is \<^verbatim>\<open>kafka.Dial\<close> followed by
  \<^verbatim>\<open>conn.Brokers\<close> on the connection.
\<close>

record HealthHandler =
  hh_redisClient :: bool
  hh_cfg :: "Config option"

definition HealthHandler_Health :: "gin \<Rightarrow> handler" where
  "HealthHandler_Health G gc w = (writeJSON G 200 (JObj [(''status'', JStr ''ok'')]) gc, w)"

definition healthError :: "gin \<Rightarrow> int \<Rightarrow> string \<Rightarrow> ginCtx \<Rightarrow> ginCtx" where
  "healthError G code message = writeJSON G code (JObj [(''message'', JStr message), (''status'', JStr ''error'')])"

definition HealthHandler_HealthRedis :: "env \<Rightarrow> gin \<Rightarrow> HealthHandler \<Rightarrow> handler" where
  "HealthHandler_HealthRedis E G h gc w =
     (if \<not> hh_redisClient h then (healthError G 500 ''redis client not initialized'' gc, w)
      else (case redisErr E PING w of
         (Inl err, w1) \<Rightarrow> (healthError G 503 (errorText err) gc, w1)
       | (Inr _, w1) \<Rightarrow> (writeJSON G 200 (JObj [(''message'', JStr ''redis is up''), (''status'', JStr ''ok'')]) gc, w1)))"

definition HealthHandler_HealthKafka :: "gin \<Rightarrow> (string \<Rightarrow> gerror + gerror option) \<Rightarrow> HealthHandler \<Rightarrow> handler" where
  "HealthHandler_HealthKafka G dial h gc w =
     (case hh_cfg h of
        None \<Rightarrow> (healthError G 500 ''kafka brokers not configured'' gc, w)
      | Some cfg \<Rightarrow>
         (case kec_Brokers (cfg_Kafka cfg) of
            [] \<Rightarrow> (healthError G 500 ''kafka brokers not configured'' gc, w)
          | broker # _ \<Rightarrow>
             (case dial broker of
                Inl err \<Rightarrow> (healthError G 503 (errorText err) gc, w)
              | Inr (Some err) \<Rightarrow> (healthError G 503 (errorText err) gc, w)
              | Inr None \<Rightarrow> (writeJSON G 200 (JObj [(''message'', JStr ''kafka is up''), (''status'', JStr ''ok'')]) gc, w))))"

definition HealthHandler_RegisterRoutes :: "env \<Rightarrow> gin \<Rightarrow> (string \<Rightarrow> gerror + gerror option) \<Rightarrow> HealthHandler \<Rightarrow> route list" where
  "HealthHandler_RegisterRoutes E G dial h =
     [\<lparr>rt_Method = ''GET'', rt_Path = ''/health'', rt_Handler = HealthHandler_Health G\<rparr>,
      \<lparr>rt_Method = ''GET'', rt_Path = ''/health/redis'', rt_Handler = HealthHandler_HealthRedis E G h\<rparr>,
      \<lparr>rt_Method = ''GET'', rt_Path = ''/health/kafka'', rt_Handler = HealthHandler_HealthKafka G dial h\<rparr>]"

definition ProvideHealthHandler :: "Config \<Rightarrow> HealthHandler" where
  "ProvideHealthHandler cfg = \<lparr>hh_redisClient = True, hh_cfg = Some cfg\<rparr>"

text \<open>Nothing mounts the health handler: the engine answers its paths as it answers unknown ones.\<close>

lemma health_not_served:
  assumes "r \<in> set (HealthHandler_RegisterRoutes E G dial h)" and "rq_Method req = rt_Method r" and "rq_FullPath req = rt_Path r"
  shows "routeHandler E G a req gc w = (gc\<lparr>gc_Writer := gin_NoRoute G (gc_Writer gc)\<rparr>, w)"
proof (cases rule: routeHandler_cases [of E G a req])
  case none
  then show ?thesis by simp
next
  case (some r')
  then have "rt_Path r' = rt_Path r" using assms(3) by simp
  then show ?thesis using assms(1) some(1)
    unfolding identityRoutes_def RegisterRoutes_def HealthHandler_RegisterRoutes_def Let_def by auto
qed

text \<open>With the configuration start-up requires, the Kafka check never reports missing brokers.\<close>

lemma health_status:
  "hr_Status (gc_Writer (fst (HealthHandler_HealthRedis E G (ProvideHealthHandler cfg) gc w))) \<in> {200, 503}"
  "kec_Brokers (cfg_Kafka cfg) \<noteq> [] \<Longrightarrow>
     hr_Status (gc_Writer (fst (HealthHandler_HealthKafka G dial (ProvideHealthHandler cfg) gc w))) \<in> {200, 503}"
  by (auto simp: HealthHandler_HealthRedis_def HealthHandler_HealthKafka_def ProvideHealthHandler_def healthError_def
      writeJSON_def writeData_def Let_def split: prod.splits sum.splits option.splits list.splits)

end
