(* ===== verification/Kafka_Lifecycle.thy ===== *)
theory Kafka_Lifecycle
  imports Kafka
begin

text \<open>
  The readers of a consumer group (\<^verbatim>\<open>internal/platform/kafka/consumer.go\<close>): \<^verbatim>\<open>Register\<close> opens one per topic
  and starts its loop, \<^verbatim>\<open>Close\<close> cancels the loops, waits for them and closes the readers it knows. What
  a loop does with its messages is \<open>consume\<close> of theory \<open>Kafka\<close>. The writer a producer opens and closes
  (\<^verbatim>\<open>producer.go\<close>).
\<close>

record ReaderConfig =
  rdc_Brokers :: "string list"
  rdc_GroupID :: string
  rdc_Topic :: string
  rdc_MinBytes :: int
  rdc_MaxBytes :: int
  rdc_MaxWait :: duration
  rdc_LastOffset :: bool
  rdc_CommitInterval :: duration

text \<open>
  Readers are numbered in the order they are opened. \<open>cgs_readers\<close> is the map from topics to readers,
  \<open>cgs_running\<close> the loops the wait group counts.
\<close>

record ConsumerGroupState =
  cgs_readers :: "string \<rightharpoonup> nat"
  cgs_opened :: "ReaderConfig list"
  cgs_running :: "nat list"
  cgs_cancelled :: bool
  cgs_closed :: "nat list"

definition emptyGroup :: ConsumerGroupState where
  "emptyGroup = \<lparr>cgs_readers = Map.empty, cgs_opened = [], cgs_running = [], cgs_cancelled = False, cgs_closed = []\<rparr>"

definition readerConfig :: "KafkaConfig \<Rightarrow> string \<Rightarrow> ReaderConfig" where
  "readerConfig cfg topic =
     \<lparr>rdc_Brokers = kc_Brokers cfg, rdc_GroupID = kc_ConsumerGroupID cfg, rdc_Topic = topic, rdc_MinBytes = 1,
      rdc_MaxBytes = 10000000, rdc_MaxWait = kc_ConsumerReadTimeout cfg, rdc_LastOffset = True, rdc_CommitInterval = 0\<rparr>"

definition registerTopic :: "KafkaConfig \<Rightarrow> string \<Rightarrow> ConsumerGroupState \<Rightarrow> ConsumerGroupState" where
  "registerTopic cfg topic s =
     (let reader = length (cgs_opened s)
      in s\<lparr>cgs_opened := cgs_opened s @ [readerConfig cfg topic],
           cgs_readers := (cgs_readers s)(topic \<mapsto> reader),
           cgs_running := cgs_running s @ [reader]\<rparr>)"

definition registerReaders :: "KafkaConfig \<Rightarrow> Handler \<Rightarrow> ConsumerGroupState \<Rightarrow> ConsumerGroupState" where
  "registerReaders cfg handler = fold (registerTopic cfg) (h_Topics handler)"

text \<open>
  A cancelled context makes every loop return, after the message it is at; \<^verbatim>\<open>Wait\<close> returns when none is
  left. \<open>topics\<close> is the order in which Go ranges over the map, \<open>closeErr\<close> what closing a reader gives.
\<close>

definition closeReader :: "(nat \<Rightarrow> gerror option) \<Rightarrow> string \<Rightarrow> gerror list \<times> ConsumerGroupState \<Rightarrow> gerror list \<times> ConsumerGroupState" where
  "closeReader closeErr topic p =
     (case p of (errs, s) \<Rightarrow>
      (case cgs_readers s topic of
         None \<Rightarrow> (errs, s)
       | Some reader \<Rightarrow>
          ((case closeErr reader of
              None \<Rightarrow> errs
            | Some err \<Rightarrow> errs @ [Wrapf (''close reader ['' @ topic @ '']: '') err '''']),
           s\<lparr>cgs_closed := cgs_closed s @ [reader]\<rparr>)))"

fun spaced :: "string list \<Rightarrow> string" where
  "spaced [] = ''''"
| "spaced [x] = x"
| "spaced (x # xs) = x @ '' '' @ spaced xs"

definition ConsumerGroup_Close :: "(nat \<Rightarrow> gerror option) \<Rightarrow> string list \<Rightarrow> ConsumerGroupState \<Rightarrow> gerror option \<times> ConsumerGroupState" where
  "ConsumerGroup_Close closeErr topics s =
     (let s1 = s\<lparr>cgs_cancelled := True\<rparr>;
          s2 = s1\<lparr>cgs_running := []\<rparr>;
          (errs, s3) = fold (closeReader closeErr) topics ([], s2)
      in (if errs \<noteq> []
          then Some (External (''consumer group close errors: ['' @ spaced (map errorText errs) @ '']'')) else None, s3))"

section \<open>producer.go: the writer\<close>

record WriterConfig =
  wrc_Addr :: "string list"
  wrc_HashBalancer :: bool
  wrc_RequiredAcks :: int
  wrc_MaxAttempts :: int
  wrc_WriteTimeout :: duration
  wrc_BatchBytes :: int
  wrc_BatchTimeout :: duration
  wrc_AllowAutoTopicCreation :: bool
  wrc_Async :: bool

record Producer =
  prd_writer :: WriterConfig
  prd_closed :: bool

definition NewProducer :: "KafkaConfig \<Rightarrow> Producer" where
  "NewProducer cfg =
     \<lparr>prd_writer = \<lparr>wrc_Addr = kc_Brokers cfg, wrc_HashBalancer = True, wrc_RequiredAcks = kc_ProducerRequiredAcks cfg,
        wrc_MaxAttempts = kc_ProducerMaxRetries cfg, wrc_WriteTimeout = kc_ProducerWriteTimeout cfg,
        wrc_BatchBytes = kc_ProducerBatchSize cfg, wrc_BatchTimeout = kc_ProducerLingerMs cfg,
        wrc_AllowAutoTopicCreation = False, wrc_Async = False\<rparr>,
      prd_closed = False\<rparr>"

definition ProvideProducer :: "KafkaConfig \<Rightarrow> Producer" where
  "ProvideProducer cfg = NewProducer cfg"

text \<open>\<open>closeErr\<close> is what closing the writer gives.\<close>

definition Producer_Close :: "gerror option \<Rightarrow> Producer \<Rightarrow> gerror option \<times> Producer" where
  "Producer_Close closeErr p = (closeErr, p\<lparr>prd_closed := True\<rparr>)"

text \<open>
  The writer and the readers depend on these settings only: what \<^verbatim>\<open>config.go\<close> says of an idempotent
  producer, of a backoff between writes, of the offset a new group starts at, of TLS and of SASL has
  no effect, and readers of a new group start at the newest message.
\<close>

lemma unused_kafka_settings:
  assumes "kc_Brokers cfg = kc_Brokers cfg'" "kc_ProducerMaxRetries cfg = kc_ProducerMaxRetries cfg'"
    "kc_ProducerWriteTimeout cfg = kc_ProducerWriteTimeout cfg'" "kc_ProducerRequiredAcks cfg = kc_ProducerRequiredAcks cfg'"
    "kc_ProducerBatchSize cfg = kc_ProducerBatchSize cfg'" "kc_ProducerLingerMs cfg = kc_ProducerLingerMs cfg'"
    "kc_ConsumerGroupID cfg = kc_ConsumerGroupID cfg'" "kc_ConsumerReadTimeout cfg = kc_ConsumerReadTimeout cfg'"
  shows "NewProducer cfg = NewProducer cfg'" "readerConfig cfg = readerConfig cfg'" "rdc_LastOffset (readerConfig cfg topic)"
  using assms by (simp_all add: NewProducer_def readerConfig_def [abs_def])

section \<open>What is closed\<close>

definition reachedBy :: "KafkaConfig \<Rightarrow> Handler list \<Rightarrow> ConsumerGroupState" where
  "reachedBy cfg hs = fold (registerReaders cfg) hs emptyGroup"

text \<open>The readers the group knows: for each topic the last one opened for it.\<close>

definition readersOK :: "ConsumerGroupState \<Rightarrow> bool" where
  "readersOK s \<longleftrightarrow> cgs_running s = [0..<length (cgs_opened s)] \<and>
     (\<forall>t n. cgs_readers s t = Some n \<longleftrightarrow> n < length (cgs_opened s) \<and> rdc_Topic (cgs_opened s ! n) = t
        \<and> (\<forall>m. n < m \<longrightarrow> m < length (cgs_opened s) \<longrightarrow> rdc_Topic (cgs_opened s ! m) \<noteq> t))"

lemma readersOK_registerTopic: "readersOK s \<Longrightarrow> readersOK (registerTopic cfg topic s)"
  unfolding readersOK_def registerTopic_def Let_def
  by (auto simp: nth_append readerConfig_def less_Suc_eq split: if_splits)

lemma readersOK_register: "readersOK s \<Longrightarrow> readersOK (registerReaders cfg handler s)"
proof -
  have "readersOK s \<Longrightarrow> readersOK (fold (registerTopic cfg) ts s)" for ts
    by (induction ts arbitrary: s) (auto simp: readersOK_registerTopic)
  then show "readersOK s \<Longrightarrow> readersOK (registerReaders cfg handler s)" by (simp add: registerReaders_def)
qed

lemma readersOK_reached: "readersOK (reachedBy cfg hs)"
proof -
  have "readersOK s \<Longrightarrow> readersOK (fold (registerReaders cfg) hs s)" for s
    by (induction hs arbitrary: s) (auto simp: readersOK_register)
  moreover have "readersOK emptyGroup" by (simp add: readersOK_def emptyGroup_def)
  ultimately show ?thesis by (simp add: reachedBy_def)
qed

lemma opened_register:
  "map rdc_Topic (cgs_opened (registerReaders cfg handler s)) = map rdc_Topic (cgs_opened s) @ h_Topics handler"
proof -
  have "map rdc_Topic (cgs_opened (fold (registerTopic cfg) ts s)) = map rdc_Topic (cgs_opened s) @ ts" for ts
    by (induction ts arbitrary: s) (auto simp: registerTopic_def readerConfig_def Let_def)
  then show ?thesis by (simp add: registerReaders_def)
qed

lemma opened_topics: "map rdc_Topic (cgs_opened (reachedBy cfg hs)) = concat (map h_Topics hs)"
proof -
  have "map rdc_Topic (cgs_opened (fold (registerReaders cfg) hs s)) = map rdc_Topic (cgs_opened s) @ concat (map h_Topics hs)" for s
    by (induction hs arbitrary: s) (simp_all add: opened_register)
  then show ?thesis by (simp add: reachedBy_def emptyGroup_def)
qed

lemma closeReader_cases:
  obtains "closeReader closeErr t (errs, s) = (errs, s)" "cgs_readers s t = None"
  | errs' n where "closeReader closeErr t (errs, s) = (errs', s\<lparr>cgs_closed := cgs_closed s @ [n]\<rparr>)" "cgs_readers s t = Some n"
  by (cases "cgs_readers s t") (auto simp: closeReader_def)

lemma closeReader_fold:
  "cgs_closed (snd (fold (closeReader closeErr) topics (errs, s))) = cgs_closed s @ List.map_filter (cgs_readers s) topics
   \<and> cgs_running (snd (fold (closeReader closeErr) topics (errs, s))) = cgs_running s
   \<and> cgs_opened (snd (fold (closeReader closeErr) topics (errs, s))) = cgs_opened s"
proof (induction topics arbitrary: errs s)
  case (Cons t ts)
  show ?case
    by (rule closeReader_cases [of closeErr t errs s]) (simp_all add: Cons.IH map_filter_simps)
qed (simp add: map_filter_simps)

text \<open>
  After \<open>Close\<close> no loop runs, and the readers closed are, for each topic, the last one opened for it:
  a reader whose topic was registered again later stays open.
\<close>

theorem close_leaves_replaced_readers:
  assumes "s = reachedBy cfg hs" and "set topics = dom (cgs_readers s)" and "ConsumerGroup_Close closeErr topics s = (r, s')"
  shows "cgs_running s' = [] \<and> set (cgs_closed s') = {n. n < length (cgs_opened s)
    \<and> (\<forall>m. n < m \<longrightarrow> m < length (cgs_opened s) \<longrightarrow> rdc_Topic (cgs_opened s ! m) \<noteq> rdc_Topic (cgs_opened s ! n))}"
proof -
  let ?s2 = "s\<lparr>cgs_cancelled := True, cgs_running := []\<rparr>"
  have ok: "readersOK s" using assms(1) readersOK_reached by simp
  have new: "cgs_closed s = []"
  proof -
    have "cgs_closed (fold (registerTopic cfg) ts s0) = cgs_closed s0" for ts s0
      by (induction ts arbitrary: s0) (auto simp: registerTopic_def Let_def)
    then have "cgs_closed (fold (registerReaders cfg) hs s0) = cgs_closed s0" for s0
      by (induction hs arbitrary: s0) (auto simp: registerReaders_def)
    then show ?thesis by (simp add: assms(1) reachedBy_def emptyGroup_def)
  qed
  have s': "s' = snd (fold (closeReader closeErr) topics ([], ?s2))"
    using assms(3) by (auto simp: ConsumerGroup_Close_def Let_def split: prod.splits)
  have "cgs_running s' = []" and closed: "cgs_closed s' = List.map_filter (cgs_readers s) topics"
    using closeReader_fold [of closeErr topics "[]" ?s2] new unfolding s' by simp_all
  moreover have "set (List.map_filter (cgs_readers s) topics) = {n. \<exists>t. cgs_readers s t = Some n}"
    using assms(2) by (force simp: map_filter_def dom_def)
  ultimately show ?thesis using ok unfolding readersOK_def by auto
qed

text \<open>When no topic is registered twice, everything is closed.\<close>

corollary close_closes_all:
  assumes "s = reachedBy cfg hs" and "set topics = dom (cgs_readers s)" and "ConsumerGroup_Close closeErr topics s = (r, s')"
    and "distinct (concat (map h_Topics hs))"
  shows "set (cgs_closed s') = {..<length (cgs_opened s)}"
proof -
  have "distinct (map rdc_Topic (cgs_opened s))" using assms(4) by (simp add: assms(1) opened_topics)
  then have "rdc_Topic (cgs_opened s ! m) \<noteq> rdc_Topic (cgs_opened s ! n)" if "n < m" "m < length (cgs_opened s)" for m n
    using that by (simp add: distinct_conv_nth)
  then show ?thesis using close_leaves_replaced_readers [OF assms(1-3)] by auto
qed

end
