(* ===== verification/Spec2Isabelle.thy ===== *)
theory Spec2Isabelle
  imports Witnesses Bootstrap Kafka_Lifecycle
begin

text \<open>
  Verification of the bookstore backend (Go): the identity module, the platform packages it stands
  on, and the process that serves it. The other modules of the repository hold package clauses only.

  \<^bold>\<open>The program.\<close> A request passes the middlewares of the gin engine (\<^verbatim>\<open>internal/platform/httpx\<close>:
  request identifier, logger, CORS, rate limit), then those of its route (access token, blacklist,
  idempotency) and reaches a handler of \<^verbatim>\<open>internal/modules/identity/http\<close>. Handlers call the services of \<^verbatim>\<open>internal/modules/identity/app/service\<close>. The
  services use repositories over PostgreSQL (\<^verbatim>\<open>infra/postgres\<close>), adapters over Redis and the outbox
  (\<^verbatim>\<open>infra/adapters\<close>), the token manager (\<^verbatim>\<open>internal/platform/auth\<close>) and the transaction manager
  (\<^verbatim>\<open>internal/platform/tx\<close>). Events are recorded in the outbox table inside the business transaction
  and published to Kafka by a dispatcher; consumers handle them with retries, dead letters and the
  processed-event table. Requests are made idempotent by records in Redis.

  \<^bold>\<open>Shape of the model.\<close> A Go call that may fail and act on the world is a function
  \<open>world \<Rightarrow> (error + value) \<times> world\<close> (theory \<open>Prelude\<close>: \<open>andThen\<close> is \<^verbatim>\<open>if err != nil { return err }\<close>,
  \<open>attempt\<close> looks at the error, \<open>mapErr\<close> replaces it). The world (theory \<open>World\<close>) is the committed
  database, the view of the open transaction, the Redis keyspace, the Kafka log, the started
  goroutines and a counter of external interactions. What is not in the repository is a field of the
  record \<open>env\<close> (theory \<open>Env\<close>): the clock, random bytes, UUIDs, SHA-256, bcrypt, JWT signatures, the
  answers of Redis, the failures of PostgreSQL, Kafka writes; the documented behaviour of each is a
  named predicate (\<open>redis_documented\<close>, \<open>redis_up\<close>, \<open>pg_up\<close>, \<open>clock_monotonic\<close>, \<open>jwt_documented\<close> ...),
  and \<open>Samples\<close> has an environment in which they hold.

  \<^bold>\<open>Theories.\<close>
  \<^item> \<open>Prelude\<close>, \<open>Go_Std\<close>, \<open>Env\<close>, \<open>World\<close>: programs, Hoare triples and preservation rules, tables as lists of
    rows; strings, UTF-8 runes, integers, times, JSON values; errors and environment; state.
  \<^item> \<open>Domain\<close>: value objects, entities, policies (\<^verbatim>\<open>domain/*\<close>).
  \<^item> \<open>Tx\<close>: \<open>WithinTransaction\<close> (\<^verbatim>\<open>tx.go\<close>); the locale \<open>tx_manager\<close> states atomicity and what follows from
    it once; the manager of the source interprets it as \<open>tm\<close>.
  \<^item> \<open>Schema\<close>: the constraints of the migrations as the invariant \<open>db_ok\<close>. \<open>Identity_Postgres\<close>: every SQL
    statement as a function on tables and every repository method. \<open>Identity_Postgres_Inv\<close>: each of them
    keeps \<open>db_ok\<close> and stays inside its transaction.
  \<^item> \<open>Kafka\<close>: envelopes, headers, producer, middlewares, retry, consumer loop, dead letters. \<open>Outbox\<close>:
    recorder, repository, publisher, dispatcher.
  \<^item> \<open>Idempotency\<close>: keys, records, Redis store (locale \<open>idempotency_store\<close>, interpreted as \<open>redis_store\<close>),
    processed events, service. \<open>Redis_Platform\<close>: keys, cache, lock, quota, rate limiter.
  \<^item> \<open>Auth_Platform\<close>: access and refresh tokens, password hashes. \<open>Identity_Adapters\<close>: tokens and session
    cache in Redis (locales \<open>single_use_tokens\<close> and \<open>session_cache\<close>, interpreted on the adapter), events.
  \<^item> \<open>Auth_Service\<close>: the methods of the authentication service. \<open>Identity_Runs\<close>: what runs of repositories
    and adapters do. \<open>Auth_Registration\<close>, \<open>Auth_Login\<close>, \<open>Auth_Sessions\<close>, \<open>Auth_Passwords\<close>: properties of its
    methods. \<open>Refresh_Concurrency\<close>: refresh requests interleaved statement by statement under row locks, as
    a step relation with its invariant, of which a call that runs alone is a run.
    \<open>Address_Service\<close>, \<open>Profile_Service\<close>: the other services with their properties.
  \<^item> \<open>Row_Scan\<close>: the select lists and the scans by position of \<^verbatim>\<open>scan.go\<close>. \<open>Kafka_Lifecycle\<close>: the readers a
    consumer group opens and closes.
  \<^item> \<open>Identity_System\<close>: the services, background jobs, dispatcher, consumers and Redis as one step relation,
    its reachable states and their invariants. \<open>Account_Lifecycle\<close>: the status of accounts against
    the state machine of the domain.
  \<^item> \<open>Config\<close>: the loaders of \<^verbatim>\<open>internal/platform/config\<close> over the environment of the process. \<open>Httpx\<close>:
    requests, responses, the gin context, the global middlewares and the idempotency middleware; a
    middleware takes the rest of the chain as an argument, and aborting is not calling it.
    \<open>Identity_Http\<close>: authentication middlewares, request structs with their validation rules, handlers,
    routes and the engine; \<open>ServeHTTP\<close> is one exchange.
  \<^item> \<open>Http_Safety\<close>: what middlewares pass on and what handlers ask of the services; the locales
    \<open>redis_traffic\<close> and \<open>web_invariant\<close> carry an invariant of the services through a whole exchange and are
    interpreted on the steps of \<open>Identity_System\<close>. \<open>Http_Replay\<close>: retries through the idempotency middleware. \<open>Login_Journey\<close>: what
    the access token of a login stands for in the requests made with it.
  \<^item> \<open>Bootstrap\<close>: the clients the process opens, the generated initialisation with its clean-ups, \<^verbatim>\<open>Run\<close> and
    \<^verbatim>\<open>Shutdown\<close>, the main functions, the health endpoints.
  \<^item> \<open>Samples\<close>, \<open>Witnesses\<close>: concrete runs that meet the hypotheses of the properties.

  \<^bold>\<open>What the theorems show.\<close> Atomicity of registration, password change, password reset and device
  revocation under any failure of the database, including a lost answer to the commit; single use of
  refresh, verification and reset tokens under any failure of Redis, and of refresh tokens also when
  requests run at the same time; soundness of login; the
  idempotency of requests and events; ownership and isolation of address books; exclusion of locks
  and the fixed window of the rate limiter; round trips of tokens and envelopes; the error each
  refusal gives; and, where the code does not do what it means to, what it does instead. The HTTP
  layer refines the system of the services, so that the invariants of its reachable states (schema,
  accounts, their life cycle, devices) hold after every exchange; the routes of a user act for the user of the verified
  token only; a retry is given the stored response. The access token of a
  login is good until it expires, and a logout with it ends that session and no other. Start-up succeeds exactly with the required
  variables, and releases what it opened but for one client.

  \<^bold>\<open>Choices.\<close> Requests run one after the other; interleavings are sequences of calls, except in
  \<open>Refresh_Concurrency\<close>, where a transaction that writes sessions is cut at its locking select and its
  commit. Times are whole
  microseconds or nanoseconds as integers; \<open>NOW()\<close> is the time of the statement's interaction; rows that
  tie in an \<open>ORDER BY\<close> stay in table order. A statement that fails inside a transaction ends it in every
  method of the source, so the aborted state of PostgreSQL is not observable. A failed insert does not
  take a number from the sequence; a rollback never gives one back. JSON documents are values, not
  text. A goroutine is a queued job that runs later or never. No definition needs fuel: every loop of
  the source that is modelled runs over a list or a bounded number of attempts.

  \<^bold>\<open>Further parameters.\<close> The record \<open>gin\<close> (theory \<open>Httpx\<close>) is what gin, \<^verbatim>\<open>encoding/json\<close> and the validator do
  with texts: no property depends on what they render, so no hypothesis is made of them, except
  \<open>gin_routed\<close>, that a matched route binds the parameters its pattern names. The record \<open>libs\<close> (theory
  \<open>Bootstrap\<close>) holds the answers of zap, pgx, go-redis, net/http and golang-migrate at start-up; the
  properties hold for all of them.

  \<^bold>\<open>Not modelled.\<close> What is written to the log; wire's own sets and constructors that only store their arguments; structs no code uses
  (\<^verbatim>\<open>app/dto/address.go\<close>, \<^verbatim>\<open>app/dto/profile.go\<close>, most of \<^verbatim>\<open>http/response.go\<close>); the recovery middleware, which has
  nothing to recover from since no handler of the model panics; timeouts of contexts, whose effect is an
  error of the library they are given to.
\<close>

end
